(* ===== verification/Prelude.thy ===== *)
theory Prelude
  imports Main "HOL-Library.Monad_Syntax" "HOL-Library.AList" "HOL-Library.Char_ord"
    "HOL-Library.List_Lexorder" "HOL-Library.Sublist"
begin

text \<open>
  The prelude of the development: the Python values that the guards of \<^verbatim>\<open>src/scripts\<close> read, the
  Python operations they apply to them, and the loops they are written with.

  The guards read Kubernetes manifests with \<^verbatim>\<open>yaml.safe_load_all\<close> and walk the resulting
  dictionaries and lists without a schema. The model keeps that: a manifest is a value of type
  \<open>yaml\<close>, and a lookup on a value of the wrong shape fails the way Python does. A Python
  computation that can raise is a value of an \<open>option\<close> type, \<open>None\<close> standing for the uncaught
  exception, and is written in the \<open>do\<close> notation of the option monad; the operations below say
  where each exception comes from (KeyError, AttributeError, TypeError).

  A mapping has string keys, as JSON and Kubernetes objects have. Floats, dates and binary
  scalars are not represented. A Python set is a list without duplicates, in insertion order:
  no function of the model depends on the order in which a set is iterated except through the
  list it builds, and the theorems speak of \<open>set\<close> of these lists.
\<close>

named_theorems py_ops \<open>the Python operations on concrete constructors\<close>
named_theorems py_loops \<open>the loops of the guards on total bodies\<close>

section \<open>Python values\<close>

datatype yaml =
    YNull
  | YBool bool
  | YInt int
  | YStr string
  | YList "yaml list"
  | YMap "(string \<times> yaml) list"

type_synonym doc = yaml
type_synonym dict = "(string \<times> yaml) list"

text \<open>The values a parser returns: a Python dict has each key once.\<close>

fun wf_yaml :: "yaml \<Rightarrow> bool" where
  "wf_yaml (YList xs) = list_all wf_yaml xs"
| "wf_yaml (YMap m) = (distinct (map fst m) \<and> list_all (\<lambda>e. wf_yaml (snd e)) m)"
| "wf_yaml _ = True"

text \<open>The truth value of \<^verbatim>\<open>if v\<close>, and \<^verbatim>\<open>v or w\<close>.\<close>

fun truthy :: "yaml \<Rightarrow> bool" where
  "truthy YNull = False"
| "truthy (YBool b) = b"
| "truthy (YInt i) = (i \<noteq> 0)"
| "truthy (YStr s) = (s \<noteq> [])"
| "truthy (YList xs) = (xs \<noteq> [])"
| "truthy (YMap m) = (m \<noteq> [])"

definition py_or :: "yaml \<Rightarrow> yaml \<Rightarrow> yaml" where
  "py_or v w = (if truthy v then v else w)"

fun is_dict :: "yaml \<Rightarrow> bool" where
  "is_dict (YMap m) = True"
| "is_dict _ = False"

fun is_str :: "yaml \<Rightarrow> bool" where
  "is_str (YStr s) = True"
| "is_str _ = False"

text \<open>\<^verbatim>\<open>v.get(k)\<close> and \<^verbatim>\<open>v.get(k, d)\<close>: AttributeError when \<^verbatim>\<open>v\<close> is not a dict.\<close>

fun dget_default :: "yaml \<Rightarrow> string \<Rightarrow> yaml \<Rightarrow> yaml option" where
  "dget_default (YMap m) k d = Some (case map_of m k of None \<Rightarrow> d | Some v \<Rightarrow> v)"
| "dget_default _ k d = None"

definition dget :: "yaml \<Rightarrow> string \<Rightarrow> yaml option" where
  "dget v k = dget_default v k YNull"

text \<open>\<^verbatim>\<open>v.get(k)\<close> when the key is a value too: TypeError on an unhashable key.\<close>

fun dget_key :: "yaml \<Rightarrow> yaml \<Rightarrow> yaml option" where
  "dget_key (YMap m) (YStr k) = dget (YMap m) k"
| "dget_key (YMap m) (YList xs) = None"
| "dget_key (YMap m) (YMap n) = None"
| "dget_key (YMap m) _ = Some YNull"
| "dget_key _ _ = None"

text \<open>\<^verbatim>\<open>v[k]\<close> for a string \<^verbatim>\<open>k\<close>: KeyError without the key, TypeError on other values.\<close>

fun item :: "yaml \<Rightarrow> string \<Rightarrow> yaml option" where
  "item (YMap m) k = map_of m k"
| "item _ k = None"

text \<open>\<^verbatim>\<open>for x in v\<close>: a list gives its elements, a dict its keys, a string its characters; other
  values raise TypeError. \<^verbatim>\<open>v.items()\<close> needs a dict.\<close>

fun py_iter :: "yaml \<Rightarrow> yaml list option" where
  "py_iter (YList xs) = Some xs"
| "py_iter (YMap m) = Some (map (\<lambda>e. YStr (fst e)) m)"
| "py_iter (YStr s) = Some (map (\<lambda>c. YStr [c]) s)"
| "py_iter _ = None"

fun items :: "yaml \<Rightarrow> dict option" where
  "items (YMap m) = Some m"
| "items _ = None"

text \<open>\<^verbatim>\<open>v == w\<close>: a bool equals the int it stands for, dicts compare without order.\<close>

function py_eq :: "yaml \<Rightarrow> yaml \<Rightarrow> bool" where
  "py_eq v w = (case v of
       YNull \<Rightarrow> (case w of YNull \<Rightarrow> True | _ \<Rightarrow> False)
     | YBool b \<Rightarrow> (case w of YBool c \<Rightarrow> b = c | YInt j \<Rightarrow> of_bool b = j | _ \<Rightarrow> False)
     | YInt i \<Rightarrow> (case w of YBool c \<Rightarrow> i = of_bool c | YInt j \<Rightarrow> i = j | _ \<Rightarrow> False)
     | YStr s \<Rightarrow> (case w of YStr t \<Rightarrow> s = t | _ \<Rightarrow> False)
     | YList xs \<Rightarrow> (case w of YList ys \<Rightarrow>
           length xs = length ys \<and> list_all (\<lambda>(x, y). py_eq x y) (zip xs ys) | _ \<Rightarrow> False)
     | YMap m \<Rightarrow> (case w of YMap n \<Rightarrow>
           length m = length n
           \<and> list_all (\<lambda>(k, x). case map_of n k of None \<Rightarrow> False | Some y \<Rightarrow> py_eq x y) m
         | _ \<Rightarrow> False))"
  by pat_completeness auto
termination
proof (relation "measure (\<lambda>(v, w). size v)", goal_cases)
  case 1
  show ?case by simp
next
  case (2 v w xs ys z x y)
  then have "x \<in> set xs" by (metis in_set_zipE)
  then have "size x < Suc (size_list size xs)" by (induction xs) auto
  with 2 show ?case by auto
next
  case (3 v w m n z k x y)
  then have "(k, x) \<in> set m" by simp
  then have "size x < Suc (size_list (size_prod (\<lambda>_. 0) size) m)" by (induction m) auto
  with 3 show ?case by auto
qed

declare py_eq.simps [simp del]

text \<open>\<^verbatim>\<open>x in v\<close>: membership in a list, substring of a string, key of a dict (an unhashable
  \<^verbatim>\<open>x\<close> raises TypeError there), TypeError otherwise.\<close>

fun hashable :: "yaml \<Rightarrow> bool" where
  "hashable (YList xs) = False"
| "hashable (YMap m) = False"
| "hashable _ = True"

fun py_in :: "yaml \<Rightarrow> yaml \<Rightarrow> bool option" where
  "py_in x (YList ys) = Some (list_ex (py_eq x) ys)"
| "py_in x (YStr s) = (case x of YStr t \<Rightarrow> Some (sublist t s) | _ \<Rightarrow> None)"
| "py_in x (YMap m) =
     (if hashable x then Some (case x of YStr k \<Rightarrow> map_of m k \<noteq> None | _ \<Rightarrow> False) else None)"
| "py_in x _ = None"

text \<open>\<^verbatim>\<open>v in s\<close> for a set of strings (TypeError on an unhashable value), and \<^verbatim>\<open>v in t\<close> for a
  tuple of strings, which compares with \<^verbatim>\<open>==\<close>.\<close>

definition in_strset :: "yaml \<Rightarrow> string list \<Rightarrow> bool option" where
  "in_strset v ss =
     (if hashable v then Some (case v of YStr s \<Rightarrow> s \<in> set ss | _ \<Rightarrow> False) else None)"

definition in_strtuple :: "yaml \<Rightarrow> string list \<Rightarrow> bool" where
  "in_strtuple v ss = (case v of YStr s \<Rightarrow> s \<in> set ss | _ \<Rightarrow> False)"

text \<open>\<^verbatim>\<open>str(v)\<close> and \<^verbatim>\<open>repr(v)\<close>. A string is quoted with single quotes unless it holds one and no
  double quote; backslash, the quote, newline, tab and carriage return are escaped.\<close>

definition digit_char :: "nat \<Rightarrow> char" where
  "digit_char d = char_of (48 + d)"

fun nat_dec :: "nat \<Rightarrow> string" where
  "nat_dec n = (if n < 10 then [digit_char n] else nat_dec (n div 10) @ [digit_char (n mod 10)])"

declare nat_dec.simps [simp del]

definition int_dec :: "int \<Rightarrow> string" where
  "int_dec i = (if i < 0 then CHR ''-'' # nat_dec (nat (- i)) else nat_dec (nat i))"

definition quote_char :: "char \<Rightarrow> char \<Rightarrow> string" where
  "quote_char q c =
     (if c = q \<or> c = CHR 0x5C then [CHR 0x5C, c]
      else if c = CHR 0x0A then [CHR 0x5C, CHR ''n'']
      else if c = CHR 0x09 then [CHR 0x5C, CHR ''t'']
      else if c = CHR 0x0D then [CHR 0x5C, CHR ''r'']
      else [c])"

definition str_repr :: "string \<Rightarrow> string" where
  "str_repr s =
     (let q = (if CHR 0x27 \<in> set s \<and> CHR 0x22 \<notin> set s then CHR 0x22 else CHR 0x27)
      in q # concat (map (quote_char q) s) @ [q])"

fun join :: "string \<Rightarrow> string list \<Rightarrow> string" where
  "join sep [] = []"
| "join sep [s] = s"
| "join sep (s # t # ss) = s @ sep @ join sep (t # ss)"

fun py_repr :: "yaml \<Rightarrow> string" where
  "py_repr YNull = ''None''"
| "py_repr (YBool b) = (if b then ''True'' else ''False'')"
| "py_repr (YInt i) = int_dec i"
| "py_repr (YStr s) = str_repr s"
| "py_repr (YList xs) = ''['' @ join '', '' (map py_repr xs) @ '']''"
| "py_repr (YMap m) =
     ''{'' @ join '', '' (map (\<lambda>(k, v). str_repr k @ '': '' @ py_repr v) m) @ ''}''"

definition py_str :: "yaml \<Rightarrow> string" where
  "py_str v = (case v of YStr s \<Rightarrow> s | _ \<Rightarrow> py_repr v)"

section \<open>Strings\<close>

text \<open>\<^verbatim>\<open>s.split(c, 1)\<close> for a one-character separator, \<^verbatim>\<open>s.split(c)\<close>, prefixes and suffixes.\<close>

fun split_once :: "char \<Rightarrow> string \<Rightarrow> string \<times> string option" where
  "split_once c [] = ([], None)"
| "split_once c (x # xs) =
     (if x = c then ([], Some xs) else (let (a, b) = split_once c xs in (x # a, b)))"

fun split_all :: "char \<Rightarrow> string \<Rightarrow> string list" where
  "split_all c [] = [[]]"
| "split_all c (x # xs) =
     (if x = c then [] # split_all c xs
      else (case split_all c xs of [] \<Rightarrow> [[x]] | w # ws \<Rightarrow> (x # w) # ws))"

definition startswith :: "string \<Rightarrow> string \<Rightarrow> bool" where
  "startswith s p = prefix p s"

definition endswith :: "string \<Rightarrow> string \<Rightarrow> bool" where
  "endswith s p = suffix p s"

definition py_space :: "char \<Rightarrow> bool" where
  "py_space c = (c \<in> set [CHR '' '', CHR 0x09, CHR 0x0A, CHR 0x0B, CHR 0x0C, CHR 0x0D,
                          CHR 0x1C, CHR 0x1D, CHR 0x1E, CHR 0x1F, CHR 0x85, CHR 0xA0])"

definition strip :: "string \<Rightarrow> string" where
  "strip s = rev (dropWhile py_space (rev (dropWhile py_space s)))"

text \<open>\<^verbatim>\<open>int(s)\<close>: blanks around, an optional sign, decimal digits with single underscores between
  them; None stands for the ValueError.\<close>

definition is_digit :: "char \<Rightarrow> bool" where
  "is_digit c = (48 \<le> (of_char c :: nat) \<and> (of_char c :: nat) \<le> 57)"

definition digit_val :: "char \<Rightarrow> int" where
  "digit_val c = of_char c - 48"

fun int_digits :: "string \<Rightarrow> int \<Rightarrow> int option" where
  "int_digits [] acc = Some acc"
| "int_digits (c # cs) acc =
     (if is_digit c then int_digits cs (10 * acc + digit_val c)
      else if c = CHR ''_'' then
        (case cs of d # ds \<Rightarrow> if is_digit d then int_digits ds (10 * acc + digit_val d) else None | [] \<Rightarrow> None)
      else None)"

definition unsigned_int :: "string \<Rightarrow> int option" where
  "unsigned_int s = (case s of [] \<Rightarrow> None | c # cs \<Rightarrow> if is_digit c then int_digits cs (digit_val c) else None)"

definition py_int :: "string \<Rightarrow> int option" where
  "py_int s0 = (let s = strip s0 in
     case s of [] \<Rightarrow> None
     | c # cs \<Rightarrow> if c = CHR ''-'' then map_option uminus (unsigned_int cs)
                else if c = CHR ''+'' then unsigned_int cs else unsigned_int s)"

text \<open>\<^verbatim>\<open>splitlines(keepends=True)\<close>.\<close>

definition line_end :: "char \<Rightarrow> bool" where
  "line_end c = (c \<in> set [CHR 0x0A, CHR 0x0B, CHR 0x0C, CHR 0x0D, CHR 0x1C, CHR 0x1D, CHR 0x1E, CHR 0x85])"

fun split_keep :: "string \<Rightarrow> string \<Rightarrow> string list" where
  "split_keep acc [] = (if acc = [] then [] else [rev acc])"
| "split_keep acc (c # s) =
     (if c = CHR 0x0D \<and> startswith s [CHR 0x0A] then split_keep (c # acc) s
      else if line_end c then rev (c # acc) # split_keep [] s
      else split_keep (c # acc) s)"

text \<open>\<^verbatim>\<open>read_text\<close> opens the file in text mode: every line break of the file reads as a newline.\<close>

fun text_mode :: "string \<Rightarrow> string" where
  "text_mode [] = []"
| "text_mode (c # s) =
     (if c = CHR 0x0D then (if startswith s [CHR 0x0A] then text_mode s else CHR 0x0A # text_mode s) else c # text_mode s)"

text \<open>\<^verbatim>\<open>splitlines()\<close>: the lines without their ends.\<close>

definition chop_end :: "string \<Rightarrow> string" where
  "chop_end l = rev (let r = rev l in
     case r of c # d # t \<Rightarrow> if c = CHR 0x0A \<and> d = CHR 0x0D then t else if line_end c then d # t else r
     | [c] \<Rightarrow> if line_end c then [] else r | [] \<Rightarrow> [])"

definition splitlines :: "string \<Rightarrow> string list" where
  "splitlines s = map chop_end (split_keep [] s)"

text \<open>\<^verbatim>\<open>s.strip(cs)\<close> for characters, and for one character.\<close>

definition strip_set :: "string \<Rightarrow> string \<Rightarrow> string" where
  "strip_set cs s = rev (dropWhile (\<lambda>c. c \<in> set cs) (rev (dropWhile (\<lambda>c. c \<in> set cs) s)))"

definition strip_char :: "char \<Rightarrow> string \<Rightarrow> string" where
  "strip_char c s = rev (dropWhile (\<lambda>x. x = c) (rev (dropWhile (\<lambda>x. x = c) s)))"

text \<open>\<^verbatim>\<open>s.lower()\<close> on characters below 256.\<close>

definition lower_char :: "char \<Rightarrow> char" where
  "lower_char c =
     (if CHR ''A'' \<le> c \<and> c \<le> CHR ''Z'' \<or> CHR 0xC0 \<le> c \<and> c \<le> CHR 0xDE \<and> c \<noteq> CHR 0xD7
      then (case c of Char b0 b1 b2 b3 b4 b5 b6 b7 \<Rightarrow> Char b0 b1 b2 b3 b4 True b6 b7) else c)"

definition py_lower :: "string \<Rightarrow> string" where
  "py_lower s = map lower_char s"

section \<open>Sets and dictionaries built by a loop\<close>

definition set_add :: "'a \<Rightarrow> 'a list \<Rightarrow> 'a list" where
  "set_add x xs = (if x \<in> set xs then xs else xs @ [x])"

definition set_update :: "'a list \<Rightarrow> 'a list \<Rightarrow> 'a list" where
  "set_update ys xs = fold set_add ys xs"

definition mk_set :: "'a list \<Rightarrow> 'a list" where
  "mk_set ys = set_update ys []"

definition dict_get :: "('k \<times> 'v) list \<Rightarrow> 'k \<Rightarrow> 'v \<Rightarrow> 'v" where
  "dict_get m k d = (case map_of m k of None \<Rightarrow> d | Some v \<Rightarrow> v)"

text \<open>\<^verbatim>\<open>m.setdefault(k, set()).update(ys)\<close>.\<close>

definition dict_set_update :: "'k \<Rightarrow> 'v list \<Rightarrow> ('k \<times> 'v list) list \<Rightarrow> ('k \<times> 'v list) list" where
  "dict_set_update k ys m = AList.update k (set_update ys (dict_get m k [])) m"

text \<open>\<^verbatim>\<open>{**a, **b}\<close>.\<close>

definition dict_merge :: "dict \<Rightarrow> dict \<Rightarrow> dict" where
  "dict_merge a b = fold (\<lambda>(k, v) m. AList.update k v m) b a"

text \<open>\<^verbatim>\<open>dict(d, k=v)\<close>, a copy with one key replaced.\<close>

fun with_key :: "string \<Rightarrow> yaml \<Rightarrow> yaml \<Rightarrow> yaml" where
  "with_key k v (YMap m) = YMap (AList.update k v m)"
| "with_key k v d = d"

text \<open>\<^verbatim>\<open>set(v)\<close> for any iterable value: its elements must be hashable.\<close>

definition keyset :: "yaml \<Rightarrow> yaml list option" where
  "keyset v = do { xs \<leftarrow> py_iter v; if list_all hashable xs then Some (mk_set xs) else None }"

text \<open>\<^verbatim>\<open>out.add(v)\<close> for a set of values.\<close>

definition val_add :: "yaml \<Rightarrow> yaml list \<Rightarrow> yaml list option" where
  "val_add v xs = (if hashable v then Some (set_add v xs) else None)"

text \<open>\<^verbatim>\<open>sorted(xs)\<close>: strings by code point, numbers by value; a mixed list of two or more elements
  raises TypeError.\<close>

fun str_of :: "yaml \<Rightarrow> string" where
  "str_of (YStr s) = s"
| "str_of _ = []"

fun num_of :: "yaml \<Rightarrow> int option" where
  "num_of (YInt i) = Some i"
| "num_of (YBool b) = Some (of_bool b)"
| "num_of _ = None"

definition py_sorted :: "yaml list \<Rightarrow> yaml list option" where
  "py_sorted xs =
     (if length xs \<le> 1 then Some xs
      else if list_all is_str xs then Some (sort_key str_of xs)
      else if list_all (\<lambda>x. num_of x \<noteq> None) xs then Some (sort_key (\<lambda>x. the (num_of x)) xs)
      else None)"

section \<open>Loops in the option monad\<close>

fun mmap :: "('a \<Rightarrow> 'b option) \<Rightarrow> 'a list \<Rightarrow> 'b list option" where
  "mmap f [] = Some []"
| "mmap f (x # xs) = do { y \<leftarrow> f x; ys \<leftarrow> mmap f xs; Some (y # ys) }"

text \<open>A loop that appends to a list: the appended parts, in order.\<close>

definition collect :: "('a \<Rightarrow> 'b list option) \<Rightarrow> 'a list \<Rightarrow> 'b list option" where
  "collect f xs = do { yss \<leftarrow> mmap f xs; Some (concat yss) }"

text \<open>\<^verbatim>\<open>any(...)\<close> and \<^verbatim>\<open>all(...)\<close> over a generator stop at the first answer.\<close>

fun many :: "('a \<Rightarrow> bool option) \<Rightarrow> 'a list \<Rightarrow> bool option" where
  "many f [] = Some False"
| "many f (x # xs) = do { b \<leftarrow> f x; if b then Some True else many f xs }"

fun mall :: "('a \<Rightarrow> bool option) \<Rightarrow> 'a list \<Rightarrow> bool option" where
  "mall f [] = Some True"
| "mall f (x # xs) = do { b \<leftarrow> f x; if b then mall f xs else Some False }"

fun mfilter :: "('a \<Rightarrow> bool option) \<Rightarrow> 'a list \<Rightarrow> 'a list option" where
  "mfilter f [] = Some []"
| "mfilter f (x # xs) = do { b \<leftarrow> f x; ys \<leftarrow> mfilter f xs; Some (if b then x # ys else ys) }"

fun mfold :: "('a \<Rightarrow> 's \<Rightarrow> 's option) \<Rightarrow> 'a list \<Rightarrow> 's \<Rightarrow> 's option" where
  "mfold f [] s = Some s"
| "mfold f (x # xs) s = do { s' \<leftarrow> f x s; mfold f xs s' }"

text \<open>\<^verbatim>\<open>a and b\<close>, \<^verbatim>\<open>a or b\<close> on booleans: the second operand is evaluated only when needed.\<close>

definition mand :: "bool option \<Rightarrow> bool option \<Rightarrow> bool option" where
  "mand a b = do { x \<leftarrow> a; if x then b else Some False }"

definition mor :: "bool option \<Rightarrow> bool option \<Rightarrow> bool option" where
  "mor a b = do { x \<leftarrow> a; if x then Some True else b }"

definition mnot :: "bool option \<Rightarrow> bool option" where
  "mnot a = map_option Not a"

text \<open>\<^verbatim>\<open>v.get(k) or {}\<close> and \<^verbatim>\<open>v.get(k) or []\<close> (then iterated), the two idioms of every guard.\<close>

definition get_or_dict :: "yaml \<Rightarrow> string \<Rightarrow> yaml option" where
  "get_or_dict v k = do { x \<leftarrow> dget v k; Some (py_or x (YMap [])) }"

definition get_list :: "yaml \<Rightarrow> string \<Rightarrow> yaml list option" where
  "get_list v k = do { x \<leftarrow> dget v k; py_iter (py_or x (YList [])) }"

text \<open>\<^verbatim>\<open>d["metadata"]["name"]\<close> and \<^verbatim>\<open>d["metadata"].get("namespace") or ns\<close>.\<close>

definition meta_name :: "doc \<Rightarrow> yaml option" where
  "meta_name d = do { m \<leftarrow> item d ''metadata''; item m ''name'' }"

definition meta_ns_or :: "doc \<Rightarrow> string \<Rightarrow> yaml option" where
  "meta_ns_or d ns = do { m \<leftarrow> item d ''metadata''; n \<leftarrow> dget m ''namespace''; Some (py_or n (YStr ns)) }"

text \<open>The edits that a selftest makes on a copy of a fixture: follow keys and indices (KeyError and
  IndexError on a missing one), then set, remove or append. \<^verbatim>\<open>next(d for d in docs if ...)\<close> raises
  StopIteration when nothing matches.\<close>

datatype ystep = Key string | Idx nat

fun edit_at :: "ystep list \<Rightarrow> (yaml \<Rightarrow> yaml option) \<Rightarrow> yaml \<Rightarrow> yaml option" where
  "edit_at [] f v = f v"
| "edit_at (Key k # ss) f v = do { x \<leftarrow> item v k; y \<leftarrow> edit_at ss f x; Some (with_key k y v) }"
| "edit_at (Idx i # ss) f v = (case v of
      YList xs \<Rightarrow> (if i < length xs then do { y \<leftarrow> edit_at ss f (xs ! i); Some (YList (xs[i := y])) } else None)
    | _ \<Rightarrow> None)"

fun set_key :: "string \<Rightarrow> yaml \<Rightarrow> yaml \<Rightarrow> yaml option" where
  "set_key k x (YMap m) = Some (YMap (AList.update k x m))"
| "set_key k x _ = None"

fun pop_key :: "string \<Rightarrow> yaml \<Rightarrow> yaml option" where
  "pop_key k (YMap m) = (if map_of m k = None then None else Some (YMap (AList.delete k m)))"
| "pop_key k _ = None"

fun append_item :: "yaml \<Rightarrow> yaml \<Rightarrow> yaml option" where
  "append_item x (YList xs) = Some (YList (xs @ [x]))"
| "append_item x _ = None"

fun edit_first :: "(doc \<Rightarrow> bool option) \<Rightarrow> (doc \<Rightarrow> doc option) \<Rightarrow> doc list \<Rightarrow> doc list option" where
  "edit_first p f [] = None"
| "edit_first p f (d # ds) = do { b \<leftarrow> p d;
     if b then do { d' \<leftarrow> f d; Some (d' # ds) } else do { ds' \<leftarrow> edit_first p f ds; Some (d # ds') } }"

text \<open>A selftest: checks in order, the first that fails returns 1.\<close>

definition selftest_rc :: "bool option list \<Rightarrow> int option" where
  "selftest_rc cs = do { ok \<leftarrow> mall id cs; Some (if ok then 0 else 1) }"

section \<open>Lemmas\<close>

subsection \<open>Values\<close>

lemma py_or_dict_simps [simp]:
  "py_or YNull w = w"
  "py_or (YMap m) (YMap []) = YMap m"
  "py_or (YList xs) (YList []) = YList xs"
  "py_or (YStr (c # s)) w = YStr (c # s)"
  by (simp_all add: py_or_def)

lemma dget_YMap [simp]: "dget (YMap m) k = Some (case map_of m k of None \<Rightarrow> YNull | Some v \<Rightarrow> v)"
  by (simp add: dget_def)

lemma dget_Some_iff: "dget v k = Some x \<longleftrightarrow>
    (\<exists>m. v = YMap m \<and> x = (case map_of m k of None \<Rightarrow> YNull | Some y \<Rightarrow> y))"
  by (cases v) (auto simp: dget_def)

lemma py_eq_YStr [simp]: "py_eq (YStr s) v = (v = YStr s)" "py_eq v (YStr s) = (v = YStr s)"
  by (cases v; simp add: py_eq.simps; blast)+

lemma py_eq_YNull [simp]: "py_eq YNull v = (v = YNull)" "py_eq v YNull = (v = YNull)"
  by (cases v; simp add: py_eq.simps)+

lemma py_eq_YBool [simp]: "py_eq (YBool b) (YBool c) = (b = c)"
  by (simp add: py_eq.simps)

lemma in_strset_YStr [simp]: "in_strset (YStr s) ss = Some (s \<in> set ss)"
  by (simp add: in_strset_def)

lemma in_strset_YNull [simp]: "in_strset YNull ss = Some False"
  by (simp add: in_strset_def)

lemma in_strset_TrueD: "in_strset v ss = Some True \<Longrightarrow> \<exists>s. v = YStr s \<and> s \<in> set ss"
  by (cases v) (auto simp: in_strset_def split: if_splits)

lemma in_strtuple_iff: "in_strtuple v ss \<longleftrightarrow> (\<exists>s \<in> set ss. v = YStr s)"
  by (cases v) (auto simp: in_strtuple_def)

lemma in_strtuple_YStr [simp]: "in_strtuple (YStr s) ss \<longleftrightarrow> s \<in> set ss"
  by (simp add: in_strtuple_def)

lemma in_strtuple_YNull [simp]: "\<not> in_strtuple YNull ss"
  by (simp add: in_strtuple_def)

lemma py_in_YList_strs [simp]: "py_in (YStr s) (YList (map YStr ss)) = Some (s \<in> set ss)"
  by (auto simp: list_ex_iff)

lemma py_eq_YMap: "py_eq (YMap m) (YMap n) \<longleftrightarrow> length m = length n
    \<and> (\<forall>(k, x) \<in> set m. \<exists>y. map_of n k = Some y \<and> py_eq x y)"
  by (subst py_eq.simps) (auto simp: list_all_iff split: option.splits)

lemma py_eq_YMapD: "py_eq v (YMap n) \<Longrightarrow> \<exists>m. v = YMap m"
  by (cases v) (auto simp: py_eq.simps)

text \<open>Two dicts with the same number of keys that agree on the keys of one agree on all keys.\<close>

lemma py_eq_YMap_lookup:
  assumes "py_eq (YMap m) (YMap n)" "distinct (map fst m)" "distinct (map fst n)" "map_of n k = Some y"
  shows "\<exists>x. (k, x) \<in> set m \<and> py_eq x y"
proof -
  have sub: "fst ` set m \<subseteq> fst ` set n"
  proof
    fix k' assume "k' \<in> fst ` set m"
    with assms(1) have "map_of n k' \<noteq> None" by (fastforce simp: py_eq_YMap)
    then show "k' \<in> fst ` set n" by (simp add: map_of_eq_None_iff)
  qed
  have "card (fst ` set m) = length m" "card (fst ` set n) = length n"
    using assms(2,3) by (metis distinct_card length_map set_map)+
  then have "fst ` set m = fst ` set n"
    using assms(1) sub by (simp add: card_subset_eq py_eq_YMap)
  moreover have "k \<in> fst ` set n" using assms(4) by (metis map_of_SomeD image_eqI fst_conv)
  ultimately obtain x where "(k, x) \<in> set m" by force
  with assms(1,4) show ?thesis by (fastforce simp: py_eq_YMap)
qed

lemma wf_yaml_dget: "wf_yaml v \<Longrightarrow> dget v k = Some x \<Longrightarrow> wf_yaml x"
  by (cases v) (auto simp: dget_def list_all_iff split: option.splits dest!: map_of_SomeD)

lemma wf_yaml_iter: "wf_yaml v \<Longrightarrow> py_iter v = Some xs \<Longrightarrow> x \<in> set xs \<Longrightarrow> wf_yaml x"
  by (cases v) (auto simp: list_all_iff)

lemma wf_yaml_or_dict [simp]: "wf_yaml v \<Longrightarrow> wf_yaml (py_or v (YMap []))"
  and wf_yaml_or_list [simp]: "wf_yaml v \<Longrightarrow> wf_yaml (py_or v (YList []))"
  by (simp_all add: py_or_def)

lemma wf_yaml_get_list: "wf_yaml v \<Longrightarrow> get_list v k = Some xs \<Longrightarrow> x \<in> set xs \<Longrightarrow> wf_yaml x"
  by (auto simp: get_list_def bind_eq_Some_conv intro: wf_yaml_iter [OF wf_yaml_or_list] wf_yaml_dget)

lemma wf_yaml_get_or_dict: "wf_yaml v \<Longrightarrow> get_or_dict v k = Some x \<Longrightarrow> wf_yaml x"
  by (auto simp: get_or_dict_def bind_eq_Some_conv intro!: wf_yaml_or_dict intro: wf_yaml_dget)

subsection \<open>Decimal numbers\<close>

lemma digit_char_inj: "a < 10 \<Longrightarrow> b < 10 \<Longrightarrow> digit_char a = digit_char b \<longleftrightarrow> a = b"
  by (simp add: digit_char_def char_of_eq_iff take_bit_nat_eq_self)

lemma nat_dec_not_Nil [simp]: "nat_dec n \<noteq> []"
  by (subst nat_dec.simps) simp

lemma nat_dec_last: "last (nat_dec n) = digit_char (n mod 10)"
  by (subst nat_dec.simps) simp

lemma nat_dec_butlast: "butlast (nat_dec n) = (if n < 10 then [] else nat_dec (n div 10))"
  by (subst nat_dec.simps) simp

lemma nat_dec_inj: "nat_dec m = nat_dec n \<Longrightarrow> m = n"
proof (induction m arbitrary: n rule: nat_dec.induct)
  case (1 m)
  from "1.prems" have "digit_char (m mod 10) = digit_char (n mod 10)"
    by (metis nat_dec_last)
  then have lo: "m mod 10 = n mod 10" by (simp add: digit_char_inj)
  from "1.prems" have hi: "butlast (nat_dec m) = butlast (nat_dec n)" by simp
  show ?case
  proof (cases "m < 10")
    case True
    with hi have "n < 10" by (metis nat_dec_butlast nat_dec_not_Nil)
    with True lo show ?thesis by simp
  next
    case False
    with hi have n: "\<not> n < 10" by (metis nat_dec_butlast nat_dec_not_Nil)
    with False hi have "nat_dec (m div 10) = nat_dec (n div 10)" by (simp add: nat_dec_butlast)
    with False "1.IH" have "m div 10 = n div 10" by blast
    with lo show ?thesis by (metis div_mult_mod_eq)
  qed
qed

lemma nat_dec_eq_iff [simp]: "nat_dec m = nat_dec n \<longleftrightarrow> m = n"
  using nat_dec_inj by blast

lemma is_digit_digit_char: "d < 10 \<Longrightarrow> is_digit (digit_char d)"
  by (simp add: is_digit_def digit_char_def take_bit_nat_eq_self)

lemma nat_dec_digits: "c \<in> set (nat_dec n) \<Longrightarrow> is_digit c"
proof (induction n rule: nat_dec.induct)
  case (1 n)
  have "set (nat_dec n) \<subseteq> insert (digit_char (n mod 10)) (if n < 10 then {} else set (nat_dec (n div 10)))"
    by (subst nat_dec.simps) auto
  with 1 show ?case by (auto simp: is_digit_digit_char split: if_splits)
qed

lemma int_dec_int [simp]: "int_dec (int p) = nat_dec p"
  by (simp add: int_dec_def)

text \<open>The same digits computed on binary integers, for evaluation.\<close>

function pos_dec :: "int \<Rightarrow> string" where
  "pos_dec i = (if i < 10 then [digit_char (nat i)] else pos_dec (i div 10) @ [digit_char (nat (i mod 10))])"
  by pat_completeness auto
termination by (relation "measure nat") auto

declare pos_dec.simps [simp del]

lemma pos_dec_int: "pos_dec (int n) = nat_dec n"
proof (induction n rule: nat_dec.induct)
  case (1 n)
  have "pos_dec (int n) = (if n < 10 then [digit_char n] else pos_dec (int (n div 10)) @ [digit_char (n mod 10)])"
    by (subst pos_dec.simps) (simp add: zdiv_int nat_mod_distrib)
  with 1 show ?case by (subst nat_dec.simps) simp
qed

lemma int_dec_code [code]: "int_dec i = (if i < 0 then CHR ''-'' # pos_dec (- i) else pos_dec i)"
  using pos_dec_int [of "nat i"] pos_dec_int [of "nat (- i)"] by (simp add: int_dec_def split: if_splits)

lemma less_char_int [code]: "c < d \<longleftrightarrow> (of_char c :: int) < of_char d" for c d :: char
  by (metis less_char_def of_nat_less_iff of_nat_of_char)

lemma less_eq_char_int [code]: "c \<le> d \<longleftrightarrow> (of_char c :: int) \<le> of_char d" for c d :: char
  by (metis less_eq_char_def of_nat_le_iff of_nat_of_char)

subsection \<open>Strings\<close>

lemma split_once_None_iff: "snd (split_once c s) = None \<longleftrightarrow> c \<notin> set s"
  by (induction s) (auto split: prod.splits)

lemma split_once_Some: "split_once c s = (a, Some b) \<Longrightarrow> s = a @ c # b \<and> c \<notin> set a"
  by (induction s arbitrary: a) (auto split: if_splits prod.splits)

lemma split_once_append: "c \<notin> set a \<Longrightarrow> split_once c (a @ c # b) = (a, Some b)"
  by (induction a) auto

lemma split_once_notin: "c \<notin> set s \<Longrightarrow> split_once c s = (s, None)"
  by (induction s) auto

lemma split_all_not_Nil [simp]: "split_all c s \<noteq> []"
  by (induction s) (auto split: list.splits)

subsection \<open>Sets and dictionaries\<close>

lemma set_set_add [simp]: "set (set_add x xs) = insert x (set xs)"
  by (auto simp: set_add_def)

lemma distinct_set_add [simp]: "distinct (set_add x xs) = distinct xs"
  by (simp add: set_add_def)

lemma set_set_update [simp]: "set (set_update ys xs) = set xs \<union> set ys"
  unfolding set_update_def by (induction ys arbitrary: xs) auto

lemma distinct_set_update [simp]: "distinct (set_update ys xs) = distinct xs"
  unfolding set_update_def by (induction ys arbitrary: xs) auto

lemma set_mk_set [simp]: "set (mk_set xs) = set xs"
  by (simp add: mk_set_def)

lemma distinct_mk_set [simp]: "distinct (mk_set xs)"
  by (simp add: mk_set_def)

lemma map_of_dict_set_update:
  "map_of (dict_set_update k ys m) k' =
     (if k' = k then Some (set_update ys (dict_get m k [])) else map_of m k')"
  by (simp add: dict_set_update_def update_conv')

lemma dict_get_dict_set_update:
  "set (dict_get (dict_set_update k ys m) k' []) =
     set (dict_get m k' []) \<union> (if k' = k then set ys else {})"
  by (auto simp: dict_get_def map_of_dict_set_update split: option.splits)

lemma keyset_YMap [simp]: "keyset (YMap m) = Some (mk_set (map (\<lambda>e. YStr (fst e)) m))"
  by (auto simp: keyset_def list_all_iff)

lemma keyset_set: "keyset v = Some xs \<Longrightarrow> py_iter v = Some ys \<Longrightarrow> set xs = set ys"
  by (auto simp: keyset_def split: if_splits)

lemma py_sorted_set: "py_sorted xs = Some ys \<Longrightarrow> set ys = set xs"
  by (auto simp: py_sorted_def split: if_splits)

lemma sort_key_strs: "sort_key str_of (map YStr ss) = map YStr (sort ss)"
proof -
  have "insort_key str_of (YStr x) (map YStr ys) = map YStr (insort x ys)" for x ys
    by (induction ys) auto
  then show ?thesis by (induction ss) auto
qed

lemma py_sorted_strs: "py_sorted (map YStr ss) = Some (map YStr (sort ss))"
proof -
  have "sort ss = ss" if "length ss \<le> 1" using that by (cases ss) auto
  then show ?thesis by (auto simp: py_sorted_def list_all_iff sort_key_strs)
qed

lemma in_set_enumerate_ex: "x \<in> set xs \<Longrightarrow> \<exists>i. (i, x) \<in> set (enumerate n xs)"
  by (induction xs arbitrary: n) auto

lemma mk_set_Nil_iff [simp]: "mk_set xs = [] \<longleftrightarrow> xs = []"
  by (metis set_mk_set set_empty)

subsection \<open>Loops\<close>

lemma bindE:
  assumes "Option.bind m f = Some y"
  obtains x where "m = Some x" "f x = Some y"
  using assms by (cases m) auto

lemma if_Some_Some [py_loops]: "(if b then Some x else Some y) = Some (if b then x else y)"
  by simp

lemma mmap_total [py_loops, simp]: "mmap (\<lambda>x. Some (f x)) xs = Some (map f xs)"
  by (induction xs) auto

lemma mmap_map [py_loops, simp]: "mmap f (map g xs) = mmap (\<lambda>x. f (g x)) xs"
  by (induction xs) auto

lemma mmap_Some_iff: "mmap f xs = Some ys \<longleftrightarrow> list_all2 (\<lambda>x y. f x = Some y) xs ys"
  by (induction xs arbitrary: ys) (auto simp: bind_eq_Some_conv list_all2_Cons1)

lemma mmap_append: "mmap f (xs @ ys) = do { a \<leftarrow> mmap f xs; b \<leftarrow> mmap f ys; Some (a @ b) }"
  by (induction xs) (auto split: Option.bind_splits)

lemma mmap_cong [fundef_cong]:
  "xs = ys \<Longrightarrow> (\<And>x. x \<in> set ys \<Longrightarrow> f x = g x) \<Longrightarrow> mmap f xs = mmap g ys"
  by (induction xs arbitrary: ys) auto

lemma mmap_SomeD: "mmap f xs = Some ys \<Longrightarrow> x \<in> set xs \<Longrightarrow> \<exists>y \<in> set ys. f x = Some y"
  by (induction xs arbitrary: ys) (auto simp: bind_eq_Some_conv)

lemma mmap_Some_set: "mmap f xs = Some ys \<Longrightarrow> y \<in> set ys \<longleftrightarrow> (\<exists>x \<in> set xs. f x = Some y)"
  by (induction xs arbitrary: ys) (auto simp: bind_eq_Some_conv)

lemma collect_Nil [py_loops, simp]: "collect f [] = Some []"
  by (simp add: collect_def)

lemma collect_Cons: "collect f (x # xs) = do { a \<leftarrow> f x; b \<leftarrow> collect f xs; Some (a @ b) }"
  by (auto simp: collect_def split: Option.bind_splits)

lemma collect_total [py_loops, simp]: "collect (\<lambda>x. Some (f x)) xs = Some (concat (map f xs))"
  by (simp add: collect_def)

lemma collect_map [py_loops, simp]: "collect f (map g xs) = collect (\<lambda>x. f (g x)) xs"
  by (simp add: collect_def)

lemma collect_cong [fundef_cong]:
  "xs = ys \<Longrightarrow> (\<And>x. x \<in> set ys \<Longrightarrow> f x = g x) \<Longrightarrow> collect f xs = collect g ys"
  by (auto simp: collect_def cong: mmap_cong)

lemma collect_append: "collect f (xs @ ys) = do { a \<leftarrow> collect f xs; b \<leftarrow> collect f ys; Some (a @ b) }"
  by (induction xs) (auto simp: collect_Cons split: Option.bind_splits)

lemma collect_SomeD: "collect f xs = Some zs \<Longrightarrow> x \<in> set xs \<Longrightarrow> \<exists>ys. f x = Some ys \<and> set ys \<subseteq> set zs"
  by (induction xs arbitrary: zs) (fastforce simp: collect_Cons bind_eq_Some_conv)+

lemma collect_set:
  "collect f xs = Some zs \<Longrightarrow> z \<in> set zs \<longleftrightarrow> (\<exists>x \<in> set xs. \<exists>ys. f x = Some ys \<and> z \<in> set ys)"
  by (induction xs arbitrary: zs) (auto simp: collect_Cons bind_eq_Some_conv)

lemma collect_all:
  "collect f xs = Some zs \<Longrightarrow> (\<And>x ys. f x = Some ys \<Longrightarrow> \<forall>z \<in> set ys. P z) \<Longrightarrow> \<forall>z \<in> set zs. P z"
  by (rule ballI) (auto dest!: iffD1 [OF collect_set])

lemma collect_empty_iff: "collect f xs = Some [] \<longleftrightarrow> (\<forall>x \<in> set xs. f x = Some [])"
  by (induction xs) (auto simp: collect_Cons bind_eq_Some_conv)

lemma collect_defined: "(\<exists>zs. collect f xs = Some zs) \<longleftrightarrow> (\<forall>x \<in> set xs. f x \<noteq> None)"
  by (induction xs) (auto simp: collect_Cons bind_eq_Some_conv)

lemma many_total [py_loops, simp]: "many (\<lambda>x. Some (f x)) xs = Some (list_ex f xs)"
  by (induction xs) auto

lemma many_map [py_loops, simp]: "many f (map g xs) = many (\<lambda>x. f (g x)) xs"
  by (induction xs) (auto intro: Option.bind_cong)

lemma many_cong [fundef_cong]:
  "xs = ys \<Longrightarrow> (\<And>x. x \<in> set ys \<Longrightarrow> f x = g x) \<Longrightarrow> many f xs = many g ys"
  by (induction xs arbitrary: ys) (auto cong: if_cong)

lemma many_TrueD: "many f xs = Some True \<Longrightarrow> \<exists>x \<in> set xs. f x = Some True"
  by (induction xs) (auto simp: bind_eq_Some_conv split: if_splits)

lemma many_False_iff: "many f xs = Some False \<longleftrightarrow> (\<forall>x \<in> set xs. f x = Some False)"
  by (induction xs) (auto simp: bind_eq_Some_conv split: if_splits)

lemma mall_total [py_loops, simp]: "mall (\<lambda>x. Some (f x)) xs = Some (list_all f xs)"
  by (induction xs) auto

lemma mall_map [py_loops, simp]: "mall f (map g xs) = mall (\<lambda>x. f (g x)) xs"
  by (induction xs) (auto intro: Option.bind_cong)

lemma mall_cong [fundef_cong]:
  "xs = ys \<Longrightarrow> (\<And>x. x \<in> set ys \<Longrightarrow> f x = g x) \<Longrightarrow> mall f xs = mall g ys"
  by (induction xs arbitrary: ys) (auto cong: if_cong)

lemma mall_True_iff: "mall f xs = Some True \<longleftrightarrow> (\<forall>x \<in> set xs. f x = Some True)"
  by (induction xs) (auto simp: bind_eq_Some_conv split: if_splits)

lemma mall_FalseD: "mall f xs = Some False \<Longrightarrow> \<exists>x \<in> set xs. f x = Some False"
  by (induction xs) (auto simp: bind_eq_Some_conv split: if_splits)

lemma mfilter_total [py_loops, simp]: "mfilter (\<lambda>x. Some (f x)) xs = Some (filter f xs)"
  by (induction xs) auto

lemma mfilter_map [py_loops, simp]:
  "mfilter f (map g xs) = map_option (map g) (mfilter (\<lambda>x. f (g x)) xs)"
  by (induction xs) (auto split: Option.bind_splits)

lemma mfilter_set: "mfilter f xs = Some ys \<Longrightarrow> y \<in> set ys \<longleftrightarrow> y \<in> set xs \<and> f y = Some True"
  by (induction xs arbitrary: ys) (auto simp: bind_eq_Some_conv split: if_splits)

lemma mfilter_cong [fundef_cong]:
  "xs = ys \<Longrightarrow> (\<And>x. x \<in> set ys \<Longrightarrow> f x = g x) \<Longrightarrow> mfilter f xs = mfilter g ys"
  by (induction xs arbitrary: ys) auto

lemma mfold_append: "mfold f (xs @ ys) s = do { s' \<leftarrow> mfold f xs s; mfold f ys s' }"
  by (induction xs arbitrary: s) (auto split: Option.bind_splits)

lemma mfold_total [py_loops, simp]: "mfold (\<lambda>x s. Some (f x s)) xs s = Some (fold f xs s)"
  by (induction xs arbitrary: s) auto

lemma mfold_cong [fundef_cong]:
  "xs = ys \<Longrightarrow> s = t \<Longrightarrow> (\<And>x s. x \<in> set ys \<Longrightarrow> f x s = g x s) \<Longrightarrow> mfold f xs s = mfold g ys t"
proof (induction xs arbitrary: ys s t)
  case Nil
  then show ?case by auto
next
  case (Cons x xs)
  then have "mfold f xs = mfold g xs" by (intro ext) auto
  with Cons.prems show ?case by auto
qed

text \<open>An invariant of a loop with a state: the start and every step keep it.\<close>

lemma mfold_invariant:
  assumes "mfold f xs s = Some t" "I s"
    and "\<And>x s s'. x \<in> set xs \<Longrightarrow> I s \<Longrightarrow> f x s = Some s' \<Longrightarrow> I s'"
  shows "I t"
  using assms by (induction xs arbitrary: s) (auto simp: bind_eq_Some_conv)

lemma mfold_step_defined:
  "mfold f xs s = Some t \<Longrightarrow> x \<in> set xs \<Longrightarrow> \<exists>s' t'. f x s' = Some t'"
  by (induction xs arbitrary: s) (auto simp: bind_eq_Some_conv)

text \<open>A loop that only adds to what it has collected: what is in the result was there at the start
  or some step added it.\<close>

lemma mfold_collects:
  assumes step: "\<And>x s s'. f x s = Some s' \<Longrightarrow> P s' \<longleftrightarrow> P s \<or> Q x"
  shows "mfold f xs s = Some t \<Longrightarrow> P t \<longleftrightarrow> P s \<or> (\<exists>x \<in> set xs. Q x)"
proof (induction xs arbitrary: s)
  case Nil
  then show ?case by simp
next
  case (Cons x xs)
  then obtain s' where "f x s = Some s'" "mfold f xs s' = Some t" by (auto simp: bind_eq_Some_conv)
  with Cons.IH step show ?case by auto
qed

lemma mand_simps [py_ops, simp]: "mand (Some True) b = b" "mand (Some False) b = Some False"
  by (simp_all add: mand_def)

lemma mor_simps [py_ops, simp]: "mor (Some True) b = Some True" "mor (Some False) b = b"
  by (simp_all add: mor_def)

lemma mand_total [simp]: "mand (Some a) (Some b) = Some (a \<and> b)"
  by (simp add: mand_def)

lemma mor_total [simp]: "mor (Some a) (Some b) = Some (a \<or> b)"
  by (simp add: mor_def)

lemma mnot_total [py_ops, simp]: "mnot (Some a) = Some (\<not> a)"
  by (simp add: mnot_def)

lemma many_append [py_loops, simp]: "many f (xs @ ys) = mor (many f xs) (many f ys)"
  by (induction xs) (auto simp: mor_def split: Option.bind_splits)

lemma mall_append [py_loops, simp]: "mall f (xs @ ys) = mand (mall f xs) (mall f ys)"
  by (induction xs) (auto simp: mand_def split: Option.bind_splits)

lemma mand_True_iff: "mand a b = Some True \<longleftrightarrow> a = Some True \<and> b = Some True"
  by (cases a) (auto simp: mand_def)

lemma get_or_dict_YMap [py_ops, simp]:
  "get_or_dict (YMap m) k = Some (py_or (case map_of m k of None \<Rightarrow> YNull | Some v \<Rightarrow> v) (YMap []))"
  by (simp add: get_or_dict_def)

lemma get_list_YMap [py_ops, simp]:
  "get_list (YMap m) k = py_iter (py_or (case map_of m k of None \<Rightarrow> YNull | Some v \<Rightarrow> v) (YList []))"
  by (simp add: get_list_def)

lemma get_list_Some_dict: "get_list v k = Some xs \<Longrightarrow> is_dict v"
  by (cases v) (auto simp: get_list_def dget_def)

section \<open>Answers that can only grow\<close>

text \<open>Two computations of a truth value, or of a list of findings, where the second answers True
  (reports) whenever the first does, as far as both return.\<close>

definition ble :: "bool option \<Rightarrow> bool option \<Rightarrow> bool" where
  "ble m n \<longleftrightarrow> (m = Some True \<longrightarrow> n \<noteq> Some False)"

definition sle :: "'a list option \<Rightarrow> 'a list option \<Rightarrow> bool" where
  "sle m n \<longleftrightarrow> (\<forall>a b. m = Some a \<longrightarrow> n = Some b \<longrightarrow> set a \<subseteq> set b)"

named_theorems grow_intros \<open>rules that build growing computations\<close>

lemma ble_refl [grow_intros]: "ble m m"
  by (simp add: ble_def)

lemma bleD: "ble m n \<Longrightarrow> m = Some u \<Longrightarrow> n = Some v \<Longrightarrow> u \<Longrightarrow> v"
  by (cases v) (auto simp: ble_def)

lemma sleD: "sle m n \<Longrightarrow> m = Some a \<Longrightarrow> n = Some b \<Longrightarrow> set a \<subseteq> set b"
  by (simp add: sle_def)

lemma ble_mor [grow_intros]: "ble a a' \<Longrightarrow> ble b b' \<Longrightarrow> ble (mor a b) (mor a' b')"
  by (auto simp: ble_def mor_def split: Option.bind_splits if_splits)

lemma ble_mand [grow_intros]: "ble a a' \<Longrightarrow> ble b b' \<Longrightarrow> ble (mand a b) (mand a' b')"
  by (auto simp: ble_def mand_def split: Option.bind_splits if_splits)

lemma ble_many [grow_intros]: "(\<And>x. x \<in> set xs \<Longrightarrow> ble (f x) (g x)) \<Longrightarrow> ble (many f xs) (many g xs)"
  unfolding ble_def using many_TrueD [of f xs] many_False_iff [of g xs] by blast

lemma ble_if [grow_intros]: "(c \<Longrightarrow> ble a a') \<Longrightarrow> (\<not> c \<Longrightarrow> ble b b') \<Longrightarrow> ble (if c then a else b) (if c then a' else b')"
  by simp

lemma sle_refl [grow_intros]: "sle m m"
  by (simp add: sle_def)

lemma sle_collect [grow_intros]: "(\<And>x. x \<in> set xs \<Longrightarrow> sle (f x) (g x)) \<Longrightarrow> sle (collect f xs) (collect g xs)"
  unfolding sle_def by (auto simp: collect_set) (metis collect_SomeD subsetD)

lemma sle_if [grow_intros]: "(c \<Longrightarrow> sle a a') \<Longrightarrow> (\<not> c \<Longrightarrow> sle b b') \<Longrightarrow> sle (if c then a else b) (if c then a' else b')"
  by simp

lemma sle_if_grows [grow_intros]:
  assumes "u \<Longrightarrow> v" "sle m m'"
  shows "sle (if u then m else Some []) (if v then m' else Some [])"
  using assms by (auto simp: sle_def)

lemma mmap_ble:
  assumes "\<And>x. x \<in> set xs \<Longrightarrow> ble (f x) (g x)" "mmap f xs = Some a" "mmap g xs = Some b" "True \<in> set a"
  shows "True \<in> set b"
proof -
  from assms(2,4) obtain x where x: "x \<in> set xs" "f x = Some True" by (auto simp: mmap_Some_set)
  with mmap_SomeD [OF assms(3)] obtain y where "y \<in> set b" "g x = Some y" by blast
  with x assms(1) [OF x(1)] show ?thesis by (cases y) (auto simp: ble_def)
qed

text \<open>A growing answer is used by what follows.\<close>

lemma sle_bindI:
  "(\<And>u v. m = Some u \<Longrightarrow> m' = Some v \<Longrightarrow> sle (f u) (g v)) \<Longrightarrow> sle (do { u \<leftarrow> m; f u }) (do { v \<leftarrow> m'; g v })"
  by (cases m; cases m') (auto simp: sle_def)

lemma sle_bool_bind [grow_intros]:
  "ble m m' \<Longrightarrow> (\<And>u v. (u \<Longrightarrow> v) \<Longrightarrow> sle (f u) (g v)) \<Longrightarrow> sle (do { u \<leftarrow> m; f u }) (do { v \<leftarrow> m'; g v })"
  by (rule sle_bindI) (metis bleD)

lemma sle_list_bind [grow_intros]:
  "sle m m' \<Longrightarrow> (\<And>a b. set a \<subseteq> set b \<Longrightarrow> sle (f a) (g b)) \<Longrightarrow> sle (do { a \<leftarrow> m; f a }) (do { b \<leftarrow> m'; g b })"
  by (rule sle_bindI) (metis sleD)

lemma sle_mmap_bind [grow_intros]:
  assumes "\<And>x. x \<in> set xs \<Longrightarrow> ble (h x) (h' x)"
    and "\<And>a b. (True \<in> set a \<Longrightarrow> True \<in> set b) \<Longrightarrow> sle (f a) (g b)"
  shows "sle (do { a \<leftarrow> mmap h xs; f a }) (do { b \<leftarrow> mmap h' xs; g b })"
proof (rule sle_bindI)
  fix a b assume "mmap h xs = Some a" "mmap h' xs = Some b"
  from mmap_ble [OF assms(1) this] show "sle (f a) (g b)" by (rule assms(2))
qed

lemma sle_Some [simp]: "sle (Some a) (Some b) \<longleftrightarrow> set a \<subseteq> set b"
  by (simp add: sle_def)

section \<open>Document-local guards\<close>

text \<open>
  Most guards judge each document of a render on its own and report the findings of all of
  them. The locale states that contract; its lemmas say what such a guard promises whatever it
  judges: it passes exactly when each document passes, a document that fails cannot be hidden by
  another one, and the verdict on two renders together is the verdict on each.
\<close>

locale local_guard =
  fixes judge :: "'d list \<Rightarrow> 'f list option"
    and per_doc :: "'d \<Rightarrow> 'f list option"
  assumes judge_collect: "judge ds = collect per_doc ds"
begin

lemma passes_iff: "judge ds = Some [] \<longleftrightarrow> (\<forall>d \<in> set ds. per_doc d = Some [])"
  by (simp add: judge_collect collect_empty_iff)

lemma finding_iff:
  "judge ds = Some fs \<Longrightarrow> f \<in> set fs \<longleftrightarrow> (\<exists>d \<in> set ds. \<exists>gs. per_doc d = Some gs \<and> f \<in> set gs)"
  by (simp add: judge_collect collect_set)

lemma judge_append: "judge (ds @ es) = do { a \<leftarrow> judge ds; b \<leftarrow> judge es; Some (a @ b) }"
  by (simp add: judge_collect collect_append)

lemma passes_append: "judge (ds @ es) = Some [] \<longleftrightarrow> judge ds = Some [] \<and> judge es = Some []"
  by (auto simp: passes_iff)

lemma passes_subset: "set ds \<subseteq> set es \<Longrightarrow> judge es = Some [] \<Longrightarrow> judge ds = Some []"
  by (auto simp: passes_iff)

lemma returns_iff: "(\<exists>fs. judge ds = Some fs) \<longleftrightarrow> (\<forall>d \<in> set ds. per_doc d \<noteq> None)"
  by (simp add: judge_collect collect_defined)

end

end
