(* ===== verification/Selectors.thy ===== *)
theory Selectors
  imports Prelude
begin

text \<open>
  Label selectors. Eight scripts evaluate a Kubernetes or Cilium label selector on a
  set of labels, each with its own copy of the code. This theory holds the part they share, the
  evaluation of one \<^verbatim>\<open>matchExpressions\<close> entry and of \<^verbatim>\<open>matchLabels\<close>, the typed selectors of the
  Kubernetes API with their meaning, and the interface \<open>label_selector\<close> that every copy
  implements: on the manifest of a typed selector it returns, without an exception, what the
  selector means.
\<close>

section \<open>The evaluation the scripts share\<close>

text \<open>\<^verbatim>\<open>key.split(":", 1)[1] if ":" in key else key\<close>: Cilium writes a label key with a source
  prefix (\<^verbatim>\<open>k8s:\<close>, \<^verbatim>\<open>any:\<close>).\<close>

definition norm_str :: "string \<Rightarrow> string" where
  "norm_str k = (case split_once (CHR '':'') k of (a, None) \<Rightarrow> k | (a, Some b) \<Rightarrow> b)"

definition norm :: "yaml \<Rightarrow> yaml option" where
  "norm key = do {
     has \<leftarrow> py_in (YStr '':'') key;
     if has then (case key of YStr k \<Rightarrow> Some (YStr (norm_str k)) | _ \<Rightarrow> None) else Some key
   }"

text \<open>One expression on a normalised key: \<open>False\<close> where the code returns False.\<close>

definition expression_holds :: "yaml \<Rightarrow> yaml \<Rightarrow> yaml \<Rightarrow> yaml \<Rightarrow> bool option" where
  "expression_holds labels k op vals =
     (if op = YStr ''In'' then do { x \<leftarrow> dget_key labels k; py_in x vals }
      else if op = YStr ''NotIn'' then do { x \<leftarrow> dget_key labels k; mnot (py_in x vals) }
      else if op = YStr ''Exists'' then py_in k labels
      else if op = YStr ''DoesNotExist'' then mnot (py_in k labels)
      else Some True)"

text \<open>\<^verbatim>\<open>norm(e.get("key")), e.get("operator"), e.get("values") or []\<close>, then the four tests.\<close>

definition cilium_expression :: "yaml \<Rightarrow> yaml \<Rightarrow> bool option" where
  "cilium_expression labels e = do {
     k0 \<leftarrow> dget e ''key'';
     k \<leftarrow> norm k0;
     op \<leftarrow> dget e ''operator'';
     vals \<leftarrow> dget e ''values'';
     expression_holds labels k op (py_or vals (YList []))
   }"

text \<open>\<^verbatim>\<open>labels.get(norm(k)) == v\<close> for each pair of \<^verbatim>\<open>matchLabels\<close>.\<close>

definition label_pair_holds :: "(string \<Rightarrow> string) \<Rightarrow> yaml \<Rightarrow> string \<times> yaml \<Rightarrow> bool option" where
  "label_pair_holds nrm labels = (\<lambda>(k, v). do { x \<leftarrow> dget labels (nrm k); Some (py_eq x v) })"

section \<open>Typed selectors and their meaning\<close>

datatype lop = OpIn | OpNotIn | OpExists | OpDoesNotExist

type_synonym labels = "(string \<times> string) list"

record selector =
  match_labels :: labels
  match_exprs :: "(string \<times> lop \<times> string list) list"

fun expr_meaning :: "labels \<Rightarrow> string \<Rightarrow> lop \<Rightarrow> string list \<Rightarrow> bool" where
  "expr_meaning ls k OpIn vs = (\<exists>v \<in> set vs. map_of ls k = Some v)"
| "expr_meaning ls k OpNotIn vs = (\<forall>v \<in> set vs. map_of ls k \<noteq> Some v)"
| "expr_meaning ls k OpExists vs = (map_of ls k \<noteq> None)"
| "expr_meaning ls k OpDoesNotExist vs = (map_of ls k = None)"

definition sel_matches :: "(string \<Rightarrow> string) \<Rightarrow> selector \<Rightarrow> labels \<Rightarrow> bool" where
  "sel_matches nrm s ls \<longleftrightarrow>
     (\<forall>(k, v) \<in> set (match_labels s). map_of ls (nrm k) = Some v)
     \<and> (\<forall>(k, op, vs) \<in> set (match_exprs s). expr_meaning ls (nrm k) op vs)"

text \<open>The manifest of a typed selector: an absent part is not written.\<close>

fun enc_op :: "lop \<Rightarrow> yaml" where
  "enc_op OpIn = YStr ''In''"
| "enc_op OpNotIn = YStr ''NotIn''"
| "enc_op OpExists = YStr ''Exists''"
| "enc_op OpDoesNotExist = YStr ''DoesNotExist''"

definition enc_expr :: "string \<times> lop \<times> string list \<Rightarrow> yaml" where
  "enc_expr = (\<lambda>(k, op, vs). YMap [(''key'', YStr k), (''operator'', enc_op op), (''values'', YList (map YStr vs))])"

definition enc_labels :: "labels \<Rightarrow> yaml" where
  "enc_labels ls = YMap (map (\<lambda>(k, v). (k, YStr v)) ls)"

definition enc_selector :: "selector \<Rightarrow> yaml" where
  "enc_selector s = YMap
     ((if match_labels s = [] then [] else [(''matchLabels'', enc_labels (match_labels s))])
      @ (if match_exprs s = [] then [] else [(''matchExpressions'', YList (map enc_expr (match_exprs s)))]))"

section \<open>Lemmas\<close>

lemma norm_str_prefix: "CHR '':'' \<notin> set a \<Longrightarrow> norm_str (a @ CHR '':'' # k) = k"
  by (simp add: norm_str_def split_once_append)

lemma norm_str_plain: "CHR '':'' \<notin> set k \<Longrightarrow> norm_str k = k"
  by (simp add: norm_str_def split_once_notin)

lemma norm_YStr [simp]: "norm (YStr k) = Some (YStr (norm_str k))"
proof (cases "CHR '':'' \<in> set k")
  case True
  then have "sublist '':'' k" by (metis split_list sublist_appendI append_Cons append_Nil)
  then show ?thesis by (simp add: norm_def)
next
  case False
  then have "\<not> sublist '':'' k" by (auto simp: sublist_def)
  with False show ?thesis by (simp add: norm_def norm_str_plain)
qed

lemma map_of_enc_labels: "map_of (map (\<lambda>(k, v). (k, YStr v)) ls) k = map_option YStr (map_of ls k)"
  by (induction ls) auto

lemma enc_labels_simps [simp]:
  "dget (enc_labels ls) k = Some (case map_of ls k of None \<Rightarrow> YNull | Some v \<Rightarrow> YStr v)"
  "dget_key (enc_labels ls) (YStr k) = Some (case map_of ls k of None \<Rightarrow> YNull | Some v \<Rightarrow> YStr v)"
  "py_in (YStr k) (enc_labels ls) = Some (map_of ls k \<noteq> None)"
  "items (enc_labels ls) = Some (map (\<lambda>(k, v). (k, YStr v)) ls)"
  "py_or (enc_labels ls) (YMap []) = enc_labels ls"
  by (auto simp: enc_labels_def map_of_enc_labels split: option.splits)

lemma enc_expr_simps [simp]:
  "dget (enc_expr (k, op, vs)) ''key'' = Some (YStr k)"
  "dget (enc_expr (k, op, vs)) ''operator'' = Some (enc_op op)"
  "dget (enc_expr (k, op, vs)) ''values'' = Some (YList (map YStr vs))"
  "item (enc_expr (k, op, vs)) ''key'' = Some (YStr k)"
  "item (enc_expr (k, op, vs)) ''operator'' = Some (enc_op op)"
  by (simp_all add: enc_expr_def)

lemma enc_selector_simps [simp]:
  "get_list (enc_selector s) ''matchExpressions'' = Some (map enc_expr (match_exprs s))"
  "get_or_dict (enc_selector s) ''matchLabels'' = Some (enc_labels (match_labels s))"
  by (auto simp: enc_selector_def enc_labels_def py_or_def)

lemma truthy_enc_selector: "truthy (enc_selector s) \<longleftrightarrow> match_labels s \<noteq> [] \<or> match_exprs s \<noteq> []"
  by (auto simp: enc_selector_def)

lemma py_or_enc_selector [simp]: "py_or (enc_selector s) (YMap []) = enc_selector s"
  by (auto simp: py_or_def enc_selector_def)

lemma expression_holds_enc [simp]:
  "expression_holds (enc_labels ls) (YStr k) (enc_op op) (YList (map YStr vs)) = Some (expr_meaning ls k op vs)"
  by (cases op; cases "map_of ls k") (auto simp: expression_holds_def list_ex_iff)

lemma cilium_expression_enc [simp]:
  "cilium_expression (enc_labels ls) (enc_expr x) =
     Some (case x of (k, op, vs) \<Rightarrow> expr_meaning ls (norm_str k) op vs)"
  by (cases x) (simp add: cilium_expression_def)

lemma label_pair_holds_enc [simp]:
  "label_pair_holds nrm (enc_labels ls) (case x of (k, v) \<Rightarrow> (k, YStr v)) =
     Some (case x of (k, v) \<Rightarrow> map_of ls (nrm k) = Some v)"
  by (cases x) (auto simp: label_pair_holds_def split: option.splits)

lemma map_of_dict_set_labels:
  "enc_labels (AList.update k v ls) = YMap (AList.update k (YStr v) (map (\<lambda>(k, v). (k, YStr v)) ls))"
  by (induction ls) (auto simp: enc_labels_def)

section \<open>The interface of a selector evaluator\<close>

locale label_selector =
  fixes sel :: "yaml \<Rightarrow> yaml \<Rightarrow> bool option"
    and nrm :: "string \<Rightarrow> string"
  assumes sel_enc: "sel (enc_selector s) (enc_labels ls) = Some (sel_matches nrm s ls)"
begin

lemma sel_empty: "sel (enc_selector \<lparr>match_labels = [], match_exprs = []\<rparr>) (enc_labels ls) = Some True"
  by (simp add: sel_enc sel_matches_def)

lemma sel_conjunction:
  "sel (enc_selector \<lparr>match_labels = ml @ ml', match_exprs = me @ me'\<rparr>) (enc_labels ls) =
     mand (sel (enc_selector \<lparr>match_labels = ml, match_exprs = me\<rparr>) (enc_labels ls))
          (sel (enc_selector \<lparr>match_labels = ml', match_exprs = me'\<rparr>) (enc_labels ls))"
  by (simp add: sel_enc sel_matches_def ball_Un) blast

lemma sel_depends_on_labels:
  assumes "\<And>k. map_of ls k = map_of ls' k"
  shows "sel (enc_selector s) (enc_labels ls) = sel (enc_selector s) (enc_labels ls')"
proof -
  from assms have eq: "map_of ls = map_of ls'" by (rule ext)
  have "expr_meaning ls k op vs = expr_meaning ls' k op vs" for k op vs
    by (cases op) (simp_all add: eq)
  then show ?thesis by (simp add: sel_enc sel_matches_def eq)
qed

lemma sel_frame:
  assumes "k \<notin> nrm ` fst ` set (match_labels s)" "k \<notin> nrm ` fst ` set (match_exprs s)"
  shows "sel (enc_selector s) (enc_labels (AList.update k v ls)) = sel (enc_selector s) (enc_labels ls)"
proof -
  have same: "map_of (AList.update k v ls) k' = map_of ls k'" if "k' \<noteq> k" for k'
    using that by (simp add: update_conv')
  have "expr_meaning (AList.update k v ls) (nrm k') op vs = expr_meaning ls (nrm k') op vs"
    if "(k', op, vs) \<in> set (match_exprs s)" for k' op vs
  proof -
    from that assms(2) have "nrm k' \<noteq> k" by force
    then show ?thesis by (cases op) (simp_all add: same)
  qed
  moreover have "map_of (AList.update k v ls) (nrm k') = map_of ls (nrm k')"
    if "(k', w) \<in> set (match_labels s)" for k' w
  proof -
    from that assms(1) have "nrm k' \<noteq> k" by force
    then show ?thesis by (rule same)
  qed
  ultimately have "sel_matches nrm s (AList.update k v ls) = sel_matches nrm s ls"
    by (auto simp: sel_matches_def)
  then show ?thesis by (simp add: sel_enc)
qed

end

end
