(* ===== verification/CiliumPolicy.thy ===== *)
theory CiliumPolicy
  imports Selectors
begin

text \<open>
  \<^verbatim>\<open>src/scripts/lib/cilium_policy.py\<close>: the evaluator of Cilium policies that the network guards
  share. A pod is an endpoint, its labels plus its namespace; a flow is allowed when an egress
  rule that selects the source and an ingress rule that selects the destination both allow it.
  The second half gives Cilium rules a typed form with a meaning of their own and proves that
  the evaluator computes it on their manifests.
\<close>

abbreviation NS_KEY :: string where
  "NS_KEY \<equiv> ''io.kubernetes.pod.namespace''"

definition POD_ENTITIES :: "string list" where
  "POD_ENTITIES = [''all'', ''cluster'']"

definition WORLD_ENTITIES :: "string list" where
  "WORLD_ENTITIES = [''all'', ''world'']"

definition OPEN_CIDRS :: "string list" where
  "OPEN_CIDRS = [''0.0.0.0/0'', ''::/0'']"

definition CILIUM_KINDS :: "string list" where
  "CILIUM_KINDS = [''CiliumNetworkPolicy'', ''CiliumClusterwideNetworkPolicy'']"

section \<open>The evaluator\<close>

text \<open>A selector of None counts as the empty one: \<^verbatim>\<open>selector or {}\<close>.\<close>

definition selects :: "yaml \<Rightarrow> yaml \<Rightarrow> bool option" where
  "selects sel0 labels = do {
     let sel = py_or sel0 (YMap []);
     es \<leftarrow> get_list sel ''matchExpressions'';
     ok \<leftarrow> mall (cilium_expression labels) es;
     if \<not> ok then Some False
     else do {
       ml \<leftarrow> get_or_dict sel ''matchLabels'';
       ps \<leftarrow> items ml;
       mall (label_pair_holds norm_str labels) ps
     }
   }"

definition names_namespace :: "yaml \<Rightarrow> bool option" where
  "names_namespace sel0 = do {
     let sel = py_or sel0 (YMap []);
     ml \<leftarrow> get_or_dict sel ''matchLabels'';
     lk \<leftarrow> py_iter ml;
     es \<leftarrow> get_list sel ''matchExpressions'';
     ek \<leftarrow> mmap (\<lambda>e. dget e ''key'') es;
     many (\<lambda>k. do { n \<leftarrow> norm k; Some (n = YStr NS_KEY) }) (lk @ ek)
   }"

definition endpoint :: "yaml \<Rightarrow> yaml \<Rightarrow> yaml option" where
  "endpoint ns labels = do { ls \<leftarrow> items labels; Some (YMap (AList.update NS_KEY ns ls)) }"

text \<open>\<^verbatim>\<open>[p["spec"]] if p.get("spec") else []\<close> and then \<^verbatim>\<open>list(p.get("specs") or [])\<close>.\<close>

definition spec_rules :: "doc \<Rightarrow> yaml list option" where
  "spec_rules p = do {
     s \<leftarrow> dget p ''spec'';
     ss \<leftarrow> get_list p ''specs'';
     Some ((if truthy s then [s] else []) @ ss)
   }"

text \<open>The namespace of a rule is None for a clusterwide policy.\<close>

definition policy_ns :: "doc \<Rightarrow> yaml \<Rightarrow> yaml \<Rightarrow> yaml option" where
  "policy_ns p kind default_ns =
     (if kind = YStr ''CiliumClusterwideNetworkPolicy'' then Some YNull
      else do { m \<leftarrow> get_or_dict p ''metadata''; n \<leftarrow> dget m ''namespace''; Some (py_or n default_ns) })"

definition rules :: "doc list \<Rightarrow> yaml \<Rightarrow> (doc \<times> yaml \<times> yaml) list option" where
  "rules policies default_ns = collect (\<lambda>p. do {
     kind \<leftarrow> dget p ''kind'';
     if \<not> in_strtuple kind CILIUM_KINDS then Some []
     else do {
       ns \<leftarrow> policy_ns p kind default_ns;
       rs \<leftarrow> spec_rules p;
       Some (map (\<lambda>r. (p, r, ns)) rs)
     }
   }) policies"

definition peer_selects :: "yaml \<Rightarrow> yaml \<Rightarrow> yaml \<Rightarrow> bool option" where
  "peer_selects sel ns ep = do {
     out \<leftarrow> (if ns = YNull then Some False
            else do {
              nn \<leftarrow> names_namespace sel;
              if nn then Some False else do { e \<leftarrow> dget ep NS_KEY; Some (\<not> py_eq e ns) }
            });
     if out then Some False else selects sel ep
   }"

definition rule_selects :: "yaml \<Rightarrow> yaml \<Rightarrow> yaml \<Rightarrow> bool option" where
  "rule_selects rule ns ep = do {
     s \<leftarrow> get_or_dict rule ''endpointSelector'';
     peer_selects s ns ep
   }"

definition port_ok :: "yaml \<Rightarrow> yaml \<Rightarrow> bool option" where
  "port_ok itm port =
     (if port = YNull then Some True
      else do {
        tps \<leftarrow> dget itm ''toPorts'';
        if \<not> truthy tps then Some True
        else do {
          tl \<leftarrow> py_iter tps;
          many (\<lambda>tp. do {
            ps \<leftarrow> get_list tp ''ports'';
            many (\<lambda>pp. do { q \<leftarrow> dget pp ''port''; Some (py_str q = py_str port) }) ps
          }) tl
        }
      })"

text \<open>\<^verbatim>\<open>ENTITIES & set(i.get(field) or [])\<close>: the elements must be hashable.\<close>

definition meets_entities :: "string list \<Rightarrow> yaml \<Rightarrow> string \<Rightarrow> bool option" where
  "meets_entities ents i fld = do {
     es \<leftarrow> get_list i fld;
     if list_all hashable es then Some (list_ex (\<lambda>e. in_strtuple e ents) es) else None
   }"

text \<open>The loop of \<^verbatim>\<open>ingress_admits\<close> and \<^verbatim>\<open>egress_reaches\<close>: the first item that opens the port and
  names a pod entity or a selecting peer answers True.\<close>

definition flow_allowed :: "string \<Rightarrow> string \<Rightarrow> string \<Rightarrow> yaml \<Rightarrow> yaml \<Rightarrow> yaml \<Rightarrow> yaml \<Rightarrow> bool option" where
  "flow_allowed dir ents peers rule ns ep port = do {
     is \<leftarrow> get_list rule dir;
     many (\<lambda>i. do {
       ok \<leftarrow> port_ok i port;
       if \<not> ok then Some False
       else do {
         m \<leftarrow> meets_entities POD_ENTITIES i ents;
         if m then Some True
         else do { ss \<leftarrow> get_list i peers; many (\<lambda>s. peer_selects s ns ep) ss }
       }
     }) is
   }"

definition ingress_admits :: "yaml \<Rightarrow> yaml \<Rightarrow> yaml \<Rightarrow> yaml \<Rightarrow> bool option" where
  "ingress_admits rule ns src port =
     flow_allowed ''ingress'' ''fromEntities'' ''fromEndpoints'' rule ns src port"

definition egress_reaches :: "yaml \<Rightarrow> yaml \<Rightarrow> yaml \<Rightarrow> yaml \<Rightarrow> bool option" where
  "egress_reaches rule ns dst port =
     flow_allowed ''egress'' ''toEntities'' ''toEndpoints'' rule ns dst port"

definition egress_world :: "yaml \<Rightarrow> bool option" where
  "egress_world rule = do {
     es \<leftarrow> get_list rule ''egress'';
     many (\<lambda>e. do {
       w \<leftarrow> meets_entities WORLD_ENTITIES e ''toEntities'';
       if w then Some True
       else do {
         cs \<leftarrow> get_list e ''toCIDR'';
         css \<leftarrow> get_list e ''toCIDRSet'';
         cs' \<leftarrow> mmap (\<lambda>c. dget c ''cidr'') css;
         let cidrs = cs @ cs';
         if list_all hashable cidrs then Some (list_ex (\<lambda>c. in_strtuple c OPEN_CIDRS) cidrs) else None
       }
     }) es
   }"

definition egress_fqdn :: "yaml \<Rightarrow> bool option" where
  "egress_fqdn rule = do {
     es \<leftarrow> get_list rule ''egress'';
     many (\<lambda>e. do { f \<leftarrow> dget e ''toFQDNs''; Some (truthy f) }) es
   }"

definition egress_internet :: "yaml \<Rightarrow> bool option" where
  "egress_internet rule = mor (egress_world rule) (egress_fqdn rule)"

definition reaches :: "(doc \<times> yaml \<times> yaml) list \<Rightarrow> yaml \<Rightarrow> yaml \<Rightarrow> yaml \<Rightarrow> bool option" where
  "reaches all_rules src dst port = do {
     out \<leftarrow> many (\<lambda>(_, r, ns). mand (rule_selects r ns src) (egress_reaches r ns dst port)) all_rules;
     inn \<leftarrow> many (\<lambda>(_, r, ns). mand (rule_selects r ns dst) (ingress_admits r ns src port)) all_rules;
     Some (out \<and> inn)
   }"

section \<open>Typed Cilium rules\<close>

text \<open>A peer item: the entities and endpoint selectors it names and the ports it opens (none
  written means every port). A rule selects endpoints and holds ingress and egress items.\<close>

record peer_item =
  pi_entities :: "string list"
  pi_peers :: "selector list"
  pi_ports :: "nat list"

record cilium_rule =
  cr_selector :: selector
  cr_ingress :: "peer_item list"
  cr_egress :: "peer_item list"

definition names_ns :: "selector \<Rightarrow> bool" where
  "names_ns s \<longleftrightarrow> (\<exists>x \<in> set (match_labels s). norm_str (fst x) = NS_KEY)
                 \<or> (\<exists>x \<in> set (match_exprs s). norm_str (fst x) = NS_KEY)"

definition peer_meaning :: "selector \<Rightarrow> string option \<Rightarrow> labels \<Rightarrow> bool" where
  "peer_meaning s ns ep \<longleftrightarrow>
     (\<forall>n. ns = Some n \<longrightarrow> names_ns s \<or> map_of ep NS_KEY = Some n) \<and> sel_matches norm_str s ep"

definition port_open :: "peer_item \<Rightarrow> nat \<Rightarrow> bool" where
  "port_open i p \<longleftrightarrow> pi_ports i = [] \<or> p \<in> set (pi_ports i)"

definition item_admits :: "peer_item \<Rightarrow> string option \<Rightarrow> labels \<Rightarrow> nat \<Rightarrow> bool" where
  "item_admits i ns ep p \<longleftrightarrow>
     port_open i p \<and> (set (pi_entities i) \<inter> {''all'', ''cluster''} \<noteq> {}
                      \<or> (\<exists>s \<in> set (pi_peers i). peer_meaning s ns ep))"

text \<open>The promise of the evaluator: both sides allow the flow.\<close>

definition flow_meaning :: "(cilium_rule \<times> string option) list \<Rightarrow> labels \<Rightarrow> labels \<Rightarrow> nat \<Rightarrow> bool" where
  "flow_meaning rs src dst p \<longleftrightarrow>
     (\<exists>(r, ns) \<in> set rs. peer_meaning (cr_selector r) ns src \<and> (\<exists>i \<in> set (cr_egress r). item_admits i ns dst p))
     \<and> (\<exists>(r, ns) \<in> set rs. peer_meaning (cr_selector r) ns dst \<and> (\<exists>i \<in> set (cr_ingress r). item_admits i ns src p))"

text \<open>Their manifests.\<close>

definition enc_ns :: "string option \<Rightarrow> yaml" where
  "enc_ns n = (case n of None \<Rightarrow> YNull | Some s \<Rightarrow> YStr s)"

definition enc_port :: "nat \<Rightarrow> yaml" where
  "enc_port p = YMap [(''port'', YStr (nat_dec p)), (''protocol'', YStr ''TCP'')]"

definition enc_item :: "string \<Rightarrow> string \<Rightarrow> peer_item \<Rightarrow> yaml" where
  "enc_item ents peers i = YMap
     [(ents, YList (map YStr (pi_entities i))),
      (peers, YList (map enc_selector (pi_peers i))),
      (''toPorts'', YList (if pi_ports i = [] then [] else [YMap [(''ports'', YList (map enc_port (pi_ports i)))]]))]"

definition enc_rule :: "cilium_rule \<Rightarrow> yaml" where
  "enc_rule r = YMap
     [(''endpointSelector'', enc_selector (cr_selector r)),
      (''ingress'', YList (map (enc_item ''fromEntities'' ''fromEndpoints'') (cr_ingress r))),
      (''egress'', YList (map (enc_item ''toEntities'' ''toEndpoints'') (cr_egress r)))]"

section \<open>Lemmas\<close>

text \<open>What a positive answer of the evaluator rests on, for any manifest.\<close>

definition peer_admits :: "string \<Rightarrow> string \<Rightarrow> yaml \<Rightarrow> yaml \<Rightarrow> yaml \<Rightarrow> bool" where
  "peer_admits ents peers i ns ep \<longleftrightarrow> meets_entities POD_ENTITIES i ents = Some True
     \<or> (\<exists>ss. get_list i peers = Some ss \<and> (\<exists>s \<in> set ss. peer_selects s ns ep = Some True))"

lemma flow_allowed_TrueD:
  assumes "flow_allowed dir ents peers rule ns ep port = Some True" "get_list rule dir = Some is"
  shows "\<exists>i \<in> set is. port_ok i port = Some True \<and> peer_admits ents peers i ns ep"
  using assms unfolding flow_allowed_def peer_admits_def
  by (auto dest!: many_TrueD split: Option.bind_splits if_splits) blast+

lemma selects_enc:
  "selects (enc_selector s) (enc_labels ls) = Some (sel_matches norm_str s ls)"
  by (auto simp: selects_def sel_matches_def list_all_iff)

interpretation cp: label_selector selects norm_str
  by unfold_locales (rule selects_enc)

lemma names_namespace_enc: "names_namespace (enc_selector s) = Some (names_ns s)"
proof -
  have keys: "py_iter (enc_labels ls) = Some (map (\<lambda>x. YStr (fst x)) ls)" for ls
    by (simp add: enc_labels_def case_prod_beta comp_def)
  have "mmap (\<lambda>e. dget e ''key'') (map enc_expr es) = Some (map (YStr \<circ> fst) es)" for es
    by (induction es) auto
  then show ?thesis
    by (simp add: names_namespace_def keys names_ns_def list_ex_iff case_prod_beta comp_def)
qed

lemma peer_selects_enc:
  "peer_selects (enc_selector s) (enc_ns ns) (enc_labels ep) = Some (peer_meaning s ns ep)"
  by (cases ns; cases "map_of ep NS_KEY")
     (auto simp: peer_selects_def enc_ns_def names_namespace_enc selects_enc peer_meaning_def)

lemma rule_selects_enc:
  "rule_selects (enc_rule r) (enc_ns ns) (enc_labels ep) = Some (peer_meaning (cr_selector r) ns ep)"
  by (simp add: rule_selects_def enc_rule_def peer_selects_enc)

lemma py_str_YInt_nat: "py_str (YInt (int p)) = nat_dec p"
  by (simp add: py_str_def)

lemma port_ok_enc:
  assumes "ents \<noteq> ''toPorts''" "peers \<noteq> ''toPorts''"
  shows "port_ok (enc_item ents peers i) (YInt (int p)) = Some (port_open i p)"
  using assms
  by (auto simp: port_ok_def enc_item_def enc_port_def port_open_def py_str_YInt_nat py_str_def list_ex_iff)

lemma flow_allowed_enc:
  assumes "dget r dir = Some (YList (map (enc_item ents peers) is))"
    and "ents \<noteq> ''toPorts''" "peers \<noteq> ''toPorts''" "ents \<noteq> peers"
  shows "flow_allowed dir ents peers r (enc_ns ns) (enc_labels ep) (YInt (int p)) =
           Some (\<exists>i \<in> set is. item_admits i ns ep p)"
proof -
  have list: "get_list r dir = Some (map (enc_item ents peers) is)"
    using assms(1) by (simp add: get_list_def)
  have ents: "meets_entities POD_ENTITIES (enc_item ents peers i) ents =
      Some (set (pi_entities i) \<inter> {''all'', ''cluster''} \<noteq> {})" for i
    by (auto simp: meets_entities_def enc_item_def POD_ENTITIES_def list_ex_iff list_all_iff)
  have peers: "get_list (enc_item ents peers i) peers = Some (map enc_selector (pi_peers i))" for i
    using assms(4) by (simp add: enc_item_def)
  show ?thesis
    by (simp add: flow_allowed_def list port_ok_enc [OF assms(2,3)] ents peers peer_selects_enc
        if_Some_Some cong: if_cong)
       (auto simp: item_admits_def list_ex_iff)
qed

lemmas rule_enc = rule_selects_enc flow_allowed_enc

text \<open>C1. The evaluator is correct: on the manifests of typed Cilium rules, \<^verbatim>\<open>reaches\<close> raises no
  exception and answers True exactly when some rule that selects the source has an egress item,
  and some rule that selects the destination has an ingress item, that opens the port and names
  the other pod, directly by entity or by a selector that means the policy's namespace unless
  it names one itself.\<close>

theorem reaches_correct:
  "reaches (map (\<lambda>(r, ns). (d, enc_rule r, enc_ns ns)) rs) (enc_labels src) (enc_labels dst) (YInt (int p)) =
     Some (flow_meaning rs src dst p)"
proof -
  have eg: "dget (enc_rule r) ''egress'' = Some (YList (map (enc_item ''toEntities'' ''toEndpoints'') (cr_egress r)))"
   and ing: "dget (enc_rule r) ''ingress'' = Some (YList (map (enc_item ''fromEntities'' ''fromEndpoints'') (cr_ingress r)))"
    for r by (simp_all add: enc_rule_def)
  have out: "egress_reaches (enc_rule r) (enc_ns ns) (enc_labels ep) (YInt (int p)) =
      Some (\<exists>i \<in> set (cr_egress r). item_admits i ns ep p)" for r ns ep
    unfolding egress_reaches_def by (rule flow_allowed_enc [OF eg]) simp_all
  have inn: "ingress_admits (enc_rule r) (enc_ns ns) (enc_labels ep) (YInt (int p)) =
      Some (\<exists>i \<in> set (cr_ingress r). item_admits i ns ep p)" for r ns ep
    unfolding ingress_admits_def by (rule flow_allowed_enc [OF ing]) simp_all
  show ?thesis
    by (simp add: reaches_def case_prod_beta rule_selects_enc out inn flow_meaning_def list_ex_iff)
qed

end
