(* ===== verification/CiliumPolicyShape.thy ===== *)
theory CiliumPolicyShape
  imports CiliumPolicy
begin

text \<open>
  \<^verbatim>\<open>src/scripts/check-cilium-policy-shape.py\<close>: a Cilium policy has \<^verbatim>\<open>spec\<close> or \<^verbatim>\<open>specs\<close> and not
  both, each rule holds only the keys that the CRD declares, and each rule selects something.
\<close>

definition RULE_KEYS :: "string list" where
  "RULE_KEYS = [''description'', ''endpointSelector'', ''nodeSelector'', ''ingress'', ''ingressDeny'',
                ''egress'', ''egressDeny'', ''labels'', ''enableDefaultDeny'', ''log'']"

datatype shape_finding =
    BothOrNeither yaml yaml bool
  | SpecsEmpty yaml yaml
  | NotARule yaml yaml nat
  | UndeclaredKeys yaml yaml nat "string list"
  | SelectsNothing yaml yaml nat

text \<open>The findings on the rule at index \<open>i\<close>. A rule that is a dict has string keys, which sort.\<close>

definition rule_shape :: "yaml \<Rightarrow> yaml \<Rightarrow> nat \<Rightarrow> yaml \<Rightarrow> shape_finding list" where
  "rule_shape kind name i r = (case r of
       YMap m \<Rightarrow>
         (let extra = sort (filter (\<lambda>k. k \<notin> set RULE_KEYS) (mk_set (map fst m))) in
          (if extra \<noteq> [] then [UndeclaredKeys kind name i extra] else [])
          @ (if ''endpointSelector'' \<notin> set (map fst m) \<and> ''nodeSelector'' \<notin> set (map fst m)
             then [SelectsNothing kind name i] else []))
     | _ \<Rightarrow> [NotARule kind name i])"

definition shape_doc :: "doc \<Rightarrow> shape_finding list option" where
  "shape_doc d =
     (if \<not> is_dict d then Some []
      else do {
        kind \<leftarrow> dget d ''kind'';
        if \<not> in_strtuple kind CILIUM_KINDS then Some []
        else do {
          m \<leftarrow> get_or_dict d ''metadata'';
          name \<leftarrow> dget m ''name'';
          has_spec \<leftarrow> py_in (YStr ''spec'') d;
          has_specs \<leftarrow> py_in (YStr ''specs'') d;
          if has_spec = has_specs then Some [BothOrNeither kind name has_spec]
          else do {
            rs \<leftarrow> (if has_spec then do { s \<leftarrow> item d ''spec''; Some [s] } else get_list d ''specs'');
            Some ((if rs = [] then [SpecsEmpty kind name] else [])
                  @ concat (map (\<lambda>(i, r). rule_shape kind name i r) (enumerate 0 rs)))
          }
        }
      })"

definition judge_shape :: "doc list \<Rightarrow> shape_finding list option" where
  "judge_shape docs = collect shape_doc docs"

definition is_policy :: "doc \<Rightarrow> bool" where
  "is_policy d = (case d of YMap m \<Rightarrow> in_strtuple (dict_get m ''kind'' YNull) CILIUM_KINDS | _ \<Rightarrow> False)"

text \<open>\<^verbatim>\<open>main\<close> on the golden renders, each a file name and its documents: the exit code.\<close>

definition main_shape :: "(string \<times> doc list) list \<Rightarrow> int option" where
  "main_shape files =
     (if files = [] then Some 1
      else do {
        let loaded = map (\<lambda>(f, ds). filter truthy ds) files;
        let seen = length (filter is_policy (concat loaded));
        bad \<leftarrow> collect judge_shape loaded;
        Some (if seen = 0 then 1 else if bad \<noteq> [] then 1 else 0)
      })"

text \<open>The selftest, with its fixtures.\<close>

definition st_sel :: yaml where
  "st_sel = YMap [(''matchLabels'', YMap [(''app'', YStr ''x'')])]"

definition selftest_shape :: "int option" where
  "selftest_shape = do {
     let good = [
       YMap [(''kind'', YStr ''CiliumNetworkPolicy''), (''metadata'', YMap [(''name'', YStr ''a'')]),
             (''spec'', YMap [(''endpointSelector'', st_sel), (''egress'', YList [])])],
       YMap [(''kind'', YStr ''CiliumNetworkPolicy''), (''metadata'', YMap [(''name'', YStr ''b'')]),
             (''specs'', YList [YMap [(''description'', YStr ''d''), (''endpointSelector'', st_sel), (''egress'', YList [])]])]];
     fs \<leftarrow> judge_shape good;
     if fs \<noteq> [] then Some 1
     else do {
       let failing = [
         YMap [(''kind'', YStr ''CiliumNetworkPolicy''), (''metadata'', YMap [(''name'', YStr ''v'')]),
               (''spec'', YMap [(''description'', YStr ''d''), (''specs'', YList [YMap [(''endpointSelector'', st_sel)]])])],
         YMap [(''kind'', YStr ''CiliumNetworkPolicy''), (''metadata'', YMap [(''name'', YStr ''v'')]),
               (''spec'', YMap [(''endpointSelector'', st_sel)]), (''specs'', YList [YMap [(''endpointSelector'', st_sel)]])],
         YMap [(''kind'', YStr ''CiliumClusterwideNetworkPolicy''), (''metadata'', YMap [(''name'', YStr ''v'')])],
         YMap [(''kind'', YStr ''CiliumNetworkPolicy''), (''metadata'', YMap [(''name'', YStr ''v'')]),
               (''specs'', YList [YMap [(''egress'', YList [])]])]];
       missed \<leftarrow> many (\<lambda>d. do { gs \<leftarrow> judge_shape [d]; Some (gs = []) }) failing;
       Some (if missed then 1 else 0)
     }
   }"

lemma selftest_shape_passes: "selftest_shape = Some 0"
  by code_simp

section \<open>The shape of a policy\<close>

text \<open>What the guard promises of a Cilium policy, and the interface of a document-local guard.\<close>

definition rule_wf :: "yaml \<Rightarrow> bool" where
  "rule_wf r \<longleftrightarrow> (\<exists>m. r = YMap m \<and> fst ` set m \<subseteq> set RULE_KEYS
                  \<and> (''endpointSelector'' \<in> fst ` set m \<or> ''nodeSelector'' \<in> fst ` set m))"

definition policy_wf :: "doc \<Rightarrow> bool" where
  "policy_wf d \<longleftrightarrow>
     (\<exists>r. item d ''spec'' = Some r \<and> item d ''specs'' = None \<and> rule_wf r)
     \<or> (\<exists>rs. item d ''specs'' = Some (YList rs) \<and> item d ''spec'' = None \<and> rs \<noteq> [] \<and> (\<forall>r \<in> set rs. rule_wf r))"

interpretation shape: local_guard judge_shape shape_doc
  by unfold_locales (simp add: judge_shape_def)

lemma rule_shape_empty_iff: "rule_shape kind name i r = [] \<longleftrightarrow> rule_wf r"
proof (cases r)
  case (YMap m)
  have "sort (filter (\<lambda>k. k \<notin> set RULE_KEYS) (mk_set (map fst m))) = [] \<longleftrightarrow> fst ` set m \<subseteq> set RULE_KEYS"
    by (auto simp: filter_empty_conv sorted_list_of_set_def simp flip: set_empty)
  with YMap show ?thesis
    by (auto simp: rule_shape_def rule_wf_def Let_def)
qed (auto simp: rule_shape_def rule_wf_def)

lemma rules_shape_empty_iff:
  "(\<forall>x \<in> set (enumerate n rs). (case x of (i, r) \<Rightarrow> rule_shape kind name i r) = []) \<longleftrightarrow> (\<forall>r \<in> set rs. rule_wf r)"
  by (induction rs arbitrary: n) (auto simp: rule_shape_empty_iff)

text \<open>A dict passes in place of a list of rules only when it is not a list: its elements are
  strings, which are no rules.\<close>

lemma py_iter_rules_wf: "py_iter v = Some rs \<Longrightarrow> rs \<noteq> [] \<Longrightarrow> \<forall>r \<in> set rs. rule_wf r \<Longrightarrow> v = YList rs"
  by (cases v) (auto simp: rule_wf_def neq_Nil_conv)

lemma shape_doc_passes_iff:
  assumes "is_dict d" "is_policy d"
  shows "shape_doc d = Some [] \<longleftrightarrow>
           policy_wf d \<and> (\<exists>m n. get_or_dict d ''metadata'' = Some m \<and> dget m ''name'' = Some n)"
proof -
  from assms(1) obtain f where d: "d = YMap f" by (cases d) auto
  define kind where "kind = dict_get f ''kind'' YNull"
  from assms(2) d have kind: "dget d ''kind'' = Some kind" "in_strtuple kind CILIUM_KINDS"
    by (auto simp: is_policy_def kind_def dict_get_def)
  have specs: "get_list d ''specs'' = Some rs \<Longrightarrow> rs \<noteq> [] \<Longrightarrow> \<forall>r \<in> set rs. rule_wf r \<Longrightarrow>
      item d ''specs'' = Some (YList rs)" for rs
    using py_iter_rules_wf d by (fastforce simp: py_or_def split: option.splits if_splits)
  show ?thesis
  proof (cases "map_of f ''spec''"; cases "map_of f ''specs''")
    fix r assume "map_of f ''spec'' = Some r" "map_of f ''specs'' = None"
    with d kind show ?thesis
      by (auto simp: shape_doc_def bind_eq_Some_conv policy_wf_def rule_shape_empty_iff)
  next
    fix v assume v: "map_of f ''spec'' = None" "map_of f ''specs'' = Some v"
    show ?thesis (is "?l \<longleftrightarrow> ?r")
    proof
      assume ?l
      with d kind v obtain rs where "get_list d ''specs'' = Some rs" "rs \<noteq> []" "\<forall>r \<in> set rs. rule_wf r"
        and m: "\<exists>m n. get_or_dict d ''metadata'' = Some m \<and> dget m ''name'' = Some n"
        by (auto simp: shape_doc_def bind_eq_Some_conv rules_shape_empty_iff split: if_splits)
      with specs have "item d ''specs'' = Some (YList rs)" by blast
      with d v \<open>rs \<noteq> []\<close> \<open>\<forall>r \<in> set rs. rule_wf r\<close> m show ?r by (auto simp: policy_wf_def)
    next
      assume ?r
      with d kind v show ?l
        by (auto simp: shape_doc_def bind_eq_Some_conv rules_shape_empty_iff policy_wf_def)
    qed
  qed (use d kind in \<open>auto simp: shape_doc_def bind_eq_Some_conv policy_wf_def\<close>)
qed

text \<open>The shape guard is exact: on renders whose documents are dicts, it reports nothing if and
  only if every Cilium policy has \<^verbatim>\<open>spec\<close> or \<^verbatim>\<open>specs\<close> but not both, has at least one rule, and
  every rule is a dict with declared keys only that names an endpoint or a node selector (and
  its metadata is readable, which the guard needs for its message).\<close>

theorem judge_shape_exact:
  assumes "\<forall>d \<in> set docs. is_dict d"
  shows "judge_shape docs = Some [] \<longleftrightarrow>
    (\<forall>d \<in> set docs. is_policy d \<longrightarrow>
       policy_wf d \<and> (\<exists>m n. get_or_dict d ''metadata'' = Some m \<and> dget m ''name'' = Some n))"
proof -
  have "shape_doc d = Some []" if "is_dict d" "\<not> is_policy d" for d
    using that by (cases d) (auto simp: shape_doc_def is_policy_def dict_get_def)
  then have "shape_doc d = Some [] \<longleftrightarrow> (is_policy d \<longrightarrow>
      policy_wf d \<and> (\<exists>m n. get_or_dict d ''metadata'' = Some m \<and> dget m ''name'' = Some n))"
    if "d \<in> set docs" for d
    using that assms shape_doc_passes_iff by blast
  then show ?thesis by (simp add: shape.passes_iff)
qed

definition shape_sample :: doc where
  "shape_sample = YMap [(''kind'', YStr ''CiliumNetworkPolicy''), (''metadata'', YMap [(''name'', YStr ''a'')]),
     (''spec'', YMap [(''endpointSelector'', YMap []), (''ingress'', YList [YMap []])])]"

lemma judge_shape_exact_witness:
  "judge_shape [shape_sample] = Some [] \<and> is_policy shape_sample"
proof -
  have p: "is_policy shape_sample"
    by (simp add: shape_sample_def is_policy_def dict_get_def CILIUM_KINDS_def)
  have "policy_wf shape_sample"
    by (auto simp: shape_sample_def policy_wf_def rule_wf_def RULE_KEYS_def)
  then have "judge_shape [shape_sample] = Some []"
    using judge_shape_exact [of "[shape_sample]"] by (simp add: shape_sample_def)
  with p show ?thesis by simp
qed

end
