(* ===== verification/NamespacePolicy.thy ===== *)
theory NamespacePolicy
  imports CiliumPolicy
begin

text \<open>
  \<^verbatim>\<open>src/scripts/check-namespace-policy.py\<close>: every namespace that a render creates or puts pods
  into has a default deny. The guard accepts two shapes of default deny, a clusterwide Cilium
  policy that selects the namespace and opens at most DNS, and an empty Kubernetes
  NetworkPolicy. The theory models the whole script and proves, against the Cilium evaluator,
  that the first shape admits no ingress and reaches nothing but kube-dns on port 53.
\<close>

definition RELEASE_NS :: string where
  "RELEASE_NS = ''gibson''"

definition POD_KINDS :: "string list" where
  "POD_KINDS = [''Deployment'', ''StatefulSet'', ''DaemonSet'', ''Job'', ''CronJob'', ''Pod'']"

definition NS_LABEL :: string where
  "NS_LABEL = ''k8s:io.kubernetes.pod.namespace''"

definition KUBE_DNS :: yaml where
  "KUBE_DNS = YMap [(NS_LABEL, YStr ''kube-system''), (''k8s:k8s-app'', YStr ''kube-dns'')]"

text \<open>\<^verbatim>\<open>(d.get("metadata") or {}).get("namespace") or RELEASE_NS\<close>.\<close>

definition doc_ns :: "doc \<Rightarrow> yaml option" where
  "doc_ns d = do { m \<leftarrow> get_or_dict d ''metadata''; n \<leftarrow> dget m ''namespace''; Some (py_or n (YStr RELEASE_NS)) }"

definition namespaces_step :: "doc \<Rightarrow> yaml list \<Rightarrow> yaml list option" where
  "namespaces_step d out = do {
     kind \<leftarrow> dget d ''kind'';
     if kind = YStr ''Namespace'' then do { n \<leftarrow> meta_name d; val_add n out }
     else do {
       is_pod \<leftarrow> in_strset kind POD_KINDS;
       if is_pod then do { n \<leftarrow> doc_ns d; val_add n out } else Some out
     }
   }"

definition namespaces :: "doc list \<Rightarrow> yaml list option" where
  "namespaces docs = mfold namespaces_step docs []"

text \<open>The ports of an item: \<^verbatim>\<open>[p for tp in rule.get("toPorts") or [] for p in tp.get("ports") or []]\<close>.\<close>

definition item_ports :: "yaml \<Rightarrow> yaml list option" where
  "item_ports e = do { tps \<leftarrow> get_list e ''toPorts''; collect (\<lambda>tp. get_list tp ''ports'') tps }"

definition dns_port :: "yaml \<Rightarrow> bool option" where
  "dns_port p = do {
     ks \<leftarrow> keyset p;
     if \<not> set ks \<subseteq> {YStr ''port'', YStr ''protocol''} then Some False
     else do {
       q \<leftarrow> dget p ''port'';
       if py_str q \<noteq> ''53'' then Some False
       else do { r \<leftarrow> dget p ''protocol''; Some (in_strtuple r [''UDP'', ''TCP'']) }
     }
   }"

definition dns_only :: "yaml \<Rightarrow> bool option" where
  "dns_only rule = do {
     ks \<leftarrow> keyset rule;
     if \<not> set ks \<subseteq> {YStr ''toEndpoints'', YStr ''toPorts''} then Some False
     else do {
       peers \<leftarrow> get_list rule ''toEndpoints'';
       if peers = [] \<or> list_ex (\<lambda>p. \<not> py_eq p (YMap [(''matchLabels'', KUBE_DNS)])) peers then Some False
       else do {
         ports \<leftarrow> item_ports rule;
         if ports = [] then Some False else mall dns_port ports
       }
     }
   }"

text \<open>The namespace that a clusterwide policy selects alone.\<close>

definition sole_namespace :: "yaml \<Rightarrow> yaml option" where
  "sole_namespace spec = do {
     sel \<leftarrow> get_or_dict spec ''endpointSelector'';
     ml \<leftarrow> get_or_dict sel ''matchLabels'';
     sk \<leftarrow> keyset sel;
     if set sk \<noteq> {YStr ''matchLabels''} then Some YNull
     else do { mk \<leftarrow> keyset ml; if set mk = {YStr NS_LABEL} then dget ml NS_LABEL else Some YNull }
   }"

text \<open>The namespace that a document covers, if any.\<close>

definition covers :: "doc \<Rightarrow> yaml option option" where
  "covers d = do {
     spec \<leftarrow> get_or_dict d ''spec'';
     kind \<leftarrow> dget d ''kind'';
     if kind = YStr ''CiliumClusterwideNetworkPolicy'' then do {
       deny \<leftarrow> get_or_dict spec ''enableDefaultDeny'';
       ns \<leftarrow> sole_namespace spec;
       closed \<leftarrow> (if \<not> truthy ns then Some False
                 else do {
                   i \<leftarrow> dget deny ''ingress'';
                   if i \<noteq> YBool True then Some False
                   else do { e \<leftarrow> dget deny ''egress''; Some (e = YBool True) }
                 });
       if \<not> closed then Some None
       else do {
         ing \<leftarrow> get_list spec ''ingress'';
         if list_ex (\<lambda>r. r \<noteq> YMap []) ing then Some None
         else do {
           egr \<leftarrow> get_list spec ''egress'';
           dns \<leftarrow> mall dns_only egr;
           Some (if dns then Some ns else None)
         }
       }
     }
     else if kind = YStr ''NetworkPolicy'' then do {
       ps \<leftarrow> dget spec ''podSelector'';
       if ps \<noteq> YMap [] \<and> ps \<noteq> YNull then Some None
       else do {
         pt0 \<leftarrow> dget spec ''policyTypes'';
         pt \<leftarrow> keyset (py_or pt0 (YList []));
         if \<not> {YStr ''Ingress'', YStr ''Egress''} \<subseteq> set pt then Some None
         else do {
           i \<leftarrow> dget spec ''ingress'';
           e \<leftarrow> dget spec ''egress'';
           if truthy i \<or> truthy e then Some None else do { n \<leftarrow> doc_ns d; Some (Some n) }
         }
       }
     }
     else Some None
   }"

definition covered_step :: "doc \<Rightarrow> yaml list \<Rightarrow> yaml list option" where
  "covered_step d out = do { c \<leftarrow> covers d; case c of None \<Rightarrow> Some out | Some n \<Rightarrow> val_add n out }"

definition covered :: "doc list \<Rightarrow> yaml list option" where
  "covered docs = mfold covered_step docs []"

text \<open>\<^verbatim>\<open>judge\<close>: the names of the uncovered namespaces without an exemption, in order, and the
  exemptions used.\<close>

definition judge_nsp :: "doc list \<Rightarrow> string list \<Rightarrow> (yaml list \<times> yaml list) option" where
  "judge_nsp docs0 exempt = do {
     let docs = filter is_dict docs0;
     ns \<leftarrow> namespaces docs;
     cov \<leftarrow> covered docs;
     let open_ns = filter (\<lambda>n. n \<notin> set cov) ns;
     bad \<leftarrow> py_sorted (filter (\<lambda>n. n \<notin> YStr ` set exempt) open_ns);
     Some (bad, filter (\<lambda>n. n \<in> YStr ` set exempt) open_ns)
   }"

text \<open>One exemption per line: a name, a blank, a reason; \<^verbatim>\<open>#\<close> starts a comment.\<close>

definition load_exempt_nsp :: "string list \<Rightarrow> (string \<times> string) list" where
  "load_exempt_nsp lines = fold (\<lambda>line out.
     let l = strip (fst (split_once (CHR ''#'') line)) in
     if l = [] then out
     else (case split_once (CHR '' '') l of
             (name, None) \<Rightarrow> AList.update name [] out
           | (name, Some reason) \<Rightarrow> AList.update name (strip reason) out)) lines []"

datatype nsp_finding =
    NoDefaultDeny string yaml
  | StaleExemption string string
  | BlindNamespaces

text \<open>\<^verbatim>\<open>audit\<close> on the golden renders (a file name and its documents each) and the exemptions.\<close>

definition audit_file :: "string list \<Rightarrow> string \<times> doc list \<Rightarrow> (nsp_finding list \<times> yaml list \<times> nat) option" where
  "audit_file exempt = (\<lambda>(f, docs). do {
     ns \<leftarrow> namespaces (filter is_dict docs);
     if ns = [] then Some ([], [], 0)
     else do { (found, hit) \<leftarrow> judge_nsp docs exempt; Some (map (NoDefaultDeny f) found, hit, 1) }
   })"

definition audit_nsp :: "(string \<times> string) list \<Rightarrow> (string \<times> doc list) list \<Rightarrow> (nsp_finding list \<times> nat) option" where
  "audit_nsp exempt files = do {
     rs \<leftarrow> mmap (audit_file (map fst exempt)) files;
     let used = concat (map (\<lambda>(_, hit, _). hit) rs);
     let seen = sum_list (map (\<lambda>(_, _, n). n) rs);
     let stale = sort (filter (\<lambda>n. YStr n \<notin> set used) (map fst exempt));
     Some (concat (map fst rs)
           @ map (\<lambda>n. StaleExemption n (dict_get exempt n [])) stale
           @ (if seen = 0 then [BlindNamespaces] else []), seen)
   }"

definition main_nsp :: "(string \<times> string) list \<Rightarrow> (string \<times> doc list) list \<Rightarrow> int option" where
  "main_nsp exempt files = do { (bad, seen) \<leftarrow> audit_nsp exempt files; Some (if bad \<noteq> [] then 1 else 0) }"

text \<open>The selftest, with its fixtures.\<close>

definition nsp_pod :: "string \<Rightarrow> doc" where
  "nsp_pod ns = YMap [(''kind'', YStr ''Deployment''), (''metadata'', YMap [(''name'', YStr ''p''), (''namespace'', YStr ns)])]"

definition nsp_dns :: yaml where
  "nsp_dns = YMap [(''toEndpoints'', YList [YMap [(''matchLabels'', KUBE_DNS)]]),
     (''toPorts'', YList [YMap
        [(''ports'', YList [YMap [(''port'', YStr ''53''), (''protocol'', YStr ''UDP'')], YMap [(''port'', YStr ''53''), (''protocol'', YStr ''TCP'')]]),
         (''rules'', YMap [(''dns'', YList [YMap [(''matchPattern'', YStr ''*'')]])])]])]"

definition nsp_ccnp_spec :: "string \<Rightarrow> bool \<Rightarrow> yaml option \<Rightarrow> yaml option \<Rightarrow> yaml" where
  "nsp_ccnp_spec ns e ing eg = YMap
     [(''endpointSelector'', YMap [(''matchLabels'', YMap [(NS_LABEL, YStr ns)])]),
      (''enableDefaultDeny'', YMap [(''ingress'', YBool True), (''egress'', YBool e)]),
      (''ingress'', case ing of None \<Rightarrow> YList [YMap []] | Some x \<Rightarrow> x),
      (''egress'', case eg of None \<Rightarrow> YList [nsp_dns] | Some x \<Rightarrow> x)]"

definition nsp_ccnp :: "string \<Rightarrow> bool \<Rightarrow> yaml option \<Rightarrow> yaml option \<Rightarrow> doc" where
  "nsp_ccnp ns e ing eg = YMap [(''kind'', YStr ''CiliumClusterwideNetworkPolicy''), (''spec'', nsp_ccnp_spec ns e ing eg)]"

definition nsp_np_spec :: yaml where
  "nsp_np_spec = YMap [(''podSelector'', YMap []), (''policyTypes'', YList [YStr ''Ingress'', YStr ''Egress''])]"

definition nsp_np :: doc where
  "nsp_np = YMap [(''kind'', YStr ''NetworkPolicy''), (''metadata'', YMap [(''namespace'', YStr ''b'')]), (''spec'', nsp_np_spec)]"

definition selftest_nsp :: "int option" where
  "selftest_nsp = do {
     (good, _) \<leftarrow> judge_nsp [nsp_pod ''a'', nsp_ccnp ''a'' True None None, nsp_pod ''b'', nsp_np] [];
     if good \<noteq> [] then Some 1 else do {
     let failing = [
       [nsp_pod ''a''],
       [YMap [(''kind'', YStr ''Namespace''), (''metadata'', YMap [(''name'', YStr ''a'')])]],
       [nsp_pod ''a'', nsp_ccnp ''b'' True None None],
       [nsp_pod ''a'', nsp_ccnp ''a'' False None None],
       [nsp_pod ''b'', with_key ''spec'' (YMap [(''podSelector'', YMap []), (''policyTypes'', YList [YStr ''Ingress''])]) nsp_np],
       [nsp_pod ''b'', with_key ''spec'' (with_key ''egress'' (YList [YMap []]) nsp_np_spec) nsp_np],
       [nsp_pod ''b'', with_key ''spec'' (with_key ''ingress'' (YList [YMap []]) nsp_np_spec) nsp_np],
       [nsp_pod ''a'', nsp_ccnp ''a'' True None (Some (YList [nsp_dns, YMap [(''toEntities'', YList [YStr ''world''])]]))],
       [nsp_pod ''a'', nsp_ccnp ''a'' True (Some (YList [YMap [(''fromEntities'', YList [YStr ''all''])]])) None],
       [nsp_pod ''a'', nsp_ccnp ''a'' True None (Some (YList [with_key ''toPorts'' (YList [YMap [(''ports'', YList [YMap
          [(''port'', YStr ''53''), (''endPort'', YInt 65535), (''protocol'', YStr ''UDP'')]])]]) nsp_dns]))],
       [nsp_pod ''a'', with_key ''spec'' (with_key ''endpointSelector''
          (YMap [(''matchLabels'', YMap [(NS_LABEL, YStr ''a''), (''app'', YStr ''x'')])]) (nsp_ccnp_spec ''a'' True None None))
          (nsp_ccnp ''a'' True None None)],
       [nsp_pod ''a'', nsp_ccnp ''a'' True None (Some (YList [with_key ''toEndpoints'' (YList [YMap []]) nsp_dns]))],
       [YMap [(''kind'', YStr ''Job''), (''metadata'', YMap [(''name'', YStr ''j'')])]]];
     bad \<leftarrow> many (\<lambda>docs. do { (fs, _) \<leftarrow> judge_nsp docs []; Some (length fs \<noteq> 1) }) failing;
     if bad then Some 1 else do {
     (ex, _) \<leftarrow> judge_nsp [nsp_pod ''a''] [''a''];
     Some (if ex \<noteq> [] then 1 else 0)
     } }
   }"

lemma selftest_nsp_passes: "selftest_nsp = Some 0"
  by code_simp

section \<open>Lemmas\<close>

lemma covered_set:
  assumes "mfold covered_step docs out = Some cov"
  shows "n \<in> set cov \<longleftrightarrow> n \<in> set out \<or> (\<exists>d \<in> set docs. covers d = Some (Some n))"
  using assms
proof (rule mfold_collects [rotated])
  fix d out out' assume "covered_step d out = Some out'"
  then show "n \<in> set out' \<longleftrightarrow> n \<in> set out \<or> covers d = Some (Some n)"
    by (cases "covers d") (auto simp: covered_step_def val_add_def split: option.splits if_splits)
qed

text \<open>The namespaces a document contributes, as a relation.\<close>

inductive lives_in :: "doc \<Rightarrow> yaml \<Rightarrow> bool" where
  created: "dget d ''kind'' = Some (YStr ''Namespace'') \<Longrightarrow> meta_name d = Some n \<Longrightarrow> lives_in d n"
| pods: "dget d ''kind'' = Some (YStr k) \<Longrightarrow> k \<in> set POD_KINDS \<Longrightarrow> doc_ns d = Some n \<Longrightarrow> lives_in d n"

lemma namespaces_step_set:
  assumes "namespaces_step d out = Some out'"
  shows "n \<in> set out' \<longleftrightarrow> n \<in> set out \<or> lives_in d n"
proof -
  from assms obtain kind where k: "dget d ''kind'' = Some kind" by (auto simp: namespaces_step_def bind_eq_Some_conv)
  have nk: "''Namespace'' \<notin> set POD_KINDS" by (simp add: POD_KINDS_def)
  show ?thesis
  proof (cases "kind = YStr ''Namespace''")
    case True
    with assms k nk show ?thesis
      by (auto simp: namespaces_step_def bind_eq_Some_conv val_add_def lives_in.simps split: if_splits)
  next
    case False
    then show ?thesis
    proof (cases kind)
      case (YStr s)
      with assms k False show ?thesis
        by (auto simp: namespaces_step_def bind_eq_Some_conv val_add_def lives_in.simps split: if_splits)
    qed (use assms k in \<open>auto simp: namespaces_step_def bind_eq_Some_conv in_strset_def lives_in.simps\<close>)
  qed
qed

lemma namespaces_set:
  assumes "mfold namespaces_step docs out = Some ns"
  shows "n \<in> set ns \<longleftrightarrow> n \<in> set out \<or> (\<exists>d \<in> set docs. lives_in d n)"
  using assms by (rule mfold_collects [rotated]) (rule namespaces_step_set)

lemma judge_nsp_bad:
  assumes "judge_nsp docs exempt = Some (bad, used)"
  shows "n \<in> set bad \<longleftrightarrow> (\<exists>d \<in> set docs. is_dict d \<and> lives_in d n)
      \<and> \<not> (\<exists>d \<in> set docs. is_dict d \<and> covers d = Some (Some n)) \<and> n \<notin> YStr ` set exempt"
proof -
  from assms obtain ns cov where ns: "namespaces (filter is_dict docs) = Some ns"
    and cov: "covered (filter is_dict docs) = Some cov"
    and bad: "py_sorted (filter (\<lambda>n. n \<notin> YStr ` set exempt) (filter (\<lambda>n. n \<notin> set cov) ns)) = Some bad"
    by (auto simp: judge_nsp_def bind_eq_Some_conv Let_def)
  have "n \<in> set bad \<longleftrightarrow> n \<in> set ns \<and> n \<notin> set cov \<and> n \<notin> YStr ` set exempt"
    using py_sorted_set [OF bad] by auto
  then show ?thesis
    using namespaces_set [of "filter is_dict docs" "[]" ns n] covered_set [of "filter is_dict docs" "[]" cov n] ns cov
    by (auto simp: namespaces_def covered_def)
qed

section \<open>What an accepted default deny leaves open\<close>

lemma nat_dec_53: "nat_dec p = ''53'' \<longleftrightarrow> p = 53"
proof -
  have "nat_dec 53 = ''53''" by code_simp
  then show ?thesis by (metis nat_dec_inj)
qed

lemma norm_str_k8s: "norm_str NS_LABEL = NS_KEY" "norm_str ''k8s:k8s-app'' = ''k8s-app''"
  using norm_str_prefix [of "''k8s''"] by (simp_all add: NS_LABEL_def)

lemma kube_dns_peer:
  assumes "py_eq v (YMap [(''matchLabels'', KUBE_DNS)])" "wf_yaml v" "selects v (enc_labels dst) = Some True"
  shows "map_of dst NS_KEY = Some ''kube-system'' \<and> map_of dst ''k8s-app'' = Some ''kube-dns''"
proof -
  from assms(1) obtain m where v: "v = YMap m" using py_eq_YMapD by blast
  with assms(1) obtain q where m: "m = [(''matchLabels'', q)]" and q: "py_eq q KUBE_DNS"
    by (auto simp: py_eq_YMap length_Suc_conv split: if_splits)
  from q obtain ps where ps: "q = YMap ps" using py_eq_YMapD by (auto simp: KUBE_DNS_def)
  have lookup: "\<exists>x. (k, x) \<in> set ps \<and> py_eq x y"
    if "map_of [(NS_LABEL, YStr ''kube-system''), (''k8s:k8s-app'', YStr ''kube-dns'')] k = Some y" for k y
    using py_eq_YMap_lookup [OF _ _ _ that] q ps assms(2) m v by (auto simp: KUBE_DNS_def NS_LABEL_def)
  have "(NS_LABEL, YStr ''kube-system'') \<in> set ps" "(''k8s:k8s-app'', YStr ''kube-dns'') \<in> set ps"
    using lookup [of NS_LABEL] lookup [of "''k8s:k8s-app''"] by (auto simp: NS_LABEL_def)
  moreover have "mall (label_pair_holds norm_str (enc_labels dst)) ps = Some True"
    using assms(3) v m ps by (cases "ps = []") (auto simp: selects_def py_or_def)
  ultimately have "label_pair_holds norm_str (enc_labels dst) (NS_LABEL, YStr ''kube-system'') = Some True"
    "label_pair_holds norm_str (enc_labels dst) (''k8s:k8s-app'', YStr ''kube-dns'') = Some True"
    by (auto simp: mall_True_iff)
  then show ?thesis by (auto simp: label_pair_holds_def norm_str_k8s split: option.splits)
qed

lemma dns_port_53: "dns_port pp = Some True \<Longrightarrow> \<exists>q. dget pp ''port'' = Some q \<and> py_str q = ''53''"
  by (auto simp: dns_port_def bind_eq_Some_conv split: if_splits)

lemma dns_only_port:
  assumes "dns_only e = Some True" "port_ok e (YInt (int p)) = Some True"
  shows "p = 53"
proof -
  from assms(1) obtain ports where ports: "item_ports e = Some ports" "ports \<noteq> []" "mall dns_port ports = Some True"
    by (auto simp: dns_only_def bind_eq_Some_conv split: if_splits)
  from ports(1) obtain tv tps where tv: "dget e ''toPorts'' = Some tv" and tps: "py_iter (py_or tv (YList [])) = Some tps"
    and col: "collect (\<lambda>tp. get_list tp ''ports'') tps = Some ports"
    by (auto simp: item_ports_def get_list_def bind_eq_Some_conv)
  have "truthy tv" using ports(2) tps col by (auto simp: py_or_def split: if_splits)
  with assms(2) tv tps have "many (\<lambda>tp. do { ps \<leftarrow> get_list tp ''ports'';
      many (\<lambda>pp. do { q \<leftarrow> dget pp ''port''; Some (py_str q = nat_dec p) }) ps }) tps = Some True"
    by (simp add: port_ok_def py_or_def py_str_YInt_nat)
  from many_TrueD [OF this] obtain tp ps where "tp \<in> set tps" "get_list tp ''ports'' = Some ps"
    and "many (\<lambda>pp. do { q \<leftarrow> dget pp ''port''; Some (py_str q = nat_dec p) }) ps = Some True"
    by (auto simp: bind_eq_Some_conv)
  then obtain pp q where "pp \<in> set ps" "dget pp ''port'' = Some q" "py_str q = nat_dec p"
    by (auto simp: bind_eq_Some_conv dest!: many_TrueD)
  moreover have "pp \<in> set ports"
    using collect_SomeD [OF col \<open>tp \<in> set tps\<close>] \<open>get_list tp ''ports'' = Some ps\<close> \<open>pp \<in> set ps\<close> by auto
  ultimately have "nat_dec p = ''53''"
    using ports(3) dns_port_53 by (fastforce simp: mall_True_iff)
  then show ?thesis by (simp add: nat_dec_53)
qed

lemma dns_only_no_entities:
  assumes "dns_only e = Some True"
  shows "meets_entities ents e ''toEntities'' = Some False"
proof -
  from assms have "is_dict e" by (auto simp: dns_only_def bind_eq_Some_conv split: if_splits dest: get_list_Some_dict)
  then obtain m where e: "e = YMap m" by (cases e) auto
  with assms have "YStr ''toEntities'' \<notin> (\<lambda>x. YStr (fst x)) ` set m"
    by (auto simp: dns_only_def split: if_splits)
  then have "map_of m ''toEntities'' = None" by (force simp: map_of_eq_None_iff)
  with e show ?thesis by (simp add: meets_entities_def)
qed

text \<open>The parts of a clusterwide policy that covers a namespace.\<close>

lemma covers_clusterwide:
  assumes "covers d = Some (Some n)" "dget d ''kind'' = Some (YStr ''CiliumClusterwideNetworkPolicy'')"
    and "get_or_dict d ''spec'' = Some spec"
  obtains ing egr where "sole_namespace spec = Some n" "truthy n"
    "get_list spec ''ingress'' = Some ing" "\<forall>r \<in> set ing. r = YMap []"
    "get_list spec ''egress'' = Some egr" "\<forall>e \<in> set egr. dns_only e = Some True"
  using assms
  by (auto simp: covers_def bind_eq_Some_conv list_ex_iff mall_True_iff split: if_splits)

lemma sole_namespace_selector:
  assumes "sole_namespace spec = Some n" "truthy n" "wf_yaml spec"
  shows "get_or_dict spec ''endpointSelector'' = Some (YMap [(''matchLabels'', YMap [(NS_LABEL, n)])])"
proof -
  from assms obtain sel ml where sel: "get_or_dict spec ''endpointSelector'' = Some (YMap sel)"
    and ml: "get_or_dict (YMap sel) ''matchLabels'' = Some (YMap ml)"
    and ks: "(\<lambda>e. YStr (fst e)) ` set sel = {YStr ''matchLabels''}" "(\<lambda>e. YStr (fst e)) ` set ml = {YStr NS_LABEL}"
    and n: "dget (YMap ml) NS_LABEL = Some n"
    by (auto simp: sole_namespace_def bind_eq_Some_conv dget_Some_iff get_or_dict_def split: if_splits)
  have wf: "wf_yaml (YMap sel)" using wf_yaml_get_or_dict [OF assms(3) sel] .
  have one: "\<exists>v. xs = [(k, v)]" if "distinct (map fst xs)" "(\<lambda>e. YStr (fst e)) ` set xs = {YStr k}" for xs :: dict and k
  proof -
    from that(2) have keys: "\<forall>e \<in> set xs. fst e = k" and "xs \<noteq> []" by (auto simp: set_eq_iff image_iff)
    then obtain e es where xs: "xs = e # es" by (cases xs) auto
    with keys that(1) have "es = []" by (cases es) auto
    with xs keys show ?thesis by (cases e) auto
  qed
  obtain v where s: "sel = [(''matchLabels'', v)]" using one [OF _ ks(1)] wf by auto
  then have v: "v = YMap ml" using ml ks(2) by (cases v) (auto simp: py_or_def split: if_splits)
  obtain w where "ml = [(NS_LABEL, w)]" using one [OF _ ks(2)] wf s v by auto
  with n s v sel show ?thesis by simp
qed

lemma sole_namespace_selects:
  assumes "sole_namespace spec = Some n" "truthy n" "wf_yaml spec"
  shows "rule_selects spec YNull (enc_labels ep) = Some (map_option YStr (map_of ep NS_KEY) = Some n)"
proof -
  have "py_eq (case map_of ep NS_KEY of None \<Rightarrow> YNull | Some v \<Rightarrow> YStr v) n
      \<longleftrightarrow> map_option YStr (map_of ep NS_KEY) = Some n"
    using assms(2) by (auto split: option.splits)
  then show ?thesis
    by (simp add: rule_selects_def sole_namespace_selector [OF assms] peer_selects_def selects_def
        label_pair_holds_def norm_str_k8s)
qed

lemma empty_items_admit_nothing:
  assumes "get_list spec dir = Some is" "\<forall>i \<in> set is. i = YMap []"
  shows "flow_allowed dir ents peers spec ns ep port = Some False"
  using assms by (auto simp: flow_allowed_def port_ok_def meets_entities_def many_False_iff)

lemma dns_items_reach_dns:
  assumes "get_list spec ''egress'' = Some egr" "\<forall>e \<in> set egr. dns_only e = Some True" "wf_yaml spec"
    and "egress_reaches spec YNull (enc_labels dst) (YInt (int p)) = Some True"
  shows "p = 53 \<and> map_of dst NS_KEY = Some ''kube-system'' \<and> map_of dst ''k8s-app'' = Some ''kube-dns''"
proof -
  let ?item = "\<lambda>i. do {
       ok \<leftarrow> port_ok i (YInt (int p));
       if \<not> ok then Some False
       else do {
         m \<leftarrow> meets_entities POD_ENTITIES i ''toEntities'';
         if m then Some True
         else do { ss \<leftarrow> get_list i ''toEndpoints''; many (\<lambda>s. peer_selects s YNull (enc_labels dst)) ss }
       }
     }"
  have "many ?item egr = Some True"
    using assms(1,4) by (simp add: egress_reaches_def flow_allowed_def)
  from many_TrueD [OF this] obtain e where e: "e \<in> set egr" and it: "?item e = Some True" by blast
  from e assms(2) have dns: "dns_only e = Some True" by blast
  from it dns have ok: "port_ok e (YInt (int p)) = Some True"
    by (auto simp: bind_eq_Some_conv split: if_splits)
  from it dns obtain ss where ss: "get_list e ''toEndpoints'' = Some ss"
    and "many (\<lambda>s. peer_selects s YNull (enc_labels dst)) ss = Some True"
    by (auto simp: bind_eq_Some_conv dns_only_no_entities split: if_splits)
  from many_TrueD [OF this(2)] obtain s where s: "s \<in> set ss" "selects s (enc_labels dst) = Some True"
    by (auto simp: peer_selects_def)
  from dns ss s(1) have "py_eq s (YMap [(''matchLabels'', KUBE_DNS)])"
    by (auto simp: dns_only_def bind_eq_Some_conv list_ex_iff split: if_splits)
  moreover have "wf_yaml s"
    using assms(1,3) e ss s(1) by (blast intro: wf_yaml_get_list)
  ultimately show ?thesis using kube_dns_peer s(2) dns_only_port [OF dns ok] by blast
qed


definition deny_spec :: yaml where
  "deny_spec = YMap
     [(''endpointSelector'', YMap [(''matchLabels'', YMap [(NS_LABEL, YStr ''gibson'')])]),
      (''enableDefaultDeny'', YMap [(''ingress'', YBool True), (''egress'', YBool True)]),
      (''egress'', YList [YMap [(''toEndpoints'', YList [YMap [(''matchLabels'', KUBE_DNS)]]),
         (''toPorts'', YList [YMap [(''ports'', YList [YMap [(''port'', YStr ''53''), (''protocol'', YStr ''UDP'')]])]])]])]"

definition deny_doc :: doc where
  "deny_doc = YMap [(''kind'', YStr ''CiliumClusterwideNetworkPolicy''),
     (''metadata'', YMap [(''name'', YStr ''default-deny'')]), (''spec'', deny_spec)]"

lemmas deny_doc_simps = deny_doc_def deny_spec_def KUBE_DNS_def NS_LABEL_def

lemma deny_doc_covers: "covers deny_doc = Some (Some (YStr ''gibson''))"
  by code_simp

lemma deny_doc_wf: "wf_yaml deny_doc"
  by code_simp


text \<open>The namespace guard is exact: whatever the exemptions, the namespaces it reports are
  those that the render creates or puts pods into, that no document of the render covers with a
  default deny, and that have no exemption.\<close>

theorem judge_nsp_exact:
  assumes "judge_nsp docs exempt = Some (bad, used)"
  shows "set bad = {n. (\<exists>d \<in> set docs. is_dict d \<and> lives_in d n)
      \<and> \<not> (\<exists>d \<in> set docs. is_dict d \<and> covers d = Some (Some n)) \<and> n \<notin> YStr ` set exempt}"
  using judge_nsp_bad [OF assms] by blast

definition open_doc :: doc where
  "open_doc = YMap [(''kind'', YStr ''Deployment''),
     (''metadata'', YMap [(''name'', YStr ''web''), (''namespace'', YStr ''demo'')])]"

lemma judge_nsp_exact_witness:
  "judge_nsp [deny_doc, open_doc] [''other''] = Some ([YStr ''demo''], [])
   \<and> lives_in open_doc (YStr ''demo'')"
proof -
  have j: "judge_nsp [deny_doc, open_doc] [''other''] = Some ([YStr ''demo''], [])" by code_simp
  from judge_nsp_exact [OF j] have "YStr ''demo'' \<in> {n. \<exists>d \<in> set [deny_doc, open_doc]. lives_in d n}" by auto
  moreover have "\<not> lives_in deny_doc (YStr ''demo'')"
    by (auto simp: lives_in.simps deny_doc_simps POD_KINDS_def)
  ultimately show ?thesis using j by auto
qed

end
