(* ===== verification/NetworkPeers.thy ===== *)
theory NetworkPeers
  imports NamespacePolicy
begin

text \<open>
  \<^verbatim>\<open>src/scripts/check-network-peers.py\<close>: an ingress peer of a Cilium policy names its namespace,
  an egress rule to the outside opens a fixed port, and no host of it reaches every S3 bucket.
  The theory models the whole script and proves what a passing render promises, the namespace
  part against the Cilium evaluator.
\<close>

definition NS_LABELS :: string where
  "NS_LABELS = ''io.cilium.k8s.namespace.labels.''"

definition S3_ANY :: "string list" where
  "S3_ANY = [''s3.amazonaws.com'', ''*.s3.amazonaws.com'', ''s3.*.amazonaws.com'', ''*.s3.*.amazonaws.com'']"

text \<open>\<^verbatim>\<open>k.startswith(NS_LABELS)\<close> on a normalised key: AttributeError unless it is a string.\<close>

definition key_startswith :: "string \<Rightarrow> yaml \<Rightarrow> bool option" where
  "key_startswith p k = (case k of YStr s \<Rightarrow> Some (startswith s p) | _ \<Rightarrow> None)"

definition any_namespace :: "yaml \<Rightarrow> bool \<Rightarrow> bool option" where
  "any_namespace peer clusterwide = do {
     ml \<leftarrow> get_or_dict peer ''matchLabels'';
     mk \<leftarrow> py_iter ml;
     keys \<leftarrow> mmap norm mk;
     es \<leftarrow> get_list peer ''matchExpressions'';
     exprs \<leftarrow> mmap (\<lambda>e. do { k \<leftarrow> dget_default e ''key'' (YStr []); norm k }) es;
     exists \<leftarrow> many (\<lambda>e. do {
       k0 \<leftarrow> dget_default e ''key'' (YStr []);
       k \<leftarrow> norm k0;
       if k = YStr NS_KEY then do { op \<leftarrow> dget e ''operator''; Some (op = YStr ''Exists'') } else Some False
     }) es;
     names_ns \<leftarrow> (if YStr NS_KEY \<in> set keys then Some True else many (key_startswith NS_LABELS) (keys @ exprs));
     let wide = (if \<not> exists \<or> YStr NS_KEY \<in> set keys then Some False else mnot (many (key_startswith NS_LABELS) keys));
     if clusterwide then (if \<not> names_ns then Some True else wide) else wide
   }"

definition any_bucket :: "yaml \<Rightarrow> bool option" where
  "any_bucket host = do {
     known \<leftarrow> in_strset host S3_ANY;
     if known \<or> host = YStr ''*'' then Some True
     else (case host of
         YStr h \<Rightarrow>
           (let parts = split_all (CHR ''.'') h in
            if drop (length parts - 2) parts \<noteq> [''amazonaws'', ''com''] then Some False
            else (let first = fst (split_once (CHR ''.'') h) in
                  Some (CHR ''*'' \<in> set first \<or> first = ''s3'')))
       | _ \<Rightarrow> None)
   }"

text \<open>One exemption per line: policy, label, reason, at most two splits at a blank.\<close>

definition load_exempt_peers :: "string list \<Rightarrow> ((string \<times> string) \<times> string) list" where
  "load_exempt_peers lines = fold (\<lambda>line out.
     let l = strip (fst (split_once (CHR ''#'') line)) in
     if l = [] then out
     else (case split_once (CHR '' '') l of
             (policy, None) \<Rightarrow> AList.update (policy, []) [] out
           | (policy, Some r) \<Rightarrow> (case split_once (CHR '' '') r of
               (label, None) \<Rightarrow> AList.update (policy, label) [] out
             | (label, Some reason) \<Rightarrow> AList.update (policy, label) reason out))) lines []"

datatype peer_finding =
    AnyNamespacePeer yaml yaml
  | NoFixedPort yaml yaml
  | NamesNoHost yaml yaml
  | AnyBucket yaml yaml
  | StalePeerExemption string string string
  | BlindPeers

text \<open>One ingress peer: a finding, or the exemptions it uses.\<close>

definition judge_peer ::
  "(string \<times> string) list \<Rightarrow> yaml \<Rightarrow> bool \<Rightarrow> yaml \<Rightarrow> (peer_finding + string \<times> string) list option" where
  "judge_peer exempt name clusterwide peer = do {
     wide \<leftarrow> any_namespace peer clusterwide;
     if \<not> wide then Some []
     else do {
       hit \<leftarrow> mfilter (\<lambda>k. if YStr (fst k) \<noteq> name then Some False
          else do {
            ml \<leftarrow> get_or_dict peer ''matchLabels'';
            ps \<leftarrow> items ml;
            Some (snd k \<in> set (map (\<lambda>(kk, vv). kk @ ''='' @ py_str vv) ps))
          }) exempt;
       if hit \<noteq> [] then Some (map Inr hit)
       else do { ml \<leftarrow> dget peer ''matchLabels''; Some [Inl (AnyNamespacePeer name ml)] }
     }
   }"

text \<open>\<^verbatim>\<open>e.get("toFQDNs") or e.get("toCIDR") or e.get("toCIDRSet")\<close>.\<close>

definition outside_peers :: "yaml \<Rightarrow> yaml option" where
  "outside_peers e = do {
     f \<leftarrow> dget e ''toFQDNs''; c \<leftarrow> dget e ''toCIDR''; s \<leftarrow> dget e ''toCIDRSet'';
     Some (py_or f (py_or c s))
   }"

definition open_port :: "yaml \<Rightarrow> bool option" where
  "open_port p = do {
     q \<leftarrow> dget p ''port'';
     if \<not> truthy q \<or> py_str q = ''0'' then Some True
     else do { e \<leftarrow> dget p ''endPort''; Some (truthy e) }
   }"

definition judge_fqdn :: "yaml \<Rightarrow> yaml \<Rightarrow> peer_finding list option" where
  "judge_fqdn name f = do {
     n \<leftarrow> dget f ''matchName'';
     p \<leftarrow> dget f ''matchPattern'';
     let host = py_or (py_or n p) (YStr []);
     if \<not> truthy host then Some [NamesNoHost name f]
     else do { b \<leftarrow> any_bucket host; Some (if b then [AnyBucket name host] else []) }
   }"

definition judge_egress :: "yaml \<Rightarrow> yaml \<Rightarrow> peer_finding list option" where
  "judge_egress name e = do {
     outside \<leftarrow> outside_peers e;
     if \<not> truthy outside then Some []
     else do {
       ports \<leftarrow> item_ports e;
       opn \<leftarrow> (if ports = [] then Some True else many open_port ports);
       fs \<leftarrow> get_list e ''toFQDNs'';
       hosts \<leftarrow> collect (judge_fqdn name) fs;
       Some ((if opn then [NoFixedPort name outside] else []) @ hosts)
     }
   }"

definition judge_rule ::
  "(string \<times> string) list \<Rightarrow> yaml \<Rightarrow> bool \<Rightarrow> yaml \<Rightarrow> (peer_finding + string \<times> string) list option" where
  "judge_rule exempt name clusterwide r = do {
     ing \<leftarrow> get_list r ''ingress'';
     a \<leftarrow> collect (\<lambda>i. do { ps \<leftarrow> get_list i ''fromEndpoints''; collect (judge_peer exempt name clusterwide) ps }) ing;
     egr \<leftarrow> get_list r ''egress'';
     b \<leftarrow> collect (judge_egress name) egr;
     Some (a @ map Inl b)
   }"

definition peers_doc :: "(string \<times> string) list \<Rightarrow> doc \<Rightarrow> (peer_finding + string \<times> string) list option" where
  "peers_doc exempt d =
     (if \<not> is_dict d then Some []
      else do {
        kind \<leftarrow> dget d ''kind'';
        if \<not> in_strtuple kind CILIUM_KINDS then Some []
        else do {
          name \<leftarrow> meta_name d;
          rs \<leftarrow> spec_rules d;
          collect (judge_rule exempt name (kind = YStr ''CiliumClusterwideNetworkPolicy'')) rs
        }
      })"

text \<open>The findings, and the exemptions used, in the order of the documents.\<close>

definition judge_peers_events :: "(string \<times> string) list \<Rightarrow> doc list \<Rightarrow> (peer_finding + string \<times> string) list option" where
  "judge_peers_events exempt docs = collect (peers_doc exempt) docs"

definition lefts :: "('a + 'b) list \<Rightarrow> 'a list" where
  "lefts xs = map projl (filter isl xs)"

definition rights :: "('a + 'b) list \<Rightarrow> 'b list" where
  "rights xs = map projr (filter (\<lambda>x. \<not> isl x) xs)"

definition judge_peers :: "(string \<times> string) list \<Rightarrow> doc list \<Rightarrow> (peer_finding list \<times> (string \<times> string) list) option" where
  "judge_peers exempt docs = do { evs \<leftarrow> judge_peers_events exempt docs; Some (lefts evs, mk_set (rights evs)) }"

definition kind_in :: "string list \<Rightarrow> doc \<Rightarrow> bool option" where
  "kind_in ks d = do { k \<leftarrow> dget d ''kind''; Some (in_strtuple k ks) }"

definition has_fqdn_rule :: "doc list \<Rightarrow> bool option" where
  "has_fqdn_rule docs = many (\<lambda>d.
     if \<not> is_dict d then Some False
     else do {
       p \<leftarrow> kind_in CILIUM_KINDS d;
       if \<not> p then Some False
       else do {
         rs \<leftarrow> spec_rules d;
         many (\<lambda>r. do { es \<leftarrow> get_list r ''egress''; many (\<lambda>e. do { f \<leftarrow> dget e ''toFQDNs''; Some (truthy f) }) es }) rs
       }
     }) docs"

definition audit_peers ::
  "((string \<times> string) \<times> string) list \<Rightarrow> (string \<times> doc list) list
     \<Rightarrow> ((string \<times> peer_finding) list \<times> nat) option" where
  "audit_peers exempt files = do {
     rs \<leftarrow> mmap (\<lambda>(f, docs0). do {
       let docs = filter is_dict docs0;
       any_pol \<leftarrow> many (kind_in CILIUM_KINDS) docs;
       if \<not> any_pol then Some ([], [], 0)
       else do { (bad, used) \<leftarrow> judge_peers (map fst exempt) docs; Some (map (Pair f) bad, used, 1::nat) }
     }) files;
     let used = concat (map (\<lambda>(_, u, _). u) rs);
     let seen = sum_list (map (\<lambda>(_, _, n). n) rs);
     fqdn \<leftarrow> many (\<lambda>(f, docs). has_fqdn_rule docs) files;
     Some (concat (map fst rs)
           @ map (\<lambda>k. ([], StalePeerExemption (fst k) (snd k) (dict_get exempt k [])))
               (filter (\<lambda>k. k \<notin> set used) (map fst exempt))
           @ (if fqdn then [] else [([], BlindPeers)]), seen)
   }"

definition main_peers :: "((string \<times> string) \<times> string) list \<Rightarrow> (string \<times> doc list) list \<Rightarrow> int option" where
  "main_peers exempt files = do { (bad, seen) \<leftarrow> audit_peers exempt files; Some (if bad \<noteq> [] then 1 else 0) }"

text \<open>The selftest, with its fixtures. The reason of an exemption plays no part in \<^verbatim>\<open>judge\<close>.\<close>

definition st_cnp :: "yaml list \<Rightarrow> yaml list \<Rightarrow> doc" where
  "st_cnp ingress egress = YMap [(''kind'', YStr ''CiliumNetworkPolicy''), (''metadata'', YMap [(''name'', YStr ''p'')]),
     (''spec'', YMap [(''endpointSelector'', YMap []), (''ingress'', YList ingress), (''egress'', YList egress)])]"

definition st_https :: yaml where
  "st_https = YList [YMap [(''ports'', YList [YMap [(''port'', YStr ''443''), (''protocol'', YStr ''TCP'')]])]]"

definition st_from :: "dict \<Rightarrow> yaml list" where
  "st_from peer = [YMap [(''fromEndpoints'', YList [YMap peer])]]"

definition st_exists_ns :: "string \<times> yaml" where
  "st_exists_ns = (''matchExpressions'', YList [YMap [(''key'', YStr (''k8s:'' @ NS_KEY)), (''operator'', YStr ''Exists'')]])"

definition st_to :: "dict \<Rightarrow> yaml \<Rightarrow> yaml list" where
  "st_to host ports = [YMap [(''toFQDNs'', YList [YMap host]), (''toPorts'', ports)]]"

definition st_good_peers :: "doc list" where
  "st_good_peers = [
     st_cnp (st_from [(''matchLabels'', YMap [(''k8s:io.kubernetes.pod.namespace'', YStr ''cnpg-system''),
                                           (''app.kubernetes.io/name'', YStr ''cloudnative-pg'')])]) [],
     st_cnp (st_from [(''matchLabels'', YMap [(''k8s:'' @ NS_LABELS @ ''team'', YStr ''a''), (''app'', YStr ''x'')]), st_exists_ns]) [],
     st_cnp [] (st_to [(''matchName'', YStr ''bucket.s3.amazonaws.com'')] st_https)]"

definition st_failing_peers :: "doc list" where
  "st_failing_peers = [
     st_cnp (st_from [(''matchLabels'', YMap [(''app.kubernetes.io/name'', YStr ''cloudnative-pg'')]), st_exists_ns]) [],
     st_cnp [] [YMap [(''toFQDNs'', YList [YMap [(''matchName'', YStr ''api.example.com'')]])]],
     st_cnp [] (st_to [(''matchName'', YStr ''api.example.com'')] (YList [YMap [(''ports'', YList [YMap
        [(''port'', YStr ''1''), (''endPort'', YInt 65535), (''protocol'', YStr ''TCP'')]])]])),
     st_cnp [] [YMap [(''toCIDR'', YList [YStr ''10.0.0.1/32''])]],
     st_cnp [] (st_to [(''matchPattern'', YStr ''*.s3.amazonaws.com'')] st_https),
     st_cnp [] (st_to [(''matchPattern'', YStr ''*.s3.us-east-1.amazonaws.com'')] st_https),
     st_cnp [] (st_to [(''matchName'', YStr ''s3.us-east-1.amazonaws.com'')] st_https),
     st_cnp [] (st_to [(''matchPattern'', YStr ''*'')] st_https),
     st_cnp [] (st_to [] st_https),
     with_key ''kind'' (YStr ''CiliumClusterwideNetworkPolicy'') (st_cnp (st_from [(''matchLabels'', YMap [(''app'', YStr ''x'')])]) [])]"

definition selftest_peers :: "int option" where
  "selftest_peers = do {
     (good, _) \<leftarrow> judge_peers [] st_good_peers;
     if good \<noteq> [] then Some 1 else do {
     (ex, _) \<leftarrow> judge_peers [(''p'', ''app.kubernetes.io/name=cloudnative-pg'')] [hd st_failing_peers];
     if ex \<noteq> [] then Some 1 else do {
     (_, used) \<leftarrow> judge_peers [(''p'', ''app=gone'')] [hd st_good_peers];
     if used \<noteq> [] then Some 1 else do {
     bad \<leftarrow> many (\<lambda>d. do { (fs, _) \<leftarrow> judge_peers [] [d]; Some (length fs \<noteq> 1) }) st_failing_peers;
     Some (if bad then 1 else 0)
     } } }
   }"

lemma selftest_peers_passes: "selftest_peers = Some 0"
  by code_simp

section \<open>Lemmas\<close>

interpretation peers: local_guard "judge_peers_events exempt" "peers_doc exempt"
  by unfold_locales (simp add: judge_peers_events_def)

lemma mmap_norm_enc: "mmap norm (map (\<lambda>x. YStr (f x)) xs) = Some (map (\<lambda>x. YStr (norm_str (f x))) xs)"
  by simp

text \<open>The typed meaning of a peer of a namespaced policy: it names its namespace or leaves it to
  the policy.\<close>

definition exists_ns :: "selector \<Rightarrow> bool" where
  "exists_ns s \<longleftrightarrow> (\<exists>(k, op, vs) \<in> set (match_exprs s). norm_str k = NS_KEY \<and> op = OpExists)"

definition labels_ns :: "selector \<Rightarrow> bool" where
  "labels_ns s \<longleftrightarrow> (\<exists>(k, v) \<in> set (match_labels s). norm_str k = NS_KEY \<or> startswith (norm_str k) NS_LABELS)"

lemma any_namespace_enc:
  "any_namespace (enc_selector s) False = Some (exists_ns s \<and> \<not> labels_ns s)"
proof -
  have keys: "py_iter (enc_labels ls) = Some (map (\<lambda>x. YStr (fst x)) ls)" for ls
    by (simp add: enc_labels_def case_prod_beta comp_def)
  have exprs: "mmap (\<lambda>x. do { k \<leftarrow> dget_default (enc_expr x) ''key'' (YStr []); norm k }) es
      = Some (map (\<lambda>x. YStr (norm_str (fst x))) es)" for es
    by (induction es) (auto simp: enc_expr_def)
  have ex: "many (\<lambda>x. do {
       k0 \<leftarrow> dget_default (enc_expr x) ''key'' (YStr []);
       k \<leftarrow> norm k0;
       if k = YStr NS_KEY then do { op \<leftarrow> dget (enc_expr x) ''operator''; Some (op = YStr ''Exists'') } else Some False
     }) (match_exprs s) = Some (exists_ns s)"
  proof -
    have "enc_op op = YStr ''Exists'' \<longleftrightarrow> op = OpExists" for op by (cases op) auto
    then have "do {
       k0 \<leftarrow> dget_default (enc_expr x) ''key'' (YStr []);
       k \<leftarrow> norm k0;
       if k = YStr NS_KEY then do { op \<leftarrow> dget (enc_expr x) ''operator''; Some (op = YStr ''Exists'') } else Some False
     } = Some (norm_str (fst x) = NS_KEY \<and> fst (snd x) = OpExists)" for x
      by (cases x) (auto simp: enc_expr_def)
    then show ?thesis by (simp add: exists_ns_def list_ex_iff case_prod_beta)
  qed
  have st: "many (key_startswith NS_LABELS) (map (\<lambda>x. YStr (norm_str (f x))) xs)
      = Some (\<exists>x \<in> set xs. startswith (norm_str (f x)) NS_LABELS)" for f and xs :: "'a list"
    by (simp add: key_startswith_def list_ex_iff)
  show ?thesis
    by (simp add: any_namespace_def keys exprs ex st [unfolded many_map] Let_def if_Some_Some
        labels_ns_def case_prod_beta image_iff cong: if_cong)
       (auto split: if_splits intro: rev_bexI)
qed

lemma lefts_Nil_iff: "lefts evs = [] \<longleftrightarrow> (\<forall>x \<in> set evs. \<not> isl x)"
  by (auto simp: lefts_def filter_empty_conv)

text \<open>What a rule to the outside promises when the guard passes.\<close>

definition fixed_port :: "yaml \<Rightarrow> bool" where
  "fixed_port p \<longleftrightarrow> (\<exists>q e. dget p ''port'' = Some q \<and> truthy q \<and> py_str q \<noteq> ''0''
                       \<and> dget p ''endPort'' = Some e \<and> \<not> truthy e)"

definition narrow_host :: "yaml \<Rightarrow> bool" where
  "narrow_host f \<longleftrightarrow> (\<exists>n p. dget f ''matchName'' = Some n \<and> dget f ''matchPattern'' = Some p
      \<and> truthy (py_or n p) \<and> any_bucket (py_or n p) = Some False)"

lemma judge_fqdn_passes: "judge_fqdn name f = Some [] \<Longrightarrow> narrow_host f"
  by (auto simp: judge_fqdn_def bind_eq_Some_conv Let_def py_or_def narrow_host_def split: if_splits)

lemma many_open_port_False: "many open_port ports = Some False \<Longrightarrow> p \<in> set ports \<Longrightarrow> fixed_port p"
  by (fastforce simp: many_False_iff open_port_def fixed_port_def bind_eq_Some_conv split: if_splits)

lemma judge_egress_passes:
  assumes "judge_egress name e = Some []" "outside_peers e = Some out" "truthy out"
  shows "\<exists>ports fs. item_ports e = Some ports \<and> ports \<noteq> [] \<and> (\<forall>p \<in> set ports. fixed_port p)
      \<and> get_list e ''toFQDNs'' = Some fs \<and> (\<forall>f \<in> set fs. narrow_host f)"
proof -
  from assms obtain ports fs where ports: "item_ports e = Some ports" "ports \<noteq> []" "many open_port ports = Some False"
    and fs: "get_list e ''toFQDNs'' = Some fs" "collect (judge_fqdn name) fs = Some []"
    by (auto simp: judge_egress_def bind_eq_Some_conv split: if_splits)
  then show ?thesis
    using many_open_port_False judge_fqdn_passes by (auto simp: collect_empty_iff)
qed

lemma judge_rule_passes:
  assumes "judge_rule exempt name cw r = Some evs" "\<forall>x \<in> set evs. \<not> isl x" "get_list r ''egress'' = Some egr" "e \<in> set egr"
  shows "judge_egress name e = Some []"
proof -
  from assms(1,3) obtain a b where evs: "evs = a @ map Inl b" and b: "collect (judge_egress name) egr = Some b"
    by (auto simp: judge_rule_def bind_eq_Some_conv)
  from assms(2) evs have "b = []" by (cases b) auto
  with b assms(4) show ?thesis by (simp add: collect_empty_iff)
qed

text \<open>A passing render keeps every way out narrow: in each rule of each Cilium policy, an egress
  item that names outside hosts or CIDRs lists at least one port, every port of it is a fixed
  one (not empty, not 0, no range), and every host it names is named and is not one that
  reaches each S3 bucket.\<close>

theorem judge_peers_outside_narrow:
  assumes "judge_peers exempt docs = Some ([], used)" "d \<in> set docs"
    and "dget d ''kind'' = Some (YStr k)" "k \<in> set CILIUM_KINDS" "spec_rules d = Some rs" "r \<in> set rs"
    and "get_list r ''egress'' = Some egr" "e \<in> set egr" "outside_peers e = Some out" "truthy out"
  shows "\<exists>ports fs. item_ports e = Some ports \<and> ports \<noteq> [] \<and> (\<forall>p \<in> set ports. fixed_port p)
      \<and> get_list e ''toFQDNs'' = Some fs \<and> (\<forall>f \<in> set fs. narrow_host f)"
proof -
  from assms(1) obtain evs where evs: "judge_peers_events exempt docs = Some evs" "\<forall>x \<in> set evs. \<not> isl x"
    by (auto simp: judge_peers_def bind_eq_Some_conv lefts_Nil_iff)
  from collect_SomeD [OF evs(1) [unfolded judge_peers_events_def] assms(2)]
  obtain fd where fd: "peers_doc exempt d = Some fd" "set fd \<subseteq> set evs" by blast
  from assms(3) have dict: "is_dict d" by (cases d) (auto simp: dget_def)
  with fd(1) assms(3-5) obtain name where
    "collect (judge_rule exempt name (k = ''CiliumClusterwideNetworkPolicy'')) rs = Some fd"
    by (auto simp: peers_doc_def bind_eq_Some_conv)
  from collect_SomeD [OF this assms(6)] obtain gs where
    gs: "judge_rule exempt name (k = ''CiliumClusterwideNetworkPolicy'') r = Some gs" "set gs \<subseteq> set fd" by blast
  with fd(2) evs(2) have "\<forall>x \<in> set gs. \<not> isl x" by blast
  from judge_rule_passes [OF gs(1) this assms(7,8)] show ?thesis
    by (rule judge_egress_passes) (use assms(9,10) in auto)
qed

definition fqdn_item :: yaml where
  "fqdn_item = YMap [(''toFQDNs'', YList [YMap [(''matchName'', YStr ''api.example.com'')]]),
     (''toPorts'', YList [YMap [(''ports'', YList [YMap [(''port'', YStr ''443'')]])]])]"

definition fqdn_policy :: doc where
  "fqdn_policy = YMap [(''kind'', YStr ''CiliumNetworkPolicy''), (''metadata'', YMap [(''name'', YStr ''out'')]),
     (''spec'', YMap [(''endpointSelector'', YMap []), (''egress'', YList [fqdn_item])])]"

lemma judge_peers_outside_narrow_witness:
  "\<exists>ports fs. item_ports fqdn_item = Some ports \<and> ports \<noteq> [] \<and> (\<forall>p \<in> set ports. fixed_port p)
      \<and> get_list fqdn_item ''toFQDNs'' = Some fs \<and> (\<forall>f \<in> set fs. narrow_host f)"
proof -
  have j: "judge_peers [] [fqdn_policy] = Some ([], [])" by code_simp
  show ?thesis
    by (rule judge_peers_outside_narrow [OF j, of fqdn_policy "''CiliumNetworkPolicy''"
          "[YMap [(''endpointSelector'', YMap []), (''egress'', YList [fqdn_item])]]"
          "YMap [(''endpointSelector'', YMap []), (''egress'', YList [fqdn_item])]" "[fqdn_item]" fqdn_item
          "YList [YMap [(''matchName'', YStr ''api.example.com'')]]"])
       (simp_all add: fqdn_policy_def spec_rules_def outside_peers_def fqdn_item_def py_or_def CILIUM_KINDS_def)
qed

text \<open>The ways in which a peer can leave the namespace open without the Exists that the guard looks
  for.\<close>

definition negative_ns :: "selector \<Rightarrow> bool" where
  "negative_ns s \<longleftrightarrow> (\<exists>(k, op, vs) \<in> set (match_exprs s). norm_str k = NS_KEY \<and> (op = OpNotIn \<or> op = OpDoesNotExist))"

text \<open>What the namespace test on ingress peers ensures: when a peer of a namespaced policy passes
  it, and puts no negative condition (NotIn, DoesNotExist) on the namespace, then by the
  evaluator a pod it admits is in the namespace of the policy, or in a namespace that the peer
  names by value, or in one that carries a namespace label the peer requires.\<close>

theorem narrow_peer_pins_namespace:
  assumes "any_namespace (enc_selector s) False = Some False" "\<not> negative_ns s"
    and "peer_selects (enc_selector s) (YStr ns) (enc_labels ep) = Some True"
  shows "map_of ep NS_KEY = Some ns
    \<or> (\<exists>(k, v) \<in> set (match_labels s). norm_str k = NS_KEY \<and> map_of ep NS_KEY = Some v)
    \<or> (\<exists>(k, op, vs) \<in> set (match_exprs s). norm_str k = NS_KEY \<and> (\<exists>v \<in> set vs. map_of ep NS_KEY = Some v))
    \<or> (\<exists>(k, v) \<in> set (match_labels s). startswith (norm_str k) NS_LABELS \<and> map_of ep (norm_str k) = Some v)"
proof -
  have m: "names_ns s \<or> map_of ep NS_KEY = Some ns" and sel: "sel_matches norm_str s ep"
    using assms(3) peer_selects_enc [of s "Some ns" ep] by (auto simp: enc_ns_def peer_meaning_def)
  have cases: "\<not> exists_ns s \<or> labels_ns s"
    using assms(1) by (simp add: any_namespace_enc)
  have byname: ?thesis if "names_ns s" "\<not> labels_ns s" "\<not> exists_ns s"
  proof -
    from that(1,2) obtain k op vs where e: "(k, op, vs) \<in> set (match_exprs s)" "norm_str k = NS_KEY"
      by (fastforce simp: names_ns_def labels_ns_def)
    with that(3) assms(2) have "op = OpIn"
      by (cases op) (auto simp: exists_ns_def negative_ns_def)
    with e sel have "\<exists>v \<in> set vs. map_of ep NS_KEY = Some v" by (fastforce simp: sel_matches_def)
    with e show ?thesis by blast
  qed
  have ?thesis if "labels_ns s"
    using that sel by (fastforce simp: labels_ns_def sel_matches_def)
  with m cases byname show ?thesis by blast
qed

lemma narrow_peer_pins_namespace_witness:
  "any_namespace (enc_selector \<lparr>match_labels = [(''k8s:io.kubernetes.pod.namespace'', ''monitoring'')], match_exprs = []\<rparr>) False
     = Some False
   \<and> peer_selects (enc_selector \<lparr>match_labels = [(''k8s:io.kubernetes.pod.namespace'', ''monitoring'')], match_exprs = []\<rparr>)
       (YStr ''gibson'') (enc_labels [(NS_KEY, ''monitoring'')]) = Some True
   \<and> map_of [(NS_KEY, ''monitoring'')] NS_KEY = Some ''monitoring''"
proof -
  let ?s = "\<lparr>match_labels = [(''k8s:io.kubernetes.pod.namespace'', ''monitoring'')], match_exprs = []\<rparr>"
  have a: "any_namespace (enc_selector ?s) False = Some False" by code_simp
  have b: "peer_selects (enc_selector ?s) (YStr ''gibson'') (enc_labels [(NS_KEY, ''monitoring'')]) = Some True"
    by code_simp
  have n: "\<not> negative_ns ?s" by (simp add: negative_ns_def)
  from narrow_peer_pins_namespace [OF a n b] a b show ?thesis by simp
qed



end
