(* ===== verification/EgressPolicyType.thy ===== *)
theory EgressPolicyType
  imports NamespacePolicy
begin

text \<open>
  \<^verbatim>\<open>src/scripts/check-egress-policy-type.py\<close>: the chart renders Cilium policies only, and each of
  their rules selects a pod that the render holds or that an operator creates from it. The
  theory models the whole script, its own copy of the selector evaluation included.
\<close>

definition OTHER_TYPES :: "(string \<times> string) list" where
  "OTHER_TYPES =
     [(''crd.projectcalico.org'', ''NetworkPolicy''), (''crd.projectcalico.org'', ''GlobalNetworkPolicy''),
      (''projectcalico.org'', ''NetworkPolicy''), (''projectcalico.org'', ''GlobalNetworkPolicy''),
      (''networking.istio.io'', ''ServiceEntry''), (''networking.istio.io'', ''Sidecar''),
      (''networking.gke.io'', ''FQDNNetworkPolicy''),
      (''policy.networking.k8s.io'', ''AdminNetworkPolicy'')]"

definition WORKLOADS :: "string list" where
  "WORKLOADS = [''Deployment'', ''StatefulSet'', ''DaemonSet'', ''Job'', ''Pod'']"

text \<open>\<^verbatim>\<open>av.split("/")[0] if "/" in av else ""\<close> of \<^verbatim>\<open>str(d.get("apiVersion", ""))\<close>.\<close>

definition group :: "doc \<Rightarrow> string option" where
  "group d = do {
     v \<leftarrow> dget_default d ''apiVersion'' (YStr []);
     Some (case split_once (CHR ''/'') (py_str v) of (a, None) \<Rightarrow> [] | (a, Some b) \<Rightarrow> a)
   }"

text \<open>\<^verbatim>\<open>matchLabels\<close> first, then the expressions; NotIn asks for the key before the value.\<close>

definition expression_ept :: "yaml \<Rightarrow> yaml \<Rightarrow> bool option" where
  "expression_ept labels e = do {
     k0 \<leftarrow> dget e ''key'';
     k \<leftarrow> norm k0;
     op \<leftarrow> dget e ''operator'';
     vals0 \<leftarrow> dget e ''values'';
     let vals = py_or vals0 (YList []);
     if op = YStr ''NotIn''
     then do {
       has \<leftarrow> py_in k labels;
       if has then do { x \<leftarrow> dget_key labels k; mnot (py_in x vals) } else Some True
     }
     else expression_holds labels k op vals
   }"

definition selects_ept :: "yaml \<Rightarrow> yaml \<Rightarrow> bool option" where
  "selects_ept sel labels = do {
     ml \<leftarrow> get_or_dict sel ''matchLabels'';
     ps \<leftarrow> items ml;
     ok \<leftarrow> mall (label_pair_holds norm_str labels) ps;
     if \<not> ok then Some False
     else do { es \<leftarrow> get_list sel ''matchExpressions''; mall (expression_ept labels) es }
   }"

text \<open>The pod template whose labels count, for the kinds that make pods.\<close>

definition pod_template :: "doc \<Rightarrow> yaml \<Rightarrow> yaml option option" where
  "pod_template d kind = do {
     if kind = YStr ''CronJob'' then do {
       s \<leftarrow> get_or_dict d ''spec''; j \<leftarrow> get_or_dict s ''jobTemplate''; js \<leftarrow> get_or_dict j ''spec'';
       t \<leftarrow> get_or_dict js ''template''; Some (Some t)
     }
     else if kind = YStr ''Pod'' then Some (Some d)
     else if in_strtuple kind WORKLOADS then do {
       s \<leftarrow> get_or_dict d ''spec''; t \<leftarrow> get_or_dict s ''template''; Some (Some t)
     }
     else if kind = YStr ''Cluster'' then do {
       g \<leftarrow> group d;
       if g = ''postgresql.cnpg.io'' then do {
         s \<leftarrow> get_or_dict d ''spec''; i \<leftarrow> get_or_dict s ''inheritedMetadata'';
         Some (Some (YMap [(''metadata'', i)]))
       }
       else Some None
     }
     else Some None
   }"

definition runtime_pods :: "yaml \<Rightarrow> yaml \<Rightarrow> yaml \<Rightarrow> yaml list option" where
  "runtime_pods kind labels ns = do {
     n \<leftarrow> dget labels ''app.kubernetes.io/name'';
     c \<leftarrow> dget labels ''app.kubernetes.io/component'';
     let velero = (if kind = YStr ''Deployment'' \<and> n = YStr ''velero''
       then [YMap [(''velero.io/repo-name'', YStr ''runtime''), (NS_KEY, ns)],
             YMap [(''velero.io/pod-volume-backup'', YStr ''runtime''), (NS_KEY, ns)],
             YMap [(''velero.io/pod-volume-restore'', YStr ''runtime''), (NS_KEY, ns)]] else []);
     let setec = (if kind = YStr ''Deployment'' \<and> n = YStr ''setec'' \<and> c = YStr ''operator''
       then map (\<lambda>job. YMap [(''app.kubernetes.io/name'', YStr ''setec''),
                             (''app.kubernetes.io/component'', YStr job), (NS_KEY, ns)])
              [''disk-builder'', ''image-verify''] else []);
     Some (velero @ setec)
   }"

definition pods_ept :: "doc list \<Rightarrow> yaml list option" where
  "pods_ept docs = collect (\<lambda>d. do {
     kind \<leftarrow> dget d ''kind'';
     t \<leftarrow> pod_template d kind;
     case t of None \<Rightarrow> Some []
     | Some t \<Rightarrow> do {
         m \<leftarrow> get_or_dict t ''metadata'';
         labels \<leftarrow> get_or_dict m ''labels'';
         ns \<leftarrow> meta_ns_or d ''gibson'';
         ep \<leftarrow> endpoint ns labels;
         extra \<leftarrow> runtime_pods kind labels ns;
         Some (ep # extra)
       }
   }) docs"

datatype ept_finding =
    SecondType yaml yaml string
  | KubernetesPolicy yaml
  | SelectsNoPod yaml yaml nat yaml

definition type_findings :: "doc \<Rightarrow> ept_finding list option" where
  "type_findings d = do {
     g \<leftarrow> group d;
     kind \<leftarrow> dget d ''kind'';
     a \<leftarrow> (if \<not> hashable kind then None
          else if (case kind of YStr k \<Rightarrow> (g, k) \<in> set OTHER_TYPES | _ \<Rightarrow> False)
          then do { n \<leftarrow> meta_name d; Some [SecondType kind n g] } else Some []);
     b \<leftarrow> (if kind = YStr ''NetworkPolicy''
          then do {
            ns \<leftarrow> meta_ns_or d ''gibson'';
            if ns = YStr ''gibson'' then do { n \<leftarrow> meta_name d; Some [KubernetesPolicy n] } else Some []
          }
          else Some []);
     Some (a @ b)
   }"

definition rule_selects_pod :: "yaml list \<Rightarrow> yaml \<Rightarrow> yaml \<Rightarrow> bool option" where
  "rule_selects_pod rendered ns sel = many (\<lambda>ep. do {
     here \<leftarrow> (if ns = YNull then Some True else do { n \<leftarrow> item ep NS_KEY; Some (py_eq n ns) });
     if here then selects_ept sel ep else Some False
   }) rendered"

definition policy_findings :: "yaml list \<Rightarrow> doc \<Rightarrow> ept_finding list option" where
  "policy_findings rendered c = do {
     kind \<leftarrow> dget c ''kind'';
     if \<not> in_strtuple kind CILIUM_KINDS then Some []
     else do {
       ns \<leftarrow> (if kind = YStr ''CiliumClusterwideNetworkPolicy'' then Some YNull else meta_ns_or c ''gibson'');
       rs \<leftarrow> spec_rules c;
       collect (\<lambda>(i, r). do {
         sel \<leftarrow> get_or_dict r ''endpointSelector'';
         hit \<leftarrow> rule_selects_pod rendered ns sel;
         if hit then Some [] else do { n \<leftarrow> meta_name c; Some [SelectsNoPod kind n (i + 1) sel] }
       }) (enumerate 0 rs)
     }
   }"

text \<open>\<^verbatim>\<open>sorted(set(bad))\<close>: the findings once each (the order of the printed lines is not modelled).\<close>

definition judge_ept :: "doc list \<Rightarrow> ept_finding list option" where
  "judge_ept docs0 = do {
     let docs = filter is_dict docs0;
     a \<leftarrow> collect type_findings docs;
     rendered \<leftarrow> pods_ept docs;
     b \<leftarrow> collect (policy_findings rendered) docs;
     Some (mk_set (a @ b))
   }"

definition main_ept :: "doc list \<Rightarrow> int option" where
  "main_ept docs = (if docs = [] then Some 1 else do { bad \<leftarrow> judge_ept docs; Some (if bad \<noteq> [] then 1 else 0) })"

text \<open>The selftest, with its fixtures.\<close>

definition ept_obj :: "string \<Rightarrow> string \<Rightarrow> dict \<Rightarrow> dict \<Rightarrow> doc" where
  "ept_obj api kind meta body = YMap ([(''apiVersion'', YStr api), (''kind'', YStr kind), (''metadata'', YMap meta)] @ body)"

definition ept_meta :: "string \<Rightarrow> string \<Rightarrow> dict" where
  "ept_meta name ns = [(''name'', YStr name), (''namespace'', YStr ns)]"

definition ept_deployment :: "string \<Rightarrow> string \<Rightarrow> dict \<Rightarrow> doc" where
  "ept_deployment name ns labels = ept_obj ''apps/v1'' ''Deployment'' (ept_meta name ns)
     [(''spec'', YMap [(''template'', YMap [(''metadata'', YMap [(''labels'', YMap labels)])])])]"

definition ept_cnp :: "string \<Rightarrow> dict \<Rightarrow> doc" where
  "ept_cnp name sel = ept_obj ''cilium.io/v2'' ''CiliumNetworkPolicy'' (ept_meta name ''gibson'')
     [(''specs'', YList [YMap [(''endpointSelector'', YMap sel)]])]"

definition ept_exists :: "string \<Rightarrow> dict" where
  "ept_exists key = [(''matchExpressions'', YList [YMap [(''key'', YStr key), (''operator'', YStr ''Exists'')]])]"

definition ept_ccnp :: "string \<Rightarrow> string \<Rightarrow> doc" where
  "ept_ccnp name ns = ept_obj ''cilium.io/v2'' ''CiliumClusterwideNetworkPolicy'' [(''name'', YStr name)]
     [(''spec'', YMap [(''endpointSelector'', YMap [(''matchLabels'', YMap [(''k8s:'' @ NS_KEY, YStr ns)])])])]"

definition ept_role :: "string \<Rightarrow> dict" where
  "ept_role r = [(''matchLabels'', YMap [(''gibson.zeroroot.ai/net-role'', YStr r)])]"

definition ept_np :: "string \<Rightarrow> doc" where
  "ept_np ns = ept_obj ''networking.k8s.io/v1'' ''NetworkPolicy'' (ept_meta ''np'' ns) [(''spec'', YMap [(''podSelector'', YMap [])])]"

definition selftest_ept :: "int option" where
  "selftest_ept = do {
     let pod = ept_deployment ''a'' ''gibson'' [(''app'', YStr ''a''), (''gibson.zeroroot.ai/net-role'', YStr ''platform'')];
     let ccnp = ept_ccnp ''deny'' ''gibson'';
     let cnp = ept_cnp ''platform'' (ept_role ''platform'');
     let pg = ept_cnp ''datastore-postgres'' [(''matchLabels'', YMap [(''gibson.zeroroot.ai/datastore'', YStr ''postgres'')])];
     let cluster = ept_obj ''postgresql.cnpg.io/v1'' ''Cluster'' (ept_meta ''pg'' ''gibson'')
       [(''spec'', YMap [(''inheritedMetadata'', YMap [(''labels'', YMap [(''gibson.zeroroot.ai/datastore'', YStr ''postgres'')])])])];
     let velero = ept_deployment ''velero'' ''gibson'' [(''app.kubernetes.io/name'', YStr ''velero'')];
     let repo = ept_cnp ''velero'' (ept_exists ''velero.io/repo-name'');
     let setec_op = ept_deployment ''setec'' ''setec-system''
       [(''app.kubernetes.io/name'', YStr ''setec''), (''app.kubernetes.io/component'', YStr ''operator'')];
     let builder = ept_obj ''cilium.io/v2'' ''CiliumNetworkPolicy'' (ept_meta ''setec-disk-builder'' ''setec-system'')
       [(''spec'', YMap [(''endpointSelector'', YMap [(''matchLabels'', YMap [(''app.kubernetes.io/component'', YStr ''disk-builder'')])])])];
     let data_path = (\<lambda>key. ept_cnp ''velero'' (ept_exists key));
     let keys = [''velero.io/pod-volume-backup'', ''velero.io/pod-volume-restore''];
     let se = ept_obj ''networking.istio.io/v1'' ''ServiceEntry'' [(''name'', YStr ''se'')] [];
     let typo = ept_cnp ''typo'' (ept_role ''platfrom'');
     let passing = [[pod, ccnp, cnp], [pod, ccnp, cnp, ept_np ''setec-sandboxes''], [pod, cluster, pg], [setec_op, builder], [velero, repo]]
                   @ map (\<lambda>k. [velero, data_path k]) keys;
     let failing = [[builder]] @ map (\<lambda>k. [data_path k]) keys;
     let single = [[pod, se], [pod, ept_np ''gibson''], [pod, typo], [pod, ept_ccnp ''elsewhere'' ''nowhere''], [pod, repo]];
     a \<leftarrow> many (\<lambda>docs. do { fs \<leftarrow> judge_ept docs; Some (fs \<noteq> []) }) passing;
     b \<leftarrow> many (\<lambda>docs. do { fs \<leftarrow> judge_ept docs; Some (fs = []) }) failing;
     c \<leftarrow> many (\<lambda>docs. do { fs \<leftarrow> judge_ept docs; Some (length fs \<noteq> 1) }) single;
     Some (if a \<or> b \<or> c then 1 else 0)
   }"

lemma selftest_ept_passes: "selftest_ept = Some 0"
  by code_simp

section \<open>Lemmas\<close>

lemma expression_ept_enc [simp]:
  "expression_ept (enc_labels ls) (enc_expr x) = Some (case x of (k, op, vs) \<Rightarrow> expr_meaning ls (norm_str k) op vs)"
proof (cases x)
  case (fields k op vs)
  then show ?thesis
    by (cases op; cases "map_of ls (norm_str k)") (auto simp: expression_ept_def expression_holds_def list_ex_iff)
qed

lemma selects_ept_enc: "selects_ept (enc_selector s) (enc_labels ls) = Some (sel_matches norm_str s ls)"
  by (auto simp: selects_ept_def sel_matches_def list_all_iff)

interpretation ept: label_selector selects_ept norm_str
  by unfold_locales (rule selects_ept_enc)

text \<open>A rule protects something: a pod of the render, in the namespace of the policy (any for a
  clusterwide one), that the rule selects.\<close>

definition selects_some_pod :: "yaml list \<Rightarrow> doc \<Rightarrow> yaml \<Rightarrow> yaml \<Rightarrow> bool" where
  "selects_some_pod rendered d kind sel \<longleftrightarrow> (\<exists>ep \<in> set rendered. selects_ept sel ep = Some True
     \<and> (kind = YStr ''CiliumClusterwideNetworkPolicy''
        \<or> (\<exists>n ns. item ep NS_KEY = Some n \<and> meta_ns_or d ''gibson'' = Some ns \<and> py_eq n ns)))"

lemma rule_selects_pod_True:
  "rule_selects_pod rendered ns sel = Some True \<Longrightarrow>
     \<exists>ep \<in> set rendered. selects_ept sel ep = Some True \<and> (ns = YNull \<or> (\<exists>n. item ep NS_KEY = Some n \<and> py_eq n ns))"
  unfolding rule_selects_pod_def
  by (drule many_TrueD) (auto simp: bind_eq_Some_conv split: if_splits)

lemma meta_ns_or_not_YNull: "meta_ns_or d (c # cs) = Some ns \<Longrightarrow> ns \<noteq> YNull"
  by (auto simp: meta_ns_or_def bind_eq_Some_conv py_or_def split: if_splits)

lemma policy_findings_passes:
  assumes "policy_findings rendered d = Some []" "dget d ''kind'' = Some kind" "in_strtuple kind CILIUM_KINDS"
    and "spec_rules d = Some rs" "r \<in> set rs" "get_or_dict r ''endpointSelector'' = Some sel"
  shows "selects_some_pod rendered d kind sel"
proof -
  let ?ns = "if kind = YStr ''CiliumClusterwideNetworkPolicy'' then Some YNull else meta_ns_or d ''gibson''"
  let ?check = "\<lambda>ns (i, r). do {
       sel \<leftarrow> get_or_dict r ''endpointSelector'';
       hit \<leftarrow> rule_selects_pod rendered ns sel;
       if hit then Some [] else do { n \<leftarrow> meta_name d; Some [SelectsNoPod kind n (i + 1) sel] }
     }"
  have "Option.bind ?ns (\<lambda>ns. collect (?check ns) (enumerate 0 rs)) = Some []"
    using assms(1-4) by (simp add: policy_findings_def)
  then obtain ns where ns: "?ns = Some ns" and c: "collect (?check ns) (enumerate 0 rs) = Some []"
    by (auto simp only: bind_eq_Some_conv)
  from in_set_enumerate_ex [OF assms(5)] obtain i where i: "(i, r) \<in> set (enumerate 0 rs)" by blast
  from bspec [OF iffD1 [OF collect_empty_iff c] i] have "?check ns (i, r) = Some []" .
  with assms(6) have "rule_selects_pod rendered ns sel = Some True"
    by (auto simp: bind_eq_Some_conv split: if_splits)
  then obtain ep where ep: "ep \<in> set rendered" "selects_ept sel ep = Some True"
    "ns = YNull \<or> (\<exists>n. item ep NS_KEY = Some n \<and> py_eq n ns)"
    using rule_selects_pod_True by blast
  show ?thesis
  proof (cases "kind = YStr ''CiliumClusterwideNetworkPolicy''")
    case False
    with ns ep meta_ns_or_not_YNull show ?thesis unfolding selects_some_pod_def by auto
  qed (use ep in \<open>auto simp: selects_some_pod_def\<close>)
qed

text \<open>What a passing render promises of its policies: no document of another policy type, no
  Kubernetes NetworkPolicy in the release namespace, and for every rule of every Cilium policy
  a pod, rendered or made by an operator of the render, that lies in the namespace of the
  policy and that the rule selects.\<close>

theorem judge_ept_passes:
  assumes "judge_ept docs = Some []" "d \<in> set docs" "is_dict d" "dget d ''kind'' = Some kind" "group d = Some g"
  shows "(\<forall>k. kind = YStr k \<longrightarrow> (g, k) \<notin> set OTHER_TYPES)
    \<and> \<not> (kind = YStr ''NetworkPolicy'' \<and> meta_ns_or d ''gibson'' = Some (YStr ''gibson''))
    \<and> (\<forall>rs r sel. in_strtuple kind CILIUM_KINDS \<longrightarrow> spec_rules d = Some rs \<longrightarrow> r \<in> set rs \<longrightarrow>
         get_or_dict r ''endpointSelector'' = Some sel \<longrightarrow>
         (\<exists>rendered. pods_ept (filter is_dict docs) = Some rendered \<and> selects_some_pod rendered d kind sel))"
proof -
  from assms(1) obtain rendered where
    types: "collect type_findings (filter is_dict docs) = Some []"
    and rendered: "pods_ept (filter is_dict docs) = Some rendered"
    and pols: "collect (policy_findings rendered) (filter is_dict docs) = Some []"
    by (auto simp: judge_ept_def bind_eq_Some_conv Let_def)
  from types assms(2,3) have t: "type_findings d = Some []" by (auto simp: collect_empty_iff)
  from pols assms(2,3) have p: "policy_findings rendered d = Some []" by (auto simp: collect_empty_iff)
  have "(\<forall>k. kind = YStr k \<longrightarrow> (g, k) \<notin> set OTHER_TYPES)
    \<and> \<not> (kind = YStr ''NetworkPolicy'' \<and> meta_ns_or d ''gibson'' = Some (YStr ''gibson''))"
    using t assms(4,5) by (auto simp: type_findings_def bind_eq_Some_conv split: if_splits)
  with rendered policy_findings_passes [OF p assms(4)] show ?thesis by blast
qed

definition ept_pod :: doc where
  "ept_pod = YMap [(''apiVersion'', YStr ''apps/v1''), (''kind'', YStr ''Deployment''), (''metadata'', YMap [(''name'', YStr ''web'')]),
     (''spec'', YMap [(''template'', YMap [(''metadata'', YMap [(''labels'', YMap [(''app'', YStr ''web'')])])])])]"

definition ept_policy :: doc where
  "ept_policy = YMap [(''apiVersion'', YStr ''cilium.io/v2''), (''kind'', YStr ''CiliumNetworkPolicy''),
     (''metadata'', YMap [(''name'', YStr ''web'')]),
     (''spec'', YMap [(''endpointSelector'', YMap [(''matchLabels'', YMap [(''k8s:app'', YStr ''web'')])])])]"

lemma judge_ept_passes_witness:
  "judge_ept [ept_pod, ept_policy] = Some []
   \<and> (\<exists>rendered. pods_ept [ept_pod, ept_policy] = Some rendered
        \<and> selects_some_pod rendered ept_policy (YStr ''CiliumNetworkPolicy'') (YMap [(''matchLabels'', YMap [(''k8s:app'', YStr ''web'')])]))"
proof -
  have j: "judge_ept [ept_pod, ept_policy] = Some []" by code_simp
  have g: "group ept_policy = Some ''cilium.io''" by code_simp
  have "is_dict ept_policy" "dget ept_policy ''kind'' = Some (YStr ''CiliumNetworkPolicy'')"
    by (simp_all add: ept_policy_def)
  note app = judge_ept_passes [OF j _ this g]
  have f: "filter is_dict [ept_pod, ept_policy] = [ept_pod, ept_policy]"
    by (simp add: ept_policy_def ept_pod_def)
  have "spec_rules ept_policy = Some [YMap [(''endpointSelector'', YMap [(''matchLabels'', YMap [(''k8s:app'', YStr ''web'')])])]]"
    by (simp add: ept_policy_def spec_rules_def)
  with app have "\<exists>rendered. pods_ept (filter is_dict [ept_pod, ept_policy]) = Some rendered
      \<and> selects_some_pod rendered ept_policy (YStr ''CiliumNetworkPolicy'') (YMap [(''matchLabels'', YMap [(''k8s:app'', YStr ''web'')])])"
    by (simp add: CILIUM_KINDS_def)
  with j f show ?thesis by simp
qed

end
