(* ===== verification/NetpolBeforeHooks.thy ===== *)
theory NetpolBeforeHooks
  imports CiliumPolicy
begin

text \<open>
  \<^verbatim>\<open>src/scripts/check-netpol-before-hooks.py\<close>: a network policy that selects the pods of an Argo
  hook Job is applied in an earlier sync wave than the Job. The theory models the whole script
  and proves the ordering it enforces.
\<close>

text \<open>\<^verbatim>\<open>int(str(...).strip('"'))\<close>, and 0 on a ValueError.\<close>

definition wave :: "doc \<Rightarrow> int option" where
  "wave obj = do {
     m \<leftarrow> get_or_dict obj ''metadata'';
     ann \<leftarrow> get_or_dict m ''annotations'';
     w \<leftarrow> dget_default ann ''argocd.argoproj.io/sync-wave'' (YStr ''0'');
     Some (case py_int (strip_char (CHR 0x22) (py_str w)) of None \<Rightarrow> 0 | Some i \<Rightarrow> i)
   }"

text \<open>The empty selector, the namespace-wide default deny, counts as selecting nothing.\<close>

definition selects_hooks :: "yaml \<Rightarrow> yaml \<Rightarrow> bool option" where
  "selects_hooks sel labels =
     (if \<not> truthy sel then Some False
      else do {
        ml \<leftarrow> get_or_dict sel ''matchLabels'';
        ps \<leftarrow> items ml;
        ok \<leftarrow> mall (label_pair_holds norm_str labels) ps;
        if \<not> ok then Some False
        else do { es \<leftarrow> get_list sel ''matchExpressions''; mall (cilium_expression labels) es }
      })"

definition selectors :: "doc \<Rightarrow> yaml list option" where
  "selectors p = do {
     kind \<leftarrow> dget p ''kind'';
     if kind = YStr ''NetworkPolicy''
     then do { s \<leftarrow> get_or_dict p ''spec''; ps \<leftarrow> get_or_dict s ''podSelector''; Some [ps] }
     else do { rs \<leftarrow> spec_rules p; mmap (\<lambda>r. get_or_dict r ''endpointSelector'') rs }
   }"

datatype hook_finding = LatePolicy string yaml yaml int yaml int

text \<open>The namespace of an object as the script reads it, with no default.\<close>

definition raw_ns :: "doc \<Rightarrow> yaml option" where
  "raw_ns d = do { m \<leftarrow> get_or_dict d ''metadata''; dget m ''namespace'' }"

definition late :: "string \<Rightarrow> doc \<Rightarrow> yaml \<Rightarrow> yaml \<Rightarrow> int \<Rightarrow> doc \<Rightarrow> hook_finding list option" where
  "late path job ns labels jw p = do {
     pns \<leftarrow> raw_ns p;
     if \<not> py_eq pns ns then Some []
     else do {
       ss \<leftarrow> selectors p;
       hit \<leftarrow> many (\<lambda>sel. selects_hooks sel labels) ss;
       if \<not> hit then Some []
       else do {
         pw \<leftarrow> wave p;
         if pw < jw then Some []
         else do {
           k \<leftarrow> item p ''kind''; pn \<leftarrow> meta_name p; jn \<leftarrow> meta_name job;
           Some [LatePolicy path k pn pw jn jw]
         }
       }
     }
   }"

text \<open>The labels of the pods of a Job.\<close>

definition job_labels :: "doc \<Rightarrow> yaml option" where
  "job_labels job = do {
     s \<leftarrow> get_or_dict job ''spec''; t \<leftarrow> get_or_dict s ''template''; m \<leftarrow> get_or_dict t ''metadata'';
     get_or_dict m ''labels''
   }"

definition is_hook :: "doc \<Rightarrow> bool option" where
  "is_hook job = do {
     m \<leftarrow> get_or_dict job ''metadata''; ann \<leftarrow> get_or_dict m ''annotations'';
     py_in (YStr ''argocd.argoproj.io/hook'') ann
   }"

definition judge_job :: "string \<Rightarrow> doc list \<Rightarrow> doc \<Rightarrow> hook_finding list option" where
  "judge_job path pols job = do {
     hook \<leftarrow> is_hook job;
     if \<not> hook then Some []
     else do {
       ns \<leftarrow> raw_ns job;
       labels \<leftarrow> job_labels job;
       jw \<leftarrow> wave job;
       collect (late path job ns labels jw) pols
     }
   }"

definition of_kind :: "string list \<Rightarrow> doc \<Rightarrow> bool option" where
  "of_kind ks d = do { k \<leftarrow> dget d ''kind''; Some (in_strtuple k ks) }"

definition check_file_hooks :: "string \<times> doc list \<Rightarrow> hook_finding list option" where
  "check_file_hooks = (\<lambda>(path, docs0). do {
     let docs = filter is_dict docs0;
     pols \<leftarrow> mfilter (of_kind [''NetworkPolicy'', ''CiliumNetworkPolicy'']) docs;
     jobs \<leftarrow> mfilter (of_kind [''Job'']) docs;
     collect (judge_job path pols) jobs
   })"

text \<open>\<^verbatim>\<open>check\<close> on the golden renders; \<^verbatim>\<open>sorted(set(...))\<close> keeps each problem once.\<close>

definition check_hooks :: "(string \<times> doc list) list \<Rightarrow> hook_finding list option" where
  "check_hooks paths = do { ps \<leftarrow> collect check_file_hooks paths; Some (mk_set ps) }"

definition main_hooks :: "(string \<times> doc list) list \<Rightarrow> int option" where
  "main_hooks paths = do { ps \<leftarrow> check_hooks paths; Some (if ps \<noteq> [] then 1 else 0) }"

text \<open>The selftest, with its fixtures; a fixture is checked alone, as the only file.\<close>

definition hooks_doc :: "string \<Rightarrow> string \<Rightarrow> int option \<Rightarrow> dict \<Rightarrow> dict \<Rightarrow> doc" where
  "hooks_doc kind name wv annos extra = YMap ([(''kind'', YStr kind), (''metadata'', YMap
     [(''name'', YStr name), (''namespace'', YStr ''gibson''),
      (''annotations'', YMap ((case wv of None \<Rightarrow> [] | Some w \<Rightarrow> [(''argocd.argoproj.io/sync-wave'', YStr (int_dec w))]) @ annos))])]
     @ extra)"

definition st_job :: doc where
  "st_job = hooks_doc ''Job'' ''zitadel-postgres-setup'' (Some (- 6)) [(''argocd.argoproj.io/hook'', YStr ''Sync'')]
     [(''spec'', YMap [(''template'', YMap [(''metadata'', YMap [(''labels'', YMap [(''app.kubernetes.io/component'', YStr ''postgres-setup'')])])])])]"

definition st_pol :: "int option \<Rightarrow> string \<Rightarrow> doc" where
  "st_pol w component = hooks_doc ''NetworkPolicy'' ''gibson-bringup-jobs'' w []
     [(''spec'', YMap [(''podSelector'', YMap [(''matchExpressions'', YList [YMap
        [(''key'', YStr ''app.kubernetes.io/component''), (''operator'', YStr ''In''), (''values'', YList [YStr component])]])])])]"

definition st_deny :: doc where
  "st_deny = hooks_doc ''NetworkPolicy'' ''default-deny'' None [] [(''spec'', YMap [(''podSelector'', YMap [])])]"

definition st_cilium :: "int option \<Rightarrow> doc" where
  "st_cilium w = hooks_doc ''CiliumNetworkPolicy'' ''gibson-datastore-postgres'' w []
     [(''specs'', YList
        [YMap [(''endpointSelector'', YMap [(''matchLabels'', YMap [(''gibson.zeroroot.ai/datastore'', YStr ''postgres'')])])],
         YMap [(''endpointSelector'', YMap [(''matchLabels'', YMap [(''k8s:app.kubernetes.io/component'', YStr ''postgres-setup'')])])]])]"

definition selftest_hooks :: "int option" where
  "selftest_hooks = do {
     let cases = [
       (''early_policy'', [st_job, st_pol (Some (- 20)) ''postgres-setup'', st_deny], True),
       (''policy_without_wave'', [st_job, st_pol None ''postgres-setup''], False),
       (''policy_same_wave'', [st_job, st_pol (Some (- 6)) ''postgres-setup''], False),
       (''unrelated_policy'', [st_job, st_pol None ''other''], True),
       (''early_cilium_policy'', [st_job, st_cilium (Some (- 20))], True),
       (''late_cilium_policy'', [st_job, st_cilium None], False)];
     broken \<leftarrow> many (\<lambda>(name, docs, want_ok). do {
       ps \<leftarrow> check_hooks [(name @ ''.yaml'', docs)];
       Some ((ps = []) \<noteq> want_ok)
     }) cases;
     Some (if broken then 2 else 0)
   }"

lemma selftest_hooks_passes: "selftest_hooks = Some 0"
  by code_simp

section \<open>Lemmas\<close>

text \<open>This copy of the evaluator refuses the empty selector and otherwise means what a selector
  means.\<close>

lemma selects_hooks_enc:
  "selects_hooks (enc_selector s) (enc_labels ls) =
     Some ((match_labels s \<noteq> [] \<or> match_exprs s \<noteq> []) \<and> sel_matches norm_str s ls)"
  by (auto simp: selects_hooks_def sel_matches_def list_all_iff truthy_enc_selector)

text \<open>The order a passing render has, for one Job and one policy.\<close>

lemma late_passes:
  assumes "late path job ns labels jw p = Some []" "raw_ns p = Some pns" "py_eq pns ns" "selectors p = Some ss"
    and "many (\<lambda>sel. selects_hooks sel labels) ss \<noteq> Some False"
  shows "\<exists>pw. wave p = Some pw \<and> pw < jw"
  using assms by (auto simp: late_def bind_eq_Some_conv split: if_splits)

text \<open>Policies apply before the hooks they serve: in a render that passes, for every Job with a
  hook annotation and every NetworkPolicy or CiliumNetworkPolicy of the same namespace with a
  selector that selects the pods of the Job, the sync wave of the policy is lower than the sync
  wave of the Job.\<close>

theorem check_hooks_orders:
  assumes "check_hooks files = Some []" "(path, docs) \<in> set files" "job \<in> set docs" "p \<in> set docs"
    and "dget job ''kind'' = Some (YStr ''Job'')" "is_hook job = Some True"
    and "dget p ''kind'' = Some (YStr k)" "k = ''NetworkPolicy'' \<or> k = ''CiliumNetworkPolicy''"
    and "raw_ns job = Some ns" "raw_ns p = Some pns" "py_eq pns ns"
    and "job_labels job = Some labels" "selectors p = Some ss" "sel \<in> set ss" "selects_hooks sel labels = Some True"
  shows "\<exists>pw jw. wave p = Some pw \<and> wave job = Some jw \<and> pw < jw"
proof -
  from assms(1) have "collect check_file_hooks files = Some []"
    by (auto simp: check_hooks_def bind_eq_Some_conv)
  with assms(2) have "check_file_hooks (path, docs) = Some []" by (auto simp: collect_empty_iff)
  then obtain pols jobs where pols: "mfilter (of_kind [''NetworkPolicy'', ''CiliumNetworkPolicy'']) (filter is_dict docs) = Some pols"
    and jobs: "mfilter (of_kind [''Job'']) (filter is_dict docs) = Some jobs"
    and c: "collect (judge_job path pols) jobs = Some []"
    by (auto simp: check_file_hooks_def Let_def bind_eq_Some_conv)
  have dict: "is_dict d" if "dget d ''kind'' = Some v" for d v using that by (cases d) (auto simp: dget_def)
  have "job \<in> set jobs" using mfilter_set [OF jobs] assms(3,5) dict by (auto simp: of_kind_def)
  with c have "judge_job path pols job = Some []" by (auto simp: collect_empty_iff)
  with assms(6,9,12) obtain jw where jw: "wave job = Some jw" and l: "collect (late path job ns labels jw) pols = Some []"
    by (auto simp: judge_job_def bind_eq_Some_conv)
  have "p \<in> set pols" using mfilter_set [OF pols] assms(4,7,8) dict by (auto simp: of_kind_def)
  with l have "late path job ns labels jw p = Some []" by (auto simp: collect_empty_iff)
  moreover have "many (\<lambda>sel. selects_hooks sel labels) ss \<noteq> Some False"
    using assms(14,15) by (force simp: many_False_iff)
  ultimately show ?thesis
    using late_passes [OF _ assms(10,11,13)] jw by blast
qed

definition hook_job :: doc where
  "hook_job = YMap [(''kind'', YStr ''Job''),
     (''metadata'', YMap [(''name'', YStr ''setup''), (''namespace'', YStr ''gibson''),
        (''annotations'', YMap [(''argocd.argoproj.io/hook'', YStr ''Sync''), (''argocd.argoproj.io/sync-wave'', YStr ''-1'')])]),
     (''spec'', YMap [(''template'', YMap [(''metadata'', YMap [(''labels'', YMap [(''app'', YStr ''setup'')])])])])]"

definition hook_policy :: doc where
  "hook_policy = YMap [(''kind'', YStr ''CiliumNetworkPolicy''),
     (''metadata'', YMap [(''name'', YStr ''setup''), (''namespace'', YStr ''gibson''),
        (''annotations'', YMap [(''argocd.argoproj.io/sync-wave'', YStr ''-5'')])]),
     (''spec'', YMap [(''endpointSelector'', YMap [(''matchLabels'', YMap [(''app'', YStr ''setup'')])])])]"

lemma check_hooks_orders_witness:
  "check_hooks [(''g.yaml'', [hook_job, hook_policy])] = Some []
   \<and> (\<exists>pw jw. wave hook_policy = Some pw \<and> wave hook_job = Some jw \<and> pw < jw)"
proof -
  have j: "check_hooks [(''g.yaml'', [hook_job, hook_policy])] = Some []" by code_simp
  have h: "is_hook hook_job = Some True" by code_simp
  have l: "job_labels hook_job = Some (YMap [(''app'', YStr ''setup'')])" by code_simp
  have s: "selectors hook_policy = Some [YMap [(''matchLabels'', YMap [(''app'', YStr ''setup'')])]]" by code_simp
  have m: "selects_hooks (YMap [(''matchLabels'', YMap [(''app'', YStr ''setup'')])]) (YMap [(''app'', YStr ''setup'')]) = Some True"
    by code_simp
  have "raw_ns hook_job = Some (YStr ''gibson'')" "raw_ns hook_policy = Some (YStr ''gibson'')"
    "dget hook_job ''kind'' = Some (YStr ''Job'')" "dget hook_policy ''kind'' = Some (YStr ''CiliumNetworkPolicy'')"
    by (simp_all add: raw_ns_def hook_job_def hook_policy_def)
  then have "\<exists>pw jw. wave hook_policy = Some pw \<and> wave hook_job = Some jw \<and> pw < jw"
    using check_hooks_orders [OF j _ _ _ _ h _ _ _ _ _ l s _ m, of "''g.yaml''" "[hook_job, hook_policy]"] by simp
  with j show ?thesis by simp
qed

end
