(* ===== verification/DnsNames.thy ===== *)
theory DnsNames
  imports NamespacePolicy
begin

text \<open>
  \<^verbatim>\<open>src/scripts/check-dns-names.py\<close>: each pod resolves only the names it needs. The theory models
  the whole script: the DNS rules of the Cilium policies, the default deny of the release
  namespace, the egress-fqdn policies, and the blindness test.
\<close>

definition INTERNET :: string where
  "INTERNET = ''gibson.zeroroot.ai/egress-internet''"

definition FQDN :: string where
  "FQDN = ''gibson.zeroroot.ai/egress-fqdn''"

definition CLUSTER :: string where
  "CLUSTER = ''.cluster.local''"

definition dns_names :: "yaml \<Rightarrow> yaml list option" where
  "dns_names rule = do {
     es \<leftarrow> get_list rule ''egress'';
     collect (\<lambda>e. do {
       tps \<leftarrow> get_list e ''toPorts'';
       collect (\<lambda>tp. do { r \<leftarrow> get_or_dict tp ''rules''; get_list r ''dns'' }) tps
     }) es
   }"

text \<open>The match labels of the rule, keys without their source prefix; a later key wins.\<close>

definition selector_dns :: "yaml \<Rightarrow> dict option" where
  "selector_dns rule = do {
     s \<leftarrow> get_or_dict rule ''endpointSelector'';
     ml \<leftarrow> get_or_dict s ''matchLabels'';
     ps \<leftarrow> items ml;
     Some (fold (\<lambda>(k, v) m. AList.update (norm_str k) v m) ps [])
   }"

definition name_of :: "yaml \<Rightarrow> yaml option" where
  "name_of sel = do { n \<leftarrow> dget sel ''matchName''; p \<leftarrow> dget sel ''matchPattern''; Some (py_or (py_or n p) (YStr [])) }"

definition is_default_deny :: "doc \<Rightarrow> bool option" where
  "is_default_deny d = do {
     s \<leftarrow> get_or_dict d ''spec'';
     sel \<leftarrow> selector_dns s;
     kind \<leftarrow> dget d ''kind'';
     Some (kind = YStr ''CiliumClusterwideNetworkPolicy'' \<and> py_eq (YMap sel) (YMap [(NS_KEY, YStr RELEASE_NS)]))
   }"

datatype dns_finding =
    PermitsEachName yaml
  | DenyWithoutDns yaml
  | DenyOutside yaml string
  | Unresolvable yaml yaml
  | BlindDns

text \<open>The domains of the install: the exact names outside the cluster.\<close>

definition domains :: "yaml list \<Rightarrow> string list option" where
  "domains names = do {
     ds \<leftarrow> collect (\<lambda>n. do {
       m \<leftarrow> dget n ''matchName'';
       if \<not> truthy m then Some []
       else (case m of YStr s \<Rightarrow> Some (if endswith s CLUSTER then [] else [s]) | _ \<Rightarrow> None)
     }) names;
     Some (mk_set ds)
   }"

definition deny_findings :: "yaml \<Rightarrow> yaml list \<Rightarrow> dns_finding list option" where
  "deny_findings name names = do {
     doms \<leftarrow> domains names;
     out \<leftarrow> collect (\<lambda>n. do {
       v \<leftarrow> name_of n;
       (case v of
          YStr s \<Rightarrow> Some (if endswith s CLUSTER \<or> s \<in> set doms \<or> (\<exists>dom \<in> set doms. s = ''*.'' @ dom)
                         then [] else [DenyOutside name s])
        | _ \<Rightarrow> None)
     }) names;
     Some ((if names = [] then [DenyWithoutDns name] else []) @ out)
   }"

text \<open>\<^verbatim>\<open>next(((k, f[k]) for k in ("matchName", "matchPattern") if f.get(k)), None)\<close>.\<close>

definition first_key :: "yaml \<Rightarrow> (string \<times> yaml) option option" where
  "first_key f = do {
     n \<leftarrow> dget f ''matchName'';
     if truthy n then Some (Some (''matchName'', n))
     else do { p \<leftarrow> dget f ''matchPattern''; Some (if truthy p then Some (''matchPattern'', p) else None) }
   }"

definition allowed_names :: "yaml list \<Rightarrow> (string \<times> yaml) list option" where
  "allowed_names names = collect (\<lambda>n. do {
     m \<leftarrow> dget n ''matchName'';
     p \<leftarrow> dget n ''matchPattern'';
     let found = (if truthy m then [(''matchName'', m)] else []) @ (if truthy p then [(''matchPattern'', p)] else []);
     if list_all (\<lambda>(k, v). hashable v) found then Some found else None
   }) names"

definition fqdn_findings :: "yaml \<Rightarrow> yaml list \<Rightarrow> yaml \<Rightarrow> dns_finding list option" where
  "fqdn_findings name names r = do {
     allowed \<leftarrow> allowed_names names;
     es \<leftarrow> get_list r ''egress'';
     collect (\<lambda>e. do {
       fs \<leftarrow> get_list e ''toFQDNs'';
       collect (\<lambda>f. do {
         key \<leftarrow> first_key f;
         (case key of None \<Rightarrow> Some []
          | Some kv \<Rightarrow> if \<not> hashable (snd kv) then None
                      else Some (if kv \<in> set allowed then [] else [Unresolvable name (snd kv)]))
       }) fs
     }) es
   }"

definition judge_dns_rule :: "yaml \<Rightarrow> bool \<Rightarrow> yaml \<Rightarrow> dns_finding list option" where
  "judge_dns_rule name deny r = do {
     names \<leftarrow> dns_names r;
     sel \<leftarrow> selector_dns r;
     a \<leftarrow> collect (\<lambda>n. do {
       p \<leftarrow> dget n ''matchPattern'';
       Some (if p = YStr ''*'' \<and> dict_get sel INTERNET YNull \<noteq> YStr ''true'' then [PermitsEachName name] else [])
     }) names;
     b \<leftarrow> (if deny then deny_findings name names else Some []);
     c \<leftarrow> (if truthy (dict_get sel FQDN YNull) then fqdn_findings name names r else Some []);
     Some (a @ b @ c)
   }"

text \<open>The findings of one document, and whether it is a default deny with a rule.\<close>

definition dns_doc :: "doc \<Rightarrow> (dns_finding list \<times> bool) option" where
  "dns_doc d = do {
     kind \<leftarrow> dget d ''kind'';
     if \<not> in_strtuple kind CILIUM_KINDS then Some ([], False)
     else do {
       name \<leftarrow> meta_name d;
       m \<leftarrow> item d ''metadata'';
       ns \<leftarrow> dget m ''namespace'';
       if kind = YStr ''CiliumNetworkPolicy'' \<and> ns \<noteq> YNull \<and> ns \<noteq> YStr RELEASE_NS then Some ([], False)
       else do {
         deny \<leftarrow> is_default_deny d;
         if kind = YStr ''CiliumClusterwideNetworkPolicy'' \<and> \<not> deny then Some ([], False)
         else do {
           rs \<leftarrow> spec_rules d;
           fs \<leftarrow> collect (judge_dns_rule name deny) rs;
           Some (fs, deny \<and> rs \<noteq> [])
         }
       }
     }
   }"

definition judge_dns :: "doc list \<Rightarrow> dns_finding list option" where
  "judge_dns docs = do {
     rs \<leftarrow> mmap dns_doc docs;
     Some (concat (map fst rs) @ (if list_ex snd rs then [] else [BlindDns]))
   }"

text \<open>\<^verbatim>\<open>load\<close> keeps the dicts with metadata.\<close>

definition load_dns :: "doc list \<Rightarrow> doc list option" where
  "load_dns docs = mfilter (\<lambda>d. if \<not> is_dict d then Some False else do { m \<leftarrow> dget d ''metadata''; Some (truthy m) }) docs"

definition main_dns :: "(string \<times> doc list) list \<Rightarrow> int option" where
  "main_dns files = do {
     fail \<leftarrow> collect (\<lambda>(f, docs). do { ds \<leftarrow> load_dns docs; judge_dns ds }) files;
     Some (if fail \<noteq> [] \<or> files = [] then 1 else 0)
   }"

section \<open>Lemmas\<close>

lemma judge_dns_passes_doc:
  assumes "judge_dns docs = Some []" "d \<in> set docs"
  shows "\<exists>b. dns_doc d = Some ([], b)"
proof -
  from assms(1) obtain rs where rs: "mmap dns_doc docs = Some rs" and e: "\<forall>r \<in> set rs. fst r = []"
    by (cases "mmap dns_doc docs") (auto simp: judge_dns_def)
  from mmap_SomeD [OF rs assms(2)] obtain r where "r \<in> set rs" "dns_doc d = Some r" by blast
  with e show ?thesis by (cases r) auto
qed

lemma judge_dns_sees_deny:
  assumes "judge_dns docs = Some []"
  shows "\<exists>d \<in> set docs. dns_doc d = Some ([], True)"
proof -
  from assms obtain rs where rs: "mmap dns_doc docs = Some rs" "list_ex snd rs"
    by (auto simp: judge_dns_def bind_eq_Some_conv split: if_splits)
  then obtain r where r: "r \<in> set rs" "snd r" by (auto simp: list_ex_iff)
  with mmap_Some_set [OF rs(1)] obtain d where d: "d \<in> set docs" "dns_doc d = Some r" by auto
  with judge_dns_passes_doc [OF assms d(1)] r(2) show ?thesis by (cases r) auto
qed

lemma fqdn_findings_passes:
  assumes "fqdn_findings name names r = Some []" "get_list r ''egress'' = Some es" "e \<in> set es"
    and "get_list e ''toFQDNs'' = Some fs" "f \<in> set fs" "first_key f = Some (Some (k, v))"
  shows "\<exists>n \<in> set names. dget n k = Some v"
proof -
  from assms obtain allowed where al: "allowed_names names = Some allowed" and "(k, v) \<in> set allowed"
    by (fastforce simp: fqdn_findings_def bind_eq_Some_conv collect_empty_iff split: if_splits)
  with collect_set [OF al [unfolded allowed_names_def], of "(k, v)"] show ?thesis
    by (auto simp: bind_eq_Some_conv Let_def split: if_splits)
qed

text \<open>The rules of the policies that the guard reads: those of the release namespace and the
  default deny of it.\<close>

definition in_scope :: "doc \<Rightarrow> bool \<Rightarrow> bool" where
  "in_scope d deny \<longleftrightarrow>
     (dget d ''kind'' = Some (YStr ''CiliumNetworkPolicy'')
        \<and> (\<exists>m ns. item d ''metadata'' = Some m \<and> dget m ''namespace'' = Some ns \<and> (ns = YNull \<or> ns = YStr RELEASE_NS))
        \<and> is_default_deny d = Some deny)
     \<or> (dget d ''kind'' = Some (YStr ''CiliumClusterwideNetworkPolicy'') \<and> is_default_deny d = Some True \<and> deny)"

lemma judge_dns_rule_of:
  assumes "judge_dns docs = Some []" "d \<in> set docs" "in_scope d deny" "spec_rules d = Some rs" "r \<in> set rs"
  shows "\<exists>name. judge_dns_rule name deny r = Some []"
proof -
  from judge_dns_passes_doc [OF assms(1,2)] obtain b where b: "dns_doc d = Some ([], b)" by blast
  from b assms(3) obtain name where name: "meta_name d = Some name"
    by (cases "meta_name d") (auto simp: dns_doc_def in_scope_def CILIUM_KINDS_def)
  from assms(3) consider
      (cnp) m ns where "dget d ''kind'' = Some (YStr ''CiliumNetworkPolicy'')" "item d ''metadata'' = Some m"
        "dget m ''namespace'' = Some ns" "ns = YNull \<or> ns = YStr RELEASE_NS" "is_default_deny d = Some deny"
    | (ccnp) "dget d ''kind'' = Some (YStr ''CiliumClusterwideNetworkPolicy'')" "is_default_deny d = Some True" "deny"
    unfolding in_scope_def by blast
  then have "collect (judge_dns_rule name deny) rs = Some []"
    by cases (use b name assms(4) in \<open>auto simp: dns_doc_def CILIUM_KINDS_def split: Option.bind_splits\<close>)
  with assms(5) show ?thesis by (auto simp: collect_empty_iff)
qed

text \<open>A host that a policy opens can be resolved: in a passing render, for every rule in scope
  that selects the egress-fqdn label and every host it opens by name or pattern, the same rule
  has a DNS entry with that name or pattern.\<close>

theorem judge_dns_fqdn_resolvable:
  assumes "judge_dns docs = Some []" "d \<in> set docs" "in_scope d deny" "spec_rules d = Some rs" "r \<in> set rs"
    and "selector_dns r = Some sel" "truthy (dict_get sel FQDN YNull)" "dns_names r = Some names"
    and "get_list r ''egress'' = Some es" "e \<in> set es" "get_list e ''toFQDNs'' = Some fs" "f \<in> set fs"
    and "first_key f = Some (Some (k, v))"
  shows "\<exists>n \<in> set names. dget n k = Some v"
proof -
  from judge_dns_rule_of [OF assms(1-5)] obtain name where "judge_dns_rule name deny r = Some []" by blast
  with assms(6-8) have "fqdn_findings name names r = Some []"
    by (auto simp: judge_dns_rule_def bind_eq_Some_conv)
  from fqdn_findings_passes [OF this assms(9-13)] show ?thesis .
qed

text \<open>The default deny resolves only the cluster and the domain of the install: in a passing
  render there is a default deny of the release namespace with a rule, and each of its rules
  has a DNS entry and names only hosts under cluster.local, an exact host that the rule itself
  lists, or the pattern one label under such a host; and no entry of a rule in scope permits
  every name unless the rule selects the egress-internet label.\<close>

theorem judge_dns_deny_closed:
  assumes "judge_dns docs = Some []"
  shows "(\<exists>d \<in> set docs. in_scope d True \<and> (\<exists>rs. spec_rules d = Some rs \<and> rs \<noteq> []))
    \<and> (\<forall>d \<in> set docs. \<forall>deny rs r names sel. in_scope d deny \<longrightarrow> spec_rules d = Some rs \<longrightarrow> r \<in> set rs \<longrightarrow>
         dns_names r = Some names \<longrightarrow> selector_dns r = Some sel \<longrightarrow>
         (\<forall>n \<in> set names. dget n ''matchPattern'' = Some (YStr ''*'') \<longrightarrow> dict_get sel INTERNET YNull = YStr ''true'')
         \<and> (deny \<longrightarrow> names \<noteq> [] \<and> (\<exists>doms. domains names = Some doms \<and>
              (\<forall>n \<in> set names. \<exists>s. name_of n = Some (YStr s) \<and>
                 (endswith s CLUSTER \<or> s \<in> set doms \<or> (\<exists>dom \<in> set doms. s = ''*.'' @ dom))))))"
proof (intro conjI ballI allI impI)
  from judge_dns_sees_deny [OF assms] obtain d where d: "d \<in> set docs" "dns_doc d = Some ([], True)" by blast
  then have "in_scope d True \<and> (\<exists>rs. spec_rules d = Some rs \<and> rs \<noteq> [])"
    by (auto simp: dns_doc_def in_scope_def in_strtuple_iff CILIUM_KINDS_def split: Option.bind_splits if_splits)
  with d(1) show "\<exists>d \<in> set docs. in_scope d True \<and> (\<exists>rs. spec_rules d = Some rs \<and> rs \<noteq> [])" by blast
next
  fix d deny rs r names sel n
  assume *: "d \<in> set docs" "in_scope d deny" "spec_rules d = Some rs" "r \<in> set rs"
    "dns_names r = Some names" "selector_dns r = Some sel"
  from judge_dns_rule_of [OF assms *(1-4)] obtain name where
    j: "judge_dns_rule name deny r = Some []" by blast
  show "dict_get sel INTERNET YNull = YStr ''true''"
    if "n \<in> set names" "dget n ''matchPattern'' = Some (YStr ''*'')"
    using j * that by (fastforce simp: judge_dns_rule_def bind_eq_Some_conv collect_empty_iff split: if_splits)
  assume deny
  with j * have df: "deny_findings name names = Some []"
    by (auto simp: judge_dns_rule_def bind_eq_Some_conv)
  then show "names \<noteq> []" by (auto simp: deny_findings_def bind_eq_Some_conv split: if_splits)
  let ?per = "\<lambda>doms n. do {
       v \<leftarrow> name_of n;
       (case v of
          YStr s \<Rightarrow> Some (if endswith s CLUSTER \<or> s \<in> set doms \<or> (\<exists>dom \<in> set doms. s = ''*.'' @ dom)
                         then [] else [DenyOutside name s])
        | _ \<Rightarrow> None)
     }"
  from df obtain doms where doms: "domains names = Some doms" and "collect (?per doms) names = Some []"
    unfolding deny_findings_def by (elim bindE) auto
  then have per: "?per doms n = Some []" if "n \<in> set names" for n
    using that by (simp only: collect_empty_iff)
  have "\<exists>s. name_of n = Some (YStr s) \<and> (endswith s CLUSTER \<or> s \<in> set doms \<or> (\<exists>dom \<in> set doms. s = ''*.'' @ dom))"
    if "n \<in> set names" for n
    using per [OF that] by (auto split: Option.bind_splits yaml.splits if_splits)
  with doms show "\<exists>doms. domains names = Some doms \<and>
      (\<forall>n \<in> set names. \<exists>s. name_of n = Some (YStr s) \<and>
         (endswith s CLUSTER \<or> s \<in> set doms \<or> (\<exists>dom \<in> set doms. s = ''*.'' @ dom)))" by blast
qed

definition dns_item :: yaml where
  "dns_item = YMap [(''toPorts'', YList [YMap [(''rules'', YMap [(''dns'', YList [
     YMap [(''matchPattern'', YStr ''*.svc.cluster.local'')], YMap [(''matchName'', YStr ''gibson.example'')]])])]])]"

definition deny_policy :: doc where
  "deny_policy = YMap [(''kind'', YStr ''CiliumClusterwideNetworkPolicy''), (''metadata'', YMap [(''name'', YStr ''deny'')]),
     (''spec'', YMap [(''endpointSelector'', YMap [(''matchLabels'', YMap [(NS_LABEL, YStr ''gibson'')])]),
                     (''egress'', YList [dns_item])])]"

definition fqdn_rule :: yaml where
  "fqdn_rule = YMap [(''endpointSelector'', YMap [(''matchLabels'', YMap [(''k8s:gibson.zeroroot.ai/egress-fqdn'', YStr ''smtp'')])]),
     (''egress'', YList [
        YMap [(''toFQDNs'', YList [YMap [(''matchName'', YStr ''smtp.example.com'')]])],
        YMap [(''toPorts'', YList [YMap [(''rules'', YMap [(''dns'', YList [YMap [(''matchName'', YStr ''smtp.example.com'')]])])]])]])]"

definition fqdn_doc :: doc where
  "fqdn_doc = YMap [(''kind'', YStr ''CiliumNetworkPolicy''), (''metadata'', YMap [(''name'', YStr ''smtp'')]), (''spec'', fqdn_rule)]"

lemma fqdn_doc_in_scope: "in_scope fqdn_doc False"
proof -
  have "is_default_deny fqdn_doc = Some False" by code_simp
  then show ?thesis by (simp add: in_scope_def) (simp add: fqdn_doc_def)
qed

lemma dns_sample_passes: "judge_dns [deny_policy, fqdn_doc] = Some []"
  by code_simp

lemma judge_dns_fqdn_resolvable_witness:
  "\<exists>n \<in> set [YMap [(''matchName'', YStr ''smtp.example.com'')]]. dget n ''matchName'' = Some (YStr ''smtp.example.com'')"
proof -
  have s: "selector_dns fqdn_rule = Some [(FQDN, YStr ''smtp'')]" by code_simp
  have n: "dns_names fqdn_rule = Some [YMap [(''matchName'', YStr ''smtp.example.com'')]]" by code_simp
  have f: "first_key (YMap [(''matchName'', YStr ''smtp.example.com'')]) = Some (Some (''matchName'', YStr ''smtp.example.com''))"
    by code_simp
  show ?thesis
    by (rule judge_dns_fqdn_resolvable [where r = fqdn_rule and rs = "[fqdn_rule]"
          and e = "YMap [(''toFQDNs'', YList [YMap [(''matchName'', YStr ''smtp.example.com'')]])]"
          and fs = "[YMap [(''matchName'', YStr ''smtp.example.com'')]]",
          OF dns_sample_passes _ fqdn_doc_in_scope _ _ s _ n _ _ _ _ f])
       (simp_all add: dict_get_def, simp_all add: fqdn_doc_def fqdn_rule_def spec_rules_def, simp_all)
qed

lemma judge_dns_deny_closed_witness:
  "judge_dns [deny_policy, fqdn_doc] = Some []
   \<and> (\<exists>d \<in> set [deny_policy, fqdn_doc]. in_scope d True \<and> (\<exists>rs. spec_rules d = Some rs \<and> rs \<noteq> []))"
  using judge_dns_deny_closed [OF dns_sample_passes] dns_sample_passes by blast

end
