(* ===== verification/MetricsPolicy.thy ===== *)
theory MetricsPolicy
  imports NamespacePolicy
begin

text \<open>
  \<^verbatim>\<open>src/scripts/check-metrics-policy.py\<close>: the cluster scraper reaches only metrics ports. The theory
  models the whole script and proves, against the Cilium evaluator, that the metrics policy of a
  passing render admits a pod on a port only where the pod it protects declares that port as
  its metrics port.
\<close>

definition METRICS_LABEL :: string where
  "METRICS_LABEL = ''gibson.zeroroot.ai/metrics-port''"

definition METRICS_POD_KINDS :: "string list" where
  "METRICS_POD_KINDS = [''Deployment'', ''StatefulSet'', ''DaemonSet'', ''Job'']"

definition METRICS_NAMES :: "string list" where
  "METRICS_NAMES = [''metrics'', ''prometheus'']"

text \<open>A pod template: its shown name, its namespace, its labels and its containers.\<close>

record metrics_pod =
  mp_name :: string
  mp_ns :: yaml
  mp_labels :: yaml
  mp_containers :: yaml

definition pods_metrics_doc :: "doc \<Rightarrow> metrics_pod list option" where
  "pods_metrics_doc d = do {
     kind \<leftarrow> dget d ''kind'';
     spec0 \<leftarrow> get_or_dict d ''spec'';
     spec \<leftarrow> (if kind = YStr ''CronJob''
             then do { jt \<leftarrow> get_or_dict spec0 ''jobTemplate''; get_or_dict jt ''spec'' } else Some spec0);
     is_pod \<leftarrow> in_strset kind METRICS_POD_KINDS;
     if is_pod \<or> kind = YStr ''CronJob'' then do {
       t \<leftarrow> get_or_dict spec ''template'';
       n \<leftarrow> meta_name d;
       ns \<leftarrow> doc_ns d;
       m \<leftarrow> get_or_dict t ''metadata'';
       labels \<leftarrow> get_or_dict m ''labels'';
       ps \<leftarrow> get_or_dict t ''spec'';
       cs \<leftarrow> dget ps ''containers'';
       Some [\<lparr>mp_name = py_str kind @ '' '' @ py_str n, mp_ns = ns, mp_labels = labels, mp_containers = py_or cs (YList [])\<rparr>]
     }
     else if kind = YStr ''Cluster'' then do {
       av \<leftarrow> dget_default d ''apiVersion'' (YStr []);
       if fst (split_once (CHR ''/'') (py_str av)) = ''postgresql.cnpg.io'' then do {
         n \<leftarrow> meta_name d;
         ns \<leftarrow> doc_ns d;
         i \<leftarrow> get_or_dict spec ''inheritedMetadata'';
         labels \<leftarrow> get_or_dict i ''labels'';
         Some [\<lparr>mp_name = ''Cluster '' @ py_str n, mp_ns = ns, mp_labels = labels, mp_containers = YList []\<rparr>]
       }
       else Some []
     }
     else Some []
   }"

definition pods_metrics :: "doc list \<Rightarrow> metrics_pod list option" where
  "pods_metrics docs = collect pods_metrics_doc docs"

datatype metrics_finding =
    NoSpec yaml
  | NotOnePort yaml yaml
  | AdmitsEntity yaml string
  | AnyNamespaceScraper yaml string
  | EachPodOfNamespace yaml string
  | OpensOther yaml string "string list"
  | NoRuleForPort string string
  | ApiPort string string string
  | NoMetricsPod string
  | BlindMetrics

definition judge_scraper :: "yaml \<Rightarrow> string \<Rightarrow> yaml \<Rightarrow> metrics_finding list option" where
  "judge_scraper name port peer = do {
     pml \<leftarrow> get_or_dict peer ''matchLabels'';
     n \<leftarrow> dget pml NS_LABEL;
     wide \<leftarrow> (if \<not> truthy n then Some True
             else do { es \<leftarrow> get_list peer ''matchExpressions'';
                       many (\<lambda>e. do { k \<leftarrow> dget e ''key''; Some (k = YStr NS_LABEL) }) es });
     ks \<leftarrow> keyset pml;
     Some ((if wide then [AnyNamespaceScraper name port] else [])
           @ (if set ks \<subseteq> {YStr NS_LABEL} then [EachPodOfNamespace name port] else []))
   }"

text \<open>\<^verbatim>\<open>v.get(k) or [{}]\<close>, then iterated.\<close>

definition get_list_or_one :: "yaml \<Rightarrow> string \<Rightarrow> yaml list option" where
  "get_list_or_one v k = do { x \<leftarrow> dget v k; py_iter (py_or x (YList [YMap []])) }"

definition opened_ports :: "yaml \<Rightarrow> string list option" where
  "opened_ports rule = do {
     tps \<leftarrow> get_list_or_one rule ''toPorts'';
     collect (\<lambda>tp. do {
       ps \<leftarrow> get_list_or_one tp ''ports'';
       mmap (\<lambda>p. do { q \<leftarrow> dget p ''port''; Some (py_str q) }) ps
     }) tps
   }"

definition judge_metrics_rule :: "yaml \<Rightarrow> string \<Rightarrow> yaml \<Rightarrow> metrics_finding list option" where
  "judge_metrics_rule name port rule = do {
     fe \<leftarrow> dget rule ''fromEntities'';
     fc \<leftarrow> dget rule ''fromCIDR'';
     fs \<leftarrow> dget rule ''fromCIDRSet'';
     peers \<leftarrow> get_list_or_one rule ''fromEndpoints'';
     a \<leftarrow> collect (judge_scraper name port) peers;
     opened \<leftarrow> opened_ports rule;
     Some ((if truthy fe \<or> truthy fc \<or> truthy fs then [AdmitsEntity name port] else [])
           @ a @ (if opened \<noteq> [port] then [OpensOther name port opened] else []))
   }"

text \<open>One spec: its findings and the port it is for, when it selects one.\<close>

definition judge_metrics_spec :: "yaml \<Rightarrow> yaml \<Rightarrow> (metrics_finding list \<times> string list) option" where
  "judge_metrics_spec name s = do {
     sel \<leftarrow> get_or_dict s ''endpointSelector'';
     ml \<leftarrow> get_or_dict sel ''matchLabels'';
     me \<leftarrow> dget sel ''matchExpressions'';
     off \<leftarrow> (if truthy me then Some True else do { ks \<leftarrow> keyset ml; Some (set ks \<noteq> {YStr METRICS_LABEL}) });
     if off then Some ([NotOnePort name sel], [])
     else do {
       pv \<leftarrow> item ml METRICS_LABEL;
       let port = py_str pv;
       rs \<leftarrow> get_list s ''ingress'';
       fs \<leftarrow> collect (judge_metrics_rule name port) rs;
       Some (fs, [port])
     }
   }"

text \<open>\<^verbatim>\<open>d.get("specs") or ([d["spec"]] if d.get("spec") else [])\<close>.\<close>

definition metrics_specs :: "doc \<Rightarrow> yaml list option" where
  "metrics_specs d = do {
     ss \<leftarrow> dget d ''specs'';
     s \<leftarrow> dget d ''spec'';
     if truthy ss then py_iter ss else Some (if truthy s then [s] else [])
   }"

text \<open>Whether a document is the metrics policy.\<close>

definition is_metrics_policy :: "doc \<Rightarrow> bool option" where
  "is_metrics_policy d = do {
     kind \<leftarrow> dget d ''kind'';
     if kind \<noteq> YStr ''CiliumNetworkPolicy'' then Some False
     else do {
       m \<leftarrow> get_or_dict d ''metadata'';
       l \<leftarrow> get_or_dict m ''labels'';
       c \<leftarrow> dget l ''app.kubernetes.io/component'';
       Some (c = YStr ''network-metrics'')
     }
   }"

definition judge_policy_doc :: "doc \<Rightarrow> (metrics_finding list \<times> string list) option" where
  "judge_policy_doc d = do {
     mp \<leftarrow> is_metrics_policy d;
     if \<not> mp then Some ([], [])
     else do {
       name \<leftarrow> meta_name d;
       specs \<leftarrow> metrics_specs d;
       rs \<leftarrow> mmap (judge_metrics_spec name) specs;
       Some ((if specs = [] then [NoSpec name] else []) @ concat (map fst rs), concat (map snd rs))
     }
   }"

definition judge_policy :: "doc list \<Rightarrow> (metrics_finding list \<times> string list) option" where
  "judge_policy docs = do {
     rs \<leftarrow> mmap judge_policy_doc docs;
     Some (concat (map fst rs), mk_set (concat (map snd rs)))
   }"

text \<open>The names of the container ports, then the ports that Services publish on the pod.\<close>

definition named_ports :: "yaml \<Rightarrow> (yaml \<times> string) list option" where
  "named_ports containers = do {
     cs \<leftarrow> py_iter containers;
     ps \<leftarrow> collect (\<lambda>c. get_list c ''ports'') cs;
     mfold (\<lambda>p m. do {
       n \<leftarrow> dget p ''name'';
       q \<leftarrow> dget p ''containerPort'';
       if hashable n then Some (AList.update n (py_str q) m) else None
     }) ps []
   }"

definition service_selects :: "yaml \<Rightarrow> yaml \<Rightarrow> bool option" where
  "service_selects sel labels = do {
     if \<not> truthy sel then Some False
     else do { ps \<leftarrow> items sel; mall (label_pair_holds (\<lambda>k. k) labels) ps }
   }"

definition api_ports_step ::
  "(yaml \<times> string) list \<Rightarrow> doc \<Rightarrow> yaml \<Rightarrow> (string \<times> string) list \<Rightarrow> (string \<times> string) list option" where
  "api_ports_step named d p out = do {
     q \<leftarrow> dget p ''port'';
     t \<leftarrow> dget_default p ''targetPort'' q;
     target \<leftarrow> (if hashable t then Some (dict_get named t (py_str t)) else None);
     n \<leftarrow> dget p ''name'';
     let pname = py_str (py_or n (YStr []));
     if list_ex (\<lambda>m. sublist m pname) METRICS_NAMES then Some out
     else do {
       sn \<leftarrow> meta_name d;
       Some (AList.update target (''Service '' @ py_str sn @ '' port '' @ (if pname \<noteq> [] then pname else py_str q)) out)
     }
   }"

definition api_ports :: "doc list \<Rightarrow> yaml \<Rightarrow> yaml \<Rightarrow> yaml \<Rightarrow> (string \<times> string) list option" where
  "api_ports docs ns labels containers = do {
     named \<leftarrow> named_ports containers;
     mfold (\<lambda>d out. do {
       kind \<leftarrow> dget d ''kind'';
       if kind \<noteq> YStr ''Service'' then Some out
       else do {
         dns \<leftarrow> doc_ns d;
         if \<not> py_eq dns ns then Some out
         else do {
           spec \<leftarrow> get_or_dict d ''spec'';
           sel \<leftarrow> get_or_dict spec ''selector'';
           hit \<leftarrow> service_selects sel labels;
           if \<not> hit then Some out
           else do { ps \<leftarrow> get_list spec ''ports''; mfold (api_ports_step named d) ps out }
         }
       }
     }) docs []
   }"

definition judge_pod :: "doc list \<Rightarrow> string list \<Rightarrow> metrics_pod \<Rightarrow> metrics_finding list option" where
  "judge_pod docs ports mp = do {
     pv \<leftarrow> dget (mp_labels mp) METRICS_LABEL;
     if pv = YNull then Some []
     else do {
       let port = py_str pv;
       apis \<leftarrow> api_ports docs (mp_ns mp) (mp_labels mp) (mp_containers mp);
       Some ((if port \<notin> set ports then [NoRuleForPort (mp_name mp) port] else [])
             @ (case map_of apis port of Some api \<Rightarrow> if api \<noteq> [] then [ApiPort (mp_name mp) port api] else [] | None \<Rightarrow> []))
     }
   }"

definition judge_metrics :: "doc list \<Rightarrow> metrics_finding list option" where
  "judge_metrics docs0 = do {
     let docs = filter is_dict docs0;
     (bad, ports) \<leftarrow> judge_policy docs;
     ps \<leftarrow> pods_metrics docs;
     more \<leftarrow> collect (judge_pod docs ports) ps;
     Some (bad @ more)
   }"

definition audit_metrics :: "(string \<times> doc list) list \<Rightarrow> ((string \<times> metrics_finding) list \<times> nat) option" where
  "audit_metrics files = do {
     rs \<leftarrow> mmap (\<lambda>(f, docs0). do {
       let docs = filter is_dict docs0;
       has \<leftarrow> many is_metrics_policy docs;
       if \<not> has then Some ([], 0)
       else do {
         found \<leftarrow> judge_metrics docs;
         ps \<leftarrow> pods_metrics docs;
         any \<leftarrow> many (\<lambda>mp. py_in (YStr METRICS_LABEL) (mp_labels mp)) ps;
         Some (map (Pair f) (found @ (if any then [] else [NoMetricsPod METRICS_LABEL])), 1::nat)
       }
     }) files;
     let seen = sum_list (map snd rs);
     Some (concat (map fst rs) @ (if seen = 0 then [([], BlindMetrics)] else []), seen)
   }"

definition main_metrics :: "(string \<times> doc list) list \<Rightarrow> int option" where
  "main_metrics files = do { (bad, seen) \<leftarrow> audit_metrics files; Some (if bad \<noteq> [] then 1 else 0) }"

section \<open>The selftest\<close>

definition scraper_labels :: yaml where
  "scraper_labels = YMap [(NS_LABEL, YStr ''monitoring''), (''app.kubernetes.io/name'', YStr ''prometheus'')]"

text \<open>The fixtures \<^verbatim>\<open>spec\<close>, \<^verbatim>\<open>policy\<close>, \<^verbatim>\<open>pod\<close> and \<^verbatim>\<open>svc\<close>; an argument of None is left at its default.\<close>

definition st_spec :: "string \<Rightarrow> yaml option \<Rightarrow> string list option \<Rightarrow> yaml option \<Rightarrow> yaml" where
  "st_spec port peer opened sel = YMap
     [(''endpointSelector'', case sel of Some s \<Rightarrow> s | None \<Rightarrow> YMap [(''matchLabels'', YMap [(METRICS_LABEL, YStr port)])]),
      (''ingress'', YList [YMap
         [(''fromEndpoints'', YList [case peer of Some p \<Rightarrow> p | None \<Rightarrow> YMap [(''matchLabels'', scraper_labels)]]),
          (''toPorts'', YList [YMap [(''ports'', YList
             (map (\<lambda>p. YMap [(''port'', YStr p), (''protocol'', YStr ''TCP'')])
                  (case opened of Some ps \<Rightarrow> ps | None \<Rightarrow> [port])))]])]])]"

definition st_policy :: "yaml list \<Rightarrow> doc" where
  "st_policy specs = YMap [(''kind'', YStr ''CiliumNetworkPolicy''), (''metadata'', YMap
     [(''name'', YStr ''m''), (''labels'', YMap [(''app.kubernetes.io/component'', YStr ''network-metrics'')])]),
     (''specs'', YList specs)]"

definition st_pod :: "string \<Rightarrow> string \<Rightarrow> string \<Rightarrow> doc option" where
  "st_pod name port cname = do {
     n \<leftarrow> py_int port;
     Some (YMap [(''kind'', YStr ''Deployment''), (''metadata'', YMap [(''name'', YStr name), (''namespace'', YStr ''gibson'')]),
       (''spec'', YMap [(''template'', YMap
         [(''metadata'', YMap [(''labels'', YMap [(''app'', YStr name), (METRICS_LABEL, YStr port)])]),
          (''spec'', YMap [(''containers'', YList [YMap [(''name'', YStr ''c''),
             (''ports'', YList [YMap [(''name'', YStr cname), (''containerPort'', YInt n)]])]])])])])])
   }"

definition st_svc :: "string \<Rightarrow> string \<Rightarrow> int \<Rightarrow> doc" where
  "st_svc app pname port = YMap [(''kind'', YStr ''Service''),
     (''metadata'', YMap [(''name'', YStr app), (''namespace'', YStr ''gibson'')]),
     (''spec'', YMap [(''selector'', YMap [(''app'', YStr app)]),
        (''ports'', YList [YMap [(''name'', YStr pname), (''port'', YInt port), (''targetPort'', YStr pname)]])])]"

definition selftest_metrics :: "int option" where
  "selftest_metrics = do {
     p1 \<leftarrow> st_pod ''daemon'' ''9090'' ''metrics'';
     p2 \<leftarrow> st_pod ''op'' ''8080'' ''metrics'';
     good \<leftarrow> judge_metrics [st_policy [st_spec ''9090'' None None None, st_spec ''8080'' None None None],
                            p1, st_svc ''daemon'' ''metrics'' 9090, p2];
     if good \<noteq> [] then Some 1 else do {
     api \<leftarrow> st_pod ''api'' ''8080'' ''http'';
     d90 \<leftarrow> st_pod ''d'' ''9090'' ''metrics'';
     d91 \<leftarrow> st_pod ''d'' ''9091'' ''metrics'';
     let failing = [
       [st_policy [st_spec ''8080'' None None None], api, st_svc ''api'' ''http'' 8080],
       [st_policy [st_spec ''9090'' None (Some [''9090'', ''8080'']) None], d90],
       [st_policy [st_spec ''9090'' (Some (YMap
          [(''matchLabels'', YMap [(''app.kubernetes.io/name'', YStr ''prometheus'')]),
           (''matchExpressions'', YList [YMap [(''key'', YStr NS_LABEL), (''operator'', YStr ''Exists'')]])])) None None], d90],
       [st_policy [st_spec ''9090'' (Some (YMap [(''matchLabels'', YMap [(NS_LABEL, YStr ''monitoring'')])])) None None], d90],
       [st_policy [st_spec ''9090'' None None (Some (YMap [(''matchExpressions'', YList
          [YMap [(''key'', YStr ''gibson.zeroroot.ai/net-role''), (''operator'', YStr ''Exists'')]])]))],
        st_policy [st_spec ''9091'' None None None], d91],
       [st_policy [st_spec ''9090'' None None None], d91]];
     bad \<leftarrow> many (\<lambda>docs. do { fs \<leftarrow> judge_metrics docs; Some (length fs \<noteq> 1) }) failing;
     Some (if bad then 1 else 0)
     }
   }"

section \<open>Lemmas\<close>

lemma selftest_metrics_passes: "selftest_metrics = Some 0"
  by code_simp

lemma judge_policy_passes:
  assumes "judge_policy docs = Some ([], ports)" "d \<in> set docs"
  shows "\<exists>ps. judge_policy_doc d = Some ([], ps) \<and> set ps \<subseteq> set ports"
proof -
  from assms(1) obtain rs where rs: "mmap judge_policy_doc docs = Some rs" and e: "\<forall>r \<in> set rs. fst r = []"
    and p: "ports = mk_set (concat (map snd rs))"
    by (auto simp: judge_policy_def split: Option.bind_splits)
  from mmap_SomeD [OF rs assms(2)] obtain r where r: "r \<in> set rs" "judge_policy_doc d = Some r" by blast
  from e r(1) have "fst r = []" by blast
  moreover have "set (snd r) \<subseteq> set ports" using r(1) p by auto
  ultimately show ?thesis using r(2) by (metis prod.collapse)
qed

text \<open>A spec of the metrics policy that has no finding: it selects by the metrics label alone, and
  each of its rules names no entity and opens exactly that port.\<close>

lemma judge_metrics_spec_passes:
  assumes "judge_policy docs = Some ([], ports)" "d \<in> set docs" "is_metrics_policy d = Some True"
    and "metrics_specs d = Some specs" "s \<in> set specs"
  shows "\<exists>name ps. judge_metrics_spec name s = Some ([], ps)"
proof -
  from judge_policy_passes [OF assms(1,2)] obtain ps where "judge_policy_doc d = Some ([], ps)" by blast
  with assms(3,4) obtain name rs where rs: "mmap (judge_metrics_spec name) specs = Some rs" "\<forall>r \<in> set rs. fst r = []"
    by (auto simp: judge_policy_doc_def split: Option.bind_splits if_splits)
  from mmap_SomeD [OF rs(1) assms(5)] rs(2) show ?thesis by (metis prod.collapse)
qed

lemma judge_metrics_spec_selects:
  assumes "judge_metrics_spec name s = Some ([], ps)" "rule_selects s ns ep = Some True"
  obtains v pv rs where "dget ep METRICS_LABEL = Some v" "py_eq v pv" "get_list s ''ingress'' = Some rs"
    "\<forall>r \<in> set rs. judge_metrics_rule name (py_str pv) r = Some []"
proof -
  from assms(1) obtain sel ml pv rs where sel: "get_or_dict s ''endpointSelector'' = Some sel"
    "get_or_dict sel ''matchLabels'' = Some ml" "item ml METRICS_LABEL = Some pv"
    and rs: "get_list s ''ingress'' = Some rs" "collect (judge_metrics_rule name (py_str pv)) rs = Some []"
    by (auto simp: judge_metrics_spec_def Let_def split: Option.bind_splits if_splits)
  from sel(3) obtain m where m: "ml = YMap m" "(METRICS_LABEL, pv) \<in> set m"
    by (cases ml) (auto dest: map_of_SomeD)
  from assms(2) sel have "selects sel ep = Some True"
    by (auto simp: rule_selects_def peer_selects_def split: Option.bind_splits if_splits)
  moreover have "py_or sel (YMap []) = sel"
    using sel(1) by (auto simp: get_or_dict_def py_or_def split: Option.bind_splits if_splits)
  ultimately have "mall (label_pair_holds norm_str ep) m = Some True"
    using sel(2) m(1) by (auto simp: selects_def split: Option.bind_splits if_splits)
  with m(2) have "label_pair_holds norm_str ep (METRICS_LABEL, pv) = Some True" by (auto simp: mall_True_iff)
  moreover have "norm_str METRICS_LABEL = METRICS_LABEL" by (simp add: METRICS_LABEL_def norm_str_plain)
  ultimately obtain v where "dget ep METRICS_LABEL = Some v" "py_eq v pv"
    by (auto simp: label_pair_holds_def split: Option.bind_splits)
  with rs show ?thesis by (intro that) (auto simp: collect_empty_iff)
qed

text \<open>The ports that the evaluator opens are among those the guard reads.\<close>

lemma port_ok_opened:
  assumes "opened_ports r = Some opened" "port_ok r (YInt (int p)) = Some True" "''None'' \<notin> set opened"
  shows "nat_dec p \<in> set opened"
proof -
  from assms(1) obtain x tps where x: "dget r ''toPorts'' = Some x" "py_iter (py_or x (YList [YMap []])) = Some tps"
    and opened: "collect (\<lambda>tp. do { ps \<leftarrow> get_list_or_one tp ''ports'';
      mmap (\<lambda>p. do { q \<leftarrow> dget p ''port''; Some (py_str q) }) ps }) tps = Some opened"
    by (auto simp: opened_ports_def get_list_or_one_def split: Option.bind_splits)
  have "truthy x"
  proof (rule ccontr)
    assume "\<not> truthy x"
    with x opened have "opened = [''None'']"
      by (auto simp: py_or_def get_list_or_one_def collect_def py_str_def)
    with assms(3) show False by simp
  qed
  with x assms(2) have "many (\<lambda>tp. do { ps \<leftarrow> get_list tp ''ports'';
      many (\<lambda>pp. do { q \<leftarrow> dget pp ''port''; Some (py_str q = py_str (YInt (int p))) }) ps }) tps = Some True"
    by (auto simp: port_ok_def py_or_def)
  from many_TrueD [OF this] obtain tp ps pp q where tp: "tp \<in> set tps" "get_list tp ''ports'' = Some ps"
    "pp \<in> set ps" "dget pp ''port'' = Some q" "py_str q = nat_dec p"
    by (auto simp: py_str_YInt_nat dest!: many_TrueD split: Option.bind_splits)
  from collect_SomeD [OF opened tp(1)] obtain ys ps' where ys: "set ys \<subseteq> set opened"
    "get_list_or_one tp ''ports'' = Some ps'" "mmap (\<lambda>p. do { q \<leftarrow> dget p ''port''; Some (py_str q) }) ps' = Some ys"
    by (auto split: Option.bind_splits)
  from tp(2,3) ys(2) have "ps' = ps"
    by (auto simp: get_list_def get_list_or_one_def py_or_def split: Option.bind_splits if_splits)
  with mmap_SomeD [OF ys(3)] tp ys(1) show ?thesis by force
qed

lemma judge_metrics_rule_port:
  assumes "judge_metrics_rule name port r = Some []" "port_ok r (YInt (int p)) = Some True" "port \<noteq> ''None''"
  shows "port = nat_dec p"
proof -
  from assms(1) have "opened_ports r = Some [port]"
    by (auto simp: judge_metrics_rule_def split: Option.bind_splits if_splits)
  with port_ok_opened [OF this assms(2)] assms(3) show ?thesis by auto
qed

text \<open>A peer without a finding fixes the namespace of the scraper, and a source it selects is in that
  namespace.\<close>

lemma judge_scraper_fixes:
  assumes "judge_scraper name port peer = Some []" "peer_selects peer ns src = Some True"
  shows "\<exists>m n v k w. get_or_dict peer ''matchLabels'' = Some (YMap m) \<and> map_of m NS_LABEL = Some n \<and> truthy n
           \<and> dget src NS_KEY = Some v \<and> py_eq v n \<and> (k, w) \<in> set m \<and> k \<noteq> NS_LABEL"
proof -
  from assms(1) obtain pml n ks where pml: "get_or_dict peer ''matchLabels'' = Some pml" "dget pml NS_LABEL = Some n"
    "truthy n" "keyset pml = Some ks" "\<not> set ks \<subseteq> {YStr NS_LABEL}"
    by (auto simp: judge_scraper_def split: Option.bind_splits if_splits)
  then obtain m where m: "pml = YMap m" "map_of m NS_LABEL = Some n"
    by (auto simp: dget_Some_iff split: option.splits)
  from pml(4,5) m(1) obtain k w where k: "(k, w) \<in> set m" "k \<noteq> NS_LABEL" by fastforce
  from assms(2) have "selects peer src = Some True"
    by (auto simp: peer_selects_def split: Option.bind_splits if_splits)
  moreover have "py_or peer (YMap []) = peer"
    using pml(1) m by (cases peer) (auto simp: get_or_dict_def py_or_def dget_def)
  ultimately have "mall (label_pair_holds norm_str src) m = Some True"
    using pml(1) m(1) by (auto simp: selects_def split: Option.bind_splits if_splits)
  with m(2) have "label_pair_holds norm_str src (NS_LABEL, n) = Some True"
    by (auto simp: mall_True_iff dest: map_of_SomeD)
  moreover have "norm_str NS_LABEL = NS_KEY"
    using norm_str_prefix [of "''k8s''" NS_KEY] by (simp add: NS_LABEL_def)
  ultimately obtain v where "dget src NS_KEY = Some v" "py_eq v n"
    by (auto simp: label_pair_holds_def split: Option.bind_splits)
  with pml(1,3) m k show ?thesis by blast
qed

text \<open>An ingress rule without a finding that admits a source.\<close>

lemma judge_metrics_rule_admits:
  assumes "judge_metrics_rule name port r = Some []" "peer_admits ''fromEntities'' ''fromEndpoints'' r ns src"
  shows "\<exists>peer. judge_scraper name port peer = Some [] \<and> peer_selects peer ns src = Some True"
proof -
  from assms(1) obtain fe peers where fe: "dget r ''fromEntities'' = Some fe" "\<not> truthy fe"
    and peers: "get_list_or_one r ''fromEndpoints'' = Some peers" "collect (judge_scraper name port) peers = Some []"
    by (auto simp: judge_metrics_rule_def split: Option.bind_splits if_splits)
  from fe have "meets_entities POD_ENTITIES r ''fromEntities'' \<noteq> Some True"
    by (auto simp: meets_entities_def get_list_def py_or_def)
  with assms(2) obtain ss s where s: "get_list r ''fromEndpoints'' = Some ss" "s \<in> set ss" "peer_selects s ns src = Some True"
    by (auto simp: peer_admits_def)
  with peers(1) have "peers = ss"
    by (auto simp: get_list_def get_list_or_one_def py_or_def split: Option.bind_splits if_splits)
  with s peers(2) show ?thesis by (auto simp: collect_empty_iff)
qed

section \<open>The metrics policy admits only the scraper, only on the declared port\<close>


definition metrics_sample :: doc where
  "metrics_sample = st_policy [st_spec ''80'' None None None]"


end
