(* ===== verification/OwnerReads.thy ===== *)
theory OwnerReads
  imports Selectors
begin

text \<open>
  \<^verbatim>\<open>src/scripts/check-owner-credential-readers.py\<close>, first half: who reads a Zitadel owner
  credential. A workload reads a Secret that its pod spec hands to a container; a ServiceAccount
  reads a Secret that the RBAC rules bound to it allow it to get, list or watch. The theory
  models the pod half (\<^verbatim>\<open>pod_spec\<close>, \<^verbatim>\<open>secret_uses\<close>, \<^verbatim>\<open>mount_readers\<close>) and the RBAC half
  (\<^verbatim>\<open>rule_allows\<close>, \<^verbatim>\<open>matches_selector\<close>, \<^verbatim>\<open>role_rules\<close>, \<^verbatim>\<open>can_read\<close>), and proves that no reader the
  RBAC of the render makes is missing from the answer.
\<close>

definition OWNER_NS :: string where
  "OWNER_NS = ''gibson''"

definition READ_VERBS :: "string list" where
  "READ_VERBS = [''get'', ''list'', ''watch'']"

definition ALL_SA_GROUPS :: "string list" where
  "ALL_SA_GROUPS = [''system:serviceaccounts'', ''system:authenticated'']"

section \<open>Pod specs\<close>

definition TEMPLATE_KINDS :: "string list" where
  "TEMPLATE_KINDS = [''Deployment'', ''StatefulSet'', ''DaemonSet'', ''ReplicaSet'', ''Job'']"

text \<open>\<open>YNull\<close> is the None of the code: the document makes no pod.\<close>

definition pod_spec :: "doc \<Rightarrow> yaml option" where
  "pod_spec d = do {
     kind \<leftarrow> dget d ''kind'';
     spec \<leftarrow> get_or_dict d ''spec'';
     if kind = YStr ''Pod'' then Some spec
     else if kind = YStr ''CronJob'' then do {
       jt \<leftarrow> get_or_dict spec ''jobTemplate'';
       js \<leftarrow> get_or_dict jt ''spec'';
       t \<leftarrow> get_or_dict js ''template'';
       dget t ''spec''
     }
     else if in_strtuple kind TEMPLATE_KINDS then do { t \<leftarrow> get_or_dict spec ''template''; dget t ''spec'' }
     else Some YNull
   }"

text \<open>\<^verbatim>\<open>",".join(sorted(...)) or "*"\<close>: the keys must be strings.\<close>

definition keys_of :: "yaml \<Rightarrow> yaml option" where
  "keys_of its = do {
     is \<leftarrow> py_iter (py_or its (YList []));
     ks \<leftarrow> mmap (\<lambda>i. dget_default i ''key'' (YStr [])) is;
     ss \<leftarrow> py_sorted ks;
     if list_all is_str ss
     then Some (YStr (let s = join '','' (map str_of ss) in if s = [] then ''*'' else s))
     else None
   }"

text \<open>The use of a Secret named by key \<^verbatim>\<open>k\<close> of \<^verbatim>\<open>s\<close>, when it is an owner Secret.\<close>

definition volume_use :: "string list \<Rightarrow> yaml \<Rightarrow> string \<Rightarrow> (string \<times> yaml) list option" where
  "volume_use owner s k =
     (if \<not> truthy s then Some []
      else do {
        n \<leftarrow> dget s k;
        hit \<leftarrow> in_strset n owner;
        if \<not> hit then Some []
        else do { its \<leftarrow> dget s ''items''; ks \<leftarrow> keys_of its; Some [(str_of n, ks)] }
      })"

definition volume_uses :: "string list \<Rightarrow> yaml \<Rightarrow> (string \<times> yaml) list option" where
  "volume_uses owner v = do {
     s \<leftarrow> dget v ''secret'';
     a \<leftarrow> volume_use owner s ''secretName'';
     pr \<leftarrow> get_or_dict v ''projected'';
     srcs \<leftarrow> get_list pr ''sources'';
     b \<leftarrow> collect (\<lambda>src. do { t \<leftarrow> dget src ''secret''; volume_use owner t ''name'' }) srcs;
     Some (a @ b)
   }"

definition container_uses :: "string list \<Rightarrow> yaml \<Rightarrow> (string \<times> yaml) list option" where
  "container_uses owner c = do {
     env \<leftarrow> get_list c ''env'';
     a \<leftarrow> collect (\<lambda>e. do {
       vf \<leftarrow> get_or_dict e ''valueFrom'';
       ref \<leftarrow> get_or_dict vf ''secretKeyRef'';
       n \<leftarrow> dget ref ''name'';
       hit \<leftarrow> in_strset n owner;
       if \<not> hit then Some []
       else do {
         key0 \<leftarrow> dget ref ''key'';
         let key = py_or key0 (YStr ''*'');
         if hashable key then Some [(str_of n, key)] else None
       }
     }) env;
     frm \<leftarrow> get_list c ''envFrom'';
     b \<leftarrow> collect (\<lambda>e. do {
       ref \<leftarrow> get_or_dict e ''secretRef'';
       n \<leftarrow> dget ref ''name'';
       hit \<leftarrow> in_strset n owner;
       Some (if hit then [(str_of n, YStr ''*'')] else [])
     }) frm;
     Some (a @ b)
   }"

text \<open>\<^verbatim>\<open>(x or []) + (y or [])\<close> needs two lists.\<close>

fun as_list :: "yaml \<Rightarrow> yaml list option" where
  "as_list (YList xs) = Some xs"
| "as_list _ = None"

definition get_as_list :: "yaml \<Rightarrow> string \<Rightarrow> yaml list option" where
  "get_as_list v k = do { x \<leftarrow> dget v k; as_list (py_or x (YList [])) }"

definition secret_uses :: "yaml \<Rightarrow> string list \<Rightarrow> (string \<times> yaml) list option" where
  "secret_uses ps owner = do {
     vols \<leftarrow> get_list ps ''volumes'';
     a \<leftarrow> collect (volume_uses owner) vols;
     ic \<leftarrow> get_as_list ps ''initContainers'';
     cs \<leftarrow> get_as_list ps ''containers'';
     ec \<leftarrow> get_as_list ps ''ephemeralContainers'';
     b \<leftarrow> collect (container_uses owner) (ic @ cs @ ec);
     Some (mk_set (a @ b))
   }"

definition mount_text :: "string \<Rightarrow> string \<Rightarrow> string \<times> yaml \<Rightarrow> string" where
  "mount_text kind name = (\<lambda>(secret, keys). kind @ ''/'' @ name @ '' '' @ secret @ ''['' @ py_str keys @ '']'')"

definition mount_readers_doc :: "string list \<Rightarrow> string \<Rightarrow> doc \<Rightarrow> string list option" where
  "mount_readers_doc owner ns d = do {
     ps \<leftarrow> pod_spec d;
     if ps = YNull then Some []
     else do {
       dns \<leftarrow> meta_ns_or d ns;
       if dns \<noteq> YStr ns then Some []
       else do {
         us \<leftarrow> secret_uses ps owner;
         if us = [] then Some []
         else do {
           kind \<leftarrow> item d ''kind'';
           name \<leftarrow> meta_name d;
           Some (map (mount_text (py_str kind) (py_str name)) us)
         }
       }
     }
   }"

definition mount_readers :: "doc list \<Rightarrow> string list \<Rightarrow> string \<Rightarrow> string list option" where
  "mount_readers docs owner ns = do { ms \<leftarrow> collect (mount_readers_doc owner ns) docs; Some (mk_set ms) }"

section \<open>RBAC\<close>

text \<open>\<^verbatim>\<open>x in v or "*" in v\<close>, on \<^verbatim>\<open>v = rule.get(k) or []\<close>.\<close>

definition lists :: "yaml \<Rightarrow> string \<Rightarrow> string \<Rightarrow> bool option" where
  "lists rule k x = do {
     v0 \<leftarrow> dget rule k;
     let v = py_or v0 (YList []);
     mor (py_in (YStr x) v) (py_in (YStr ''*'') v)
   }"

definition rule_allows :: "yaml \<Rightarrow> string \<Rightarrow> string option \<Rightarrow> bool option" where
  "rule_allows rule verb name = do {
     g \<leftarrow> lists rule ''apiGroups'' [];
     if \<not> g then Some False else do {
     r \<leftarrow> lists rule ''resources'' ''secrets'';
     if \<not> r then Some False else do {
     v \<leftarrow> lists rule ''verbs'' verb;
     if \<not> v then Some False else do {
     ns0 \<leftarrow> dget rule ''resourceNames'';
     let names = py_or ns0 (YList []);
     if \<not> truthy names then Some True
     else (case name of None \<Rightarrow> Some False | Some n \<Rightarrow> py_in (YStr n) names)
     } } }
   }"

definition rbac_expression :: "yaml \<Rightarrow> yaml \<Rightarrow> bool option" where
  "rbac_expression labels e = do {
     k \<leftarrow> item e ''key'';
     val \<leftarrow> dget_key labels k;
     op \<leftarrow> item e ''operator'';
     vals \<leftarrow> dget e ''values'';
     expression_holds labels k op (py_or vals (YList []))
   }"

definition matches_selector :: "yaml \<Rightarrow> yaml \<Rightarrow> bool option" where
  "matches_selector labels sel = do {
     ml \<leftarrow> get_or_dict sel ''matchLabels'';
     ps \<leftarrow> items ml;
     ok \<leftarrow> mall (label_pair_holds (\<lambda>k. k) labels) ps;
     if \<not> ok then Some False
     else do { es \<leftarrow> get_list sel ''matchExpressions''; mall (rbac_expression labels) es }
   }"

definition rbac_rule :: "string list \<Rightarrow> string list \<Rightarrow> string list \<Rightarrow> yaml" where
  "rbac_rule gs rs vs = YMap [(''apiGroups'', YList (map YStr gs)), (''resources'', YList (map YStr rs)), (''verbs'', YList (map YStr vs))]"

definition BUILTIN_ROLES :: "(string \<times> yaml) list" where
  "BUILTIN_ROLES =
     [(''cluster-admin'', YList [rbac_rule [''*''] [''*''] [''*'']]),
      (''admin'', YList [rbac_rule [[]] [''secrets''] [''get'', ''list'', ''watch'']]),
      (''edit'', YList [rbac_rule [[]] [''secrets''] [''get'', ''list'', ''watch'']]),
      (''view'', YList []),
      (''system:auth-delegator'', YList [])]"

text \<open>A role is known by its kind, its namespace (the empty string for a ClusterRole) and its
  name; its rules are the value of \<^verbatim>\<open>rules\<close>.\<close>

type_synonym role_key = "yaml \<times> yaml \<times> yaml"

definition role_put :: "role_key \<Rightarrow> yaml \<Rightarrow> (role_key \<times> yaml) list \<Rightarrow> (role_key \<times> yaml) list option" where
  "role_put k v m = (case k of (a, b, c) \<Rightarrow>
     if hashable a \<and> hashable b \<and> hashable c then Some (AList.update k v m) else None)"

definition role_find :: "(role_key \<times> yaml) list \<Rightarrow> role_key \<Rightarrow> yaml option option" where
  "role_find m k = (case k of (a, b, c) \<Rightarrow>
     if hashable a \<and> hashable b \<and> hashable c then Some (map_of m k) else None)"

definition namespaced_role :: "string \<Rightarrow> doc \<Rightarrow> (role_key \<times> yaml) list \<Rightarrow> (role_key \<times> yaml) list option" where
  "namespaced_role default_ns d roles = do {
     kind \<leftarrow> dget d ''kind'';
     if kind \<noteq> YStr ''Role'' then Some roles
     else do {
       ns \<leftarrow> meta_ns_or d default_ns;
       n \<leftarrow> meta_name d;
       r \<leftarrow> dget d ''rules'';
       role_put (YStr ''Role'', ns, n) (py_or r (YList [])) roles
     }
   }"

text \<open>The rules of a ClusterRole and of the ClusterRoles that its aggregation rule selects. The
  test \<^verbatim>\<open>other is not d\<close> is on the position of the document.\<close>

definition aggregated :: "(nat \<times> doc) list \<Rightarrow> nat \<times> doc \<Rightarrow> yaml list option" where
  "aggregated crs = (\<lambda>(i, d). do {
     own \<leftarrow> get_list d ''rules'';
     ar \<leftarrow> get_or_dict d ''aggregationRule'';
     sels \<leftarrow> get_list ar ''clusterRoleSelectors'';
     more \<leftarrow> collect (\<lambda>sel. collect (\<lambda>(j, e).
       if j = i then Some []
       else do {
         m \<leftarrow> item e ''metadata'';
         labels \<leftarrow> get_or_dict m ''labels'';
         hit \<leftarrow> matches_selector labels sel;
         if hit then get_list e ''rules'' else Some []
       }) crs) sels;
     Some (own @ more)
   })"

definition role_rules :: "doc list \<Rightarrow> string \<Rightarrow> (role_key \<times> yaml) list option" where
  "role_rules docs default_ns = do {
     roles \<leftarrow> mfold (namespaced_role default_ns) docs [];
     crs \<leftarrow> mfilter (\<lambda>(i, d). do { k \<leftarrow> dget d ''kind''; Some (k = YStr ''ClusterRole'') }) (enumerate 0 docs);
     mfold (\<lambda>(i, d) m. do {
       rs \<leftarrow> aggregated crs (i, d);
       n \<leftarrow> meta_name d;
       role_put (YStr ''ClusterRole'', YStr [], n) (YList rs) m
     }) crs roles
   }"

text \<open>The namespace a binding is effective in: None (\<open>YNull\<close>) for a ClusterRoleBinding.\<close>

definition BINDING_KINDS :: "string list" where
  "BINDING_KINDS = [''RoleBinding'', ''ClusterRoleBinding'']"

definition binding_ns :: "doc \<Rightarrow> yaml \<Rightarrow> string \<Rightarrow> yaml option" where
  "binding_ns d kind default_ns = (if kind = YStr ''RoleBinding'' then meta_ns_or d default_ns else Some YNull)"

definition builtin :: "yaml \<Rightarrow> yaml option option" where
  "builtin n = (if hashable n then Some (case n of YStr s \<Rightarrow> map_of BUILTIN_ROLES s | _ \<Rightarrow> None) else None)"

text \<open>The rules that a binding's \<^verbatim>\<open>roleRef\<close> names: of the render, else built in, else unknown.\<close>

definition bound_rules :: "(role_key \<times> yaml) list \<Rightarrow> yaml \<Rightarrow> yaml \<Rightarrow> yaml option option" where
  "bound_rules roles ref bns = do {
     rk \<leftarrow> dget ref ''kind'';
     rn \<leftarrow> dget ref ''name'';
     found \<leftarrow> role_find roles (rk, if rk = YStr ''Role'' then bns else YStr [], rn);
     (case found of
        Some rules \<Rightarrow> Some (Some rules)
      | None \<Rightarrow> if rk = YStr ''ClusterRole'' then builtin rn else Some None)
   }"

datatype owner_error =
    UnknownRole string string string string
  | GroupReads string string "string list" string
  | GroupTakesOver string string string

definition held_verb :: "string list \<Rightarrow> yaml list \<Rightarrow> string \<Rightarrow> string list option" where
  "held_verb owner rules verb = do {
     all_names \<leftarrow> many (\<lambda>r. rule_allows r verb None) rules;
     if all_names then Some [verb @ '' secrets'']
     else collect (\<lambda>n. do {
       hit \<leftarrow> many (\<lambda>r. rule_allows r verb (Some n)) rules;
       Some (if hit then [verb @ '' '' @ n] else [])
     }) owner
   }"

definition held :: "string list \<Rightarrow> yaml list \<Rightarrow> string list option" where
  "held owner rules = collect (held_verb owner rules) READ_VERBS"

text \<open>\<^verbatim>\<open>g in ALL_SA_GROUPS or g.startswith("system:serviceaccounts:")\<close>.\<close>

definition all_accounts :: "yaml \<Rightarrow> bool option" where
  "all_accounts g = (case g of YStr s \<Rightarrow> Some (s \<in> set ALL_SA_GROUPS \<or> startswith s ''system:serviceaccounts:'') | _ \<Rightarrow> None)"

text \<open>\<^verbatim>\<open>f"{s.get('namespace') or bns or default_ns}/{s['name']}"\<close>.\<close>

definition subject_text :: "yaml \<Rightarrow> yaml \<Rightarrow> string \<Rightarrow> string option" where
  "subject_text s bns default_ns = do {
     ns \<leftarrow> dget s ''namespace'';
     n \<leftarrow> item s ''name'';
     Some (py_str (py_or ns (py_or bns (YStr default_ns))) @ ''/'' @ py_str n)
   }"

type_synonym sa_reads = "(string \<times> string list) list"

definition read_subject ::
  "doc \<Rightarrow> string \<Rightarrow> yaml \<Rightarrow> string \<Rightarrow> string list \<Rightarrow> yaml \<Rightarrow> sa_reads \<times> owner_error list
     \<Rightarrow> (sa_reads \<times> owner_error list) option" where
  "read_subject d kind bns default_ns hs s st = (case st of (reads, errors) \<Rightarrow> do {
     sk \<leftarrow> dget s ''kind'';
     if sk = YStr ''Group'' then do {
       g \<leftarrow> dget_default s ''name'' (YStr []);
       every \<leftarrow> all_accounts g;
       if \<not> every then Some (reads, errors)
       else do { name \<leftarrow> meta_name d; Some (reads, errors @ [GroupReads kind (py_str name) (sort hs) (py_str g)]) }
     }
     else if sk \<noteq> YStr ''ServiceAccount'' then Some (reads, errors)
     else do { subj \<leftarrow> subject_text s bns default_ns; Some (dict_set_update subj hs reads, errors) }
   })"

definition read_binding ::
  "string list \<Rightarrow> string \<Rightarrow> (role_key \<times> yaml) list \<Rightarrow> doc \<Rightarrow> sa_reads \<times> owner_error list
     \<Rightarrow> (sa_reads \<times> owner_error list) option" where
  "read_binding owner default_ns roles d st = (case st of (reads, errors) \<Rightarrow> do {
     kind \<leftarrow> dget d ''kind'';
     if \<not> in_strtuple kind BINDING_KINDS then Some (reads, errors) else do {
     bns \<leftarrow> binding_ns d kind default_ns;
     if bns \<noteq> YNull \<and> bns \<noteq> YStr OWNER_NS then Some (reads, errors) else do {
     ref \<leftarrow> get_or_dict d ''roleRef'';
     br \<leftarrow> bound_rules roles ref bns;
     (case br of
        None \<Rightarrow> do {
          name \<leftarrow> meta_name d; rk \<leftarrow> dget ref ''kind''; rn \<leftarrow> dget ref ''name'';
          Some (reads, errors @ [UnknownRole (py_str kind) (py_str name) (py_str rk) (py_str rn)])
        }
      | Some rv \<Rightarrow> do {
          rules \<leftarrow> py_iter rv;
          hs \<leftarrow> held owner rules;
          if hs = [] then Some (reads, errors) else do {
          ss \<leftarrow> get_list d ''subjects'';
          mfold (read_subject d (py_str kind) bns default_ns hs) ss (reads, errors)
          }
        })
     } }
   })"

definition can_read :: "doc list \<Rightarrow> string list \<Rightarrow> string \<Rightarrow> (sa_reads \<times> owner_error list) option" where
  "can_read docs owner default_ns = do {
     roles \<leftarrow> role_rules docs default_ns;
     mfold (read_binding owner default_ns roles) docs ([], [])
   }"

section \<open>Lemmas\<close>

subsection \<open>Typed RBAC rules\<close>

record policy_rule =
  pr_groups :: "string list"
  pr_resources :: "string list"
  pr_verbs :: "string list"
  pr_names :: "string list"

definition enc_policy_rule :: "policy_rule \<Rightarrow> yaml" where
  "enc_policy_rule r = YMap
     ([(''apiGroups'', YList (map YStr (pr_groups r))), (''resources'', YList (map YStr (pr_resources r))),
       (''verbs'', YList (map YStr (pr_verbs r)))]
      @ (if pr_names r = [] then [] else [(''resourceNames'', YList (map YStr (pr_names r)))]))"

text \<open>What the API server grants with such a rule: the verb on an object of the resource, by its name
  or, without a name, on the collection.\<close>

definition pr_lists :: "string list \<Rightarrow> string \<Rightarrow> bool" where
  "pr_lists xs x \<longleftrightarrow> x \<in> set xs \<or> ''*'' \<in> set xs"

definition pr_names_ok :: "policy_rule \<Rightarrow> string option \<Rightarrow> bool" where
  "pr_names_ok r n \<longleftrightarrow> pr_names r = [] \<or> (\<exists>x. n = Some x \<and> x \<in> set (pr_names r))"

definition secret_rule :: "policy_rule \<Rightarrow> string \<Rightarrow> string option \<Rightarrow> bool" where
  "secret_rule r verb n \<longleftrightarrow> pr_lists (pr_groups r) [] \<and> pr_lists (pr_resources r) ''secrets''
     \<and> pr_lists (pr_verbs r) verb \<and> pr_names_ok r n"

lemma lists_enc [simp]:
  "lists (enc_policy_rule r) ''apiGroups'' x = Some (pr_lists (pr_groups r) x)"
  "lists (enc_policy_rule r) ''resources'' x = Some (pr_lists (pr_resources r) x)"
  "lists (enc_policy_rule r) ''verbs'' x = Some (pr_lists (pr_verbs r) x)"
  by (auto simp: lists_def enc_policy_rule_def pr_lists_def list_ex_iff)

lemma rule_allows_enc: "rule_allows (enc_policy_rule r) verb n = Some (secret_rule r verb n)"
proof -
  have "dget (enc_policy_rule r) ''resourceNames'' =
      Some (if pr_names r = [] then YNull else YList (map YStr (pr_names r)))"
    by (simp add: enc_policy_rule_def)
  then show ?thesis
    by (auto simp: rule_allows_def secret_rule_def pr_names_ok_def Let_def list_ex_iff split: option.splits)
qed

lemma matches_selector_enc:
  "matches_selector (enc_labels ls) (enc_selector s) = Some (sel_matches (\<lambda>k. k) s ls)"
proof -
  have "rbac_expression (enc_labels ls) (enc_expr x) = Some (case x of (k, op, vs) \<Rightarrow> expr_meaning ls k op vs)" for x
    by (cases x) (simp add: rbac_expression_def)
  then show ?thesis by (auto simp: matches_selector_def sel_matches_def list_all_iff)
qed

interpretation rbac: label_selector "\<lambda>sel labels. matches_selector labels sel" "\<lambda>k. k"
  by unfold_locales (rule matches_selector_enc)

subsection \<open>Reads\<close>

text \<open>The reads a binding gives a ServiceAccount.\<close>

definition binding_reads ::
  "string list \<Rightarrow> string \<Rightarrow> (role_key \<times> yaml) list \<Rightarrow> doc \<Rightarrow> string \<Rightarrow> string \<Rightarrow> bool" where
  "binding_reads owner dns roles d subj h \<longleftrightarrow> (\<exists>kind bns ref rv rules hs ss s.
     dget d ''kind'' = Some kind \<and> in_strtuple kind BINDING_KINDS
     \<and> binding_ns d kind dns = Some bns \<and> (bns = YNull \<or> bns = YStr OWNER_NS)
     \<and> get_or_dict d ''roleRef'' = Some ref \<and> bound_rules roles ref bns = Some (Some rv) \<and> py_iter rv = Some rules
     \<and> held owner rules = Some hs \<and> h \<in> set hs
     \<and> get_list d ''subjects'' = Some ss \<and> s \<in> set ss
     \<and> dget s ''kind'' = Some (YStr ''ServiceAccount'') \<and> subject_text s bns dns = Some subj)"

lemma read_subject_adds:
  assumes "read_subject d kind bns dns hs s st = Some st'"
  shows "h \<in> set (dict_get (fst st') subj []) \<longleftrightarrow>
     h \<in> set (dict_get (fst st) subj []) \<or> (dget s ''kind'' = Some (YStr ''ServiceAccount'')
        \<and> subject_text s bns dns = Some subj \<and> h \<in> set hs)"
  using assms
  by (cases st) (auto simp: read_subject_def dict_get_dict_set_update split: Option.bind_splits if_splits)

lemma read_subjects_add:
  assumes "mfold (read_subject d kind bns dns hs) ss st = Some st'"
  shows "h \<in> set (dict_get (fst st') subj []) \<longleftrightarrow>
     h \<in> set (dict_get (fst st) subj []) \<or> (\<exists>s \<in> set ss. dget s ''kind'' = Some (YStr ''ServiceAccount'')
        \<and> subject_text s bns dns = Some subj \<and> h \<in> set hs)"
  by (rule mfold_collects [OF read_subject_adds assms])

lemma read_binding_adds:
  assumes "read_binding owner dns roles d st = Some st'"
  shows "h \<in> set (dict_get (fst st') subj []) \<longleftrightarrow>
     h \<in> set (dict_get (fst st) subj []) \<or> binding_reads owner dns roles d subj h"
proof (cases st)
  case (Pair reads errors)
  show ?thesis
    using assms unfolding Pair read_binding_def binding_reads_def
    by (fastforce dest!: read_subjects_add split: Option.bind_splits if_splits option.splits)
qed

lemma can_read_iff:
  assumes "can_read docs owner dns = Some (reads, errors)" "role_rules docs dns = Some roles"
  shows "h \<in> set (dict_get reads subj []) \<longleftrightarrow> (\<exists>d \<in> set docs. binding_reads owner dns roles d subj h)"
proof -
  from assms have "mfold (read_binding owner dns roles) docs ([], []) = Some (reads, errors)"
    by (simp add: can_read_def)
  from mfold_collects [where P = "\<lambda>st. h \<in> set (dict_get (fst st) subj [])", OF read_binding_adds this]
  show ?thesis by (simp add: dict_get_def)
qed

text \<open>What is held of an owner Secret follows from one rule.\<close>

lemma held_covers:
  assumes "held owner rules = Some hs" "r \<in> set rules" "n \<in> set owner" "verb \<in> set READ_VERBS"
    and "rule_allows r verb (Some n) = Some True"
  shows "verb @ '' secrets'' \<in> set hs \<or> verb @ '' '' @ n \<in> set hs"
proof -
  from collect_SomeD [OF assms(1) [unfolded held_def] assms(4)] obtain ys where
    ys: "held_verb owner rules verb = Some ys" "set ys \<subseteq> set hs" by blast
  show ?thesis
  proof (cases "many (\<lambda>r. rule_allows r verb None) rules = Some True")
    case True
    with ys show ?thesis by (auto simp: held_verb_def)
  next
    case False
    with ys(1) have c: "collect (\<lambda>n. do { hit \<leftarrow> many (\<lambda>r. rule_allows r verb (Some n)) rules;
        Some (if hit then [verb @ '' '' @ n] else []) }) owner = Some ys"
      by (auto simp: held_verb_def split: Option.bind_splits if_splits)
    from collect_SomeD [OF c assms(3)] obtain hit where
      hit: "many (\<lambda>r. rule_allows r verb (Some n)) rules = Some hit" "hit \<Longrightarrow> verb @ '' '' @ n \<in> set ys"
      by (auto split: Option.bind_splits)
    have hit
    proof (rule ccontr)
      assume "\<not> hit"
      with hit(1) assms(2,5) show False by (simp add: many_False_iff)
    qed
    with hit(2) ys(2) show ?thesis by blast
  qed
qed

section \<open>No reader is missed\<close>

text \<open>The RBAC half misses no reader. Take a render, a RoleBinding of the release namespace or a
  ClusterRoleBinding, the rules of the role it names (of the render, expanded, or built in) and
  a ServiceAccount among its subjects. When one of these rules allows get, list or watch on an
  owner Secret, \<^verbatim>\<open>can_read\<close> reports that verb for this ServiceAccount, on the Secret by its name
  or on all Secrets.\<close>

theorem can_read_complete:
  assumes "can_read docs owner dns = Some (reads, errors)" "role_rules docs dns = Some roles"
    and "d \<in> set docs" "dget d ''kind'' = Some kind" "in_strtuple kind BINDING_KINDS"
    and "binding_ns d kind dns = Some bns" "bns = YNull \<or> bns = YStr OWNER_NS"
    and "get_or_dict d ''roleRef'' = Some ref" "bound_rules roles ref bns = Some (Some rv)" "py_iter rv = Some rules"
    and "get_list d ''subjects'' = Some ss" "s \<in> set ss"
    and "dget s ''kind'' = Some (YStr ''ServiceAccount'')" "subject_text s bns dns = Some subj"
    and "r \<in> set rules" "n \<in> set owner" "verb \<in> set READ_VERBS" "rule_allows r verb (Some n) = Some True"
  shows "\<exists>hs. map_of reads subj = Some hs \<and> (verb @ '' secrets'' \<in> set hs \<or> verb @ '' '' @ n \<in> set hs)"
proof -
  from assms(1,2) have fold: "mfold (read_binding owner dns roles) docs ([], []) = Some (reads, errors)"
    by (simp add: can_read_def)
  from mfold_step_defined [OF this assms(3)] obtain st st' where "read_binding owner dns roles d st = Some st'"
    by (elim exE)
  then obtain hs where hs: "held owner rules = Some hs"
    using assms(4-10) by (cases st) (auto simp: read_binding_def split: Option.bind_splits if_splits)
  from held_covers [OF hs assms(15-18)] obtain h where
    h: "h \<in> set hs" "h = verb @ '' secrets'' \<or> h = verb @ '' '' @ n" by blast
  have "binding_reads owner dns roles d subj h"
    using assms(4-14) hs h(1) unfolding binding_reads_def by blast
  with can_read_iff [OF assms(1,2)] assms(3) have "h \<in> set (dict_get reads subj [])" by blast
  then obtain hs' where "map_of reads subj = Some hs'" "h \<in> set hs'"
    by (cases "map_of reads subj") (auto simp: dict_get_def)
  with h(2) show ?thesis by blast
qed

definition boot_role :: doc where
  "boot_role = YMap [(''kind'', YStr ''Role''), (''metadata'', YMap [(''name'', YStr ''boot''), (''namespace'', YStr ''gibson'')]),
     (''rules'', YList [enc_policy_rule \<lparr>pr_groups = [[]], pr_resources = [''secrets''], pr_verbs = [''get''], pr_names = [''iam-admin-pat'']\<rparr>])]"

definition boot_binding :: doc where
  "boot_binding = YMap [(''kind'', YStr ''RoleBinding''), (''metadata'', YMap [(''name'', YStr ''boot''), (''namespace'', YStr ''gibson'')]),
     (''roleRef'', YMap [(''kind'', YStr ''Role''), (''name'', YStr ''boot'')]),
     (''subjects'', YList [YMap [(''kind'', YStr ''ServiceAccount''), (''name'', YStr ''boot''), (''namespace'', YStr ''gibson'')]])]"

lemma can_read_complete_witness:
  "\<exists>hs. map_of [(''gibson/boot'', [''get iam-admin-pat''])] ''gibson/boot'' = Some hs
     \<and> (''get secrets'' \<in> set hs \<or> ''get iam-admin-pat'' \<in> set hs)"
proof -
  let ?rule = "enc_policy_rule \<lparr>pr_groups = [[]], pr_resources = [''secrets''], pr_verbs = [''get''], pr_names = [''iam-admin-pat'']\<rparr>"
  let ?roles = "[((YStr ''Role'', YStr ''gibson'', YStr ''boot''), YList [?rule])]"
  let ?s = "YMap [(''kind'', YStr ''ServiceAccount''), (''name'', YStr ''boot''), (''namespace'', YStr ''gibson'')]"
  have c: "can_read [boot_role, boot_binding] [''iam-admin-pat''] OWNER_NS = Some ([(''gibson/boot'', [''get iam-admin-pat''])], [])"
    by code_simp
  have r: "role_rules [boot_role, boot_binding] OWNER_NS = Some ?roles" by code_simp
  have b: "bound_rules ?roles (YMap [(''kind'', YStr ''Role''), (''name'', YStr ''boot'')]) (YStr OWNER_NS) = Some (Some (YList [?rule]))"
    by code_simp
  have n: "binding_ns boot_binding (YStr ''RoleBinding'') OWNER_NS = Some (YStr OWNER_NS)" by code_simp
  have t: "subject_text ?s (YStr OWNER_NS) OWNER_NS = Some ''gibson/boot''" by code_simp
  have a: "rule_allows ?rule ''get'' (Some ''iam-admin-pat'') = Some True" by code_simp
  have k: "dget boot_binding ''kind'' = Some (YStr ''RoleBinding'')" by code_simp
  have f: "get_or_dict boot_binding ''roleRef'' = Some (YMap [(''kind'', YStr ''Role''), (''name'', YStr ''boot'')])" by code_simp
  have ss: "get_list boot_binding ''subjects'' = Some [?s]" by code_simp
  have sk: "dget ?s ''kind'' = Some (YStr ''ServiceAccount'')" by code_simp
  have bk: "in_strtuple (YStr ''RoleBinding'') BINDING_KINDS" by code_simp
  have v: "''get'' \<in> set READ_VERBS" by (simp add: READ_VERBS_def)
  have "\<exists>hs. map_of [(''gibson/boot'', [''get iam-admin-pat''])] ''gibson/boot'' = Some hs
     \<and> (''get'' @ '' secrets'' \<in> set hs \<or> ''get'' @ '' '' @ ''iam-admin-pat'' \<in> set hs)"
    by (rule can_read_complete [OF c r _ k bk n _ f b py_iter.simps(1) ss _ sk t _ _ v a]) (rule list.set_intros | rule disjI2 refl)+
  then show ?thesis unfolding append.simps .
qed

end
