(* ===== verification/OwnerTakeover.thy ===== *)
theory OwnerTakeover
  imports OwnerReads
begin

text \<open>
  \<^verbatim>\<open>src/scripts/check-owner-credential-readers.py\<close>, second half: who can become a reader of an owner
  credential. The theory models the takeover analysis: the RBAC evaluator \<^verbatim>\<open>grant\<close>, the six powers
  of \<^verbatim>\<open>powers\<close> (exec, patch, create-pod, token, impersonate, bind) and the analysis of every render,
  \<^verbatim>\<open>rendered_takeovers\<close>. It proves that \<^verbatim>\<open>grant\<close> computes what the API server grants, that a power is
  never lost when rules are added and never held against oneself.
\<close>

definition POWERS :: "string list" where
  "POWERS = [''exec'', ''patch'', ''create-pod'', ''token'', ''impersonate'', ''bind'']"

definition RBAC_GROUP :: string where
  "RBAC_GROUP = ''rbac.authorization.k8s.io''"

definition KIND_RESOURCE :: "(string \<times> string \<times> string) list" where
  "KIND_RESOURCE =
     [(''Deployment'', ''apps'', ''deployments''), (''StatefulSet'', ''apps'', ''statefulsets''),
      (''DaemonSet'', ''apps'', ''daemonsets''), (''ReplicaSet'', ''apps'', ''replicasets''),
      (''CronJob'', ''batch'', ''cronjobs''), (''Pod'', [], ''pods'')]"

definition POD_MAKERS :: "(string \<times> string) list" where
  "POD_MAKERS =
     [([], ''pods''), ([], ''replicationcontrollers''), (''apps'', ''deployments''), (''apps'', ''statefulsets''),
      (''apps'', ''daemonsets''), (''apps'', ''replicasets''), (''batch'', ''jobs''), (''batch'', ''cronjobs'')]"

definition EXEC_SUBRESOURCES :: "(string \<times> string list) list" where
  "EXEC_SUBRESOURCES =
     [(''pods/exec'', [''create'', ''get'']), (''pods/attach'', [''create'', ''get'']),
      (''pods/ephemeralcontainers'', [''patch'', ''update''])]"

section \<open>The RBAC evaluator\<close>

definition resource_hit :: "string \<Rightarrow> yaml \<Rightarrow> bool" where
  "resource_hit resource r =
     (in_strtuple r [''*'', resource]
      \<or> (case split_once (CHR ''/'') resource of
           (base, None) \<Rightarrow> False
         | (base, Some sub) \<Rightarrow> in_strtuple r [base @ ''/*'', ''*/'' @ sub]))"

definition resource_matches :: "yaml list \<Rightarrow> string \<Rightarrow> bool" where
  "resource_matches listed resource = list_ex (resource_hit resource) listed"

type_synonym granted = "bool \<times> bool \<times> yaml list"

text \<open>One rule adds to what is granted: whether at all, whether for every name, and the names.\<close>

definition grant_rule :: "string \<Rightarrow> string \<Rightarrow> string list \<Rightarrow> yaml \<Rightarrow> granted \<Rightarrow> granted option" where
  "grant_rule grp resource verbs r st = (case st of (hit, every, names) \<Rightarrow> do {
     g \<leftarrow> lists r ''apiGroups'' grp;
     if \<not> g then Some (hit, every, names) else do {
     rs \<leftarrow> get_list r ''resources'';
     if \<not> resource_matches rs resource then Some (hit, every, names) else do {
     v \<leftarrow> many (lists r ''verbs'') verbs;
     if \<not> v then Some (hit, every, names) else do {
     rn0 \<leftarrow> dget r ''resourceNames'';
     let rn = py_or rn0 (YList []);
     if truthy rn then do { ks \<leftarrow> keyset rn; Some (True, every, set_update ks names) }
     else Some (True, True, names)
     } } }
   })"

definition grant :: "yaml list \<Rightarrow> string \<Rightarrow> string \<Rightarrow> string list \<Rightarrow> granted option" where
  "grant rules grp resource verbs = mfold (grant_rule grp resource verbs) rules (False, False, [])"

text \<open>\<^verbatim>\<open>grant(...)[0]\<close>.\<close>

definition granted_any :: "yaml list \<Rightarrow> string \<Rightarrow> string \<Rightarrow> string list \<Rightarrow> bool option" where
  "granted_any rules grp resource verbs = do { (hit, _, _) \<leftarrow> grant rules grp resource verbs; Some hit }"

text \<open>\<^verbatim>\<open>re.fullmatch(re.escape(name) + r"-\d+", n)\<close>.\<close>

definition ordinal_of :: "string \<Rightarrow> string \<Rightarrow> bool" where
  "ordinal_of name n =
     (startswith n (name @ ''-'')
      \<and> (let ds = drop (length name + 1) n in ds \<noteq> [] \<and> list_all is_digit ds))"

text \<open>\<^verbatim>\<open>x in s\<close> for a set of values.\<close>

definition in_valset :: "yaml \<Rightarrow> yaml list \<Rightarrow> bool option" where
  "in_valset x s = (if hashable x then Some (x \<in> set s) else None)"

definition pod_named :: "string \<Rightarrow> yaml \<Rightarrow> yaml list \<Rightarrow> bool option" where
  "pod_named kind name names =
     (if kind = ''Pod'' then in_valset name names
      else if kind = ''StatefulSet''
      then many (\<lambda>n. case (name, n) of (YStr a, YStr b) \<Rightarrow> Some (ordinal_of a b) | _ \<Rightarrow> None) names
      else Some False)"

section \<open>Workloads\<close>

record workload =
  wl_kind :: string
  wl_name :: yaml
  wl_ns :: yaml
  wl_sa :: yaml
  wl_spec :: yaml

definition wl_account :: "workload \<Rightarrow> string" where
  "wl_account w = py_str (wl_ns w) @ ''/'' @ py_str (wl_sa w)"

definition wl_id :: "workload \<Rightarrow> string" where
  "wl_id w = wl_kind w @ ''/'' @ py_str (wl_name w)"

definition workloads :: "doc list \<Rightarrow> yaml \<Rightarrow> workload list option" where
  "workloads docs default_ns = collect (\<lambda>d. do {
     ps \<leftarrow> pod_spec d;
     if ps = YNull then Some []
     else do {
       kind \<leftarrow> item d ''kind'';
       name \<leftarrow> meta_name d;
       m \<leftarrow> item d ''metadata'';
       ns \<leftarrow> dget m ''namespace'';
       a \<leftarrow> dget ps ''serviceAccountName'';
       b \<leftarrow> dget ps ''serviceAccount'';
       Some [\<lparr>wl_kind = py_str kind, wl_name = name, wl_ns = py_or ns default_ns,
              wl_sa = py_or a (py_or b (YStr ''default'')), wl_spec = ps\<rparr>]
     }
   }) docs"

text \<open>\<^verbatim>\<open>w["ns"] == NS and secret_uses(w["spec"], owner)\<close>, as a truth value.\<close>

definition mounts_owner :: "string list \<Rightarrow> workload \<Rightarrow> bool option" where
  "mounts_owner owner w =
     (if wl_ns w = YStr OWNER_NS then do { us \<leftarrow> secret_uses (wl_spec w) owner; Some (us \<noteq> []) } else Some False)"

definition reader_targets ::
  "workload list \<Rightarrow> string list \<Rightarrow> string list \<Rightarrow> (workload list \<times> string list) option" where
  "reader_targets wls owner reader_sas = do {
     ms \<leftarrow> mfilter (mounts_owner owner) wls;
     let sas = set_update (map wl_account ms) (mk_set reader_sas);
     targets \<leftarrow> mfilter (\<lambda>w. mor (Some (wl_account w \<in> set sas)) (mounts_owner owner w)) wls;
     Some (targets, sas)
   }"

definition role_is_reader :: "yaml list \<Rightarrow> string list \<Rightarrow> bool option" where
  "role_is_reader rules owner = many (\<lambda>verb.
     mor (many (\<lambda>r. rule_allows r verb None) rules)
         (many (\<lambda>r. many (\<lambda>n. rule_allows r verb (Some n)) owner) rules)) READ_VERBS"

section \<open>Powers\<close>

definition in_scope_ns :: "yaml \<Rightarrow> yaml \<Rightarrow> bool" where
  "in_scope_ns bns ns \<longleftrightarrow> bns = YNull \<or> py_eq bns ns"

text \<open>\<^verbatim>\<open>hit and (every or f(names))\<close> on the result of \<^verbatim>\<open>grant\<close>.\<close>

definition reaches_name :: "granted \<Rightarrow> (yaml list \<Rightarrow> bool option) \<Rightarrow> bool option" where
  "reaches_name g f = (case g of (hit, every, names) \<Rightarrow> if \<not> hit then Some False else if every then Some True else f names)"

text \<open>The powers over one target workload.\<close>

definition target_powers :: "yaml list \<Rightarrow> bool \<Rightarrow> workload \<Rightarrow> (string \<times> string) list option" where
  "target_powers rules node_exec w = do {
     ex \<leftarrow> mmap (\<lambda>(sub, verbs). do {
       g \<leftarrow> grant rules [] sub verbs;
       reaches_name g (pod_named (wl_kind w) (wl_name w))
     }) EXEC_SUBRESOURCES;
     pp \<leftarrow> do {
       g \<leftarrow> grant rules [] ''pods'' [''patch'', ''update''];
       reaches_name g (pod_named (wl_kind w) (wl_name w))
     };
     wp \<leftarrow> (case map_of KIND_RESOURCE (wl_kind w) of
              Some (grp, res) \<Rightarrow>
                if wl_kind w \<noteq> ''Pod'' then do {
                  h \<leftarrow> grant rules grp res [''patch'', ''update''];
                  reaches_name h (in_valset (wl_name w))
                } else Some False
            | None \<Rightarrow> Some False);
     Some ((if node_exec \<or> True \<in> set ex then [(''exec'', wl_id w)] else [])
           @ (if pp \<or> wp then [(''patch'', wl_id w)] else []))
   }"

text \<open>The powers over one reader ServiceAccount, \<^verbatim>\<open>ns/name\<close>.\<close>

definition account_powers :: "yaml list \<Rightarrow> yaml \<Rightarrow> string \<Rightarrow> (string \<times> string) list option" where
  "account_powers rules bns sa = (case split_once (CHR ''/'') sa of
       (ns, None) \<Rightarrow> None
     | (ns, Some name) \<Rightarrow> do {
         tok \<leftarrow> (if in_scope_ns bns (YStr ns)
                then do { g \<leftarrow> grant rules [] ''serviceaccounts/token'' [''create''];
                          reaches_name g (in_valset (YStr name)) } else Some False);
         imp \<leftarrow> (if in_scope_ns bns (YStr ns)
                then do { g \<leftarrow> grant rules [] ''serviceaccounts'' [''impersonate''];
                          reaches_name g (in_valset (YStr name)) } else Some False);
         usr \<leftarrow> (if bns = YNull
                then do { g \<leftarrow> grant rules [] ''users'' [''impersonate''];
                          reaches_name g (in_valset (YStr (''system:serviceaccount:'' @ ns @ '':'' @ name))) } else Some False);
         Some ((if tok then [(''token'', ''ServiceAccount/'' @ sa)] else [])
               @ (if imp \<or> usr then [(''impersonate'', ''ServiceAccount/'' @ sa)] else []))
       })"

text \<open>\<^verbatim>\<open>powers\<close> at depth 1, where no further role is bound: the powers over the targets, over the
  namespace and over the reader accounts.\<close>

definition powers_direct ::
  "yaml list \<Rightarrow> yaml \<Rightarrow> string \<Rightarrow> workload list \<Rightarrow> string list \<Rightarrow> (string \<times> string) list option" where
  "powers_direct rules bns holder targets sas = do {
     node_exec \<leftarrow> (if bns = YNull then granted_any rules [] ''nodes/proxy'' [''get'', ''create''] else Some False);
     a \<leftarrow> collect (\<lambda>w. if \<not> in_scope_ns bns (wl_ns w) \<or> wl_account w = holder then Some []
                      else target_powers rules node_exec w) targets;
     mk \<leftarrow> (if in_scope_ns bns (YStr OWNER_NS)
           then many (\<lambda>(g, r). granted_any rules g r [''create'']) POD_MAKERS else Some False);
     c \<leftarrow> collect (\<lambda>sa. if sa = holder then Some [] else account_powers rules bns sa) (sort sas);
     Some (mk_set (a @ (if mk then [(''create-pod'', ''Namespace/'' @ OWNER_NS)] else []) @ c))
   }"

type_synonym role_lookup = "string \<Rightarrow> yaml \<Rightarrow> yaml option option"

definition WRITE_VERBS :: "string list" where
  "WRITE_VERBS = [''create'', ''update'', ''patch'']"

text \<open>A role that the holder may bind, by name: it counts when it is unknown, reads an owner
  credential, or gives a power in the release namespace.\<close>

definition bind_named ::
  "string \<Rightarrow> workload list \<Rightarrow> string list \<Rightarrow> role_lookup \<Rightarrow> string list \<Rightarrow> string \<Rightarrow> yaml \<Rightarrow> (string \<times> string) list option" where
  "bind_named holder targets sas by_ref owner kind n = do {
     br \<leftarrow> by_ref kind n;
     hit \<leftarrow> (case br of
        None \<Rightarrow> Some True
      | Some rv \<Rightarrow> do {
          bound \<leftarrow> py_iter rv;
          mor (role_is_reader bound owner)
              (do { ps \<leftarrow> powers_direct bound (YStr OWNER_NS) holder targets sas; Some (ps \<noteq> []) })
        });
     Some (if hit then [(''bind'', kind @ ''/'' @ py_str n)] else [])
   }"

definition bind_kind ::
  "yaml list \<Rightarrow> string \<Rightarrow> workload list \<Rightarrow> string list \<Rightarrow> role_lookup \<Rightarrow> string list \<Rightarrow> string \<times> string
     \<Rightarrow> (string \<times> string) list option" where
  "bind_kind rules holder targets sas by_ref owner = (\<lambda>(kind, res). do {
     (hit, every, names) \<leftarrow> grant rules RBAC_GROUP res [''bind''];
     ns \<leftarrow> py_sorted names;
     named \<leftarrow> collect (bind_named holder targets sas by_ref owner kind) ns;
     Some ((if hit \<and> every then [(''bind'', kind @ ''/*'')] else []) @ named)
   })"

definition powers_bind ::
  "yaml list \<Rightarrow> yaml \<Rightarrow> string \<Rightarrow> workload list \<Rightarrow> string list \<Rightarrow> role_lookup \<Rightarrow> string list
     \<Rightarrow> (string \<times> string) list option" where
  "powers_bind rules bns holder targets sas by_ref owner = do {
     rb \<leftarrow> mor (granted_any rules RBAC_GROUP ''rolebindings'' WRITE_VERBS)
               (mand (Some (bns = YNull)) (granted_any rules RBAC_GROUP ''clusterrolebindings'' WRITE_VERBS));
     a \<leftarrow> (if rb then collect (bind_kind rules holder targets sas by_ref owner)
                        [(''ClusterRole'', ''clusterroles''), (''Role'', ''roles'')] else Some []);
     er \<leftarrow> mand (granted_any rules RBAC_GROUP ''roles'' [''escalate''])
               (granted_any rules RBAC_GROUP ''roles'' WRITE_VERBS);
     ec \<leftarrow> mand (Some (bns = YNull)) (mand (granted_any rules RBAC_GROUP ''clusterroles'' [''escalate''])
               (granted_any rules RBAC_GROUP ''clusterroles'' WRITE_VERBS));
     Some (a @ (if er then [(''bind'', ''Role/*'')] else []) @ (if ec then [(''bind'', ''ClusterRole/*'')] else []))
   }"

text \<open>\<^verbatim>\<open>powers\<close> at depth 0: the set of pairs of a power and a target.\<close>

definition powers ::
  "yaml list \<Rightarrow> yaml \<Rightarrow> string \<Rightarrow> workload list \<Rightarrow> string list \<Rightarrow> role_lookup \<Rightarrow> string list
     \<Rightarrow> (string \<times> string) list option" where
  "powers rules bns holder targets sas by_ref owner = do {
     a \<leftarrow> powers_direct rules bns holder targets sas;
     b \<leftarrow> (if in_scope_ns bns (YStr OWNER_NS) then powers_bind rules bns holder targets sas by_ref owner else Some []);
     Some (set_update b a)
   }"

section \<open>Every render\<close>

text \<open>\<^verbatim>\<open>next((d["metadata"].get("namespace") for d in docs if ...), NS)\<close>.\<close>

fun render_ns :: "doc list \<Rightarrow> yaml option" where
  "render_ns [] = Some (YStr OWNER_NS)"
| "render_ns (d # ds) = do {
     m \<leftarrow> get_or_dict d ''metadata'';
     n \<leftarrow> dget m ''namespace'';
     if truthy n then Some n else render_ns ds
   }"

definition by_ref_of :: "(role_key \<times> yaml) list \<Rightarrow> role_lookup" where
  "by_ref_of roles kind name = do {
     found \<leftarrow> role_find roles (YStr kind, if kind = ''Role'' then YStr OWNER_NS else YStr [], name);
     (case found of Some r \<Rightarrow> Some (Some r) | None \<Rightarrow> if kind = ''ClusterRole'' then builtin name else Some None)
   }"

type_synonym takeovers = "((string \<times> string) \<times> string list) list"

definition add_powers :: "string \<Rightarrow> (string \<times> string) list \<Rightarrow> takeovers \<Rightarrow> takeovers" where
  "add_powers holder ps found = fold (\<lambda>(p, t) m. dict_set_update (holder, p) [t] m) ps found"

definition takeover_subject ::
  "doc \<Rightarrow> string \<Rightarrow> yaml list \<Rightarrow> yaml \<Rightarrow> workload list \<Rightarrow> string list \<Rightarrow> role_lookup \<Rightarrow> string list \<Rightarrow> yaml
     \<Rightarrow> takeovers \<times> owner_error list \<Rightarrow> (takeovers \<times> owner_error list) option" where
  "takeover_subject d kind rules bns targets sas by_ref owner s st = (case st of (found, errors) \<Rightarrow> do {
     sk \<leftarrow> dget s ''kind'';
     if sk = YStr ''Group'' then do {
       g \<leftarrow> dget_default s ''name'' (YStr []);
       every \<leftarrow> all_accounts g;
       if \<not> every then Some (found, errors) else do {
       ps \<leftarrow> powers rules bns [] targets sas by_ref owner;
       if ps = [] then Some (found, errors)
       else do { name \<leftarrow> meta_name d; Some (found, errors @ [GroupTakesOver kind (py_str name) (py_str g)]) }
       }
     }
     else if sk \<noteq> YStr ''ServiceAccount'' then Some (found, errors)
     else do {
       holder \<leftarrow> subject_text s bns OWNER_NS;
       ps \<leftarrow> powers rules bns holder targets sas by_ref owner;
       Some (add_powers holder ps found, errors)
     }
   })"

definition takeover_binding ::
  "(role_key \<times> yaml) list \<Rightarrow> workload list \<Rightarrow> string list \<Rightarrow> string list \<Rightarrow> doc
     \<Rightarrow> takeovers \<times> owner_error list \<Rightarrow> (takeovers \<times> owner_error list) option" where
  "takeover_binding roles targets sas owner d st = do {
     kind \<leftarrow> dget d ''kind'';
     if \<not> in_strtuple kind BINDING_KINDS then Some st else do {
     bns \<leftarrow> binding_ns d kind OWNER_NS;
     ref \<leftarrow> get_or_dict d ''roleRef'';
     br \<leftarrow> bound_rules roles ref bns;
     (case br of
        None \<Rightarrow> Some st
      | Some rv \<Rightarrow> do {
          rules \<leftarrow> py_iter rv;
          ss \<leftarrow> get_list d ''subjects'';
          mfold (takeover_subject d (py_str kind) rules bns targets sas (by_ref_of roles) owner) ss st
        })
     }
   }"

definition takeover_render ::
  "workload list \<Rightarrow> string list \<Rightarrow> string list \<Rightarrow> doc list
     \<Rightarrow> takeovers \<times> owner_error list \<Rightarrow> (takeovers \<times> owner_error list) option" where
  "takeover_render targets sas owner docs st = do {
     roles \<leftarrow> role_rules docs OWNER_NS;
     mfold (takeover_binding roles targets sas owner) docs st
   }"

definition all_workloads :: "doc list list \<Rightarrow> workload list option" where
  "all_workloads docsets = collect (\<lambda>docs. do { ns \<leftarrow> render_ns docs; workloads docs ns }) docsets"

definition rendered_takeovers ::
  "doc list list \<Rightarrow> string list \<Rightarrow> string list \<Rightarrow> (takeovers \<times> owner_error list) option" where
  "rendered_takeovers docsets owner reader_sas = do {
     wls \<leftarrow> all_workloads docsets;
     (targets, sas) \<leftarrow> reader_targets wls owner reader_sas;
     mfold (takeover_render targets sas owner) docsets ([], [])
   }"

section \<open>Lemmas\<close>

subsection \<open>What a rule grants\<close>

text \<open>The resource pattern of a typed rule: every resource, the resource itself, every subresource
  of its base, or the subresource of every base.\<close>

definition resource_meaning :: "string \<Rightarrow> string \<Rightarrow> bool" where
  "resource_meaning pat res \<longleftrightarrow> pat = ''*'' \<or> pat = res
     \<or> (\<exists>base sub. res = base @ ''/'' @ sub \<and> CHR ''/'' \<notin> set base \<and> (pat = base @ ''/*'' \<or> pat = ''*/'' @ sub))"

definition rule_grants :: "policy_rule \<Rightarrow> string \<Rightarrow> string \<Rightarrow> string list \<Rightarrow> bool" where
  "rule_grants r g res verbs \<longleftrightarrow> pr_lists (pr_groups r) g
     \<and> (\<exists>pat \<in> set (pr_resources r). resource_meaning pat res) \<and> (\<exists>v \<in> set verbs. pr_lists (pr_verbs r) v)"

lemma resource_hit_YStr: "resource_hit res (YStr pat) \<longleftrightarrow> resource_meaning pat res"
proof (cases "split_once (CHR ''/'') res")
  case (Pair base rest)
  show ?thesis
  proof (cases rest)
    case None
    with Pair have "CHR ''/'' \<notin> set res" by (metis split_once_None_iff snd_conv)
    with Pair None show ?thesis by (auto simp: resource_hit_def resource_meaning_def)
  next
    case (Some sub)
    with Pair have res: "res = base @ CHR ''/'' # sub" "CHR ''/'' \<notin> set base" by (auto dest: split_once_Some)
    have uniq: "base' = base \<and> sub' = sub"
      if "res = base' @ CHR ''/'' # sub'" "CHR ''/'' \<notin> set base'" for base' sub'
      using split_once_append [OF that(2), of sub'] that(1) Pair Some by simp
    have "resource_hit res (YStr pat) \<longleftrightarrow> pat = ''*'' \<or> pat = res \<or> pat = base @ ''/*'' \<or> pat = ''*/'' @ sub"
      by (simp add: resource_hit_def Pair Some)
    moreover have "(\<exists>b s. res = b @ ''/'' @ s \<and> CHR ''/'' \<notin> set b \<and> (pat = b @ ''/*'' \<or> pat = ''*/'' @ s))
        \<longleftrightarrow> pat = base @ ''/*'' \<or> pat = ''*/'' @ sub"
      using res uniq by (metis append_Cons append_Nil)
    ultimately show ?thesis by (simp only: resource_meaning_def)
  qed
qed

lemma grant_rule_enc:
  "grant_rule g res verbs (enc_policy_rule r) (hit, every, names) =
     Some (if rule_grants r g res verbs
           then (True, every \<or> pr_names r = [], set_update (mk_set (map YStr (pr_names r))) names)
           else (hit, every, names))"
proof -
  have rs: "get_list (enc_policy_rule r) ''resources'' = Some (map YStr (pr_resources r))"
   and rn: "dget (enc_policy_rule r) ''resourceNames'' =
      Some (if pr_names r = [] then YNull else YList (map YStr (pr_names r)))"
    by (simp_all add: enc_policy_rule_def)
  have ks: "keyset (YList (map YStr xs)) = Some (mk_set (map YStr xs))" for xs
    by (simp add: keyset_def list_all_iff)
  have m: "resource_matches (map YStr xs) res \<longleftrightarrow> (\<exists>pat \<in> set xs. resource_meaning pat res)" for xs
    by (auto simp: resource_matches_def list_ex_iff resource_hit_YStr)
  have "lists (enc_policy_rule r) ''verbs'' = (\<lambda>v. Some (pr_lists (pr_verbs r) v))" by (rule ext) simp
  then have vs: "many (lists (enc_policy_rule r) ''verbs'') verbs = Some (\<exists>v \<in> set verbs. pr_lists (pr_verbs r) v)"
    by (simp add: list_ex_iff)
  have [simp]: "set_update (mk_set []) names = names" by (simp add: set_update_def mk_set_def)
  show ?thesis
    by (cases "pr_names r = []") (simp_all add: grant_rule_def rs rn ks m vs rule_grants_def)
qed

subsection \<open>More rules never grant less\<close>

definition granted_le :: "granted \<Rightarrow> granted \<Rightarrow> bool" where
  "granted_le a b \<longleftrightarrow> (fst a \<longrightarrow> fst b) \<and> (fst (snd a) \<longrightarrow> fst (snd b)) \<and> set (snd (snd a)) \<subseteq> set (snd (snd b))"

lemma granted_le_trans: "granted_le a b \<Longrightarrow> granted_le b c \<Longrightarrow> granted_le a c"
  by (auto simp: granted_le_def)

lemma granted_le_refl [simp]: "granted_le a a"
  by (simp add: granted_le_def)

lemma grant_rule_le: "grant_rule g res verbs r st = Some st' \<Longrightarrow> granted_le st st'"
  by (cases st) (auto simp: grant_rule_def granted_le_def Let_def split: Option.bind_splits if_splits)

lemma grant_le:
  assumes "grant rules g res verbs = Some a" "grant (rules @ more_rules) g res verbs = Some b"
  shows "granted_le a b"
proof -
  from assms have "mfold (grant_rule g res verbs) more_rules a = Some b"
    by (simp add: grant_def mfold_append)
  then show ?thesis
    by (rule mfold_invariant) (auto intro: granted_le_trans grant_rule_le)
qed

lemma granted_any_le:
  "granted_any rules g res verbs = Some a \<Longrightarrow> granted_any (rules @ more_rules) g res verbs = Some b \<Longrightarrow> a \<Longrightarrow> b"
  unfolding granted_any_def by (elim bindE) (auto dest: grant_le simp: granted_le_def)

lemma reaches_name_le:
  assumes "granted_le a b" "reaches_name a f = Some x" "reaches_name b f = Some y" "x"
    and "\<And>ns ns' u v. set ns \<subseteq> set ns' \<Longrightarrow> f ns = Some u \<Longrightarrow> f ns' = Some v \<Longrightarrow> u \<Longrightarrow> v"
  shows "y"
  using assms by (auto simp: reaches_name_def granted_le_def split: prod.splits if_splits)

lemma in_valset_le: "set ns \<subseteq> set ns' \<Longrightarrow> in_valset x ns = Some u \<Longrightarrow> in_valset x ns' = Some v \<Longrightarrow> u \<Longrightarrow> v"
  by (auto simp: in_valset_def split: if_splits)

lemma many_superset:
  assumes "set xs \<subseteq> set ys" "many f xs = Some True" "many f ys = Some v"
  shows v
proof (rule ccontr)
  assume "\<not> v"
  with assms(3) have "\<forall>y \<in> set ys. f y = Some False" by (simp add: many_False_iff)
  with many_TrueD [OF assms(2)] assms(1) show False by force
qed

lemma pod_named_le:
  "set ns \<subseteq> set ns' \<Longrightarrow> pod_named k n ns = Some u \<Longrightarrow> pod_named k n ns' = Some v \<Longrightarrow> u \<Longrightarrow> v"
  by (auto simp: pod_named_def intro: in_valset_le many_superset split: if_splits)

lemma granted_any_grows [grow_intros]:
  "ble (granted_any rules g res verbs) (granted_any (rules @ more_rules) g res verbs)"
  unfolding ble_def using granted_any_le by blast

lemma reach_grows:
  assumes "\<And>ns ns' u v. set ns \<subseteq> set ns' \<Longrightarrow> f ns = Some u \<Longrightarrow> f ns' = Some v \<Longrightarrow> u \<Longrightarrow> v"
  shows "ble (do { x \<leftarrow> grant rules g res verbs; reaches_name x f })
             (do { x \<leftarrow> grant (rules @ more_rules) g res verbs; reaches_name x f })"
  unfolding ble_def
proof (intro impI notI)
  assume "(do { x \<leftarrow> grant rules g res verbs; reaches_name x f }) = Some True"
    and "(do { x \<leftarrow> grant (rules @ more_rules) g res verbs; reaches_name x f }) = Some False"
  then obtain a b where "grant rules g res verbs = Some a" "reaches_name a f = Some True"
    "grant (rules @ more_rules) g res verbs = Some b" "reaches_name b f = Some False"
    by (auto elim!: bindE)
  with reaches_name_le [OF grant_le, of rules g res verbs a more_rules b f True False] assms show False by blast
qed

lemma reach_valset_grows [grow_intros]:
  "ble (do { x \<leftarrow> grant rules g res verbs; reaches_name x (in_valset n) })
       (do { x \<leftarrow> grant (rules @ more_rules) g res verbs; reaches_name x (in_valset n) })"
  by (rule reach_grows) (rule in_valset_le)

lemma reach_pod_grows [grow_intros]:
  "ble (do { x \<leftarrow> grant rules g res verbs; reaches_name x (pod_named k n) })
       (do { x \<leftarrow> grant (rules @ more_rules) g res verbs; reaches_name x (pod_named k n) })"
  by (rule reach_grows) (rule pod_named_le)

subsection \<open>More rules never give fewer powers\<close>

lemma kind_patch_grows [grow_intros]:
  "ble (case x of Some (grp, res) \<Rightarrow> if k then (do { h \<leftarrow> grant rules grp res vs; reaches_name h (in_valset n) }) else Some False
                | None \<Rightarrow> Some False)
       (case x of Some (grp, res) \<Rightarrow> if k then (do { h \<leftarrow> grant (rules @ more_rules) grp res vs; reaches_name h (in_valset n) }) else Some False
                | None \<Rightarrow> Some False)"
  by (cases x) (auto intro!: grow_intros)

lemma exec_grows [grow_intros]:
  "ble (case x of (sub, verbs) \<Rightarrow> do { g \<leftarrow> grant rules [] sub verbs; reaches_name g (pod_named k n) })
       (case x of (sub, verbs) \<Rightarrow> do { g \<leftarrow> grant (rules @ more_rules) [] sub verbs; reaches_name g (pod_named k n) })"
  by (cases x) (auto intro!: grow_intros)

lemma makers_grows [grow_intros]:
  "ble (case x of (g, r) \<Rightarrow> granted_any rules g r vs) (case x of (g, r) \<Rightarrow> granted_any (rules @ more_rules) g r vs)"
  by (cases x) (auto intro!: grow_intros)

lemma target_powers_grows [grow_intros]:
  assumes "ne \<Longrightarrow> ne'"
  shows "sle (target_powers rules ne w) (target_powers (rules @ more_rules) ne' w)"
  unfolding target_powers_def by (intro grow_intros) (use assms in auto)

lemma account_powers_grows [grow_intros]:
  "sle (account_powers rules bns sa) (account_powers (rules @ more_rules) bns sa)"
proof (cases "split_once (CHR ''/'') sa")
  case (Pair ns nm)
  show ?thesis
  proof (cases nm)
    case None
    then show ?thesis by (simp add: account_powers_def Pair sle_def)
  next
    case (Some name)
    show ?thesis
      unfolding account_powers_def Pair prod.case Some option.case by (intro grow_intros) auto
  qed
qed

lemma powers_direct_grows [grow_intros]:
  "sle (powers_direct rules bns holder targets sas) (powers_direct (rules @ more_rules) bns holder targets sas)"
  unfolding powers_direct_def by (intro grow_intros) auto

lemma bind_kind_grows [grow_intros]:
  "sle (bind_kind rules holder targets sas by_ref owner kr) (bind_kind (rules @ more_rules) holder targets sas by_ref owner kr)"
proof (cases kr)
  case (Pair kind res)
  have step: "sle (do { ns \<leftarrow> py_sorted names; named \<leftarrow> collect f ns; Some ((if hit \<and> every then x else []) @ named) })
      (do { ns \<leftarrow> py_sorted names'; named \<leftarrow> collect f ns; Some ((if hit' \<and> every' then x else []) @ named) })"
    if "granted_le (hit, every, names) (hit', every', names')"
    for hit every names hit' every' names' and f :: "yaml \<Rightarrow> (string \<times> string) list option" and x
  proof (intro sle_bindI)
    fix ns ns' a b assume *: "py_sorted names = Some ns" "py_sorted names' = Some ns'" "collect f ns = Some a" "collect f ns' = Some b"
    from that * have "set ns \<subseteq> set ns'" by (auto simp: granted_le_def dest!: py_sorted_set)
    then have "set a \<subseteq> set b" using collect_set [OF *(3)] collect_set [OF *(4)] by blast
    with that show "sle (Some ((if hit \<and> every then x else []) @ a)) (Some ((if hit' \<and> every' then x else []) @ b))"
      by (auto simp: granted_le_def)
  qed
  show ?thesis
    unfolding bind_kind_def Pair prod.case
  proof (rule sle_bindI)
    fix u v assume "grant rules RBAC_GROUP res [''bind''] = Some u" "grant (rules @ more_rules) RBAC_GROUP res [''bind''] = Some v"
    then have "granted_le u v" by (rule grant_le)
    then show "sle (case u of (hit, every, names) \<Rightarrow> do { ns \<leftarrow> py_sorted names;
          named \<leftarrow> collect (bind_named holder targets sas by_ref owner kind) ns;
          Some ((if hit \<and> every then [(''bind'', kind @ ''/*'')] else []) @ named) })
        (case v of (hit, every, names) \<Rightarrow> do { ns \<leftarrow> py_sorted names;
          named \<leftarrow> collect (bind_named holder targets sas by_ref owner kind) ns;
          Some ((if hit \<and> every then [(''bind'', kind @ ''/*'')] else []) @ named) })"
      by (cases u; cases v) (simp only: prod.case step)
  qed
qed

lemma powers_bind_grows [grow_intros]:
  "sle (powers_bind rules bns holder targets sas by_ref owner) (powers_bind (rules @ more_rules) bns holder targets sas by_ref owner)"
  unfolding powers_bind_def by (intro grow_intros) auto

text \<open>A power over a ServiceAccount is never a power over the holder itself.\<close>

lemma target_powers_kinds: "target_powers rules ne w = Some ps \<Longrightarrow> \<forall>z \<in> set ps. fst z \<in> {''exec'', ''patch''}"
  unfolding target_powers_def by (elim bindE) (auto split: if_splits)

lemma account_powers_target: "account_powers rules bns sa = Some ps \<Longrightarrow> \<forall>z \<in> set ps. snd z = ''ServiceAccount/'' @ sa"
  unfolding account_powers_def by (auto elim!: bindE split: prod.splits option.splits if_splits)

lemma bind_kind_kinds: "bind_kind rules holder targets sas by_ref owner kr = Some ps \<Longrightarrow> \<forall>z \<in> set ps. fst z = ''bind''"
proof -
  assume *: "bind_kind rules holder targets sas by_ref owner kr = Some ps"
  have "\<forall>z \<in> set qs. fst z = ''bind''" if "bind_named holder targets sas by_ref owner kind n = Some qs" for kind n qs
    using that unfolding bind_named_def by (elim bindE) (auto split: if_splits)
  note all = collect_all [OF _ this]
  from * obtain qs hd_part where "ps = hd_part @ qs" "\<forall>z \<in> set hd_part. fst z = ''bind''" "\<forall>z \<in> set qs. fst z = ''bind''"
    unfolding bind_kind_def by (cases kr) (auto elim!: bindE dest!: all split: if_splits)
  then show ?thesis by auto
qed

lemma powers_bind_kinds:
  "powers_bind rules bns holder targets sas by_ref owner = Some ps \<Longrightarrow> \<forall>z \<in> set ps. fst z = ''bind''"
proof -
  note all = collect_all [of "bind_kind rules holder targets sas by_ref owner", OF _ bind_kind_kinds]
  assume "powers_bind rules bns holder targets sas by_ref owner = Some ps"
  then show ?thesis unfolding powers_bind_def
    by (elim bindE) (auto dest!: all split: if_splits)
qed

text \<open>What a pair at depth 1 can be.\<close>

lemma powers_direct_pairs:
  assumes "powers_direct rules bns holder targets sas = Some a" "z \<in> set a"
  shows "fst z \<in> {''exec'', ''patch'', ''create-pod''} \<or> (\<exists>sa. sa \<noteq> holder \<and> snd z = ''ServiceAccount/'' @ sa)"
proof -
  from assms(1) obtain ne as mk cs where
    as: "collect (\<lambda>w. if \<not> in_scope_ns bns (wl_ns w) \<or> wl_account w = holder then Some []
                      else target_powers rules ne w) targets = Some as" and
    cs: "collect (\<lambda>sa. if sa = holder then Some [] else account_powers rules bns sa) (sort sas) = Some cs" and
    a: "a = mk_set (as @ (if mk then [(''create-pod'', ''Namespace/'' @ OWNER_NS)] else []) @ cs)"
    unfolding powers_direct_def by (elim bindE) blast
  have "\<forall>z \<in> set as. fst z \<in> {''exec'', ''patch''}"
    by (rule collect_all [OF as]) (auto dest: target_powers_kinds split: if_splits)
  moreover have "\<forall>z \<in> set cs. \<exists>sa. sa \<noteq> holder \<and> snd z = ''ServiceAccount/'' @ sa"
    by (rule collect_all [OF cs]) (metis account_powers_target option.inject empty_iff list.set(1))
  ultimately show ?thesis using assms(2) a by (auto split: if_splits)
qed

section \<open>Powers\<close>

text \<open>C25. More rules never give fewer powers: adding rules to a role can only add pairs of a power
  and a target, so no rule hides a takeover that another rule gives.\<close>

theorem powers_grow:
  assumes "powers rules bns holder targets sas by_ref owner = Some ps"
    and "powers (rules @ more_rules) bns holder targets sas by_ref owner = Some qs"
  shows "set ps \<subseteq> set qs"
proof -
  have "sle (powers rules bns holder targets sas by_ref owner) (powers (rules @ more_rules) bns holder targets sas by_ref owner)"
    unfolding powers_def by (intro grow_intros) auto
  then show ?thesis using assms by (rule sleD)
qed

text \<open>A holder never counts against itself: no token and no impersonation power has the
  holder's own ServiceAccount as its target.\<close>

theorem powers_not_self:
  assumes "powers rules bns holder targets sas by_ref owner = Some ps" "p \<in> {''token'', ''impersonate''}"
  shows "(p, ''ServiceAccount/'' @ holder) \<notin> set ps"
proof
  assume in_ps: "(p, ''ServiceAccount/'' @ holder) \<in> set ps"
  from assms(1) obtain a b where a: "powers_direct rules bns holder targets sas = Some a"
    and b: "b = [] \<or> powers_bind rules bns holder targets sas by_ref owner = Some b" and "ps = set_update b a"
    unfolding powers_def by (auto elim!: bindE split: if_splits)
  with in_ps assms(2) have "(p, ''ServiceAccount/'' @ holder) \<in> set a"
    by (auto dest!: powers_bind_kinds)
  from powers_direct_pairs [OF a this] assms(2) show False by auto
qed


subsection \<open>The built-in roles give no power\<close>

lemma grant_off_secrets:
  assumes "\<not> resource_hit res (YStr ''secrets'')"
  shows "grant [rbac_rule [[]] [''secrets''] vs] g res verbs = Some (False, False, [])"
proof -
  have "\<exists>b. lists (rbac_rule [[]] [''secrets''] vs) ''apiGroups'' g = Some b" by (auto simp: lists_def rbac_rule_def)
  moreover have "get_list (rbac_rule [[]] [''secrets''] vs) ''resources'' = Some [YStr ''secrets'']" by (simp add: rbac_rule_def)
  ultimately show ?thesis using assms by (auto simp: grant_def grant_rule_def resource_matches_def)
qed

lemma off_secrets [simp]:
  "res \<in> set [''nodes/proxy'', ''pods/exec'', ''pods/attach'', ''pods/ephemeralcontainers'', ''pods'', ''replicationcontrollers'',
     ''deployments'', ''statefulsets'', ''daemonsets'', ''replicasets'', ''jobs'', ''cronjobs'', ''serviceaccounts/token'',
     ''serviceaccounts'', ''users'', ''rolebindings'', ''clusterrolebindings'', ''clusterroles'', ''roles''] \<Longrightarrow>
   grant [rbac_rule [[]] [''secrets''] vs] g res verbs = Some (False, False, [])"
  by (rule grant_off_secrets) (auto simp: resource_hit_def)

lemma target_powers_off: "target_powers [rbac_rule [[]] [''secrets''] vs] False w = Some []"
proof -
  have res: "r \<in> {''deployments'', ''statefulsets'', ''daemonsets'', ''replicasets'', ''cronjobs'', ''pods''}"
    if "map_of KIND_RESOURCE k = Some (g, r)" for k g r
    using map_of_SomeD [OF that] by (auto simp: KIND_RESOURCE_def)
  then have "grant [rbac_rule [[]] [''secrets''] vs] g r verbs = Some (False, False, [])"
    if "map_of KIND_RESOURCE k = Some (g, r)" for k g r verbs
    using that by (intro off_secrets) fastforce
  then show ?thesis
    by (auto simp: target_powers_def EXEC_SUBRESOURCES_def reaches_name_def split: option.splits)
qed

lemma account_powers_off:
  "CHR ''/'' \<in> set sa \<Longrightarrow> account_powers [rbac_rule [[]] [''secrets''] vs] bns sa = Some []"
  using split_once_None_iff [of "CHR ''/''" sa]
  by (auto simp: account_powers_def reaches_name_def split: prod.splits option.splits)

text \<open>C35. The built-in roles \<^verbatim>\<open>admin\<close> and \<^verbatim>\<open>edit\<close> stand in the table with their Secret reads only, so
  the takeover analysis finds no power in a binding to them, whatever the targets and reader
  accounts are.\<close>

theorem builtin_edit_no_powers:
  assumes "map_of BUILTIN_ROLES name = Some (YList rules)" "name \<in> {''admin'', ''edit''}" "\<forall>sa \<in> set sas. CHR ''/'' \<in> set sa"
  shows "powers rules bns holder targets sas by_ref owner = Some []"
proof -
  from assms(1,2) have rules: "rules = [rbac_rule [[]] [''secrets''] [''get'', ''list'', ''watch'']]"
    by (auto simp: BUILTIN_ROLES_def)
  have acc: "collect (\<lambda>sa. if sa = holder then Some [] else account_powers rules bns sa) (sort sas) = Some []"
    using assms(3) by (auto simp: collect_empty_iff rules account_powers_off)
  have tgt: "collect (\<lambda>w. if \<not> in_scope_ns bns (wl_ns w) \<or> wl_account w = holder then Some []
      else target_powers rules False w) targets = Some []"
    by (auto simp: collect_empty_iff rules target_powers_off)
  have node: "(if bns = YNull then granted_any rules [] ''nodes/proxy'' [''get'', ''create''] else Some False) = Some False"
    by (simp add: granted_any_def rules)
  have mk: "(if b then many (\<lambda>(g, r). granted_any rules g r [''create'']) POD_MAKERS else Some False) = Some False" for b
    by (simp add: granted_any_def rules POD_MAKERS_def)
  have direct: "powers_direct rules bns holder targets sas = Some []"
    unfolding powers_direct_def by (simp only: node tgt mk acc bind.bind_lunit) simp
  have "powers_bind rules bns holder targets sas by_ref owner = Some []"
    by (simp add: powers_bind_def granted_any_def rules mand_def mor_def)
  with direct show ?thesis by (simp add: powers_def set_update_def)
qed

section \<open>Every binding is judged\<close>

lemma add_powers_set:
  "t \<in> set (dict_get (add_powers holder ps found) (h, p) []) \<longleftrightarrow>
     t \<in> set (dict_get found (h, p) []) \<or> (h = holder \<and> (p, t) \<in> set ps)"
proof (induction ps arbitrary: found)
  case Nil
  show ?case by (simp add: add_powers_def)
next
  case (Cons x ps)
  obtain q u where x: "x = (q, u)" by (cases x)
  have "add_powers holder (x # ps) found = add_powers holder ps (dict_set_update (holder, q) [u] found)"
    by (simp add: add_powers_def x)
  then show ?case by (auto simp: Cons.IH dict_get_dict_set_update x)
qed

text \<open>The takeovers a binding gives a ServiceAccount.\<close>

definition binding_takes ::
  "workload list \<Rightarrow> string list \<Rightarrow> string list \<Rightarrow> (role_key \<times> yaml) list \<Rightarrow> doc \<Rightarrow> string \<Rightarrow> string \<Rightarrow> string \<Rightarrow> bool" where
  "binding_takes targets sas owner roles d h p t \<longleftrightarrow> (\<exists>kind bns ref rv rules ss s ps.
     dget d ''kind'' = Some kind \<and> in_strtuple kind BINDING_KINDS \<and> binding_ns d kind OWNER_NS = Some bns
     \<and> get_or_dict d ''roleRef'' = Some ref \<and> bound_rules roles ref bns = Some (Some rv) \<and> py_iter rv = Some rules
     \<and> get_list d ''subjects'' = Some ss \<and> s \<in> set ss
     \<and> dget s ''kind'' = Some (YStr ''ServiceAccount'') \<and> subject_text s bns OWNER_NS = Some h
     \<and> powers rules bns h targets sas (by_ref_of roles) owner = Some ps \<and> (p, t) \<in> set ps)"

lemma takeover_subject_adds:
  assumes "takeover_subject d kind rules bns targets sas by_ref owner s st = Some st'"
  shows "t \<in> set (dict_get (fst st') (h, p) []) \<longleftrightarrow>
     t \<in> set (dict_get (fst st) (h, p) []) \<or> (dget s ''kind'' = Some (YStr ''ServiceAccount'')
        \<and> subject_text s bns OWNER_NS = Some h \<and> (\<exists>ps. powers rules bns h targets sas by_ref owner = Some ps \<and> (p, t) \<in> set ps))"
  using assms
  by (cases st) (auto simp: takeover_subject_def add_powers_set split: Option.bind_splits if_splits)

lemma takeover_subjects_add:
  assumes "mfold (takeover_subject d kind rules bns targets sas by_ref owner) ss st = Some st'"
  shows "t \<in> set (dict_get (fst st') (h, p) []) \<longleftrightarrow>
     t \<in> set (dict_get (fst st) (h, p) []) \<or> (\<exists>s \<in> set ss. dget s ''kind'' = Some (YStr ''ServiceAccount'')
        \<and> subject_text s bns OWNER_NS = Some h \<and> (\<exists>ps. powers rules bns h targets sas by_ref owner = Some ps \<and> (p, t) \<in> set ps))"
  by (rule mfold_collects [OF takeover_subject_adds assms])

lemma takeover_binding_adds:
  assumes "takeover_binding roles targets sas owner d st = Some st'"
  shows "t \<in> set (dict_get (fst st') (h, p) []) \<longleftrightarrow>
     t \<in> set (dict_get (fst st) (h, p) []) \<or> binding_takes targets sas owner roles d h p t"
  using assms unfolding takeover_binding_def binding_takes_def
  by (fastforce dest!: takeover_subjects_add split: Option.bind_splits if_splits option.splits)

lemma takeover_render_adds:
  assumes "takeover_render targets sas owner docs st = Some st'"
  shows "t \<in> set (dict_get (fst st') (h, p) []) \<longleftrightarrow> t \<in> set (dict_get (fst st) (h, p) [])
     \<or> (\<exists>roles. role_rules docs OWNER_NS = Some roles \<and> (\<exists>d \<in> set docs. binding_takes targets sas owner roles d h p t))"
proof -
  from assms obtain roles where r: "role_rules docs OWNER_NS = Some roles"
    and f: "mfold (takeover_binding roles targets sas owner) docs st = Some st'"
    unfolding takeover_render_def by (elim bindE)
  from mfold_collects [where P = "\<lambda>st. t \<in> set (dict_get (fst st) (h, p) [])", OF takeover_binding_adds f] r
  show ?thesis by simp
qed

lemma rendered_takeovers_iff:
  assumes "rendered_takeovers docsets owner rsas = Some (tk, terr)"
    and "all_workloads docsets = Some wls" "reader_targets wls owner rsas = Some (targets, sas)"
  shows "t \<in> set (dict_get tk (h, p) []) \<longleftrightarrow> (\<exists>docs \<in> set docsets. \<exists>roles. role_rules docs OWNER_NS = Some roles
     \<and> (\<exists>d \<in> set docs. binding_takes targets sas owner roles d h p t))"
proof -
  from assms have f: "mfold (takeover_render targets sas owner) docsets ([], []) = Some (tk, terr)"
    by (simp add: rendered_takeovers_def)
  from mfold_collects [where P = "\<lambda>st. t \<in> set (dict_get (fst st) (h, p) [])", OF takeover_render_adds f]
  show ?thesis by (simp add: dict_get_def)
qed

section \<open>Witnesses\<close>

definition reader_workload :: workload where
  "reader_workload = \<lparr>wl_kind = ''Deployment'', wl_name = YStr ''reader'', wl_ns = YStr ''gibson'', wl_sa = YStr ''boot'', wl_spec = YMap []\<rparr>"

definition exec_rule :: yaml where
  "exec_rule = rbac_rule [[]] [''pods/exec''] [''create'']"

definition token_rule :: yaml where
  "token_rule = rbac_rule [[]] [''serviceaccounts/token''] [''create'']"

lemma powers_grow_witness:
  "set [(''exec'', ''Deployment/reader'')] \<subseteq> set [(''exec'', ''Deployment/reader''), (''token'', ''ServiceAccount/gibson/boot'')]"
proof -
  have a: "powers [exec_rule] (YStr OWNER_NS) ''gibson/app'' [reader_workload] [''gibson/boot''] (\<lambda>_ _. Some None) [] =
      Some [(''exec'', ''Deployment/reader'')]" by code_simp
  have b: "powers ([exec_rule] @ [token_rule]) (YStr OWNER_NS) ''gibson/app'' [reader_workload] [''gibson/boot''] (\<lambda>_ _. Some None) [] =
      Some [(''exec'', ''Deployment/reader''), (''token'', ''ServiceAccount/gibson/boot'')]" by code_simp
  show ?thesis by (rule powers_grow [OF a b])
qed

lemma powers_not_self_witness:
  "(''token'', ''ServiceAccount/'' @ ''gibson/boot'') \<notin> set [(''token'', ''ServiceAccount/gibson/other'')]"
proof -
  have a: "powers [token_rule] (YStr OWNER_NS) ''gibson/boot'' [] [''gibson/boot'', ''gibson/other''] (\<lambda>_ _. Some None) [] =
      Some [(''token'', ''ServiceAccount/gibson/other'')]" by code_simp
  show ?thesis by (rule powers_not_self [OF a]) simp
qed

lemma builtin_edit_no_powers_witness:
  "powers [rbac_rule [[]] [''secrets''] [''get'', ''list'', ''watch'']] (YStr OWNER_NS) ''gibson/app'' [reader_workload]
     [''gibson/boot''] (\<lambda>_ _. Some None) [] = Some []"
  by (rule builtin_edit_no_powers [where name = "''edit''"]) (simp_all add: BUILTIN_ROLES_def)

end
