(* ===== verification/OwnerJudge.thy ===== *)
theory OwnerJudge
  imports OwnerTakeover
begin

text \<open>
  \<^verbatim>\<open>src/scripts/check-owner-credential-readers.py\<close>, the verdict: the allowlist
  \<^verbatim>\<open>helm/gibson/owner-credential-readers.yaml\<close> and its validation, the admission policies that
  fence a grant, the comparison of what the renders hold with what the list allows
  (\<^verbatim>\<open>judge\<close>), and the two ways to gather what there is: from the renders
  (\<^verbatim>\<open>rendered_findings\<close>) and from a live cluster, where each answer of kubectl is a parameter.
\<close>

section \<open>The allowlist\<close>

definition CLASSES :: "string list" where
  "CLASSES = [''bootstrap'', ''identity-provider'', ''infrastructure'', ''secret-store'', ''admission-fenced'', ''pending'']"

datatype allow_problem =
    BadClass string string
  | PendingNoRemoval string string
  | BadTakeoverKey string
  | FencedNoPolicy string
  | BadTargets string

text \<open>The checks of one entry, in order; the first that fails raises SystemExit.\<close>

definition takeover_entry_problem :: "string \<Rightarrow> yaml \<Rightarrow> allow_problem option option" where
  "takeover_entry_problem k v = do {
     let ws = split_all (CHR '' '') k;
     if length ws \<noteq> 2 \<or> ws ! 1 \<notin> set POWERS then Some (Some (BadTakeoverKey k)) else do {
     c \<leftarrow> item v ''class'';
     g \<leftarrow> dget v ''guarded-by'';
     if c = YStr ''admission-fenced'' \<and> \<not> truthy g then Some (Some (FencedNoPolicy k)) else do {
     t \<leftarrow> dget v ''targets'';
     Some (if t \<noteq> YStr ''all'' \<and> \<not> (case t of YList xs \<Rightarrow> xs \<noteq> [] | _ \<Rightarrow> False) then Some (BadTargets k) else None)
     } }
   }"

definition entry_problem :: "string \<Rightarrow> string \<times> yaml \<Rightarrow> allow_problem option option" where
  "entry_problem sect = (\<lambda>(k, v). do {
     if \<not> is_dict v then Some (Some (BadClass sect k)) else do {
     c \<leftarrow> dget v ''class'';
     ok \<leftarrow> in_strset c CLASSES;
     if \<not> ok then Some (Some (BadClass sect k)) else do {
     r \<leftarrow> dget v ''removed-by'';
     if c = YStr ''pending'' \<and> \<not> truthy r then Some (Some (PendingNoRemoval sect k))
     else if sect = ''takeovers'' then takeover_entry_problem k v
     else Some None
     } }
   })"

fun first_problem :: "('a \<Rightarrow> 'e option option) \<Rightarrow> 'a list \<Rightarrow> 'e option option" where
  "first_problem f [] = Some None"
| "first_problem f (x # xs) = do { p \<leftarrow> f x; (case p of Some e \<Rightarrow> Some (Some e) | None \<Rightarrow> first_problem f xs) }"

definition SECTIONS :: "string list" where
  "SECTIONS = [''mounts'', ''readers'', ''takeovers'']"

definition load_allowlist :: "yaml \<Rightarrow> (allow_problem + yaml) option" where
  "load_allowlist data0 = do {
     let data = py_or data0 (YMap []);
     p \<leftarrow> first_problem (\<lambda>sect. do {
       s \<leftarrow> get_or_dict data sect;
       es \<leftarrow> items s;
       first_problem (entry_problem sect) es
     }) SECTIONS;
     Some (case p of Some e \<Rightarrow> Inl e | None \<Rightarrow> Inr data)
   }"

section \<open>Admission policies\<close>

definition guard_of_binding :: "yaml list \<Rightarrow> doc \<Rightarrow> string list option" where
  "guard_of_binding vaps d = do {
     kind \<leftarrow> dget d ''kind'';
     if kind \<noteq> YStr ''ValidatingAdmissionPolicyBinding'' then Some [] else do {
     spec \<leftarrow> get_or_dict d ''spec'';
     pn \<leftarrow> dget spec ''policyName'';
     known \<leftarrow> in_valset pn vaps;
     if \<not> known then Some [] else do {
     va \<leftarrow> dget spec ''validationActions'';
     denies \<leftarrow> py_in (YStr ''Deny'') (py_or va (YList []));
     Some (if denies then [''ValidatingAdmissionPolicy/'' @ py_str pn] else [])
     } }
   }"

definition admission_guards_render :: "doc list \<Rightarrow> string list option" where
  "admission_guards_render docs = do {
     vs \<leftarrow> collect (\<lambda>d. do {
       kind \<leftarrow> dget d ''kind'';
       if kind = YStr ''ValidatingAdmissionPolicy''
       then do { n \<leftarrow> meta_name d; if hashable n then Some [n] else None } else Some []
     }) docs;
     collect (guard_of_binding (mk_set vs)) docs
   }"

definition admission_guards :: "doc list list \<Rightarrow> string list option" where
  "admission_guards docsets = do { gs \<leftarrow> collect admission_guards_render docsets; Some (mk_set gs) }"

section \<open>The verdict\<close>

datatype owner_finding =
    OwnerError owner_error
  | UnlistedMount string
  | UnlistedReader string "string list"
  | UnlistedTakeover string "string list"
  | ExtraTargets string "string list"
  | MissingGuard string yaml
  | StaleMount yaml
  | StaleReader string
  | StaleTakeover string
  | StaleTargets string "yaml list"

text \<open>\<^verbatim>\<open>set(entry["targets"])\<close>.\<close>

definition entry_targets :: "yaml \<Rightarrow> yaml list option" where
  "entry_targets entry = do { t \<leftarrow> item entry ''targets''; keyset t }"

definition judge_takeover ::
  "yaml \<Rightarrow> string list option \<Rightarrow> (string \<times> string) \<times> string list \<Rightarrow> owner_finding list option" where
  "judge_takeover allowed_t guards = (\<lambda>((holder, pw), targets). do {
     let key = holder @ '' '' @ pw;
     entry \<leftarrow> dget allowed_t key;
     if entry = YNull then Some [UnlistedTakeover key (sort targets)] else do {
     t \<leftarrow> item entry ''targets'';
     extra \<leftarrow> (if t = YStr ''all'' then Some []
              else do { ks \<leftarrow> keyset t; Some (sort (filter (\<lambda>x. YStr x \<notin> set ks) targets)) });
     g \<leftarrow> dget entry ''guarded-by'';
     missing \<leftarrow> (case guards of
         None \<Rightarrow> Some False
       | Some gs \<Rightarrow> if truthy g then mnot (in_valset g (map YStr gs)) else Some False);
     Some ((if extra \<noteq> [] then [ExtraTargets key extra] else []) @ (if missing then [MissingGuard key g] else []))
     }
   })"

definition stale_reader :: "yaml \<Rightarrow> sa_reads \<Rightarrow> yaml \<Rightarrow> owner_finding list option" where
  "stale_reader allowed_r reads sa = (case sa of
       YStr s \<Rightarrow> if s \<in> set (map fst reads) then Some []
                else do { e \<leftarrow> item allowed_r s; lo \<leftarrow> dget e ''live-only''; Some (if truthy lo then [] else [StaleReader s]) }
     | _ \<Rightarrow> None)"

definition stale_takeover :: "takeovers \<Rightarrow> string \<times> yaml \<Rightarrow> owner_finding list option" where
  "stale_takeover tk = (\<lambda>(key, entry).
     (case split_all (CHR '' '') key of
        [holder, pw] \<Rightarrow>
          (case map_of tk (holder, pw) of
             None \<Rightarrow> do { lo \<leftarrow> dget entry ''live-only''; Some (if truthy lo then [] else [StaleTakeover key]) }
           | Some got \<Rightarrow> do {
               t \<leftarrow> item entry ''targets'';
               if t = YStr ''all'' then Some [] else do {
               ks \<leftarrow> keyset t;
               gone \<leftarrow> py_sorted (filter (\<lambda>x. x \<notin> YStr ` set got) ks);
               Some (if gone \<noteq> [] then [StaleTargets key gone] else [])
               }
             })
      | _ \<Rightarrow> None))"

definition judge_stale :: "string list \<Rightarrow> sa_reads \<Rightarrow> yaml \<Rightarrow> takeovers \<Rightarrow> owner_finding list option" where
  "judge_stale mounts reads allow tk = do {
     allowed_m \<leftarrow> get_or_dict allow ''mounts'';
     allowed_r \<leftarrow> get_or_dict allow ''readers'';
     allowed_t \<leftarrow> get_or_dict allow ''takeovers'';
     mk \<leftarrow> py_iter allowed_m;
     ms \<leftarrow> py_sorted mk;
     let a = map StaleMount (filter (\<lambda>m. m \<notin> YStr ` set mounts) ms);
     rk \<leftarrow> py_iter allowed_r;
     rs \<leftarrow> py_sorted rk;
     b \<leftarrow> collect (stale_reader allowed_r reads) rs;
     es \<leftarrow> items allowed_t;
     c \<leftarrow> collect (stale_takeover tk) (sort_key fst es);
     Some (a @ b @ c)
   }"

text \<open>\<^verbatim>\<open>guards\<close> is None where the caller gives none. The findings of the takeovers come in the order of
  the dictionary.\<close>

definition judge_owner ::
  "string list \<Rightarrow> sa_reads \<Rightarrow> owner_error list \<Rightarrow> yaml \<Rightarrow> bool \<Rightarrow> takeovers \<Rightarrow> string list option
     \<Rightarrow> owner_finding list option" where
  "judge_owner mounts reads errors allow stale tk guards = do {
     allowed_m \<leftarrow> get_or_dict allow ''mounts'';
     allowed_r \<leftarrow> get_or_dict allow ''readers'';
     allowed_t \<leftarrow> get_or_dict allow ''takeovers'';
     a \<leftarrow> collect (\<lambda>m. do { ok \<leftarrow> py_in (YStr m) allowed_m; Some (if ok then [] else [UnlistedMount m]) }) (sort mounts);
     b \<leftarrow> collect (\<lambda>sa. do {
       ok \<leftarrow> py_in (YStr sa) allowed_r;
       Some (if ok then [] else [UnlistedReader sa (sort (dict_get reads sa []))])
     }) (sort (map fst reads));
     c \<leftarrow> collect (judge_takeover allowed_t guards) tk;
     d \<leftarrow> (if stale then judge_stale mounts reads allow tk else Some []);
     Some (map OwnerError errors @ a @ b @ c @ d)
   }"

section \<open>What the renders hold\<close>

text \<open>\<^verbatim>\<open>errors += [x for x in e if x not in errors]\<close>.\<close>

definition add_new :: "'a list \<Rightarrow> 'a list \<Rightarrow> 'a list" where
  "add_new e errors = errors @ filter (\<lambda>x. x \<notin> set errors) e"

definition findings_step ::
  "string list \<Rightarrow> doc list \<Rightarrow> string list \<times> sa_reads \<times> owner_error list \<Rightarrow> (string list \<times> sa_reads \<times> owner_error list) option" where
  "findings_step owner docs st = (case st of (mounts, reads, errors) \<Rightarrow> do {
     m \<leftarrow> mount_readers docs owner OWNER_NS;
     (r, e) \<leftarrow> can_read docs owner OWNER_NS;
     Some (set_update m mounts, fold (\<lambda>(k, v) acc. dict_set_update k v acc) r reads, add_new e errors)
   })"

definition rendered_findings ::
  "doc list list \<Rightarrow> string list \<Rightarrow> (string list \<times> sa_reads \<times> owner_error list \<times> takeovers) option" where
  "rendered_findings docsets owner = do {
     (mounts, reads, errors) \<leftarrow> mfold (findings_step owner) docsets ([], [], []);
     (tk, terr) \<leftarrow> rendered_takeovers docsets owner (map fst reads);
     Some (mounts, reads, add_new terr errors, tk)
   }"

definition run_owner :: "doc list list \<Rightarrow> yaml \<Rightarrow> string list \<Rightarrow> owner_finding list option" where
  "run_owner docsets allow owner = do {
     (m, r, e, t) \<leftarrow> rendered_findings docsets owner;
     gs \<leftarrow> admission_guards docsets;
     judge_owner m r e allow True t (Some gs)
   }"

text \<open>\<^verbatim>\<open>set(allow["owner_secrets"])\<close>, a set of strings.\<close>

definition owner_secrets :: "yaml \<Rightarrow> string list option" where
  "owner_secrets allow = do {
     v \<leftarrow> item allow ''owner_secrets'';
     ks \<leftarrow> keyset v;
     mmap (\<lambda>k. case k of YStr s \<Rightarrow> Some s | _ \<Rightarrow> None) ks
   }"

text \<open>\<^verbatim>\<open>main\<close> without options: 1 on a finding, and when the allowlist is refused; the count of the
  pending entries reads \<^verbatim>\<open>v["class"]\<close> of each entry.\<close>

definition pending_entries :: "yaml \<Rightarrow> string list option" where
  "pending_entries allow = collect (\<lambda>sect. do {
     s \<leftarrow> get_or_dict allow sect;
     es \<leftarrow> items s;
     collect (\<lambda>(k, v). do { c \<leftarrow> item v ''class''; Some (if c = YStr ''pending'' then [k] else []) }) es
   }) SECTIONS"

definition main_owner :: "yaml \<Rightarrow> doc list list \<Rightarrow> int option" where
  "main_owner data docsets = do {
     la \<leftarrow> load_allowlist data;
     (case la of
        Inl e \<Rightarrow> Some 1
      | Inr allow \<Rightarrow> do {
          owner \<leftarrow> owner_secrets allow;
          got \<leftarrow> run_owner docsets allow owner;
          if got \<noteq> [] then Some 1 else do { ps \<leftarrow> pending_entries allow; Some 0 }
        })
   }"

section \<open>Lemmas\<close>

text \<open>A verdict without a finding: its parts.\<close>

lemma judge_owner_clean:
  assumes "judge_owner mounts reads errors allow stale tk guards = Some []"
  obtains am ar at where "get_or_dict allow ''mounts'' = Some am" "get_or_dict allow ''readers'' = Some ar"
    "get_or_dict allow ''takeovers'' = Some at" "errors = []"
    "\<forall>m \<in> set mounts. py_in (YStr m) am = Some True"
    "\<forall>sa \<in> set (map fst reads). py_in (YStr sa) ar = Some True"
    "\<forall>x \<in> set tk. judge_takeover at guards x = Some []"
    "stale \<Longrightarrow> judge_stale mounts reads allow tk = Some []"
proof -
  from assms obtain am ar at where
    all: "get_or_dict allow ''mounts'' = Some am" "get_or_dict allow ''readers'' = Some ar" "get_or_dict allow ''takeovers'' = Some at"
    and e: "errors = []"
    and m: "collect (\<lambda>m. do { ok \<leftarrow> py_in (YStr m) am; Some (if ok then [] else [UnlistedMount m]) }) (sort mounts) = Some []"
    and r: "collect (\<lambda>sa. do { ok \<leftarrow> py_in (YStr sa) ar;
              Some (if ok then [] else [UnlistedReader sa (sort (dict_get reads sa []))]) }) (sort (map fst reads)) = Some []"
    and t: "collect (judge_takeover at guards) tk = Some []"
    and s: "(if stale then judge_stale mounts reads allow tk else Some []) = Some []"
    unfolding judge_owner_def by (elim bindE) auto
  have listed: "py_in (YStr x) v = Some True" if "(do { ok \<leftarrow> py_in (YStr x) v; Some (if ok then [] else [f x]) }) = Some []"
    for x v and f :: "string \<Rightarrow> owner_finding"
    using that by (auto split: Option.bind_splits if_splits)
  show ?thesis
    by (rule that [OF all e])
       (use m r t s in \<open>auto simp: collect_empty_iff intro: listed listed [where f = "\<lambda>x. UnlistedReader x (sort (dict_get reads x []))"]\<close>)
qed

lemma judge_takeover_clean:
  assumes "judge_takeover at guards ((h, p), ts) = Some []"
  shows "\<exists>entry. dget at (h @ '' '' @ p) = Some entry \<and> entry \<noteq> YNull
     \<and> (item entry ''targets'' = Some (YStr ''all'') \<or> (\<exists>ks. entry_targets entry = Some ks \<and> (\<forall>t \<in> set ts. YStr t \<in> set ks)))
     \<and> (\<forall>g gs. dget entry ''guarded-by'' = Some g \<and> truthy g \<and> guards = Some gs \<longrightarrow> g \<in> YStr ` set gs)"
proof -
  from assms obtain entry t extra g missing where
    e: "dget at (h @ '' '' @ p) = Some entry" "entry \<noteq> YNull" "item entry ''targets'' = Some t"
    and x: "(if t = YStr ''all'' then Some []
             else do { ks \<leftarrow> keyset t; Some (sort (filter (\<lambda>x. YStr x \<notin> set ks) ts)) }) = Some ([] :: string list)"
    and g: "dget entry ''guarded-by'' = Some g"
    and m: "(case guards of None \<Rightarrow> Some False
             | Some gs \<Rightarrow> if truthy g then mnot (in_valset g (map YStr gs)) else Some False) = Some False"
    unfolding judge_takeover_def Let_def prod.case
    by (elim bindE) (auto split: if_splits elim!: bindE)
  have "t = YStr ''all'' \<or> (\<exists>ks. entry_targets entry = Some ks \<and> (\<forall>t \<in> set ts. YStr t \<in> set ks))"
  proof (cases "t = YStr ''all''")
    case False
    with x obtain ks where ks: "keyset t = Some ks" "sort (filter (\<lambda>x. YStr x \<notin> set ks) ts) = []"
      by (auto split: Option.bind_splits)
    then have "filter (\<lambda>x. YStr x \<notin> set ks) ts = []" by (metis set_sort set_empty)
    then have "\<forall>t \<in> set ts. YStr t \<in> set ks" by (simp add: filter_empty_conv)
    with ks(1) e(3) show ?thesis by (auto simp: entry_targets_def)
  qed simp
  moreover have "g \<in> YStr ` set gs" if "truthy g" "guards = Some gs" for gs
    using m that by (auto simp: in_valset_def mnot_def split: if_splits)
  ultimately show ?thesis using e g by auto
qed

lemma findings_step_reads:
  assumes "findings_step owner docs st = Some st'"
  shows "h \<in> set (dict_get (fst (snd st')) sa []) \<longleftrightarrow> h \<in> set (dict_get (fst (snd st)) sa [])
     \<or> (\<exists>r e. can_read docs owner OWNER_NS = Some (r, e) \<and> (\<exists>hs. (sa, hs) \<in> set r \<and> h \<in> set hs))"
proof -
  have "h \<in> set (dict_get (fold (\<lambda>(k, v) acc. dict_set_update k v acc) r acc) sa []) \<longleftrightarrow>
      h \<in> set (dict_get acc sa []) \<or> (\<exists>hs. (sa, hs) \<in> set r \<and> h \<in> set hs)" for r acc
    by (induction r arbitrary: acc) (auto simp: dict_get_dict_set_update split: if_splits)
  with assms show ?thesis
    by (cases st) (auto simp: findings_step_def elim!: bindE)
qed

lemma rendered_reads:
  assumes "rendered_findings docsets owner = Some (m, reads, e, tk)" "docs \<in> set docsets"
    and "can_read docs owner OWNER_NS = Some (r, e')" "map_of r sa = Some hs" "h \<in> set hs"
  shows "sa \<in> set (map fst reads)"
proof -
  from assms(1) obtain errs where
    f: "mfold (findings_step owner) docsets ([], [], []) = Some (m, reads, errs)"
    unfolding rendered_findings_def by (elim bindE) (auto elim!: bindE)
  let ?Q = "\<lambda>docs. \<exists>r e. can_read docs owner OWNER_NS = Some (r, e) \<and> (\<exists>hs. (sa, hs) \<in> set r \<and> h \<in> set hs)"
  have "h \<in> set (dict_get reads sa []) \<longleftrightarrow> h \<in> set (dict_get ([] :: sa_reads) sa []) \<or> (\<exists>docs \<in> set docsets. ?Q docs)"
    using mfold_collects [where P = "\<lambda>st. h \<in> set (dict_get (fst (snd st)) sa [])" and Q = ?Q, OF findings_step_reads f]
    by simp
  moreover have "?Q docs" using assms(3-5) map_of_SomeD by fast
  ultimately have "h \<in> set (dict_get reads sa [])" using assms(2) by auto
  then show ?thesis by (cases "map_of reads sa") (auto simp: dict_get_def dest!: map_of_SomeD intro: rev_image_eqI)
qed

lemma rendered_tk:
  assumes "rendered_findings docsets owner = Some (m, reads, e, tk)"
  shows "\<exists>terr. rendered_takeovers docsets owner (map fst reads) = Some (tk, terr)"
  using assms unfolding rendered_findings_def by (elim bindE) (auto elim!: bindE)

lemma run_owner_parts:
  assumes "run_owner docsets allow owner = Some fs" "rendered_findings docsets owner = Some (m, reads, e, tk)"
  shows "\<exists>gs. admission_guards docsets = Some gs \<and> judge_owner m reads e allow True tk (Some gs) = Some fs"
  using assms unfolding run_owner_def by (auto elim!: bindE)

section \<open>A passing verdict\<close>


text \<open>C2. When the guard passes, every takeover that a binding of a render gives a ServiceAccount is
  on the list of takeovers, under the key of the account and the power, with its target named
  (or \<^verbatim>\<open>all\<close>), and the admission policy that the entry depends on is in a render with a binding
  that denies.\<close>

theorem owner_verdict_takeovers:
  assumes "run_owner docsets allow owner = Some []" "rendered_findings docsets owner = Some (m, reads, e, tk)"
    and "all_workloads docsets = Some wls" "reader_targets wls owner (map fst reads) = Some (targets, sas)"
    and "docs \<in> set docsets" "role_rules docs OWNER_NS = Some roles" "d \<in> set docs"
    and "binding_takes targets sas owner roles d holder p t"
  shows "\<exists>at entry gs. get_or_dict allow ''takeovers'' = Some at \<and> dget at (holder @ '' '' @ p) = Some entry \<and> entry \<noteq> YNull
     \<and> (item entry ''targets'' = Some (YStr ''all'') \<or> (\<exists>ks. entry_targets entry = Some ks \<and> YStr t \<in> set ks))
     \<and> admission_guards docsets = Some gs
     \<and> (\<forall>g. dget entry ''guarded-by'' = Some g \<and> truthy g \<longrightarrow> g \<in> YStr ` set gs)"
proof -
  from run_owner_parts [OF assms(1,2)] obtain gs where gs: "admission_guards docsets = Some gs"
    and j: "judge_owner m reads e allow True tk (Some gs) = Some []" by blast
  from rendered_tk [OF assms(2)] obtain terr where "rendered_takeovers docsets owner (map fst reads) = Some (tk, terr)" by blast
  from rendered_takeovers_iff [OF this assms(3,4)] assms(5-8) have "t \<in> set (dict_get tk (holder, p) [])" by blast
  then obtain ts where ts: "((holder, p), ts) \<in> set tk" "t \<in> set ts"
    by (cases "map_of tk (holder, p)") (auto simp: dict_get_def dest: map_of_SomeD)
  from j obtain at where at: "get_or_dict allow ''takeovers'' = Some at" "\<forall>x \<in> set tk. judge_takeover at (Some gs) x = Some []"
    by (rule judge_owner_clean) blast
  from judge_takeover_clean [OF bspec [OF at(2) ts(1)]] ts(2) at(1) gs show ?thesis by blast
qed

end
