(* ===== verification/OwnerSelftest.thy ===== *)
theory OwnerSelftest
  imports OwnerJudge
begin

text \<open>
  The fixtures and the selftest of \<^verbatim>\<open>src/scripts/check-owner-credential-readers.py\<close>. Each fixture is
  the list of documents that its YAML text holds. The theory proves by evaluation that the
  model behaves on every one of them as the script demands of itself.
\<close>

section \<open>Fixtures\<close>

definition FIXTURE_BASE :: "doc list" where
  "FIXTURE_BASE =
    [YMap [(''apiVersion'', YStr ''rbac.authorization.k8s.io/v1''), (''kind'', YStr ''Role''), (''metadata'', YMap [(''name'',
      YStr ''boot''), (''namespace'', YStr ''gibson'')]), (''rules'', YList [YMap [(''apiGroups'', YList [YStr []]), (''resources'',
      YList [YStr ''secrets'']), (''resourceNames'', YList [YStr ''iam-admin-pat'']), (''verbs'', YList [YStr ''get''])]])],
     YMap [(''apiVersion'', YStr ''rbac.authorization.k8s.io/v1''), (''kind'', YStr ''RoleBinding''), (''metadata'', YMap [(''name'',
      YStr ''boot''), (''namespace'', YStr ''gibson'')]), (''roleRef'', YMap [(''kind'', YStr ''Role''), (''name'', YStr ''boot'')]),
      (''subjects'', YList [YMap [(''kind'', YStr ''ServiceAccount''), (''name'', YStr ''boot''), (''namespace'', YStr ''gibson'')]])],
     YMap [(''apiVersion'', YStr ''batch/v1''), (''kind'', YStr ''Job''), (''metadata'', YMap [(''name'', YStr ''boot''),
      (''namespace'', YStr ''gibson'')]), (''spec'', YMap [(''template'', YMap [(''spec'', YMap [(''serviceAccountName'',
      YStr ''boot''), (''containers'', YList [YMap [(''name'', YStr ''c''), (''image'', YStr ''x'')]])])])])]]"

definition TAKEOVER_BASE :: "doc list" where
  "TAKEOVER_BASE =
    [YMap [(''apiVersion'', YStr ''apps/v1''), (''kind'', YStr ''Deployment''), (''metadata'', YMap [(''name'', YStr ''reader''),
      (''namespace'', YStr ''gibson'')]), (''spec'', YMap [(''template'', YMap [(''spec'', YMap [(''serviceAccountName'',
      YStr ''boot''), (''containers'', YList [YMap [(''name'', YStr ''c''), (''image'', YStr ''x'')]])])])])],
     YMap [(''apiVersion'', YStr ''apps/v1''), (''kind'', YStr ''StatefulSet''), (''metadata'', YMap [(''name'', YStr ''cache''),
      (''namespace'', YStr ''gibson'')]), (''spec'', YMap [(''template'', YMap [(''spec'', YMap [(''serviceAccountName'',
      YStr ''cache''), (''containers'', YList [YMap [(''name'', YStr ''c''), (''image'', YStr ''x'')]])])])])]]"

definition READS_SECRETS_ROLE :: "doc list" where
  "READS_SECRETS_ROLE =
    [YMap [(''apiVersion'', YStr ''rbac.authorization.k8s.io/v1''), (''kind'', YStr ''ClusterRole''), (''metadata'', YMap [(''name'',
      YStr ''secret-reader'')]), (''rules'', YList [YMap [(''apiGroups'', YList [YStr []]), (''resources'', YList [YStr ''secrets'']),
      (''verbs'', YList [YStr ''list''])]])],
     YMap [(''apiVersion'', YStr ''rbac.authorization.k8s.io/v1''), (''kind'', YStr ''ClusterRole''), (''metadata'', YMap [(''name'',
      YStr ''config-reader'')]), (''rules'', YList [YMap [(''apiGroups'', YList [YStr []]), (''resources'',
      YList [YStr ''configmaps'']), (''verbs'', YList [YStr ''list''])]])]]"

definition VAP_FIXTURE :: "doc list" where
  "VAP_FIXTURE =
    [YMap [(''apiVersion'', YStr ''admissionregistration.k8s.io/v1''), (''kind'', YStr ''ValidatingAdmissionPolicy''), (''metadata'',
      YMap [(''name'', YStr ''fence'')]), (''spec'', YMap [])],
     YMap [(''apiVersion'', YStr ''admissionregistration.k8s.io/v1''), (''kind'', YStr ''ValidatingAdmissionPolicyBinding''),
      (''metadata'', YMap [(''name'', YStr ''fence'')]), (''spec'', YMap [(''policyName'', YStr ''fence''), (''validationActions'',
      YList [YStr ''Deny''])])]]"

definition FIXTURES_THAT_MUST_FAIL :: "(string \<times> doc list) list" where
  "FIXTURES_THAT_MUST_FAIL =
   [(''a Deployment mounts the owner PAT as a volume'',
     [YMap [(''apiVersion'', YStr ''apps/v1''), (''kind'', YStr ''Deployment''), (''metadata'', YMap [(''name'', YStr ''app''),
      (''namespace'', YStr ''gibson'')]), (''spec'', YMap [(''template'', YMap [(''spec'', YMap [(''containers'',
      YList [YMap [(''name'', YStr ''c''), (''image'', YStr ''x'')]]), (''volumes'', YList [YMap [(''name'', YStr ''v''), (''secret'',
      YMap [(''secretName'', YStr ''iam-admin-pat'')])]])])])])]]),
    (''a CronJob reads the machine key through env'',
     [YMap [(''apiVersion'', YStr ''batch/v1''), (''kind'', YStr ''CronJob''), (''metadata'', YMap [(''name'', YStr ''app''),
      (''namespace'', YStr ''gibson'')]), (''spec'', YMap [(''jobTemplate'', YMap [(''spec'', YMap [(''template'', YMap [(''spec'',
      YMap [(''containers'', YList [YMap [(''name'', YStr ''c''), (''image'', YStr ''x''), (''env'', YList [YMap [(''name'',
      YStr ''K''), (''valueFrom'', YMap [(''secretKeyRef'', YMap [(''name'', YStr ''iam-admin''), (''key'',
      YStr ''iam-admin.json'')])])]])]])])])])])])]]),
    (''an init container reads the System API key through envFrom'',
     [YMap [(''apiVersion'', YStr ''apps/v1''), (''kind'', YStr ''StatefulSet''), (''metadata'', YMap [(''name'', YStr ''app''),
      (''namespace'', YStr ''gibson'')]), (''spec'', YMap [(''template'', YMap [(''spec'', YMap [(''initContainers'',
      YList [YMap [(''name'', YStr ''i''), (''image'', YStr ''x''), (''envFrom'', YList [YMap [(''secretRef'', YMap [(''name'',
      YStr ''gibson-zitadel-system-key'')])]])]]), (''containers'', YList [YMap [(''name'', YStr ''c''), (''image'',
      YStr ''x'')]])])])])]]),
    (''a Pod mounts the owner PAT through a projected volume'',
     [YMap [(''apiVersion'', YStr ''v1''), (''kind'', YStr ''Pod''), (''metadata'', YMap [(''name'', YStr ''app''), (''namespace'',
      YStr ''gibson'')]), (''spec'', YMap [(''containers'', YList [YMap [(''name'', YStr ''c''), (''image'', YStr ''x'')]]),
      (''volumes'', YList [YMap [(''name'', YStr ''v''), (''projected'', YMap [(''sources'', YList [YMap [(''secret'', YMap [(''name'',
      YStr ''iam-admin-pat'')])]])])]])])]]),
    (''a Role reads every Secret in the namespace'',
     [YMap [(''apiVersion'', YStr ''rbac.authorization.k8s.io/v1''), (''kind'', YStr ''Role''), (''metadata'', YMap [(''name'',
      YStr ''wide''), (''namespace'', YStr ''gibson'')]), (''rules'', YList [YMap [(''apiGroups'', YList [YStr []]), (''resources'',
      YList [YStr ''secrets'']), (''verbs'', YList [YStr ''get'', YStr ''list''])]])],
     YMap [(''apiVersion'', YStr ''rbac.authorization.k8s.io/v1''), (''kind'', YStr ''RoleBinding''), (''metadata'', YMap [(''name'',
      YStr ''wide''), (''namespace'', YStr ''gibson'')]), (''roleRef'', YMap [(''kind'', YStr ''Role''), (''name'', YStr ''wide'')]),
      (''subjects'', YList [YMap [(''kind'', YStr ''ServiceAccount''), (''name'', YStr ''app''), (''namespace'', YStr ''gibson'')]])]]),
    (''a ClusterRole with resources * is bound cluster-wide'',
     [YMap [(''apiVersion'', YStr ''rbac.authorization.k8s.io/v1''), (''kind'', YStr ''ClusterRole''), (''metadata'', YMap [(''name'',
      YStr ''star'')]), (''rules'', YList [YMap [(''apiGroups'', YList [YStr ''*'']), (''resources'', YList [YStr ''*'']), (''verbs'',
      YList [YStr ''watch''])]])],
     YMap [(''apiVersion'', YStr ''rbac.authorization.k8s.io/v1''), (''kind'', YStr ''ClusterRoleBinding''), (''metadata'',
      YMap [(''name'', YStr ''star'')]), (''roleRef'', YMap [(''kind'', YStr ''ClusterRole''), (''name'', YStr ''star'')]),
      (''subjects'', YList [YMap [(''kind'', YStr ''ServiceAccount''), (''name'', YStr ''app''), (''namespace'', YStr ''other'')]])]]),
    (''a Role names the machine key'',
     [YMap [(''apiVersion'', YStr ''rbac.authorization.k8s.io/v1''), (''kind'', YStr ''Role''), (''metadata'', YMap [(''name'',
      YStr ''named''), (''namespace'', YStr ''gibson'')]), (''rules'', YList [YMap [(''apiGroups'', YList [YStr []]), (''resources'',
      YList [YStr ''secrets'']), (''resourceNames'', YList [YStr ''iam-admin'']), (''verbs'', YList [YStr ''get''])]])],
     YMap [(''apiVersion'', YStr ''rbac.authorization.k8s.io/v1''), (''kind'', YStr ''RoleBinding''), (''metadata'', YMap [(''name'',
      YStr ''named''), (''namespace'', YStr ''gibson'')]), (''roleRef'', YMap [(''kind'', YStr ''Role''), (''name'', YStr ''named'')]),
      (''subjects'', YList [YMap [(''kind'', YStr ''ServiceAccount''), (''name'', YStr ''app''), (''namespace'', YStr ''gibson'')]])]]),
    (''a RoleBinding in gibson grants the built-in edit ClusterRole'',
     [YMap [(''apiVersion'', YStr ''rbac.authorization.k8s.io/v1''), (''kind'', YStr ''RoleBinding''), (''metadata'', YMap [(''name'',
      YStr ''editor''), (''namespace'', YStr ''gibson'')]), (''roleRef'', YMap [(''kind'', YStr ''ClusterRole''), (''name'',
      YStr ''edit'')]), (''subjects'', YList [YMap [(''kind'', YStr ''ServiceAccount''), (''name'', YStr ''app''), (''namespace'',
      YStr ''gibson'')]])]]),
    (''an aggregated ClusterRole picks up a Secret read'',
     [YMap [(''apiVersion'', YStr ''rbac.authorization.k8s.io/v1''), (''kind'', YStr ''ClusterRole''), (''metadata'', YMap [(''name'',
      YStr ''agg'')]), (''aggregationRule'', YMap [(''clusterRoleSelectors'', YList [YMap [(''matchLabels'', YMap [(''agg'',
      YStr ''true'')])]])])],
     YMap [(''apiVersion'', YStr ''rbac.authorization.k8s.io/v1''), (''kind'', YStr ''ClusterRole''), (''metadata'', YMap [(''name'',
      YStr ''part''), (''labels'', YMap [(''agg'', YStr ''true'')])]), (''rules'', YList [YMap [(''apiGroups'', YList [YStr []]),
      (''resources'', YList [YStr ''secrets'']), (''verbs'', YList [YStr ''list''])]])],
     YMap [(''apiVersion'', YStr ''rbac.authorization.k8s.io/v1''), (''kind'', YStr ''ClusterRoleBinding''), (''metadata'',
      YMap [(''name'', YStr ''agg'')]), (''roleRef'', YMap [(''kind'', YStr ''ClusterRole''), (''name'', YStr ''agg'')]), (''subjects'',
      YList [YMap [(''kind'', YStr ''ServiceAccount''), (''name'', YStr ''app''), (''namespace'', YStr ''gibson'')]])]]),
    (''a Secret read is granted to every ServiceAccount through a group'',
     [YMap [(''apiVersion'', YStr ''rbac.authorization.k8s.io/v1''), (''kind'', YStr ''Role''), (''metadata'', YMap [(''name'',
      YStr ''grp''), (''namespace'', YStr ''gibson'')]), (''rules'', YList [YMap [(''apiGroups'', YList [YStr []]), (''resources'',
      YList [YStr ''secrets'']), (''verbs'', YList [YStr ''get''])]])],
     YMap [(''apiVersion'', YStr ''rbac.authorization.k8s.io/v1''), (''kind'', YStr ''RoleBinding''), (''metadata'', YMap [(''name'',
      YStr ''grp''), (''namespace'', YStr ''gibson'')]), (''roleRef'', YMap [(''kind'', YStr ''Role''), (''name'', YStr ''grp'')]),
      (''subjects'', YList [YMap [(''kind'', YStr ''Group''), (''name'', YStr ''system:serviceaccounts:gibson'')]])]]),
    (''a binding names a ClusterRole the render does not contain'',
     [YMap [(''apiVersion'', YStr ''rbac.authorization.k8s.io/v1''), (''kind'', YStr ''RoleBinding''), (''metadata'', YMap [(''name'',
      YStr ''ext''), (''namespace'', YStr ''gibson'')]), (''roleRef'', YMap [(''kind'', YStr ''ClusterRole''), (''name'',
      YStr ''somebody-elses-role'')]), (''subjects'', YList [YMap [(''kind'', YStr ''ServiceAccount''), (''name'', YStr ''app''),
      (''namespace'', YStr ''gibson'')]])]])]"

definition FIXTURES_THAT_MUST_PASS :: "(string \<times> doc list) list" where
  "FIXTURES_THAT_MUST_PASS =
   [(''a Role that names another Secret'',
     [YMap [(''apiVersion'', YStr ''rbac.authorization.k8s.io/v1''), (''kind'', YStr ''Role''), (''metadata'', YMap [(''name'',
      YStr ''other''), (''namespace'', YStr ''gibson'')]), (''rules'', YList [YMap [(''apiGroups'', YList [YStr []]), (''resources'',
      YList [YStr ''secrets'']), (''resourceNames'', YList [YStr ''gibson-redis-stack'']), (''verbs'', YList [YStr ''get''])]])],
     YMap [(''apiVersion'', YStr ''rbac.authorization.k8s.io/v1''), (''kind'', YStr ''RoleBinding''), (''metadata'', YMap [(''name'',
      YStr ''other''), (''namespace'', YStr ''gibson'')]), (''roleRef'', YMap [(''kind'', YStr ''Role''), (''name'', YStr ''other'')]),
      (''subjects'', YList [YMap [(''kind'', YStr ''ServiceAccount''), (''name'', YStr ''app''), (''namespace'', YStr ''gibson'')]])]]),
    (''a wide Secret read bound in another namespace'',
     [YMap [(''apiVersion'', YStr ''rbac.authorization.k8s.io/v1''), (''kind'', YStr ''Role''), (''metadata'', YMap [(''name'',
      YStr ''wide''), (''namespace'', YStr ''tenant-a'')]), (''rules'', YList [YMap [(''apiGroups'', YList [YStr []]), (''resources'',
      YList [YStr ''secrets'']), (''verbs'', YList [YStr ''get'', YStr ''list'', YStr ''watch''])]])],
     YMap [(''apiVersion'', YStr ''rbac.authorization.k8s.io/v1''), (''kind'', YStr ''RoleBinding''), (''metadata'', YMap [(''name'',
      YStr ''wide''), (''namespace'', YStr ''tenant-a'')]), (''roleRef'', YMap [(''kind'', YStr ''Role''), (''name'', YStr ''wide'')]),
      (''subjects'', YList [YMap [(''kind'', YStr ''ServiceAccount''), (''name'', YStr ''app''), (''namespace'', YStr ''gibson'')]])]]),
    (''create on Secrets, which reads nothing'',
     [YMap [(''apiVersion'', YStr ''rbac.authorization.k8s.io/v1''), (''kind'', YStr ''Role''), (''metadata'', YMap [(''name'',
      YStr ''create''), (''namespace'', YStr ''gibson'')]), (''rules'', YList [YMap [(''apiGroups'', YList [YStr []]), (''resources'',
      YList [YStr ''secrets'']), (''verbs'', YList [YStr ''create''])]])],
     YMap [(''apiVersion'', YStr ''rbac.authorization.k8s.io/v1''), (''kind'', YStr ''RoleBinding''), (''metadata'', YMap [(''name'',
      YStr ''create''), (''namespace'', YStr ''gibson'')]), (''roleRef'', YMap [(''kind'', YStr ''Role''), (''name'',
      YStr ''create'')]), (''subjects'', YList [YMap [(''kind'', YStr ''ServiceAccount''), (''name'', YStr ''app''), (''namespace'',
      YStr ''gibson'')]])]]),
    (''a pod that mounts only another Secret'',
     [YMap [(''apiVersion'', YStr ''v1''), (''kind'', YStr ''Pod''), (''metadata'', YMap [(''name'', YStr ''app''), (''namespace'',
      YStr ''gibson'')]), (''spec'', YMap [(''containers'', YList [YMap [(''name'', YStr ''c''), (''image'', YStr ''x''), (''env'',
      YList [YMap [(''name'', YStr ''P''), (''valueFrom'', YMap [(''secretKeyRef'', YMap [(''name'', YStr ''gibson-redis-stack''),
      (''key'', YStr ''p'')])])]])]])])]])]"

text \<open>One Role (or ClusterRole) with \<open>rules\<close>, bound to ServiceAccount \<^verbatim>\<open>gibson/app\<close>.\<close>

definition grant_fixture :: "yaml \<Rightarrow> bool \<Rightarrow> string \<Rightarrow> doc list \<Rightarrow> doc list" where
  "grant_fixture rules cluster ns extra =
     (let kind = (if cluster then ''ClusterRole'' else ''Role'');
          meta = YMap ((''name'', YStr ''t'') # (if cluster then [] else [(''namespace'', YStr ns)]))
      in [YMap [(''apiVersion'', YStr ''rbac.authorization.k8s.io/v1''), (''kind'', YStr kind), (''metadata'', meta), (''rules'', rules)],
          YMap [(''apiVersion'', YStr ''rbac.authorization.k8s.io/v1''), (''kind'', YStr (kind @ ''Binding'')), (''metadata'', meta),
            (''roleRef'', YMap [(''kind'', YStr kind), (''name'', YStr ''t'')]),
            (''subjects'', YList [YMap [(''kind'', YStr ''ServiceAccount''), (''name'', YStr ''app''), (''namespace'', YStr ''gibson'')]])]]
         @ extra)"

definition TAKEOVERS_THAT_MUST_FAIL :: "(string \<times> doc list) list" where
  "TAKEOVERS_THAT_MUST_FAIL =
   [(''exec into any pod in the namespace (the postgres-exec shape)'',
     grant_fixture (YList [YMap [(''apiGroups'', YList [YStr []]), (''resources'', YList [YStr ''pods/exec'']), (''verbs'', YList [YStr ''create''])]]) False ''gibson'' []),
    (''exec by the websocket verb get'',
     grant_fixture (YList [YMap [(''apiGroups'', YList [YStr []]), (''resources'', YList [YStr ''pods/exec'']), (''verbs'', YList [YStr ''get''])]]) False ''gibson'' []),
    (''attach to any pod'',
     grant_fixture (YList [YMap [(''apiGroups'', YList [YStr []]), (''resources'', YList [YStr ''pods/attach'']), (''verbs'',
        YList [YStr ''create''])]]) False ''gibson'' []),
    (''add an ephemeral container to any pod'',
     grant_fixture (YList [YMap [(''apiGroups'', YList [YStr []]), (''resources'', YList [YStr ''pods/ephemeralcontainers'']), (''verbs'',
        YList [YStr ''patch''])]]) False ''gibson'' []),
    (''patch every Deployment (the Reloader shape)'',
     grant_fixture (YList [YMap [(''apiGroups'', YList [YStr ''apps'']), (''resources'', YList [YStr ''deployments'', YStr ''statefulsets'']),
        (''verbs'', YList [YStr ''patch''])]]) False ''gibson'' []),
    (''patch the reader Deployment by name (the openbao auto-init shape)'',
     grant_fixture (YList [YMap [(''apiGroups'', YList [YStr ''apps'']), (''resources'', YList [YStr ''deployments'']), (''resourceNames'',
        YList [YStr ''reader'']), (''verbs'', YList [YStr ''patch''])]]) False ''gibson'' []),
    (''update every pod'',
     grant_fixture (YList [YMap [(''apiGroups'', YList [YStr []]), (''resources'', YList [YStr ''pods'']), (''verbs'', YList [YStr ''update''])]]) False ''gibson'' []),
    (''create a pod in the namespace'',
     grant_fixture (YList [YMap [(''apiGroups'', YList [YStr []]), (''resources'', YList [YStr ''pods'']), (''verbs'', YList [YStr ''create''])]]) False ''gibson'' []),
    (''create a Job in the namespace'',
     grant_fixture (YList [YMap [(''apiGroups'', YList [YStr ''batch'']), (''resources'', YList [YStr ''jobs'']), (''verbs'',
        YList [YStr ''create''])]]) False ''gibson'' []),
    (''create a token for any ServiceAccount, cluster-wide (the External Secrets shape)'',
     grant_fixture (YList [YMap [(''apiGroups'', YList [YStr []]), (''resources'', YList [YStr ''serviceaccounts/token'']), (''verbs'',
        YList [YStr ''create''])]]) True ''gibson'' []),
    ((''create a token for the reader'' @ [CHR 0x27] @ ''s ServiceAccount by name''),
     grant_fixture (YList [YMap [(''apiGroups'', YList [YStr []]), (''resources'', YList [YStr ''serviceaccounts/token'']), (''resourceNames'',
        YList [YStr ''boot'']), (''verbs'', YList [YStr ''create''])]]) False ''gibson'' []),
    ((''impersonate the reader'' @ [CHR 0x27] @ ''s ServiceAccount''),
     grant_fixture (YList [YMap [(''apiGroups'', YList [YStr []]), (''resources'', YList [YStr ''serviceaccounts'']), (''verbs'',
        YList [YStr ''impersonate''])]]) False ''gibson'' []),
    ((''impersonate the reader'' @ [CHR 0x27] @ ''s user name''),
     grant_fixture (YList [YMap [(''apiGroups'', YList [YStr []]), (''resources'', YList [YStr ''users'']), (''resourceNames'',
        YList [YStr ''system:serviceaccount:gibson:boot'']), (''verbs'', YList [YStr ''impersonate''])]]) True ''gibson'' []),
    (''bind a Secret-reading ClusterRole anywhere (the tenant-operator shape)'',
     grant_fixture (YList [YMap [(''apiGroups'', YList [YStr ''rbac.authorization.k8s.io'']), (''resources'', YList [YStr ''rolebindings'']),
        (''verbs'', YList [YStr ''create''])], YMap [(''apiGroups'', YList [YStr ''rbac.authorization.k8s.io'']), (''resources'',
        YList [YStr ''clusterroles'']), (''resourceNames'', YList [YStr ''secret-reader'']), (''verbs'', YList [YStr ''bind''])]]) True ''gibson'' READS_SECRETS_ROLE),
    (''escalate: write a Role with any rule'',
     grant_fixture (YList [YMap [(''apiGroups'', YList [YStr ''rbac.authorization.k8s.io'']), (''resources'', YList [YStr ''roles'']), (''verbs'',
        YList [YStr ''create'', YStr ''escalate''])]]) False ''gibson'' []),
    (''a wildcard ClusterRole'',
     grant_fixture (YList [YMap [(''apiGroups'', YList [YStr ''*'']), (''resources'', YList [YStr ''*'']), (''verbs'', YList [YStr ''*''])]]) True ''gibson'' []),
    (''reach the kubelet through nodes/proxy'',
     grant_fixture (YList [YMap [(''apiGroups'', YList [YStr []]), (''resources'', YList [YStr ''nodes/proxy'']), (''verbs'', YList [YStr ''get''])]]) True ''gibson'' [])]"

definition TAKEOVERS_THAT_MUST_PASS :: "(string \<times> doc list) list" where
  "TAKEOVERS_THAT_MUST_PASS =
   [(''exec into one named StatefulSet pod that reads nothing (the redis-rotation shape)'',
     grant_fixture (YList [YMap [(''apiGroups'', YList [YStr []]), (''resources'', YList [YStr ''pods/exec'']), (''resourceNames'',
        YList [YStr ''cache-0'']), (''verbs'', YList [YStr ''create''])]]) False ''gibson'' []),
    (''patch a Deployment that reads nothing, by name'',
     grant_fixture (YList [YMap [(''apiGroups'', YList [YStr ''apps'']), (''resources'', YList [YStr ''deployments'']), (''resourceNames'',
        YList [YStr ''other'']), (''verbs'', YList [YStr ''patch''])]]) False ''gibson'' []),
    (''create a token for its own ServiceAccount only'',
     grant_fixture (YList [YMap [(''apiGroups'', YList [YStr []]), (''resources'', YList [YStr ''serviceaccounts/token'']), (''resourceNames'',
        YList [YStr ''app'']), (''verbs'', YList [YStr ''create''])]]) False ''gibson'' []),
    (''create pods in another namespace'',
     grant_fixture (YList [YMap [(''apiGroups'', YList [YStr []]), (''resources'', YList [YStr ''pods'']), (''verbs'', YList [YStr ''create''])]]) False ''tenant-a'' []),
    (''bind a ClusterRole that reads no Secret'',
     grant_fixture (YList [YMap [(''apiGroups'', YList [YStr ''rbac.authorization.k8s.io'']), (''resources'', YList [YStr ''rolebindings'']),
        (''verbs'', YList [YStr ''create''])], YMap [(''apiGroups'', YList [YStr ''rbac.authorization.k8s.io'']), (''resources'',
        YList [YStr ''clusterroles'']), (''resourceNames'', YList [YStr ''config-reader'']), (''verbs'', YList [YStr ''bind''])]]) True ''gibson'' READS_SECRETS_ROLE),
    (''read pods and Deployments'',
     grant_fixture (YList [YMap [(''apiGroups'', YList [YStr [], YStr ''apps'']), (''resources'', YList [YStr ''pods'', YStr ''deployments'']),
        (''verbs'', YList [YStr ''get'', YStr ''list'', YStr ''watch''])]]) False ''gibson'' [])]"

definition extra_reader :: "doc list" where
  "extra_reader =
    [YMap [(''apiVersion'', YStr ''apps/v1''), (''kind'', YStr ''StatefulSet''),
      (''metadata'', YMap [(''name'', YStr ''reader2''), (''namespace'', YStr ''gibson'')]),
      (''spec'', YMap [(''template'', YMap [(''spec'', YMap [(''serviceAccountName'', YStr ''boot''),
        (''containers'', YList [YMap [(''name'', YStr ''c''), (''image'', YStr ''x'')]])])])])]]"

definition fixture_entry :: yaml where
  "fixture_entry = YMap [(''class'', YStr ''bootstrap''), (''why'', YStr ''fixture'')]"

definition SELFTEST_ALLOW :: yaml where
  "SELFTEST_ALLOW = YMap
     [(''owner_secrets'', YList [YStr ''iam-admin-pat'', YStr ''iam-admin'', YStr ''gibson-zitadel-system-key'']),
      (''mounts'', YMap []),
      (''readers'', YMap [(''gibson/boot'', fixture_entry)]),
      (''takeovers'', YMap [])]"

section \<open>The selftest\<close>

definition st_base :: "doc list" where
  "st_base = FIXTURE_BASE @ TAKEOVER_BASE"

definition run_fixture :: "yaml \<Rightarrow> doc list \<Rightarrow> owner_finding list option" where
  "run_fixture allow docs = do { owner \<leftarrow> owner_secrets SELFTEST_ALLOW; run_owner [st_base @ docs] allow owner }"

definition named_grant :: "doc list" where
  "named_grant = grant_fixture (YList [YMap [(''apiGroups'', YList [YStr ''apps'']), (''resources'', YList [YStr ''deployments'']),
     (''resourceNames'', YList [YStr ''reader'']), (''verbs'', YList [YStr ''patch''])]]) False ''gibson'' []"

definition wide_grant :: "doc list" where
  "wide_grant = grant_fixture (YList [YMap [(''apiGroups'', YList [YStr ''apps'']),
     (''resources'', YList [YStr ''deployments'', YStr ''statefulsets'']), (''verbs'', YList [YStr ''patch''])]]) False ''gibson'' []"

definition listed_entry :: "string list \<Rightarrow> dict \<Rightarrow> yaml" where
  "listed_entry targets more_keys = with_key ''takeovers'' (YMap [(''gibson/app patch'', YMap
     ([(''class'', YStr ''infrastructure''), (''why'', YStr ''fixture''), (''targets'', YList (map YStr targets))] @ more_keys))]) SELFTEST_ALLOW"

fun is_stale_reader :: "owner_finding \<Rightarrow> bool" where
  "is_stale_reader (StaleReader s) = True" | "is_stale_reader _ = False"

fun is_extra :: "owner_finding \<Rightarrow> bool" where
  "is_extra (ExtraTargets k ts) = True" | "is_extra _ = False"

fun is_stale_targets :: "owner_finding \<Rightarrow> bool" where
  "is_stale_targets (StaleTargets k ts) = True" | "is_stale_targets _ = False"

fun is_missing_guard :: "owner_finding \<Rightarrow> bool" where
  "is_missing_guard (MissingGuard k g) = True" | "is_missing_guard _ = False"

definition must_fail :: "(string \<times> doc list) list \<Rightarrow> bool option" where
  "must_fail fixtures = mall (\<lambda>(what, docs). do { got \<leftarrow> run_fixture SELFTEST_ALLOW docs; Some (got \<noteq> []) }) fixtures"

definition must_pass :: "(string \<times> doc list) list \<Rightarrow> bool option" where
  "must_pass fixtures = mall (\<lambda>(what, docs). do { got \<leftarrow> run_fixture SELFTEST_ALLOW docs; Some (got = []) }) fixtures"

definition reports :: "(owner_finding \<Rightarrow> bool) \<Rightarrow> yaml \<Rightarrow> doc list \<Rightarrow> bool option" where
  "reports p allow docs = do { got \<leftarrow> run_fixture allow docs; Some (list_ex p got) }"

definition stale_allow :: yaml where
  "stale_allow = with_key ''readers'' (YMap [(''gibson/boot'', fixture_entry), (''gibson/gone'', fixture_entry)]) SELFTEST_ALLOW"

definition listed_allow :: yaml where
  "listed_allow = listed_entry [''Deployment/reader''] []"

definition two_allow :: yaml where
  "two_allow = listed_entry [''Deployment/reader'', ''Deployment/gone''] []"

definition fenced_allow :: yaml where
  "fenced_allow = listed_entry [''Deployment/reader''] [(''guarded-by'', YStr ''ValidatingAdmissionPolicy/fence'')]"

text \<open>The checks of \<^verbatim>\<open>selftest\<close> in order, each True when it holds; then the comparison of the real
  renders with the real allowlist.\<close>

definition selftest_owner :: "yaml \<Rightarrow> doc list list \<Rightarrow> int option" where
  "selftest_owner data docsets = do {
     base \<leftarrow> must_pass [([], [])];
     if \<not> base then Some 1 else do {
     f \<leftarrow> must_fail (FIXTURES_THAT_MUST_FAIL @ TAKEOVERS_THAT_MUST_FAIL);
     if \<not> f then Some 1 else do {
     p \<leftarrow> must_pass (FIXTURES_THAT_MUST_PASS @ TAKEOVERS_THAT_MUST_PASS);
     if \<not> p then Some 1 else do {
     stale \<leftarrow> reports is_stale_reader stale_allow [];
     if \<not> stale then Some 1 else do {
     listed \<leftarrow> run_fixture listed_allow named_grant;
     if listed \<noteq> [] then Some 1 else do {
     extra \<leftarrow> reports is_extra listed_allow (wide_grant @ extra_reader);
     if \<not> extra then Some 1 else do {
     gone \<leftarrow> reports is_stale_targets two_allow named_grant;
     if \<not> gone then Some 1 else do {
     fenced \<leftarrow> run_fixture fenced_allow (named_grant @ VAP_FIXTURE);
     if fenced \<noteq> [] then Some 1 else do {
     unfenced \<leftarrow> reports is_missing_guard fenced_allow named_grant;
     if \<not> unfenced then Some 1 else do {
     la \<leftarrow> load_allowlist data;
     (case la of
        Inl e \<Rightarrow> Some 1
      | Inr allow \<Rightarrow> do {
          owner \<leftarrow> owner_secrets allow;
          got \<leftarrow> run_owner docsets allow owner;
          Some (if got \<noteq> [] then 1 else 0)
        })
     } } } } } } } } }
   }"

section \<open>Every fixture behaves as demanded\<close>

lemma base_passes: "must_pass [([], [])] = Some True"
  by code_simp

lemma reader_fixtures_fail: "must_fail FIXTURES_THAT_MUST_FAIL = Some True"
  by code_simp

lemma takeover_fixtures_fail_1: "must_fail (take 5 TAKEOVERS_THAT_MUST_FAIL) = Some True"
  by code_simp

lemma takeover_fixtures_fail_2: "must_fail (take 5 (drop 5 TAKEOVERS_THAT_MUST_FAIL)) = Some True"
  by code_simp

lemma takeover_fixtures_fail_3: "must_fail (take 4 (drop 10 TAKEOVERS_THAT_MUST_FAIL)) = Some True"
  by code_simp

lemma takeover_fixtures_fail_4: "must_fail (drop 14 TAKEOVERS_THAT_MUST_FAIL) = Some True"
  by code_simp

lemma must_fail_append: "must_fail (xs @ ys) = mand (must_fail xs) (must_fail ys)"
  by (simp add: must_fail_def)

lemma must_pass_append: "must_pass (xs @ ys) = mand (must_pass xs) (must_pass ys)"
  by (simp add: must_pass_def)

lemma takeover_fixtures_fail: "must_fail TAKEOVERS_THAT_MUST_FAIL = Some True"
proof -
  have parts: "xs = take 5 xs @ take 5 (drop 5 xs) @ take 4 (drop 10 xs) @ drop 14 xs" for xs :: "'a list"
    using append_take_drop_id [of 5 xs] append_take_drop_id [of 5 "drop 5 xs"] append_take_drop_id [of 4 "drop 10 xs"]
    by simp
  show ?thesis
    by (subst parts) (simp add: must_fail_append takeover_fixtures_fail_1 takeover_fixtures_fail_2
        takeover_fixtures_fail_3 takeover_fixtures_fail_4)
qed

lemma reader_fixtures_pass: "must_pass FIXTURES_THAT_MUST_PASS = Some True"
  by code_simp

lemma takeover_fixtures_pass: "must_pass TAKEOVERS_THAT_MUST_PASS = Some True"
  by code_simp

lemma listed_fixtures:
  "reports is_stale_reader stale_allow [] = Some True"
  "run_fixture listed_allow named_grant = Some []"
  "reports is_extra listed_allow (wide_grant @ extra_reader) = Some True"
  "reports is_stale_targets two_allow named_grant = Some True"
  "run_fixture fenced_allow (named_grant @ VAP_FIXTURE) = Some []"
  "reports is_missing_guard fenced_allow named_grant = Some True"
  by code_simp+

text \<open>The selftest holds: every new-reader and takeover fixture is refused, every near miss
  passes, and the stale, extra-target and missing-policy cases are reported. So the selftest
  returns what the comparison of the real renders with the allowlist gives, and nothing else
  makes it fail.\<close>

theorem selftest_owner_verdict:
  "selftest_owner data docsets = do {
     la \<leftarrow> load_allowlist data;
     (case la of
        Inl e \<Rightarrow> Some 1
      | Inr allow \<Rightarrow> do {
          owner \<leftarrow> owner_secrets allow;
          got \<leftarrow> run_owner docsets allow owner;
          Some (if got \<noteq> [] then 1 else 0)
        })
   }"
  by (simp add: selftest_owner_def must_fail_append must_pass_append base_passes reader_fixtures_fail
      takeover_fixtures_fail reader_fixtures_pass takeover_fixtures_pass listed_fixtures)

section \<open>Witnesses of the verdict\<close>

abbreviation st_owner :: "string list" where
  "st_owner \<equiv> [''iam-admin-pat'', ''iam-admin'', ''gibson-zitadel-system-key'']"

lemma st_owner_secrets: "owner_secrets SELFTEST_ALLOW = Some st_owner"
  by code_simp

lemma base_run: "run_owner [st_base] SELFTEST_ALLOW st_owner = Some []"
  using base_passes by (auto simp: must_pass_def run_fixture_def st_owner_secrets split: Option.bind_splits if_splits)

lemma named_run: "run_owner [st_base @ named_grant] listed_allow st_owner = Some []"
  using listed_fixtures(2) by (simp add: run_fixture_def st_owner_secrets)


lemma named_takeover:
  "(case rendered_findings [st_base @ named_grant] st_owner of
      Some (m, reads, e, tk) \<Rightarrow> ''Deployment/reader'' \<in> set (dict_get tk (''gibson/app'', ''patch'') []) | None \<Rightarrow> False) = True"
  by code_simp

lemma owner_verdict_takeovers_witness:
  "\<exists>at entry. get_or_dict listed_allow ''takeovers'' = Some at \<and> dget at (''gibson/app'' @ '' '' @ ''patch'') = Some entry \<and> entry \<noteq> YNull
     \<and> (item entry ''targets'' = Some (YStr ''all'') \<or> (\<exists>ks. entry_targets entry = Some ks \<and> YStr ''Deployment/reader'' \<in> set ks))"
proof -
  let ?D = "[st_base @ named_grant]"
  from named_takeover obtain m reads e tk where f: "rendered_findings ?D st_owner = Some (m, reads, e, tk)"
    and t: "''Deployment/reader'' \<in> set (dict_get tk (''gibson/app'', ''patch'') [])"
    by (auto split: option.splits)
  from rendered_tk [OF f] obtain terr where rt: "rendered_takeovers ?D st_owner (map fst reads) = Some (tk, terr)" by blast
  then obtain wls targets sas where w: "all_workloads ?D = Some wls" "reader_targets wls st_owner (map fst reads) = Some (targets, sas)"
    unfolding rendered_takeovers_def by (auto elim!: bindE)
  from rendered_takeovers_iff [OF rt w] t obtain docs roles d where
    "docs \<in> set ?D" "role_rules docs OWNER_NS = Some roles" "d \<in> set docs"
    "binding_takes targets sas st_owner roles d ''gibson/app'' ''patch'' ''Deployment/reader''" by blast
  from owner_verdict_takeovers [OF named_run f w this] show ?thesis by blast
qed

end
