(* ===== verification/OwnerLive.thy ===== *)
theory OwnerLive
  imports OwnerJudge
begin

text \<open>
  \<^verbatim>\<open>src/scripts/check-owner-credential-readers.py --live\<close>: the same question asked of a running
  cluster. What kubectl answers is a parameter, one field per call; the evaluation of the answers
  is modelled whole. A SystemExit of a helper (an answer that is neither yes nor no, an
  incomplete review) ends the run with an error and is \<open>None\<close>, as an exception is.
\<close>

section \<open>The cluster\<close>

text \<open>The items of the lists that kubectl prints, the standard output of \<^verbatim>\<open>kubectl auth can-i\<close> for a
  ServiceAccount (namespace and name), a verb and a target, the object that a
  SelfSubjectRulesReview returns for a ServiceAccount and a namespace (\<open>None\<close> when the call
  fails), a role or cluster role by kind and name, and whether an admission policy exists.\<close>

record cluster =
  kc_accounts :: "yaml list"
  kc_replicasets :: "yaml list"
  kc_jobs :: "yaml list"
  kc_pods :: "yaml list"
  kc_bindings :: "yaml list"
  kc_can_i :: "string \<Rightarrow> string \<Rightarrow> string \<Rightarrow> string \<Rightarrow> string"
  kc_review :: "string \<Rightarrow> string \<Rightarrow> string \<Rightarrow> yaml option"
  kc_role :: "string \<Rightarrow> yaml \<Rightarrow> yaml option"
  kc_policy :: "string \<Rightarrow> bool"

text \<open>\<^verbatim>\<open>ns, name = sa.split("/", 1)\<close>.\<close>

definition split_account :: "string \<Rightarrow> (string \<times> string) option" where
  "split_account sa = (case split_once (CHR ''/'') sa of (ns, Some name) \<Rightarrow> Some (ns, name) | (ns, None) \<Rightarrow> None)"

definition can_i :: "cluster \<Rightarrow> string \<Rightarrow> string \<Rightarrow> string \<Rightarrow> bool option" where
  "can_i kc sa verb target = do {
     (ns, name) \<leftarrow> split_account sa;
     let ans = strip (kc_can_i kc ns name verb target);
     if ans = ''yes'' then Some True else if ans = ''no'' then Some False else None
   }"

definition account_text :: "yaml \<Rightarrow> string option" where
  "account_text i = do { m \<leftarrow> item i ''metadata''; ns \<leftarrow> item m ''namespace''; n \<leftarrow> item m ''name'';
                        Some (py_str ns @ ''/'' @ py_str n) }"

section \<open>Reads\<close>

text \<open>The questions asked of each account: a verb, a target and the text of the read.\<close>

definition live_checks :: "string list \<Rightarrow> (string \<times> string \<times> string) list" where
  "live_checks owner =
     map (\<lambda>v. (v, ''secrets'', v @ '' secrets'')) [''list'', ''watch'']
     @ concat (map (\<lambda>v. map (\<lambda>n. (v, ''secret/'' @ n, v @ '' '' @ n)) (sort owner)) READ_VERBS)"

definition live_reads :: "cluster \<Rightarrow> string list \<Rightarrow> sa_reads option" where
  "live_reads kc owner = do {
     sas \<leftarrow> mmap account_text (kc_accounts kc);
     mfold (\<lambda>(sa, v, t, txt) reads. do {
       yes \<leftarrow> can_i kc sa v t;
       Some (if yes then dict_set_update sa [txt] reads else reads)
     }) (concat (map (\<lambda>sa. map (Pair sa) (live_checks owner)) sas)) []
   }"

section \<open>Pods\<close>

definition owner_ref :: "yaml \<Rightarrow> string option" where
  "owner_ref o' = do { k \<leftarrow> item o' ''kind''; n \<leftarrow> item o' ''name''; Some (py_str k @ ''/'' @ py_str n) }"

definition owner_refs :: "yaml \<Rightarrow> yaml list option" where
  "owner_refs obj = do { m \<leftarrow> item obj ''metadata''; get_as_list m ''ownerReferences'' }"

definition dict_put :: "yaml \<Rightarrow> string \<Rightarrow> (yaml \<times> string) list \<Rightarrow> (yaml \<times> string) list option" where
  "dict_put k v m = (if hashable k then Some (AList.update k v m) else None)"

definition rs_owners :: "yaml list \<Rightarrow> (yaml \<times> string) list option" where
  "rs_owners rss = mfold (\<lambda>rs m. do {
     refs \<leftarrow> owner_refs rs;
     mfold (\<lambda>o' m. do { n \<leftarrow> meta_name rs; t \<leftarrow> owner_ref o'; dict_put n t m }) refs m
   }) rss []"

definition job_owners :: "yaml list \<Rightarrow> (yaml \<times> string) list option" where
  "job_owners jobs = mfold (\<lambda>j m. do {
     refs \<leftarrow> owner_refs j;
     n \<leftarrow> meta_name j;
     t \<leftarrow> (case refs of [] \<Rightarrow> Some (''Job/'' @ py_str n) | r # _ \<Rightarrow> owner_ref r);
     dict_put n t m
   }) jobs []"

definition pod_owner :: "(yaml \<times> string) list \<Rightarrow> (yaml \<times> string) list \<Rightarrow> yaml \<Rightarrow> string option" where
  "pod_owner rs_owner job_owner p = do {
     refs \<leftarrow> owner_refs p;
     (case refs of
        [] \<Rightarrow> do { n \<leftarrow> meta_name p; Some (''Pod/'' @ py_str n) }
      | r # _ \<Rightarrow> do {
          pn \<leftarrow> meta_name p;
          k \<leftarrow> item r ''kind'';
          n \<leftarrow> item r ''name'';
          if k = YStr ''ReplicaSet'' then (if hashable n then Some (dict_get rs_owner n (''ReplicaSet/'' @ py_str n)) else None)
          else if k = YStr ''Job'' then (if hashable n then Some (dict_get job_owner n (''Job/'' @ py_str n)) else None)
          else owner_ref r
        })
   }"

definition live_pods :: "cluster \<Rightarrow> workload list option" where
  "live_pods kc = do {
     rs_owner \<leftarrow> rs_owners (kc_replicasets kc);
     job_owner \<leftarrow> job_owners (kc_jobs kc);
     mmap (\<lambda>p. do {
       who \<leftarrow> pod_owner rs_owner job_owner p;
       (kind, name) \<leftarrow> split_account who;
       spec \<leftarrow> item p ''spec'';
       sa \<leftarrow> dget spec ''serviceAccountName'';
       Some \<lparr>wl_kind = kind, wl_name = YStr name, wl_ns = YStr OWNER_NS,
             wl_sa = py_or sa (YStr ''default''), wl_spec = spec\<rparr>
     }) (kc_pods kc)
   }"

definition live_mounts :: "string list \<Rightarrow> workload list \<Rightarrow> string list option" where
  "live_mounts owner pods = do {
     ms \<leftarrow> collect (\<lambda>w. do {
       us \<leftarrow> secret_uses (wl_spec w) owner;
       Some (map (mount_text (wl_kind w) (py_str (wl_name w))) us)
     }) pods;
     Some (mk_set ms)
   }"

section \<open>Takeovers\<close>

definition rules_review :: "cluster \<Rightarrow> string \<Rightarrow> string \<Rightarrow> yaml list option" where
  "rules_review kc sa ns = do {
     (sns, name) \<leftarrow> split_account sa;
     obj \<leftarrow> kc_review kc sns name ns;
     status \<leftarrow> get_or_dict obj ''status'';
     inc \<leftarrow> dget status ''incomplete'';
     if truthy inc then None else get_list status ''resourceRules''
   }"

definition live_by_ref :: "cluster \<Rightarrow> role_lookup" where
  "live_by_ref kc kind name = (case kc_role kc kind name of
       None \<Rightarrow> Some None
     | Some obj \<Rightarrow> do { r \<leftarrow> dget obj ''rules''; Some (Some (py_or r (YList []))) })"

text \<open>\<^verbatim>\<open>s.split("/", 1)[0]\<close>.\<close>

definition account_ns :: "string \<Rightarrow> string" where
  "account_ns sa = fst (split_once (CHR ''/'') sa)"

text \<open>The rules of a review that can reach beyond a namespace.\<close>

definition cluster_rule :: "yaml \<Rightarrow> bool option" where
  "cluster_rule r = do {
     rs \<leftarrow> get_list r ''resources'';
     if list_all hashable rs then Some (list_ex (\<lambda>x. in_strtuple x [''users'', ''nodes/proxy'', ''*'']) rs) else None
   }"

definition takeover_job ::
  "cluster \<Rightarrow> string list \<Rightarrow> workload list \<Rightarrow> string list \<Rightarrow> string \<times> string \<Rightarrow> takeovers \<Rightarrow> takeovers option" where
  "takeover_job kc owner targets sas job found = (case job of (h, ns) \<Rightarrow> do {
     rules \<leftarrow> rules_review kc h ns;
     ps \<leftarrow> powers rules (YStr ns) h (filter (\<lambda>w. wl_ns w = YStr ns) targets)
             (filter (\<lambda>s. account_ns s = ns) sas) (live_by_ref kc) owner;
     let found' = add_powers h ps found;
     if ns \<noteq> OWNER_NS then Some found'
     else do {
       cl \<leftarrow> mfilter cluster_rule rules;
       wide \<leftarrow> powers cl YNull h targets sas (live_by_ref kc) owner;
       Some (add_powers h (filter (\<lambda>(p, t). p \<in> {''impersonate'', ''exec''}) wide) found')
     }
   })"

definition live_takeovers ::
  "cluster \<Rightarrow> string list \<Rightarrow> string list \<Rightarrow> workload list \<Rightarrow> string list \<Rightarrow> takeovers option" where
  "live_takeovers kc owner holders targets sas = do {
     let namespaces = sort (mk_set (OWNER_NS # map account_ns sas));
     mfold (takeover_job kc owner targets sas) (concat (map (\<lambda>h. map (Pair h) namespaces) holders)) []
   }"

section \<open>The verdict on a cluster\<close>

definition denies :: "string \<Rightarrow> yaml \<Rightarrow> bool option" where
  "denies name b = do {
     spec \<leftarrow> get_or_dict b ''spec'';
     pn \<leftarrow> dget spec ''policyName'';
     if pn \<noteq> YStr name then Some False
     else do { va \<leftarrow> dget spec ''validationActions''; py_in (YStr ''Deny'') (py_or va (YList [])) }
   }"

definition live_guards :: "cluster \<Rightarrow> yaml \<Rightarrow> string list option" where
  "live_guards kc allow = do {
     at \<leftarrow> get_or_dict allow ''takeovers'';
     es \<leftarrow> items at;
     wanted \<leftarrow> collect (\<lambda>(k, v). do {
       g \<leftarrow> dget v ''guarded-by'';
       if \<not> truthy g then Some [] else (case g of YStr s \<Rightarrow> Some [s] | _ \<Rightarrow> None)
     }) es;
     collect (\<lambda>g. do {
       (_, name) \<leftarrow> split_account g;
       ok \<leftarrow> (if kc_policy kc name then many (denies name) (kc_bindings kc) else Some False);
       Some (if ok then [g] else [])
     }) (mk_set wanted)
   }"

text \<open>The readers of a namespace that the list allows are printed with the first line of its reason
  and taken out; a blank reason raises IndexError there.\<close>

definition drop_namespace :: "string \<times> yaml \<Rightarrow> sa_reads \<Rightarrow> sa_reads option" where
  "drop_namespace pw reads = (case pw of (pattern, why) \<Rightarrow>
     if list_ex (\<lambda>(sa, hs). account_ns sa = pattern) reads
        \<and> \<not> (case why of YStr s \<Rightarrow> strip s \<noteq> [] | _ \<Rightarrow> False)
     then None
     else Some (filter (\<lambda>(sa, hs). account_ns sa \<noteq> pattern) reads))"

definition live :: "cluster \<Rightarrow> yaml \<Rightarrow> int option" where
  "live kc allow = do {
     owner \<leftarrow> owner_secrets allow;
     all_reads \<leftarrow> live_reads kc owner;
     allowed_ns \<leftarrow> get_or_dict allow ''live_namespaces'';
     ns_items \<leftarrow> items allowed_ns;
     reads \<leftarrow> mfold drop_namespace ns_items all_reads;
     pods \<leftarrow> live_pods kc;
     mounts \<leftarrow> live_mounts owner pods;
     (targets, sas) \<leftarrow> reader_targets pods owner (map fst all_reads);
     holders \<leftarrow> collect (\<lambda>i. do {
       m \<leftarrow> item i ''metadata'';
       ns \<leftarrow> item m ''namespace'';
       skip \<leftarrow> py_in ns allowed_ns;
       if skip then Some [] else do { t \<leftarrow> account_text i; Some [t] }
     }) (kc_accounts kc);
     tk \<leftarrow> live_takeovers kc owner holders targets sas;
     gs \<leftarrow> live_guards kc allow;
     got \<leftarrow> judge_owner mounts reads [] allow False tk (Some gs);
     Some (if got \<noteq> [] then 1 else 0)
   }"

section \<open>A passing cluster\<close>

lemma live_reads_set:
  assumes "live_reads kc owner = Some reads" "i \<in> set (kc_accounts kc)" "account_text i = Some sa"
    and "(v, t, txt) \<in> set (live_checks owner)" "can_i kc sa v t = Some True"
  shows "sa \<in> fst ` set reads"
proof -
  let ?step = "\<lambda>(sa, v, t, txt) reads. do { yes \<leftarrow> can_i kc sa v t; Some (if yes then dict_set_update sa [txt] reads else reads) }"
  from assms(1) obtain sas where sas: "mmap account_text (kc_accounts kc) = Some sas"
    and f: "mfold ?step (concat (map (\<lambda>sa. map (Pair sa) (live_checks owner)) sas)) [] = Some reads"
    unfolding live_reads_def by (elim bindE)
  have "txt \<in> set (dict_get reads sa []) \<longleftrightarrow> txt \<in> set (dict_get ([] :: sa_reads) sa [])
      \<or> (\<exists>x \<in> set (concat (map (\<lambda>sa. map (Pair sa) (live_checks owner)) sas)).
            \<exists>v t. x = (sa, v, t, txt) \<and> can_i kc sa v t = Some True)"
    by (rule mfold_collects [OF _ f])
       (auto simp: dict_get_dict_set_update split: Option.bind_splits if_splits)
  moreover from mmap_SomeD [OF sas assms(2)] assms(3) have "sa \<in> set sas" by auto
  ultimately have "txt \<in> set (dict_get reads sa [])" using assms(4,5) by auto
  then show ?thesis by (cases "map_of reads sa") (auto simp: dict_get_def dest!: map_of_SomeD intro: rev_image_eqI)
qed

lemma drop_namespaces_keep:
  assumes "mfold drop_namespace ps all_reads = Some reads" "sa \<in> fst ` set all_reads" "account_ns sa \<notin> fst ` set ps"
  shows "sa \<in> fst ` set reads"
  using assms(1,2)
proof (rule mfold_invariant [where I = "\<lambda>r. sa \<in> fst ` set r"])
  fix x r r' assume "x \<in> set ps" "sa \<in> fst ` set r" "drop_namespace x r = Some r'"
  with assms(3) show "sa \<in> fst ` set r'"
    by (cases x) (force simp: drop_namespace_def split: if_splits)
qed

text \<open>When the live check returns 0, every ServiceAccount for which the API server says that it can
  get, list or watch an owner Secret (by name, or list or watch all Secrets) is on the list of
  readers, unless its namespace is one that the list allows as a whole.\<close>

theorem live_reads_listed:
  assumes "live kc allow = Some 0" "owner_secrets allow = Some owner"
    and "i \<in> set (kc_accounts kc)" "account_text i = Some sa"
    and "(v, t, txt) \<in> set (live_checks owner)" "can_i kc sa v t = Some True"
  shows "(\<exists>m. get_or_dict allow ''live_namespaces'' = Some (YMap m) \<and> account_ns sa \<in> fst ` set m)
     \<or> (\<exists>ar. get_or_dict allow ''readers'' = Some ar \<and> py_in (YStr sa) ar = Some True)"
proof -
  from assms(1,2) obtain all_reads ans m reads mounts tk gs where
    r: "live_reads kc owner = Some all_reads" "get_or_dict allow ''live_namespaces'' = Some ans" "items ans = Some m"
    "mfold drop_namespace m all_reads = Some reads"
    and j: "judge_owner mounts reads [] allow False tk (Some gs) = Some []"
    unfolding live_def by (elim bindE) (auto elim!: bindE split: if_splits)
  from r(3) have ans: "ans = YMap m" by (cases ans) auto
  show ?thesis
  proof (cases "account_ns sa \<in> fst ` set m")
    case True
    with r(2) ans show ?thesis by blast
  next
    case False
    from live_reads_set [OF r(1) assms(3-6)] have "sa \<in> fst ` set all_reads" .
    from drop_namespaces_keep [OF r(4) this False] have sa: "sa \<in> set (map fst reads)" by simp
    from j obtain ar where "get_or_dict allow ''readers'' = Some ar" "\<forall>sa \<in> set (map fst reads). py_in (YStr sa) ar = Some True"
      by (rule judge_owner_clean) blast
    with sa show ?thesis by blast
  qed
qed

definition quiet_cluster :: cluster where
  "quiet_cluster = \<lparr>kc_accounts = [YMap [(''metadata'', YMap [(''namespace'', YStr ''gibson''), (''name'', YStr ''boot'')])]],
     kc_replicasets = [], kc_jobs = [], kc_pods = [], kc_bindings = [],
     kc_can_i = (\<lambda>ns name verb target. if verb = ''get'' \<and> target = ''secret/iam-admin'' then ''yes'' else ''no''),
     kc_review = (\<lambda>sns name ns. Some (YMap [])), kc_role = (\<lambda>k n. None), kc_policy = (\<lambda>n. False)\<rparr>"

definition live_list :: yaml where
  "live_list = YMap [(''owner_secrets'', YList [YStr ''iam-admin'']),
     (''readers'', YMap [(''gibson/boot'', YMap [(''class'', YStr ''bootstrap'')])])]"

lemma live_reads_listed_witness:
  "live quiet_cluster live_list = Some 0
   \<and> (\<exists>ar. get_or_dict live_list ''readers'' = Some ar \<and> py_in (YStr ''gibson/boot'') ar = Some True)"
proof -
  let ?i = "YMap [(''metadata'', YMap [(''namespace'', YStr ''gibson''), (''name'', YStr ''boot'')])]"
  have l: "live quiet_cluster live_list = Some 0" by code_simp
  have o: "owner_secrets live_list = Some [''iam-admin'']" by code_simp
  have t: "account_text ?i = Some ''gibson/boot''" by code_simp
  have c: "can_i quiet_cluster ''gibson/boot'' ''get'' ''secret/iam-admin'' = Some True" by code_simp
  have "(''get'', ''secret/iam-admin'', ''get iam-admin'') \<in> set (live_checks [''iam-admin''])"
    by (simp add: live_checks_def READ_VERBS_def)
  from live_reads_listed [OF l o _ t this c] l show ?thesis
    by (simp add: quiet_cluster_def) (simp add: live_list_def)
qed

end
