(* ===== verification/SecurePod.thy ===== *)
theory SecurePod
  imports NamespacePolicy
begin

text \<open>
  \<^verbatim>\<open>src/scripts/check-secure-pod.py\<close>, the rules: what makes a pod template a secure pod. A finding is
  the text the script prints, because the exceptions file pins a digest of these texts. Rule 4
  rests on the Cilium evaluator of \<^verbatim>\<open>lib/cilium_policy.py\<close>; the theory proves that a pod with no
  network finding cannot reach a data store, by that evaluator, unless it carries the client
  label of the store.
\<close>

definition SECURE_NS :: string where
  "SECURE_NS = ''gibson''"

definition SECURE_WORKLOADS :: "string list" where
  "SECURE_WORKLOADS = [''Deployment'', ''StatefulSet'', ''DaemonSet'', ''Job'', ''CronJob'', ''Pod'']"

definition SECURE_POLICIES :: "string list" where
  "SECURE_POLICIES = [''NetworkPolicy'', ''CiliumNetworkPolicy'', ''CiliumClusterwideNetworkPolicy'']"

definition NET :: string where
  "NET = ''gibson.zeroroot.ai/''"

definition NET_ROLES :: "string list" where
  "NET_ROLES = [''platform'', ''datastore'', ''system'']"

definition REGISTRY :: string where
  "REGISTRY = ''ghcr.io/zeroroot-ai/''"

definition VOLUMES :: "string list" where
  "VOLUMES = [''configMap'', ''csi'', ''downwardAPI'', ''emptyDir'', ''ephemeral'', ''persistentVolumeClaim'', ''projected'', ''secret'']"

definition SAFE_SYSCTLS :: "string list" where
  "SAFE_SYSCTLS =
     [''kernel.shm_rmid_forced'', ''net.ipv4.ip_local_port_range'', ''net.ipv4.ip_unprivileged_port_start'',
      ''net.ipv4.tcp_syncookies'', ''net.ipv4.ping_group_range'', ''net.ipv4.ip_local_reserved_ports'',
      ''net.ipv4.tcp_keepalive_time'', ''net.ipv4.tcp_fin_timeout'', ''net.ipv4.tcp_keepalive_intvl'',
      ''net.ipv4.tcp_keepalive_probes'']"

text \<open>The set holds None too.\<close>

definition SELINUX_TYPES :: "yaml list" where
  "SELINUX_TYPES = [YNull, YStr [], YStr ''container_t'', YStr ''container_init_t'', YStr ''container_kvm_t'', YStr ''container_engine_t'']"

section \<open>Workloads\<close>

definition secure_ns_of :: "doc \<Rightarrow> yaml option" where
  "secure_ns_of d = do { m \<leftarrow> get_or_dict d ''metadata''; n \<leftarrow> dget m ''namespace''; Some (py_or n (YStr SECURE_NS)) }"

text \<open>The labels and the spec of the pod of a workload.\<close>

definition pod_of :: "doc \<Rightarrow> (yaml \<times> yaml) option" where
  "pod_of d = do {
     kind \<leftarrow> item d ''kind'';
     if kind = YStr ''Pod'' then do {
       m \<leftarrow> item d ''metadata'';
       ls \<leftarrow> get_or_dict m ''labels'';
       s \<leftarrow> get_or_dict d ''spec'';
       Some (ls, s)
     }
     else do {
       s \<leftarrow> item d ''spec'';
       tmpl \<leftarrow> (if kind = YStr ''CronJob''
               then do { jt \<leftarrow> item s ''jobTemplate''; js \<leftarrow> item jt ''spec''; item js ''template'' }
               else item s ''template'');
       m \<leftarrow> get_or_dict tmpl ''metadata'';
       ls \<leftarrow> get_or_dict m ''labels'';
       ps \<leftarrow> get_or_dict tmpl ''spec'';
       Some (ls, ps)
     }
   }"

definition containers :: "yaml \<Rightarrow> yaml list option" where
  "containers spec = collect (get_list spec) [''initContainers'', ''containers'', ''ephemeralContainers'']"

definition is_workload :: "doc \<Rightarrow> bool option" where
  "is_workload d = do { k \<leftarrow> dget d ''kind''; Some (in_strtuple k SECURE_WORKLOADS) }"

text \<open>\<^verbatim>\<open>f"{d['kind']}/{ns_of(d)}/{d['metadata']['name']}"\<close>.\<close>

definition workload_key :: "doc \<Rightarrow> string option" where
  "workload_key d = do {
     k \<leftarrow> item d ''kind''; ns \<leftarrow> secure_ns_of d; n \<leftarrow> meta_name d;
     Some (py_str k @ ''/'' @ py_str ns @ ''/'' @ py_str n)
   }"

section \<open>Rule 1: restricted\<close>

text \<open>\<^verbatim>\<open>', '.join(sorted(xs))\<close>: the elements must be strings.\<close>

definition join_sorted :: "yaml list \<Rightarrow> string option" where
  "join_sorted xs = do { ys \<leftarrow> py_sorted xs; if list_all is_str ys then Some (join '', '' (map str_of ys)) else None }"

definition host_findings :: "yaml \<Rightarrow> string list option" where
  "host_findings spec = collect (\<lambda>f. do { v \<leftarrow> dget spec f; Some (if truthy v then [f @ '' is true''] else []) })
     [''hostNetwork'', ''hostPID'', ''hostIPC'']"

definition volume_findings :: "yaml \<Rightarrow> string list option" where
  "volume_findings v = do {
     ks \<leftarrow> keyset v;
     let extra = filter (\<lambda>k. k \<noteq> YStr ''name'' \<and> k \<notin> YStr ` set VOLUMES) ks;
     if extra = [] then Some []
     else do { n \<leftarrow> dget v ''name''; t \<leftarrow> join_sorted extra; Some [''volume '' @ py_str n @ '': type '' @ t] }
   }"

definition sysctl_findings :: "yaml \<Rightarrow> string list option" where
  "sysctl_findings s = do {
     n \<leftarrow> dget s ''name'';
     ok \<leftarrow> in_strset n SAFE_SYSCTLS;
     Some (if ok then [] else [''sysctl '' @ py_str n])
   }"

definition annotation_findings :: "string \<times> yaml \<Rightarrow> string list" where
  "annotation_findings = (\<lambda>(key, value).
     if startswith key ''container.apparmor.security.beta.kubernetes.io/'' \<and> value = YStr ''unconfined''
     then [''AppArmor profile is unconfined''] else [])"

text \<open>The SELinux and AppArmor test of a container's own context and of the pod's.\<close>

definition holder_findings :: "string \<Rightarrow> yaml \<Rightarrow> string list option" where
  "holder_findings c holder = do {
     se \<leftarrow> get_or_dict holder ''seLinuxOptions'';
     t \<leftarrow> dget se ''type'';
     odd \<leftarrow> (if hashable t then Some (t \<notin> set SELINUX_TYPES) else None);
     u \<leftarrow> dget se ''user'';
     r \<leftarrow> dget se ''role'';
     aa \<leftarrow> get_or_dict holder ''appArmorProfile'';
     at \<leftarrow> dget aa ''type'';
     Some ((if odd \<or> truthy u \<or> truthy r then [c @ ''seLinuxOptions''] else [])
           @ (if at = YStr ''Unconfined'' then [c @ ''AppArmor profile is unconfined''] else []))
   }"

definition capability_findings :: "string \<Rightarrow> yaml \<Rightarrow> string list option" where
  "capability_findings c sc = do {
     caps \<leftarrow> get_or_dict sc ''capabilities'';
     dr \<leftarrow> dget caps ''drop'';
     all_dropped \<leftarrow> py_in (YStr ''ALL'') (py_or dr (YList []));
     ad \<leftarrow> dget caps ''add'';
     added \<leftarrow> keyset (py_or ad (YList []));
     let extra = filter (\<lambda>x. x \<noteq> YStr ''NET_BIND_SERVICE'') added;
     t \<leftarrow> (if extra = [] then Some [] else join_sorted extra);
     Some ((if all_dropped then [] else [c @ ''capabilities do not drop ALL''])
           @ (if extra = [] then [] else [c @ ''capabilities add '' @ t]))
   }"

definition user_findings :: "string \<Rightarrow> yaml \<Rightarrow> yaml \<Rightarrow> string list option" where
  "user_findings c psc sc = do {
     pn \<leftarrow> dget psc ''runAsNonRoot'';
     non_root \<leftarrow> dget_default sc ''runAsNonRoot'' pn;
     pu \<leftarrow> dget psc ''runAsUser'';
     user \<leftarrow> dget_default sc ''runAsUser'' pu;
     Some ((if non_root \<noteq> YBool True then [c @ ''runAsNonRoot is not true''] else [])
           @ (if py_eq user (YInt 0) then [c @ ''runAsUser is 0''] else []))
   }"

definition profile_findings :: "string \<Rightarrow> yaml \<Rightarrow> yaml \<Rightarrow> string list option" where
  "profile_findings c psc sc = do {
     a \<leftarrow> dget sc ''seccompProfile'';
     b \<leftarrow> dget psc ''seccompProfile'';
     seccomp \<leftarrow> dget (py_or a (py_or b (YMap []))) ''type'';
     pm \<leftarrow> dget sc ''procMount'';
     Some ((if in_strtuple seccomp [''RuntimeDefault'', ''Localhost''] then []
            else [c @ ''seccompProfile is not RuntimeDefault or Localhost''])
           @ (if pm = YNull \<or> pm = YStr ''Default'' then [] else [c @ ''procMount '' @ py_str pm]))
   }"

definition container_findings :: "yaml \<Rightarrow> yaml \<Rightarrow> string list option" where
  "container_findings psc con = do {
     n \<leftarrow> dget con ''name'';
     let c = ''container '' @ py_str n @ '': '';
     sc \<leftarrow> get_or_dict con ''securityContext'';
     priv \<leftarrow> dget sc ''privileged'';
     ape \<leftarrow> dget sc ''allowPrivilegeEscalation'';
     caps \<leftarrow> capability_findings c sc;
     user \<leftarrow> user_findings c psc sc;
     prof \<leftarrow> profile_findings c psc sc;
     own \<leftarrow> holder_findings c sc;
     pod \<leftarrow> holder_findings c psc;
     ps \<leftarrow> get_list con ''ports'';
     ports \<leftarrow> collect (\<lambda>p. do { h \<leftarrow> dget p ''hostPort''; Some (if truthy h then [c @ ''hostPort''] else []) }) ps;
     Some ((if truthy priv then [c @ ''privileged''] else [])
           @ (if ape \<noteq> YBool False then [c @ ''allowPrivilegeEscalation is not false''] else [])
           @ caps @ user @ prof @ own @ pod @ ports)
   }"

definition rule_restricted :: "yaml \<Rightarrow> string list option" where
  "rule_restricted spec = do {
     psc \<leftarrow> get_or_dict spec ''securityContext'';
     a \<leftarrow> host_findings spec;
     vs \<leftarrow> get_list spec ''volumes'';
     b \<leftarrow> collect volume_findings vs;
     ss \<leftarrow> get_list psc ''sysctls'';
     c \<leftarrow> collect sysctl_findings ss;
     w \<leftarrow> get_or_dict psc ''windowsOptions'';
     hp \<leftarrow> dget w ''hostProcess'';
     m \<leftarrow> get_or_dict spec ''metadata'';
     an \<leftarrow> get_or_dict m ''annotations'';
     ans \<leftarrow> items an;
     cs \<leftarrow> containers spec;
     e \<leftarrow> collect (container_findings psc) cs;
     Some (sort (mk_set (a @ b @ c @ (if truthy hp then [''hostProcess is true''] else [])
                         @ concat (map annotation_findings ans) @ e)))
   }"

section \<open>Rules 2, 3 and 5\<close>

definition rule_read_only :: "yaml \<Rightarrow> string list option" where
  "rule_read_only spec = do {
     cs \<leftarrow> containers spec;
     collect (\<lambda>c. do {
       sc \<leftarrow> get_or_dict c ''securityContext'';
       ro \<leftarrow> dget sc ''readOnlyRootFilesystem'';
       n \<leftarrow> dget c ''name'';
       Some (if ro \<noteq> YBool True then [''container '' @ py_str n @ '': readOnlyRootFilesystem is not true''] else [])
     }) cs
   }"

text \<open>The ServiceAccounts of a render by namespace and name.\<close>

type_synonym accounts = "((yaml \<times> yaml) \<times> doc) list"

definition rule_token :: "yaml \<Rightarrow> yaml \<Rightarrow> accounts \<Rightarrow> string list \<Rightarrow> string list option" where
  "rule_token ns spec accts granted = do {
     sa0 \<leftarrow> dget spec ''serviceAccountName'';
     let sa = py_or sa0 (YStr ''default'');
     m0 \<leftarrow> dget spec ''automountServiceAccountToken'';
     m1 \<leftarrow> (if m0 \<noteq> YNull then Some m0
           else if \<not> (hashable ns \<and> hashable sa) then None
           else dget (py_or (dict_get accts (ns, sa) YNull) (YMap [])) ''automountServiceAccountToken'');
     let mounts = (if m1 = YNull then True else truthy m1);
     vs \<leftarrow> get_list spec ''volumes'';
     projected \<leftarrow> many (\<lambda>v. do {
       pr \<leftarrow> get_or_dict v ''projected'';
       srcs \<leftarrow> get_list pr ''sources'';
       many (py_in (YStr ''serviceAccountToken'')) srcs
     }) vs;
     let acct = py_str ns @ ''/'' @ py_str sa;
     Some (if (mounts \<or> projected) \<and> acct \<notin> set granted
           then [''mounts a ServiceAccount token, and '' @ acct @ '' has no grant on the RBAC allowlist''] else [])
   }"

text \<open>\<^verbatim>\<open>re.compile(r"@sha256:[0-9a-f]{64}$").search(image)\<close>; \<^verbatim>\<open>$\<close> matches before a final newline too.\<close>

definition is_hex :: "char \<Rightarrow> bool" where
  "is_hex c = (is_digit c \<or> c \<in> set ''abcdef'')"

definition pinned :: "string \<Rightarrow> bool" where
  "pinned s = (72 \<le> length s \<and> (let t = drop (length s - 72) s in take 8 t = ''@sha256:'' \<and> list_all is_hex (drop 8 t)))"

definition has_digest :: "string \<Rightarrow> bool" where
  "has_digest s = (pinned s \<or> (s \<noteq> [] \<and> last s = CHR 0x0A \<and> pinned (butlast s)))"

definition rule_image :: "yaml \<Rightarrow> string list option" where
  "rule_image spec = do {
     cs \<leftarrow> containers spec;
     collect (\<lambda>c. do {
       i \<leftarrow> dget c ''image'';
       n \<leftarrow> dget c ''name'';
       let image = py_str (py_or i (YStr []));
       Some ((if startswith image REGISTRY then [] else [''container '' @ py_str n @ '': the image is not from '' @ REGISTRY])
             @ (if has_digest image then [] else [''container '' @ py_str n @ '': the image has no digest'']))
     }) cs
   }"

section \<open>Rule 4: network\<close>

definition dns_peer :: "yaml \<Rightarrow> bool option" where
  "dns_peer pe = do {
     ml \<leftarrow> get_or_dict pe ''matchLabels'';
     ps \<leftarrow> items ml;
     let d = fold (\<lambda>(k, v). AList.update (norm_str k) v) ps [];
     Some (map_of d ''k8s-app'' = Some (YStr ''kube-dns''))
   }"

definition dns_egress :: "yaml \<Rightarrow> bool option" where
  "dns_egress r = do {
     ks \<leftarrow> keyset r;
     if \<not> set ks \<subseteq> {YStr ''toEndpoints'', YStr ''toPorts''} then Some False else do {
     te \<leftarrow> dget r ''toEndpoints'';
     peers \<leftarrow> py_iter (py_or te (YList [YMap []]));
     ok \<leftarrow> mall dns_peer peers;
     if \<not> ok then Some False else do {
     tps \<leftarrow> get_list r ''toPorts'';
     ports \<leftarrow> collect (\<lambda>tp. do { ps \<leftarrow> get_list tp ''ports''; mmap (\<lambda>pp. dget pp ''port'') ps }) tps;
     if ports = [] then Some False
     else if list_all hashable ports then Some (set ports = {YStr ''53''}) else None
     } }
   }"

definition opens_ingress :: "yaml \<Rightarrow> bool option" where
  "opens_ingress r = do {
     ks \<leftarrow> keyset r;
     Some (list_ex (\<lambda>k. in_strtuple k [''fromEndpoints'', ''fromEntities'', ''fromCIDR'', ''fromCIDRSet'']) ks)
   }"

definition is_default_deny_rule :: "yaml \<Rightarrow> bool option" where
  "is_default_deny_rule rule = do {
     dd \<leftarrow> get_or_dict rule ''enableDefaultDeny'';
     i \<leftarrow> dget dd ''ingress'';
     e \<leftarrow> dget dd ''egress'';
     if i = YBool False \<or> e = YBool False then Some False else do {
     is \<leftarrow> get_list rule ''ingress'';
     opn \<leftarrow> many opens_ingress is;
     if opn then Some False else do {
     es \<leftarrow> get_list rule ''egress'';
     if es = [] then Some False else do {
     ok \<leftarrow> mall dns_egress es;
     if \<not> ok then Some False else do {
     has \<leftarrow> py_in (YStr ''ingress'') rule;
     Some (has \<or> i = YBool True)
     } } } }
   }"

text \<open>A pod of the render: its key, its namespace and its labels.\<close>

type_synonym net_pod = "string \<times> yaml \<times> yaml"

definition net_pods :: "doc list \<Rightarrow> net_pod list option" where
  "net_pods docs = collect (\<lambda>d. do {
     w \<leftarrow> is_workload d;
     if \<not> w then Some [] else do {
     (labels, spec) \<leftarrow> pod_of d;
     hn \<leftarrow> dget spec ''hostNetwork'';
     if truthy hn then Some []
     else do { k \<leftarrow> workload_key d; ns \<leftarrow> secure_ns_of d; Some [(k, ns, labels)] }
     }
   }) docs"

text \<open>The endpoint of a data store pod and the name of its store, when the labels name one.\<close>

definition store_of :: "yaml \<Rightarrow> yaml \<Rightarrow> (yaml \<times> yaml) list option" where
  "store_of ns labels = do {
     has \<leftarrow> py_in (YStr (NET @ ''datastore'')) labels;
     if \<not> has then Some []
     else do { ep \<leftarrow> endpoint ns labels; s \<leftarrow> item labels (NET @ ''datastore''); Some [(ep, s)] }
   }"

definition cluster_store :: "doc \<Rightarrow> (yaml \<times> yaml) list option" where
  "cluster_store d = do {
     kind \<leftarrow> dget d ''kind'';
     if kind \<noteq> YStr ''Cluster'' then Some [] else do {
     av \<leftarrow> dget_default d ''apiVersion'' (YStr []);
     if fst (split_once (CHR ''/'') (py_str av)) \<noteq> ''postgresql.cnpg.io'' then Some [] else do {
     spec \<leftarrow> get_or_dict d ''spec'';
     im \<leftarrow> get_or_dict spec ''inheritedMetadata'';
     labels \<leftarrow> get_or_dict im ''labels'';
     has \<leftarrow> py_in (YStr (NET @ ''datastore'')) labels;
     if \<not> has then Some [] else do { ns \<leftarrow> secure_ns_of d; store_of ns labels }
     } }
   }"

definition net_stores :: "doc list \<Rightarrow> net_pod list \<Rightarrow> (yaml \<times> yaml) list option" where
  "net_stores docs pods = do {
     a \<leftarrow> collect (\<lambda>(_, ns, labels). store_of ns labels) pods;
     b \<leftarrow> collect cluster_store docs;
     Some (a @ b)
   }"

type_synonym net_rule = "doc \<times> yaml \<times> yaml"

text \<open>\<^verbatim>\<open>f"{p['kind']}/{p['metadata']['name']}"\<close>.\<close>

definition policy_id :: "doc \<Rightarrow> string option" where
  "policy_id p = do { k \<leftarrow> item p ''kind''; n \<leftarrow> meta_name p; Some (py_str k @ ''/'' @ py_str n) }"

definition kube_findings :: "doc list \<Rightarrow> yaml \<Rightarrow> yaml \<Rightarrow> string list option" where
  "kube_findings kube ns labels = collect (\<lambda>p. do {
     pns \<leftarrow> secure_ns_of p;
     if \<not> py_eq pns ns then Some [] else do {
     spec \<leftarrow> get_or_dict p ''spec'';
     sel \<leftarrow> get_or_dict spec ''podSelector'';
     hit \<leftarrow> selects sel labels;
     if \<not> hit then Some []
     else do { n \<leftarrow> meta_name p; Some [''NetworkPolicy/'' @ py_str n @ '' selects the pod; the release uses Cilium policies only''] }
     }
   }) kube"

definition role_findings :: "yaml \<Rightarrow> string list option" where
  "role_findings labels = do {
     role \<leftarrow> dget labels (NET @ ''net-role'');
     ok \<leftarrow> in_strset role NET_ROLES;
     has \<leftarrow> py_in (YStr (NET @ ''datastore'')) labels;
     Some ((if ok then [] else [''the pod has no '' @ NET @ ''net-role label ('' @ join '', '' (sort NET_ROLES) @ '')''])
           @ (if role = YStr ''datastore'' \<and> \<not> has then [''a data store pod has no '' @ NET @ ''datastore label''] else []))
   }"

definition egress_findings :: "yaml \<Rightarrow> net_rule \<Rightarrow> string list option" where
  "egress_findings labels = (\<lambda>(p, r, rns). do {
     il \<leftarrow> dget labels (NET @ ''egress-internet'');
     let internet = (il = YStr ''true'');
     world \<leftarrow> egress_world r;
     if world \<and> \<not> internet then do {
       i \<leftarrow> policy_id p;
       Some [i @ '' opens egress to the internet, and the pod has no '' @ NET @ ''egress-internet label'']
     }
     else do {
       fq \<leftarrow> egress_fqdn r;
       if \<not> fq \<or> internet then Some [] else do {
       has \<leftarrow> py_in (YStr (NET @ ''egress-fqdn'')) labels;
       if has then Some []
       else do { i \<leftarrow> policy_id p; Some [i @ '' opens egress to host names, and the pod has no '' @ NET @ ''egress-fqdn label''] }
       }
     }
   })"

text \<open>\<^verbatim>\<open>labels.get(NET + "datastore") == store or labels.get(f"{NET}client-{store}") == "true"\<close>.\<close>

definition may_use_store :: "yaml \<Rightarrow> yaml \<Rightarrow> bool option" where
  "may_use_store labels store = do {
     own \<leftarrow> dget labels (NET @ ''datastore'');
     cl \<leftarrow> dget labels (NET @ ''client-'' @ py_str store);
     Some (py_eq own store \<or> cl = YStr ''true'')
   }"

definition store_findings :: "net_rule list \<Rightarrow> net_rule list \<Rightarrow> yaml \<Rightarrow> yaml \<Rightarrow> yaml \<times> yaml \<Rightarrow> string list option" where
  "store_findings all_rules mine ep labels = (\<lambda>(sep, store). do {
     ok \<leftarrow> may_use_store labels store;
     if ok then Some [] else do {
     let tail = '' the '' @ py_str store @ '' data store, and the pod has no '' @ NET @ ''client-'' @ py_str store @ '' label'';
     a \<leftarrow> collect (\<lambda>(p, r, rns). do {
       hit \<leftarrow> egress_reaches r rns sep YNull;
       if hit then do { i \<leftarrow> policy_id p; Some [i @ '' lets the pod reach'' @ tail] } else Some []
     }) mine;
     b \<leftarrow> collect (\<lambda>(p, r, rns). do {
       hit \<leftarrow> mand (rule_selects r rns sep) (ingress_admits r rns ep YNull);
       if hit then do { i \<leftarrow> policy_id p; Some [i @ '' admits the pod to'' @ tail] } else Some []
     }) all_rules;
     Some (a @ b)
     }
   })"

definition pod_network :: "doc list \<Rightarrow> net_rule list \<Rightarrow> (yaml \<times> yaml) list \<Rightarrow> net_pod \<Rightarrow> string list option" where
  "pod_network kube all_rules stores = (\<lambda>(key, ns, labels). do {
     ep \<leftarrow> endpoint ns labels;
     covered_pod \<leftarrow> many (\<lambda>(_, r, rns). mand (is_default_deny_rule r) (rule_selects r rns ep)) all_rules;
     a \<leftarrow> (if \<not> covered_pod
          then Some [''no CiliumClusterwideNetworkPolicy denies all traffic of the namespace '' @ py_str ns @ '' by default'']
          else do { ks \<leftarrow> kube_findings kube ns labels; rs \<leftarrow> role_findings labels; Some (ks @ rs) });
     mine \<leftarrow> mfilter (\<lambda>(p, r, rns). rule_selects r rns ep) all_rules;
     b \<leftarrow> collect (egress_findings labels) mine;
     c \<leftarrow> collect (store_findings all_rules mine ep labels) stores;
     Some (sort (mk_set (a @ b @ c)))
   })"

definition network_findings :: "doc list \<Rightarrow> (string \<times> string list) list option" where
  "network_findings docs = do {
     pods \<leftarrow> net_pods docs;
     kube \<leftarrow> mfilter (\<lambda>p. do { k \<leftarrow> dget p ''kind''; Some (k = YStr ''NetworkPolicy'') }) docs;
     all_rules \<leftarrow> rules docs (YStr SECURE_NS);
     stores \<leftarrow> net_stores docs pods;
     mfold (\<lambda>pod out. do {
       bad \<leftarrow> pod_network kube all_rules stores pod;
       Some (if bad \<noteq> [] then AList.update (fst pod) bad out else out)
     }) pods []
   }"

section \<open>Lemmas\<close>

text \<open>A flow that is open on one port is open when the port is left out.\<close>

lemma flow_allowed_any_port:
  "ble (flow_allowed dir ents peers r ns ep port) (flow_allowed dir ents peers r ns ep YNull)"
proof -
  have "ble (do { ok \<leftarrow> port_ok i port; if \<not> ok then Some False else X }) X" for i and X :: "bool option"
    by (auto simp: ble_def split: Option.bind_splits if_splits)
  then show ?thesis
    by (cases "get_list r dir") (auto simp: flow_allowed_def port_ok_def intro!: ble_many ble_refl)
qed

lemma egress_reaches_any_port:
  "egress_reaches r ns ep port = Some True \<Longrightarrow> egress_reaches r ns ep YNull \<noteq> Some False"
  and ingress_admits_any_port:
  "ingress_admits r ns ep port = Some True \<Longrightarrow> ingress_admits r ns ep YNull \<noteq> Some False"
  using flow_allowed_any_port by (auto simp: egress_reaches_def ingress_admits_def ble_def)

text \<open>A pod without an entry in the result has no finding of its own: a pod with findings writes
  its key, and no later pod removes a key.\<close>

lemma network_findings_clean:
  assumes "network_findings docs = Some out" "net_pods docs = Some pods" "pod \<in> set pods" "map_of out (fst pod) = None"
  shows "\<exists>kube all_rules stores. rules docs (YStr SECURE_NS) = Some all_rules \<and> net_stores docs pods = Some stores
           \<and> pod_network kube all_rules stores pod = Some []"
proof -
  obtain kube all_rules stores where
    all_rules: "rules docs (YStr SECURE_NS) = Some all_rules" and stores: "net_stores docs pods = Some stores"
    and run: "mfold (\<lambda>pod out. do {
       bad \<leftarrow> pod_network kube all_rules stores pod;
       Some (if bad \<noteq> [] then AList.update (fst pod) bad out else out)
     }) pods [] = Some out" (is "mfold ?step _ _ = _")
    using assms(1,2) by (auto simp: network_findings_def elim!: bindE)
  let ?Q = "\<lambda>p. fst p = fst pod \<and> pod_network kube all_rules stores p \<notin> {None, Some []}"
  have "map_of out (fst pod) \<noteq> None \<longleftrightarrow> map_of [] (fst pod) \<noteq> (None :: string list option) \<or> (\<exists>p \<in> set pods. ?Q p)"
    by (rule mfold_collects [OF _ run, where P = "\<lambda>s. map_of s (fst pod) \<noteq> None" and Q = ?Q])
       (auto elim!: bindE simp: update_conv' split: if_splits)
  then have "\<not> ?Q pod" using assms(3,4) by blast
  then have "pod_network kube all_rules stores pod \<in> {None, Some []}" by simp
  moreover from run assms(3) have "pod_network kube all_rules stores pod \<noteq> None"
    by (auto dest!: mfold_step_defined elim!: bindE)
  ultimately show ?thesis using all_rules stores by auto
qed

lemma pod_network_clean:
  assumes "pod_network kube all_rules stores (key, ns, labels) = Some []" "endpoint ns labels = Some ep"
  shows "\<exists>mine. mfilter (\<lambda>(p, r, rns). rule_selects r rns ep) all_rules = Some mine
           \<and> (\<forall>x \<in> set mine. egress_findings labels x = Some [])
           \<and> (\<forall>x \<in> set stores. store_findings all_rules mine ep labels x = Some [])
           \<and> many (\<lambda>(_, r, rns). mand (is_default_deny_rule r) (rule_selects r rns ep)) all_rules = Some True
           \<and> role_findings labels = Some [] \<and> kube_findings kube ns labels = Some []"
proof -
  have nil: "sort xs = [] \<longleftrightarrow> xs = []" for xs :: "string list"
    by (metis set_empty set_sort)
  from assms show ?thesis
    by (auto simp: pod_network_def collect_empty_iff nil elim!: bindE split: if_splits)
qed

lemma store_findings_clean:
  assumes "store_findings all_rules mine ep labels (sep, store) = Some []" "may_use_store labels store \<noteq> Some True"
  shows "(\<forall>(p, r, rns) \<in> set mine. egress_reaches r rns sep YNull = Some False)
       \<and> (\<forall>(p, r, rns) \<in> set all_rules. mand (rule_selects r rns sep) (ingress_admits r rns ep YNull) = Some False)"
  using assms unfolding store_findings_def Let_def
  by (auto simp: collect_empty_iff elim!: bindE split: if_splits) (fastforce elim!: bindE split: if_splits)+

section \<open>Properties\<close>

text \<open>C4. The data stores are isolated: when the network findings of a render name no finding of a
  pod, and the Cilium evaluator lets the pod reach the pod of a data store on some port, by both
  the egress and the ingress side, then the pod carries the client label of that store or
  belongs to it.\<close>

theorem store_isolated:
  assumes "network_findings docs = Some out" "net_pods docs = Some pods"
    and "(key, ns, labels) \<in> set pods" "map_of out key = None"
    and "net_stores docs pods = Some stores" "(sep, store) \<in> set stores"
    and "rules docs (YStr SECURE_NS) = Some all_rules" "endpoint ns labels = Some ep"
    and "reaches all_rules ep sep port = Some True"
  shows "may_use_store labels store = Some True"
proof (rule ccontr)
  assume no: "may_use_store labels store \<noteq> Some True"
  obtain kube where clean: "pod_network kube all_rules stores (key, ns, labels) = Some []"
    using network_findings_clean [OF assms(1,2,3)] assms(4,5,7) by auto
  then obtain mine where mine: "mfilter (\<lambda>(p, r, rns). rule_selects r rns ep) all_rules = Some mine"
    and "store_findings all_rules mine ep labels (sep, store) = Some []"
    using pod_network_clean [OF clean assms(8)] assms(6) by blast
  then have none: "(p, r, rns) \<in> set mine \<Longrightarrow> egress_reaches r rns sep YNull = Some False" for p r rns
    using store_findings_clean no by fastforce
  obtain p r rns where "(p, r, rns) \<in> set all_rules" "rule_selects r rns ep = Some True"
    "egress_reaches r rns sep port = Some True"
    using assms(9) by (auto simp: reaches_def mand_True_iff dest!: many_TrueD elim!: bindE)
  then show False
    using none [of p r rns] egress_reaches_any_port [of r rns sep port] mfilter_set [OF mine] by auto
qed

text \<open>Internet egress needs its label: when the network findings of a render name no finding of
  a pod, every rule that selects the pod and opens egress to the world or to an open CIDR
  selects a pod that is labelled for the internet.\<close>

theorem internet_needs_label:
  assumes "network_findings docs = Some out" "net_pods docs = Some pods"
    and "(key, ns, labels) \<in> set pods" "map_of out key = None"
    and "rules docs (YStr SECURE_NS) = Some all_rules" "endpoint ns labels = Some ep"
    and "(p, r, rns) \<in> set all_rules" "rule_selects r rns ep = Some True" "egress_world r = Some True"
  shows "dget labels (NET @ ''egress-internet'') = Some (YStr ''true'')"
proof -
  obtain kube stores where clean: "pod_network kube all_rules stores (key, ns, labels) = Some []"
    using network_findings_clean [OF assms(1,2,3)] assms(4,5) by auto
  obtain mine where "mfilter (\<lambda>(p, r, rns). rule_selects r rns ep) all_rules = Some mine"
    "\<forall>x \<in> set mine. egress_findings labels x = Some []"
    using pod_network_clean [OF clean assms(6)] by blast
  then have "egress_findings labels (p, r, rns) = Some []"
    using mfilter_set [of _ all_rules mine "(p, r, rns)"] assms(7,8) by auto
  with assms(9) show ?thesis
    by (auto simp: egress_findings_def Let_def elim!: bindE split: if_splits)
qed

text \<open>The AppArmor test on annotations reads the metadata of the pod spec, and a pod spec has
  none: whatever annotations the template of a Deployment carries, the restricted rule gives the
  findings of the bare spec.\<close>

theorem apparmor_annotation_unseen:
  "do {
     (labels, spec) \<leftarrow> pod_of (YMap [(''kind'', YStr ''Deployment''), (''metadata'', m), (''spec'', YMap [(''template'',
       YMap [(''metadata'', YMap [(''labels'', ls), (''annotations'', an)]), (''spec'', YMap s)])])]);
     rule_restricted spec
   } = rule_restricted (YMap s)"
  by (simp add: pod_of_def)

end
