(* ===== verification/SecurePodAudit.thy ===== *)
theory SecurePodAudit
  imports SecurePod
begin

text \<open>
  \<^verbatim>\<open>src/scripts/check-secure-pod.py\<close>, the audit: the findings of all rules over all renders, the
  Pod Security level of each namespace, the exceptions file whose entries pin a digest of the
  findings, and the rules that no entry can cover. The SHA-256 function of \<^verbatim>\<open>hashlib\<close> is the
  parameter \<open>sha\<close>; what helm renders and the files are parameters too. The theory proves that an
  audit without a finding leaves no finding uncovered and no entry stale.
\<close>

definition ENFORCE :: string where
  "ENFORCE = ''pod-security.kubernetes.io/enforce''"

definition SPIRE_NODE :: "(string \<times> string) list" where
  "SPIRE_NODE = [(''DaemonSet'', ''agent''), (''DaemonSet'', ''spiffe-csi-driver'')]"

definition RULES_SECURE :: "string list" where
  "RULES_SECURE = [''restricted'', ''read-only'', ''token'', ''network'', ''image'', ''namespace-label'']"

definition EXCEPTIONS_PATH :: string where
  "EXCEPTIONS_PATH = ''helm/gibson/secure-pod-exceptions.yaml''"

section \<open>Renders\<close>

text \<open>A document of a side release with no namespace lands in the namespace of its release. The
  documents are what helm prints for the chart, parsed.\<close>

definition place_doc :: "string \<Rightarrow> doc \<Rightarrow> doc option" where
  "place_doc ns d = do {
     ds \<leftarrow> items d;
     let meta = dict_get ds ''metadata'' (YMap []);
     let d' = with_key ''metadata'' meta d;
     kind \<leftarrow> dget d ''kind'';
     if \<not> in_strtuple kind (SECURE_WORKLOADS @ take 2 SECURE_POLICIES @ [''ServiceAccount'']) then Some d' else do {
     n \<leftarrow> dget meta ''namespace'';
     Some (if truthy n then d' else with_key ''metadata'' (with_key ''namespace'' (YStr ns) meta) d')
     }
   }"

definition template_secure :: "string \<Rightarrow> doc list \<Rightarrow> doc list option" where
  "template_secure ns printed = do {
     let docs = filter truthy printed;
     if ns = SECURE_NS then Some docs else mmap (place_doc ns) docs
   }"

definition SIDE_RELEASES :: "(string \<times> string) list" where
  "SIDE_RELEASES = [(''helm/gibson-velero'', ''velero'')]"

definition PROFILES :: "string list list" where
  "PROFILES = [[''values-baseline.yaml''], [''values-baseline.yaml'', ''values-eks.yaml''],
               [''values-baseline.yaml'', ''values-guest.yaml''], [''values-baseline.yaml'', ''values-ci.yaml''],
               [''values-baseline.yaml'', ''values-developer.yaml'']]"

text \<open>\<open>helm chart values ns\<close> stands for the documents that \<^verbatim>\<open>helm template\<close> prints.\<close>

definition render_secure :: "(string \<Rightarrow> string list \<Rightarrow> string \<Rightarrow> doc list) \<Rightarrow> doc list list option" where
  "render_secure helm = do {
     side \<leftarrow> collect (\<lambda>(chart, ns). template_secure ns (helm chart [] ns)) SIDE_RELEASES;
     mmap (\<lambda>values. do { docs \<leftarrow> template_secure SECURE_NS (helm ''helm/gibson'' values SECURE_NS); Some (docs @ side) }) PROFILES
   }"

section \<open>What the audit reads\<close>

text \<open>\<^verbatim>\<open>key.split(" -> ")[0]\<close>.\<close>

fun before :: "string \<Rightarrow> string \<Rightarrow> string" where
  "before sep [] = []"
| "before sep (c # cs) = (if startswith (c # cs) sep then [] else c # before sep cs)"

definition granted_accounts :: "yaml \<Rightarrow> string list option" where
  "granted_accounts data0 = do {
     grants \<leftarrow> get_or_dict (py_or data0 (YMap [])) ''grants'';
     ks \<leftarrow> py_iter grants;
     if list_all is_str ks then Some (mk_set (map (\<lambda>k. before '' -> '' (str_of k)) ks)) else None
   }"

definition LEVELS :: "string list" where
  "LEVELS = [''privileged'', ''baseline'', ''restricted'']"

definition is_lower :: "char \<Rightarrow> bool" where
  "is_lower c = (CHR ''a'' \<le> c \<and> c \<le> CHR ''z'')"

text \<open>\<^verbatim>\<open>re.findall(re.escape(ENFORCE) + r"=([a-z]+)", text)\<close>.\<close>

function enforce_levels :: "string \<Rightarrow> string list" where
  "enforce_levels s =
     (if s = [] then []
      else let w = takeWhile is_lower (drop (length (ENFORCE @ ''='')) s) in
        if startswith s (ENFORCE @ ''='') \<and> w \<noteq> [] then w # enforce_levels (drop (length (ENFORCE @ ''='') + length w) s)
        else enforce_levels (tl s))"
  by pat_completeness auto
termination by (relation "measure length") (auto simp: ENFORCE_def)

declare enforce_levels.simps [simp del]

text \<open>\<^verbatim>\<open>LEVELS.index(lv) if lv in LEVELS else -1\<close>, and the first smallest one.\<close>

definition level_rank :: "string \<Rightarrow> int" where
  "level_rank lv = (if lv = ''privileged'' then 0 else if lv = ''baseline'' then 1 else if lv = ''restricted'' then 2 else - 1)"

definition weaker :: "string \<Rightarrow> string \<Rightarrow> string" where
  "weaker b a = (if level_rank b < level_rank a then b else a)"

definition install_enforce_label :: "string \<Rightarrow> string option" where
  "install_enforce_label script = (case enforce_levels script of [] \<Rightarrow> None | l # ls \<Rightarrow> Some (fold weaker ls l))"

text \<open>The name of the SPIRE namespace in the chart values; an empty one ends the run.\<close>

definition spire_namespace :: "yaml \<Rightarrow> yaml option" where
  "spire_namespace data0 = do {
     g \<leftarrow> get_or_dict (py_or data0 (YMap [])) ''global'';
     s \<leftarrow> get_or_dict g ''spire'';
     n \<leftarrow> get_or_dict s ''namespaces'';
     sys \<leftarrow> dget_default n ''system'' (YMap []);
     name \<leftarrow> dget sys ''name'';
     if truthy name then Some name else None
   }"

section \<open>Findings\<close>

type_synonym found = "(string \<times> string list) list"

definition add_found :: "string \<Rightarrow> string \<Rightarrow> string list \<Rightarrow> found \<Rightarrow> found" where
  "add_found key rule bad out = (if bad = [] then out else dict_set_update (key @ '' '' @ rule) bad out)"

definition accounts_of :: "doc list \<Rightarrow> accounts option" where
  "accounts_of docs = mfold (\<lambda>d out. do {
     kind \<leftarrow> dget d ''kind'';
     if kind \<noteq> YStr ''ServiceAccount'' then Some out else do {
     ns \<leftarrow> secure_ns_of d;
     n \<leftarrow> meta_name d;
     if hashable ns \<and> hashable n then Some (AList.update (ns, n) d out) else None
     }
   }) docs []"

definition labels_of_ns :: "doc list \<Rightarrow> (yaml \<times> yaml) list option" where
  "labels_of_ns docs = mfold (\<lambda>d out. do {
     kind \<leftarrow> dget d ''kind'';
     if kind \<noteq> YStr ''Namespace'' then Some out else do {
     n \<leftarrow> meta_name d;
     m \<leftarrow> item d ''metadata'';
     ls \<leftarrow> get_or_dict m ''labels'';
     if hashable n then Some (AList.update n ls out) else None
     }
   }) docs []"

text \<open>The key of a workload and what each rule finds on it, in the order of the calls of \<^verbatim>\<open>add\<close>.\<close>

definition pod_rules :: "string list \<Rightarrow> accounts \<Rightarrow> found \<Rightarrow> doc \<Rightarrow> (string \<times> (string \<times> string list) list) option" where
  "pod_rules granted accts network d = do {
     ns \<leftarrow> secure_ns_of d;
     key \<leftarrow> workload_key d;
     (labels, spec) \<leftarrow> pod_of d;
     r1 \<leftarrow> rule_restricted spec;
     r2 \<leftarrow> rule_read_only spec;
     r3 \<leftarrow> rule_token ns spec accts granted;
     r5 \<leftarrow> rule_image spec;
     Some (key, [(''restricted'', r1), (''read-only'', r2), (''token'', r3), (''network'', dict_get network key []), (''image'', r5)])
   }"

definition findings_doc :: "string list \<Rightarrow> accounts \<Rightarrow> found \<Rightarrow> doc \<Rightarrow> yaml list \<times> found \<Rightarrow> (yaml list \<times> found) option" where
  "findings_doc granted accts network d st = (case st of (used, out) \<Rightarrow> do {
     w \<leftarrow> is_workload d;
     if \<not> w then Some (used, out) else do {
     ns \<leftarrow> secure_ns_of d;
     used' \<leftarrow> val_add ns used;
     (key, rs) \<leftarrow> pod_rules granted accts network d;
     Some (used', fold (\<lambda>(rule, bad). add_found key rule bad) rs out)
     }
   })"

definition level_of :: "(yaml \<times> yaml) list \<Rightarrow> string option \<Rightarrow> yaml \<Rightarrow> yaml option option" where
  "level_of ns_labels release_label ns = (case map_of ns_labels ns of
       Some ls \<Rightarrow> do { lv \<leftarrow> dget ls ENFORCE; Some (Some lv) }
     | None \<Rightarrow> Some (if ns = YStr SECURE_NS then Some (case release_label of None \<Rightarrow> YNull | Some l \<Rightarrow> YStr l) else None))"

definition namespace_level :: "(yaml \<times> yaml) list \<Rightarrow> string option \<Rightarrow> yaml \<Rightarrow> found \<Rightarrow> found option" where
  "namespace_level ns_labels release_label ns out = do {
     level \<leftarrow> level_of ns_labels release_label ns;
     let key = ''Namespace/'' @ py_str ns;
     Some (case level of
         None \<Rightarrow> add_found key ''namespace-label'' [''the chart renders a pod in a namespace that it does not render''] out
       | Some lv \<Rightarrow> (if lv = YStr ''restricted'' then out
                    else add_found key ''namespace-label'' [''the label '' @ ENFORCE @ '' is not restricted''] out))
   }"

definition findings_render :: "string list \<Rightarrow> string option \<Rightarrow> doc list \<Rightarrow> found \<Rightarrow> found option" where
  "findings_render granted release_label docs out = do {
     accts \<leftarrow> accounts_of docs;
     ns_labels \<leftarrow> labels_of_ns docs;
     network \<leftarrow> network_findings docs;
     (used, out') \<leftarrow> mfold (findings_doc granted accts network) docs ([], out);
     us \<leftarrow> py_sorted used;
     mfold (namespace_level ns_labels release_label) us out'
   }"

definition findings_secure :: "doc list list \<Rightarrow> string list \<Rightarrow> string option \<Rightarrow> found option" where
  "findings_secure renders granted release_label = mfold (findings_render granted release_label) renders []"

section \<open>The exceptions and the audit\<close>

definition digest :: "(string \<Rightarrow> string) \<Rightarrow> string list \<Rightarrow> string" where
  "digest sha bad = take 16 (sha (join [CHR 0x0A] (sort bad)))"

text \<open>An entry without a reason, or a runtime entry without a rule or its creator, ends the run.\<close>

definition entry_reason_ok :: "yaml \<Rightarrow> bool option" where
  "entry_reason_ok entry =
     (if \<not> is_dict entry then Some False
      else do { r \<leftarrow> dget entry ''reason''; Some (strip (py_str (py_or r (YStr []))) \<noteq> []) })"

definition entry_runtime_ok :: "yaml \<Rightarrow> bool option" where
  "entry_runtime_ok entry = do {
     rule \<leftarrow> dget entry ''rule'';
     if \<not> in_strtuple rule RULES_SECURE then Some False else do { c \<leftarrow> dget entry ''created_by''; Some (truthy c) }
   }"

definition load_exceptions :: "yaml \<Rightarrow> yaml option" where
  "load_exceptions data0 = do {
     let data = py_or data0 (YMap []);
     oks \<leftarrow> mmap (\<lambda>grp. do { g \<leftarrow> get_or_dict data grp; es \<leftarrow> items g; mall (\<lambda>(_, e). entry_reason_ok e) es }) [''pods'', ''runtime''];
     if \<not> list_all id oks then None else do {
     g \<leftarrow> get_or_dict data ''runtime'';
     es \<leftarrow> items g;
     ok \<leftarrow> mall (\<lambda>(_, e). entry_runtime_ok e) es;
     if ok then Some data else None
     }
   }"

datatype audit_finding =
    Blind
  | ReleaseLabel "string list"
  | SpirePod string yaml
  | Unlisted string "string list" string
  | Moved string "string list" string yaml
  | StaleEntry string
  | StaleRuntime string yaml

definition release_key :: string where
  "release_key = ''Namespace/'' @ SECURE_NS @ '' namespace-label''"

text \<open>The text that the audit prints.\<close>

fun show_audit :: "audit_finding \<Rightarrow> string" where
  "show_audit Blind = ''no pod in the render: this guard is blind''"
| "show_audit (ReleaseLabel bad) = release_key @ '': the release namespace enforces restricted, and no entry can cover it (charts#762): ''
     @ join ''; '' bad"
| "show_audit (SpirePod key ns) = key @ '': only the SPIRE agent and the SPIFFE CSI driver run in the privileged namespace ''
     @ py_str ns @ '' (charts#762)''"
| "show_audit (Unlisted key bad want) = key @ '': '' @ join ''; '' bad @ [CHR 0x0A]
     @ ''      fix the pod, or add an entry with a reason: '' @ [CHR 0x27] @ key @ [CHR 0x27] @ '': {digest: '' @ want @ '', reason: ...}''"
| "show_audit (Moved key bad want have) = key @ '': the findings changed (digest '' @ want @ '', the entry has '' @ py_str have @ ''): ''
     @ join ''; '' bad"
| "show_audit (StaleEntry key) = ''stale entry in '' @ EXCEPTIONS_PATH @ '' (no render has this finding): '' @ str_repr key"
| "show_audit (StaleRuntime key by) = ''stale runtime entry in '' @ EXCEPTIONS_PATH @ '': '' @ str_repr key @ '' names ''
     @ py_str by @ '', and no render has that workload''"

definition spire_intruder :: "yaml \<Rightarrow> doc \<Rightarrow> string list option" where
  "spire_intruder spire_ns d = do {
     w \<leftarrow> is_workload d;
     if \<not> w then Some [] else do {
     ns \<leftarrow> secure_ns_of d;
     if \<not> py_eq ns spire_ns then Some [] else do {
     kind \<leftarrow> item d ''kind'';
     m \<leftarrow> item d ''metadata'';
     ls \<leftarrow> get_or_dict m ''labels'';
     l \<leftarrow> dget ls ''app.kubernetes.io/name'';
     if \<not> hashable l then None
     else if (kind, l) \<in> (\<lambda>(a, b). (YStr a, YStr b)) ` set SPIRE_NODE then Some []
     else do { n \<leftarrow> meta_name d; Some [py_str kind @ ''/'' @ py_str spire_ns @ ''/'' @ py_str n] }
     } }
   }"

definition no_entry_findings :: "doc list list \<Rightarrow> found \<Rightarrow> dict \<Rightarrow> yaml \<Rightarrow> audit_finding list option" where
  "no_entry_findings renders fnd listed spire_ns = do {
     let a = (if map_of fnd release_key \<noteq> None \<or> map_of listed release_key \<noteq> None
              then [ReleaseLabel (sort (dict_get fnd release_key [''an entry names it'']))] else []);
     b \<leftarrow> (if truthy spire_ns then do { ks \<leftarrow> collect (spire_intruder spire_ns) (concat renders); Some (sort (mk_set ks)) } else Some []);
     Some (a @ map (\<lambda>k. SpirePod k spire_ns) b)
   }"

definition judge_found :: "(string \<Rightarrow> string) \<Rightarrow> dict \<Rightarrow> found \<Rightarrow> string \<Rightarrow> audit_finding list option" where
  "judge_found sha listed fnd key =
     (if key = release_key then Some []
      else let bad = sort (dict_get fnd key []); want = digest sha (dict_get fnd key []) in
        (case dict_get listed key YNull of
           YNull \<Rightarrow> Some [Unlisted key bad want]
         | entry \<Rightarrow> do { have \<leftarrow> dget entry ''digest'';
                         Some (if have \<noteq> YStr want then [Moved key bad want have] else []) }))"

definition rendered_keys :: "doc list list \<Rightarrow> string list option" where
  "rendered_keys renders = collect (\<lambda>d. do { w \<leftarrow> is_workload d; if w then do { k \<leftarrow> workload_key d; Some [k] } else Some [] }) (concat renders)"

definition stale_runtime :: "string list \<Rightarrow> string \<times> yaml \<Rightarrow> audit_finding list option" where
  "stale_runtime rendered = (\<lambda>(key, entry). do {
     by \<leftarrow> item entry ''created_by'';
     ok \<leftarrow> in_strset by rendered;
     Some (if ok then [] else [StaleRuntime key by])
   })"

definition audit_secure :: "(string \<Rightarrow> string) \<Rightarrow> doc list list \<Rightarrow> yaml \<Rightarrow> string list \<Rightarrow> string option \<Rightarrow> yaml \<Rightarrow> audit_finding list option" where
  "audit_secure sha renders exceptions granted release_label spire_ns = do {
     pods \<leftarrow> many is_workload (concat renders);
     if \<not> pods then Some [Blind] else do {
     fnd \<leftarrow> findings_secure renders granted release_label;
     lst \<leftarrow> get_or_dict exceptions ''pods'';
     listed \<leftarrow> items lst;
     a \<leftarrow> no_entry_findings renders fnd listed spire_ns;
     b \<leftarrow> collect (judge_found sha listed fnd) (sort (map fst fnd));
     let c = map StaleEntry (filter (\<lambda>k. map_of fnd k = None \<and> k \<noteq> release_key) (sort (map fst listed)));
     rendered \<leftarrow> rendered_keys renders;
     rt \<leftarrow> get_or_dict exceptions ''runtime'';
     es \<leftarrow> items rt;
     e \<leftarrow> collect (stale_runtime rendered) (sort_key fst es);
     Some (a @ b @ c @ e)
     }
   }"

section \<open>What a finding is\<close>

text \<open>A rule finds \<open>x\<close> on a workload of the render, and the rule and the workload make the key.\<close>

definition pod_finding :: "string list \<Rightarrow> doc list \<Rightarrow> string \<Rightarrow> string \<Rightarrow> bool" where
  "pod_finding granted docs key x \<longleftrightarrow> (\<exists>accts network. \<exists>d \<in> set docs. \<exists>k rs rule bad.
     accounts_of docs = Some accts \<and> network_findings docs = Some network \<and> is_workload d = Some True
     \<and> pod_rules granted accts network d = Some (k, rs) \<and> (rule, bad) \<in> set rs \<and> key = k @ '' '' @ rule \<and> x \<in> set bad)"

text \<open>A namespace that holds a pod of the render is not at the restricted level.\<close>

definition level_finding :: "(yaml \<times> yaml) list \<Rightarrow> string option \<Rightarrow> yaml \<Rightarrow> string \<Rightarrow> string \<Rightarrow> bool" where
  "level_finding ns_labels label ns key x \<longleftrightarrow> key = ''Namespace/'' @ py_str ns @ '' namespace-label'' \<and>
     (case level_of ns_labels label ns of
        None \<Rightarrow> False
      | Some None \<Rightarrow> x = ''the chart renders a pod in a namespace that it does not render''
      | Some (Some lv) \<Rightarrow> lv \<noteq> YStr ''restricted'' \<and> x = ''the label '' @ ENFORCE @ '' is not restricted'')"

definition namespace_finding :: "string option \<Rightarrow> doc list \<Rightarrow> string \<Rightarrow> string \<Rightarrow> bool" where
  "namespace_finding label docs key x \<longleftrightarrow> (\<exists>ns_labels ns. \<exists>d \<in> set docs. labels_of_ns docs = Some ns_labels
     \<and> is_workload d = Some True \<and> secure_ns_of d = Some ns \<and> level_finding ns_labels label ns key x)"

section \<open>Lemmas\<close>

lemma add_found_set:
  "x \<in> set (dict_get (add_found k rule bad out) key []) \<longleftrightarrow>
     x \<in> set (dict_get out key []) \<or> key = k @ '' '' @ rule \<and> x \<in> set bad"
  by (auto simp: add_found_def dict_get_dict_set_update)

lemma add_found_fold:
  "x \<in> set (dict_get (fold (\<lambda>(rule, bad). add_found k rule bad) rs out) key []) \<longleftrightarrow>
     x \<in> set (dict_get out key []) \<or> (\<exists>(rule, bad) \<in> set rs. key = k @ '' '' @ rule \<and> x \<in> set bad)"
  by (induction rs arbitrary: out) (auto simp: add_found_set)

lemma findings_doc_found:
  assumes "findings_doc granted accts network d st = Some st'"
  shows "x \<in> set (dict_get (snd st') key []) \<longleftrightarrow> x \<in> set (dict_get (snd st) key [])
    \<or> is_workload d = Some True \<and> (\<exists>k rs rule bad. pod_rules granted accts network d = Some (k, rs)
       \<and> (rule, bad) \<in> set rs \<and> key = k @ '' '' @ rule \<and> x \<in> set bad)"
proof (cases st)
  case (Pair used out)
  from assms consider "is_workload d = Some False" "st' = st"
    | ns used' k rs where "is_workload d = Some True" "pod_rules granted accts network d = Some (k, rs)"
        "st' = (used', fold (\<lambda>(rule, bad). add_found k rule bad) rs out)"
    by (auto simp: findings_doc_def Pair elim!: bindE split: if_splits prod.splits)
  then show ?thesis
    by cases (auto simp: Pair add_found_fold)
qed

lemma findings_doc_used:
  assumes "findings_doc granted accts network d st = Some st'"
  shows "u \<in> set (fst st') \<longleftrightarrow> u \<in> set (fst st) \<or> is_workload d = Some True \<and> secure_ns_of d = Some u"
  using assms by (cases st) (auto simp: findings_doc_def val_add_def elim!: bindE split: if_splits prod.splits)

lemma namespace_level_found:
  assumes "namespace_level ns_labels label ns out = Some out'"
  shows "x \<in> set (dict_get out' key []) \<longleftrightarrow> x \<in> set (dict_get out key []) \<or> level_finding ns_labels label ns key x"
  using assms
  by (auto simp: namespace_level_def level_finding_def add_found_set Let_def elim!: bindE split: option.splits if_splits)

lemma findings_render_found:
  assumes "findings_render granted label docs out = Some out'"
  shows "x \<in> set (dict_get out' key []) \<longleftrightarrow>
    x \<in> set (dict_get out key []) \<or> pod_finding granted docs key x \<or> namespace_finding label docs key x"
proof -
  from assms obtain accts ns_labels network used mid us where
    a: "accounts_of docs = Some accts" "labels_of_ns docs = Some ns_labels" "network_findings docs = Some network"
    and run: "mfold (findings_doc granted accts network) docs ([], out) = Some (used, mid)"
    and us: "py_sorted used = Some us" and lv: "mfold (namespace_level ns_labels label) us mid = Some out'"
    by (auto simp: findings_render_def elim!: bindE split: prod.splits)
  have "x \<in> set (dict_get (snd (used, mid)) key []) \<longleftrightarrow> x \<in> set (dict_get (snd ([] :: yaml list, out)) key []) \<or>
      (\<exists>d \<in> set docs. is_workload d = Some True \<and> (\<exists>k rs rule bad. pod_rules granted accts network d = Some (k, rs)
         \<and> (rule, bad) \<in> set rs \<and> key = k @ '' '' @ rule \<and> x \<in> set bad))"
    by (rule mfold_collects [OF _ run, where P = "\<lambda>st. x \<in> set (dict_get (snd st) key [])"]) (rule findings_doc_found)
  then have pods: "x \<in> set (dict_get mid key []) \<longleftrightarrow> x \<in> set (dict_get out key []) \<or> pod_finding granted docs key x"
    by (auto simp: pod_finding_def a)
  have "u \<in> set (fst (used, mid)) \<longleftrightarrow> u \<in> set (fst ([], out)) \<or> (\<exists>d \<in> set docs. is_workload d = Some True \<and> secure_ns_of d = Some u)" for u
    by (rule mfold_collects [OF _ run, where P = "\<lambda>st. u \<in> set (fst st)"]) (rule findings_doc_used)
  then have "(\<exists>ns \<in> set us. level_finding ns_labels label ns key x) \<longleftrightarrow> namespace_finding label docs key x"
    using py_sorted_set [OF us] by (simp add: namespace_finding_def a Bex_def) blast
  moreover have "x \<in> set (dict_get out' key []) \<longleftrightarrow>
      x \<in> set (dict_get mid key []) \<or> (\<exists>ns \<in> set us. level_finding ns_labels label ns key x)"
    by (rule mfold_collects [OF _ lv, where P = "\<lambda>out. x \<in> set (dict_get out key [])"]) (rule namespace_level_found)
  ultimately show ?thesis using pods by simp
qed

lemma findings_found_nonempty:
  assumes "findings_secure renders granted label = Some fnd"
  shows "map_of fnd key \<noteq> None \<longleftrightarrow> dict_get fnd key [] \<noteq> []"
proof -
  let ?I = "\<lambda>out :: found. \<forall>key. map_of out key \<noteq> Some []"
  have add: "?I (add_found k rule bad out)" if "?I out" for k rule bad out
    using that by (auto simp: add_found_def map_of_dict_set_update simp flip: set_empty)
  then have fld: "?I (fold (\<lambda>(rule, bad). add_found k rule bad) rs out)" if "?I out" for k rs out
    using that by (induction rs arbitrary: out) auto
  have doc: "?I (snd st')" if "?I (snd st)" "findings_doc granted accts network d st = Some st'" for accts network d st st'
    using that fld by (cases st) (auto simp: findings_doc_def elim!: bindE split: if_splits prod.splits)
  have level: "?I out'" if "?I out" "namespace_level nl label ns out = Some out'" for nl ns out out'
    using that add by (auto simp: namespace_level_def Let_def elim!: bindE split: option.splits if_splits)
  have render: "?I out'" if "?I out" "findings_render granted label docs out = Some out'" for docs out out'
  proof -
    from that(2) obtain accts ns_labels network used mid us where
      run: "mfold (findings_doc granted accts network) docs ([], out) = Some (used, mid)"
      and lv: "mfold (namespace_level ns_labels label) us mid = Some out'"
      by (auto simp: findings_render_def elim!: bindE split: prod.splits)
    have "?I (snd (used, mid))" by (rule mfold_invariant [OF run, where I = "\<lambda>st. ?I (snd st)"]) (use that doc in auto)
    then show ?thesis by (intro mfold_invariant [OF lv, where I = ?I]) (use level in auto)
  qed
  have "?I fnd"
    by (rule mfold_invariant [OF assms [unfolded findings_secure_def], where I = ?I]) (use render in auto)
  then show ?thesis by (auto simp: dict_get_def split: option.splits)
qed

lemma findings_secure_found:
  assumes "findings_secure renders granted label = Some fnd"
  shows "x \<in> set (dict_get fnd key []) \<longleftrightarrow>
    (\<exists>docs \<in> set renders. pod_finding granted docs key x \<or> namespace_finding label docs key x)"
proof -
  have "x \<in> set (dict_get fnd key []) \<longleftrightarrow> x \<in> set (dict_get [] key []) \<or>
      (\<exists>docs \<in> set renders. pod_finding granted docs key x \<or> namespace_finding label docs key x)"
    by (rule mfold_collects [OF _ assms [unfolded findings_secure_def], where P = "\<lambda>out. x \<in> set (dict_get out key [])"])
       (rule findings_render_found)
  then show ?thesis by (simp add: dict_get_def)
qed

text \<open>What an audit without a finding has computed.\<close>

lemma audit_secure_clean:
  assumes "audit_secure sha renders exceptions granted label spire = Some []"
  obtains fnd listed where "findings_secure renders granted label = Some fnd"
    "get_or_dict exceptions ''pods'' = Some (YMap listed)"
    "no_entry_findings renders fnd listed spire = Some []"
    "\<And>key. map_of fnd key \<noteq> None \<Longrightarrow> judge_found sha listed fnd key = Some []"
    "\<And>key. key \<in> fst ` set listed \<Longrightarrow> map_of fnd key \<noteq> None \<or> key = release_key"
proof -
  have items: "items v = Some m \<Longrightarrow> v = YMap m" for v m by (cases v) auto
  from assms obtain fnd listed where
    "findings_secure renders granted label = Some fnd" "get_or_dict exceptions ''pods'' = Some (YMap listed)"
    "no_entry_findings renders fnd listed spire = Some []"
    "collect (judge_found sha listed fnd) (sort (map fst fnd)) = Some []"
    "filter (\<lambda>k. map_of fnd k = None \<and> k \<noteq> release_key) (sort (map fst listed)) = []"
    by (auto simp: audit_secure_def elim!: bindE split: if_splits dest!: items)
  then show ?thesis
    by (intro that) (auto simp: collect_empty_iff filter_empty_conv map_of_eq_None_iff)
qed

lemma no_entry_clean:
  assumes "no_entry_findings renders fnd listed spire = Some []"
  shows "map_of fnd release_key = None \<and> map_of listed release_key = None
    \<and> (truthy spire \<longrightarrow> (\<forall>d \<in> set (concat renders). spire_intruder spire d = Some []))"
  using assms
  by (auto simp: no_entry_findings_def Let_def collect_empty_iff elim!: bindE split: if_splits simp flip: set_empty)

section \<open>Properties\<close>

text \<open>C17. The findings are exact: under a key the audit gathers exactly what a rule finds on a
  workload of some render, and what the level of a namespace with pods gives, under that key.\<close>

theorem findings_exact:
  assumes "findings_secure renders granted label = Some fnd"
  shows "x \<in> set (dict_get fnd key []) \<longleftrightarrow>
    (\<exists>docs \<in> set renders. pod_finding granted docs key x \<or> namespace_finding label docs key x)"
  using assms by (rule findings_secure_found)

text \<open>C9. No finding passes uncovered: when the audit reports nothing, every finding of a rule on a
  workload of a render is covered by an entry of the exceptions under the workload and the rule,
  and the digest of the entry is the digest of all findings under that key.\<close>

theorem audit_covers:
  assumes "audit_secure sha renders exceptions granted label spire = Some []"
    and "docs \<in> set renders" "pod_finding granted docs key x"
  shows "\<exists>fnd listed entry. findings_secure renders granted label = Some fnd \<and> x \<in> set (dict_get fnd key [])
    \<and> get_or_dict exceptions ''pods'' = Some (YMap listed) \<and> map_of listed key = Some entry
    \<and> dget entry ''digest'' = Some (YStr (digest sha (dict_get fnd key [])))"
proof -
  from assms(1) obtain fnd listed where f: "findings_secure renders granted label = Some fnd"
    and l: "get_or_dict exceptions ''pods'' = Some (YMap listed)"
    and ne: "no_entry_findings renders fnd listed spire = Some []"
    and judged: "map_of fnd key \<noteq> None \<Longrightarrow> judge_found sha listed fnd key = Some []"
    by (elim audit_secure_clean) blast
  have x: "x \<in> set (dict_get fnd key [])" using findings_secure_found [OF f] assms(2,3) by blast
  then have some: "map_of fnd key \<noteq> None" using findings_found_nonempty [OF f] by fastforce
  then have "key \<noteq> release_key" using no_entry_clean [OF ne] by auto
  with judged [OF some] have "\<exists>entry. map_of listed key = Some entry \<and> dget entry ''digest'' = Some (YStr (digest sha (dict_get fnd key [])))"
    by (cases "map_of listed key")
       (auto simp: judge_found_def dict_get_def [of listed] Let_def elim!: bindE split: if_splits yaml.splits)
  with f l x show ?thesis by blast
qed

text \<open>The release namespace is enforced: when the audit reports nothing and a workload of a
  render is in the release namespace, which the render does not create, the install script
  labels that namespace restricted; no entry of the exceptions can change this.\<close>

theorem release_namespace_enforced:
  assumes "audit_secure sha renders exceptions granted label spire = Some []"
    and "docs \<in> set renders" "d \<in> set docs" "is_workload d = Some True" "secure_ns_of d = Some (YStr SECURE_NS)"
    and "labels_of_ns docs = Some ns_labels" "map_of ns_labels (YStr SECURE_NS) = None"
  shows "label = Some ''restricted''"
proof (rule ccontr)
  assume "label \<noteq> Some ''restricted''"
  then have "namespace_finding label docs release_key (''the label '' @ ENFORCE @ '' is not restricted'')"
    unfolding namespace_finding_def using assms(3-7)
    by (auto simp: level_finding_def level_of_def release_key_def py_str_def split: option.splits intro!: bexI [of _ d])
  moreover from assms(1) obtain fnd listed where f: "findings_secure renders granted label = Some fnd"
    and "no_entry_findings renders fnd listed spire = Some []"
    by (elim audit_secure_clean) blast
  ultimately have none: "map_of fnd release_key = None"
    and "\<exists>x. x \<in> set (dict_get fnd release_key [])"
    using findings_secure_found [OF f] no_entry_clean assms(2) by blast+
  then show False by (simp add: dict_get_def)
qed

text \<open>Only the SPIRE node components run in the privileged SPIRE namespace: when the audit
  reports nothing, every workload of a render in that namespace is a DaemonSet labelled as the
  agent or as the CSI driver.\<close>

theorem spire_namespace_closed:
  assumes "audit_secure sha renders exceptions granted label (YStr spire) = Some []" "spire \<noteq> []"
    and "docs \<in> set renders" "d \<in> set docs" "is_workload d = Some True" "secure_ns_of d = Some (YStr spire)"
  shows "item d ''kind'' = Some (YStr ''DaemonSet'') \<and>
    (\<exists>m ls. item d ''metadata'' = Some m \<and> get_or_dict m ''labels'' = Some ls
      \<and> dget ls ''app.kubernetes.io/name'' \<in> {Some (YStr ''agent''), Some (YStr ''spiffe-csi-driver'')})"
proof -
  from assms(1) obtain fnd listed where "no_entry_findings renders fnd listed (YStr spire) = Some []"
    by (elim audit_secure_clean) blast
  with assms(2,3,4) have "spire_intruder (YStr spire) d = Some []"
    using no_entry_clean by fastforce
  with assms(5,6) show ?thesis
    by (auto simp: spire_intruder_def SPIRE_NODE_def elim!: bindE split: if_splits)
qed

text \<open>No entry is stale: when the audit reports nothing, every key of the exceptions has a
  finding of some render.\<close>

theorem entries_not_stale:
  assumes "audit_secure sha renders exceptions granted label spire = Some []"
    and "get_or_dict exceptions ''pods'' = Some (YMap listed)" "map_of listed key = Some entry"
  shows "\<exists>x. \<exists>docs \<in> set renders. pod_finding granted docs key x \<or> namespace_finding label docs key x"
proof -
  obtain fnd where f: "findings_secure renders granted label = Some fnd"
    and ne: "no_entry_findings renders fnd listed spire = Some []"
    and st: "key \<in> fst ` set listed \<Longrightarrow> map_of fnd key \<noteq> None \<or> key = release_key"
  proof (rule audit_secure_clean [OF assms(1)])
    fix fnd listed' assume *: "findings_secure renders granted label = Some fnd"
      "get_or_dict exceptions ''pods'' = Some (YMap listed')" "no_entry_findings renders fnd listed' spire = Some []"
      "\<And>key. key \<in> fst ` set listed' \<Longrightarrow> map_of fnd key \<noteq> None \<or> key = release_key"
    from *(2) assms(2) have "listed' = listed" by simp
    with * show thesis by (intro that [of fnd]) auto
  qed
  have "key \<noteq> release_key" using no_entry_clean [OF ne] assms(3) by auto
  moreover have "key \<in> fst ` set listed" using assms(3) by (metis map_of_SomeD image_eqI fst_conv)
  ultimately have "dict_get fnd key [] \<noteq> []" using st findings_found_nonempty [OF f] by blast
  then show ?thesis using findings_secure_found [OF f] by (metis list.set_intros(1) neq_Nil_conv)
qed

text \<open>The weakest level of the install script counts: the script reads as restricted exactly when
  it sets a level and every level it sets is restricted.\<close>

theorem install_label_weakest:
  "install_enforce_label script = Some ''restricted'' \<longleftrightarrow> set (enforce_levels script) = {''restricted''}"
proof -
  have rank: "level_rank l \<le> 2" "level_rank l = 2 \<longleftrightarrow> l = ''restricted''" for l
    by (auto simp: level_rank_def)
  have "fold weaker ls l = ''restricted'' \<longleftrightarrow> l = ''restricted'' \<and> set ls \<subseteq> {''restricted''}" for ls l
  proof (induction ls arbitrary: l)
    case (Cons a ls)
    have "weaker a l = ''restricted'' \<longleftrightarrow> l = ''restricted'' \<and> a = ''restricted''"
      using rank [of a] rank [of l] by (auto simp: weaker_def)
    with Cons.IH [of "weaker a l"] show ?case by auto
  qed simp
  then show ?thesis by (auto simp: install_enforce_label_def split: list.splits)
qed

end
