(* ===== verification/SecurePodSelftest.thy ===== *)
theory SecurePodSelftest
  imports SecurePodAudit
begin

text \<open>
  \<^verbatim>\<open>src/scripts/check-secure-pod.py\<close>, the selftest and \<^verbatim>\<open>main\<close>: the secure fixture, an edit of it for
  each rule, and the checks in the order of the script. The theory evaluates every check on the
  model, for every hash function that does not map the findings of the fixture to zeros, and
  gives the witnesses of the properties of the audit on the same fixture.
\<close>

section \<open>The fixture\<close>

definition SECURE_POD :: yaml where
  "SECURE_POD =
    YMap [(''serviceAccountName'', YStr ''app''), (''securityContext'', YMap [(''runAsNonRoot'', YBool True), (''seccompProfile'',
      YMap [(''type'', YStr ''RuntimeDefault'')])]), (''containers'', YList [YMap [(''name'', YStr ''app''), (''image'',
      YStr ''ghcr.io/zeroroot-ai/app@sha256:0000000000000000000000000000000000000000000000000000000000000000''), (''securityContext'',
      YMap [(''allowPrivilegeEscalation'', YBool False), (''readOnlyRootFilesystem'', YBool True), (''capabilities'', YMap [(''drop'',
      YList [YStr ''ALL''])])])]])]"

definition SECURE :: "doc list" where
  "SECURE =
   [YMap [(''apiVersion'', YStr ''v1''), (''kind'', YStr ''Namespace''), (''metadata'', YMap [(''name'', YStr ''fixture''),
      (''labels'', YMap [(''pod-security.kubernetes.io/enforce'', YStr ''restricted'')])])],
    YMap [(''apiVersion'', YStr ''v1''), (''kind'', YStr ''ServiceAccount''), (''metadata'', YMap [(''name'', YStr ''app''),
      (''namespace'', YStr ''fixture'')]), (''automountServiceAccountToken'', YBool False)],
    YMap [(''apiVersion'', YStr ''cilium.io/v2''), (''kind'', YStr ''CiliumClusterwideNetworkPolicy''), (''metadata'',
      YMap [(''name'', YStr ''fixture-default-deny'')]), (''spec'', YMap [(''endpointSelector'', YMap [(''matchLabels'',
      YMap [(''k8s:io.kubernetes.pod.namespace'', YStr ''fixture'')])]), (''enableDefaultDeny'', YMap [(''ingress'', YBool True),
      (''egress'', YBool True)]), (''ingress'', YList [YMap []]), (''egress'', YList [YMap [(''toEndpoints'',
      YList [YMap [(''matchLabels'', YMap [(''k8s:io.kubernetes.pod.namespace'', YStr ''kube-system''), (''k8s:k8s-app'',
      YStr ''kube-dns'')])]]), (''toPorts'', YList [YMap [(''ports'', YList [YMap [(''port'', YStr ''53''), (''protocol'',
      YStr ''UDP'')], YMap [(''port'', YStr ''53''), (''protocol'', YStr ''TCP'')]]), (''rules'', YMap [(''dns'',
      YList [YMap [(''matchPattern'', YStr ''*'')]])])]])]])])],
    YMap [(''apiVersion'', YStr ''cilium.io/v2''), (''kind'', YStr ''CiliumNetworkPolicy''), (''metadata'', YMap [(''name'',
      YStr ''platform''), (''namespace'', YStr ''fixture'')]), (''spec'', YMap [(''endpointSelector'', YMap [(''matchLabels'',
      YMap [(''gibson.zeroroot.ai/net-role'', YStr ''platform'')])]), (''ingress'', YList [YMap [(''fromEndpoints'',
      YList [YMap [(''matchLabels'', YMap [(''gibson.zeroroot.ai/net-role'', YStr ''platform'')])]])]]), (''egress'',
      YList [YMap [(''toEndpoints'', YList [YMap [(''matchLabels'', YMap [(''gibson.zeroroot.ai/net-role'',
      YStr ''platform'')])]])]])])],
    YMap [(''apiVersion'', YStr ''cilium.io/v2''), (''kind'', YStr ''CiliumNetworkPolicy''), (''metadata'', YMap [(''name'',
      YStr ''datastore-redis''), (''namespace'', YStr ''fixture'')]), (''specs'', YList [YMap [(''endpointSelector'',
      YMap [(''matchLabels'', YMap [(''gibson.zeroroot.ai/datastore'', YStr ''redis'')])]), (''ingress'',
      YList [YMap [(''fromEndpoints'', YList [YMap [(''matchLabels'', YMap [(''gibson.zeroroot.ai/client-redis'',
      YStr ''true'')])]])]])], YMap [(''endpointSelector'', YMap [(''matchLabels'', YMap [(''gibson.zeroroot.ai/client-redis'',
      YStr ''true'')])]), (''egress'', YList [YMap [(''toEndpoints'', YList [YMap [(''matchLabels'',
      YMap [(''gibson.zeroroot.ai/datastore'', YStr ''redis'')])]])]])]])],
    YMap [(''apiVersion'', YStr ''cilium.io/v2''), (''kind'', YStr ''CiliumNetworkPolicy''), (''metadata'', YMap [(''name'',
      YStr ''egress-internet''), (''namespace'', YStr ''fixture'')]), (''spec'', YMap [(''endpointSelector'', YMap [(''matchLabels'',
      YMap [(''gibson.zeroroot.ai/egress-internet'', YStr ''true'')])]), (''egress'', YList [YMap [(''toEntities'',
      YList [YStr ''world''])]])])],
    YMap [(''apiVersion'', YStr ''cilium.io/v2''), (''kind'', YStr ''CiliumNetworkPolicy''), (''metadata'', YMap [(''name'',
      YStr ''egress-fqdn-mail''), (''namespace'', YStr ''fixture'')]), (''spec'', YMap [(''endpointSelector'', YMap [(''matchLabels'',
      YMap [(''gibson.zeroroot.ai/egress-fqdn'', YStr ''mail'')])]), (''egress'', YList [YMap [(''toFQDNs'',
      YList [YMap [(''matchName'', YStr ''smtp.example.com'')]])]])])],
    YMap [(''apiVersion'', YStr ''apps/v1''), (''kind'', YStr ''Deployment''), (''metadata'', YMap [(''name'', YStr ''mailer''),
      (''namespace'', YStr ''fixture'')]), (''spec'', YMap [(''template'', YMap [(''metadata'', YMap [(''labels'', YMap [(''app'',
      YStr ''mailer''), (''gibson.zeroroot.ai/net-role'', YStr ''platform''), (''gibson.zeroroot.ai/egress-fqdn'', YStr ''mail'')])]),
      (''spec'', SECURE_POD)])])],
    YMap [(''apiVersion'', YStr ''apps/v1''), (''kind'', YStr ''Deployment''), (''metadata'', YMap [(''name'', YStr ''app''),
      (''namespace'', YStr ''fixture'')]), (''spec'', YMap [(''template'', YMap [(''metadata'', YMap [(''labels'', YMap [(''app'',
      YStr ''app''), (''gibson.zeroroot.ai/net-role'', YStr ''platform''), (''gibson.zeroroot.ai/client-redis'', YStr ''true'')])]),
      (''spec'', SECURE_POD)])])],
    YMap [(''apiVersion'', YStr ''apps/v1''), (''kind'', YStr ''Deployment''), (''metadata'', YMap [(''name'', YStr ''web''),
      (''namespace'', YStr ''fixture'')]), (''spec'', YMap [(''template'', YMap [(''metadata'', YMap [(''labels'', YMap [(''app'',
      YStr ''web''), (''gibson.zeroroot.ai/net-role'', YStr ''platform'')])]), (''spec'', SECURE_POD)])])],
    YMap [(''apiVersion'', YStr ''apps/v1''), (''kind'', YStr ''Deployment''), (''metadata'', YMap [(''name'', YStr ''redis''),
      (''namespace'', YStr ''fixture'')]), (''spec'', YMap [(''template'', YMap [(''metadata'', YMap [(''labels'', YMap [(''app'',
      YStr ''redis''), (''gibson.zeroroot.ai/net-role'', YStr ''datastore''), (''gibson.zeroroot.ai/datastore'', YStr ''redis'')])]),
      (''spec'', SECURE_POD)])])]]"

section \<open>Its edits\<close>

definition named_deployment :: "string \<Rightarrow> doc \<Rightarrow> bool option" where
  "named_deployment name d = do {
     k \<leftarrow> item d ''kind'';
     if k \<noteq> YStr ''Deployment'' then Some False else do { n \<leftarrow> meta_name d; Some (n = YStr name) }
   }"

definition is_kind :: "string \<Rightarrow> doc \<Rightarrow> bool option" where
  "is_kind kind d = do { k \<leftarrow> item d ''kind''; Some (k = YStr kind) }"

definition named_cilium :: "string \<Rightarrow> doc \<Rightarrow> bool option" where
  "named_cilium name d = do {
     k \<leftarrow> item d ''kind'';
     case k of
       YStr s \<Rightarrow> (if \<not> startswith s ''Cilium'' then Some False else do { n \<leftarrow> meta_name d; Some (n = YStr name) })
     | _ \<Rightarrow> None
   }"

definition pod_path :: "ystep list" where
  "pod_path = [Key ''spec'', Key ''template'', Key ''spec'']"

definition edit_workload :: "ystep list \<Rightarrow> (yaml \<Rightarrow> yaml option) \<Rightarrow> doc list \<Rightarrow> doc list option" where
  "edit_workload path f = edit_first (named_deployment ''app'') (edit_at path f)"

definition edit_container :: "ystep list \<Rightarrow> (yaml \<Rightarrow> yaml option) \<Rightarrow> doc list \<Rightarrow> doc list option" where
  "edit_container path = edit_workload (pod_path @ [Key ''containers'', Idx 0] @ path)"

definition edit_web_labels :: "(yaml \<Rightarrow> yaml option) \<Rightarrow> doc list \<Rightarrow> doc list option" where
  "edit_web_labels f = edit_first (named_deployment ''web'') (edit_at [Key ''spec'', Key ''template'', Key ''metadata'', Key ''labels''] f)"

definition edit_cilium :: "string \<Rightarrow> ystep list \<Rightarrow> (yaml \<Rightarrow> yaml option) \<Rightarrow> doc list \<Rightarrow> doc list option" where
  "edit_cilium name path f = edit_first (named_cilium name) (edit_at path f)"

definition e_privileged :: "doc list \<Rightarrow> doc list option" where
  "e_privileged = edit_container [Key ''securityContext''] (set_key ''privileged'' (YBool True))"

definition e_host_path :: "doc list \<Rightarrow> doc list option" where
  "e_host_path = edit_workload pod_path (set_key ''volumes''
     (YList [YMap [(''name'', YStr ''host''), (''hostPath'', YMap [(''path'', YStr ''/'')])]]))"

definition e_root :: "doc list \<Rightarrow> doc list option" where
  "e_root = edit_workload (pod_path @ [Key ''securityContext'']) (pop_key ''runAsNonRoot'')"

definition e_writable :: "doc list \<Rightarrow> doc list option" where
  "e_writable = edit_container [Key ''securityContext''] (pop_key ''readOnlyRootFilesystem'')"

definition e_token :: "doc list \<Rightarrow> doc list option" where
  "e_token = edit_first (is_kind ''ServiceAccount'') (pop_key ''automountServiceAccountToken'')"

definition e_projected_token :: "doc list \<Rightarrow> doc list option" where
  "e_projected_token = edit_workload pod_path (set_key ''volumes'' (YList [YMap [(''name'', YStr ''t''),
     (''projected'', YMap [(''sources'', YList [YMap [(''serviceAccountToken'', YMap [(''path'', YStr ''t'')])]])])]]))"

definition e_no_default_deny :: "doc list \<Rightarrow> doc list option" where
  "e_no_default_deny = mfilter (\<lambda>d. do { n \<leftarrow> meta_name d; Some (n \<noteq> YStr ''fixture-default-deny'') })"

definition to_world :: yaml where
  "to_world = YMap [(''toEntities'', YList [YStr ''world''])]"

definition egress_path :: "ystep list" where
  "egress_path = [Key ''spec'', Key ''egress'']"

definition e_open_default_deny :: "doc list \<Rightarrow> doc list option" where
  "e_open_default_deny = edit_cilium ''fixture-default-deny'' egress_path (append_item to_world)"

definition e_no_role :: "doc list \<Rightarrow> doc list option" where
  "e_no_role = edit_web_labels (pop_key ''gibson.zeroroot.ai/net-role'')"

definition e_kubernetes_policy :: "doc list \<Rightarrow> doc list option" where
  "e_kubernetes_policy docs = Some (docs @ [YMap [(''apiVersion'', YStr ''networking.k8s.io/v1''), (''kind'', YStr ''NetworkPolicy''),
     (''metadata'', YMap [(''name'', YStr ''web''), (''namespace'', YStr ''fixture'')]),
     (''spec'', YMap [(''podSelector'', YMap [(''matchLabels'', YMap [(''app'', YStr ''web'')])]),
                      (''policyTypes'', YList [YStr ''Ingress'', YStr ''Egress'']), (''egress'', YList [YMap []])])]])"

definition e_store_admits_each_pod :: "doc list \<Rightarrow> doc list option" where
  "e_store_admits_each_pod = edit_cilium ''datastore-redis'' [Key ''specs'', Idx 0]
     (set_key ''ingress'' (YList [YMap [(''fromEndpoints'', YList [YMap []])]]))"

definition e_egress_to_store :: "doc list \<Rightarrow> doc list option" where
  "e_egress_to_store = edit_cilium ''platform'' egress_path (append_item
     (YMap [(''toEndpoints'', YList [YMap [(''matchLabels'', YMap [(''gibson.zeroroot.ai/datastore'', YStr ''redis'')])]])]))"

definition e_internet_with_no_label :: "doc list \<Rightarrow> doc list option" where
  "e_internet_with_no_label = edit_cilium ''platform'' egress_path (append_item to_world)"

definition e_fqdn_with_no_label :: "doc list \<Rightarrow> doc list option" where
  "e_fqdn_with_no_label = edit_cilium ''platform'' egress_path (append_item
     (YMap [(''toFQDNs'', YList [YMap [(''matchName'', YStr ''api.example.com'')]])]))"

definition e_world_with_fqdn_label :: "doc list \<Rightarrow> doc list option" where
  "e_world_with_fqdn_label = edit_cilium ''egress-fqdn-mail'' egress_path (append_item to_world)"

definition e_tag_only :: "doc list \<Rightarrow> doc list option" where
  "e_tag_only = edit_container [] (set_key ''image'' (YStr ''ghcr.io/zeroroot-ai/app:v1.0.0''))"

definition e_other_registry :: "doc list \<Rightarrow> doc list option" where
  "e_other_registry = edit_container [] (set_key ''image'' (YStr (''docker.io/library/app@sha256:'' @ replicate 64 (CHR ''0''))))"

definition e_no_label :: "doc list \<Rightarrow> doc list option" where
  "e_no_label = edit_first (is_kind ''Namespace'') (edit_at [Key ''metadata''] (set_key ''labels'' (YMap [])))"

definition MUST_FAIL_SECURE :: "(string \<times> (doc list \<Rightarrow> doc list option)) list" where
  "MUST_FAIL_SECURE =
     [(''restricted'', e_privileged), (''restricted'', e_host_path), (''restricted'', e_root), (''read-only'', e_writable),
      (''token'', e_token), (''token'', e_projected_token), (''network'', e_no_default_deny), (''network'', e_open_default_deny),
      (''network'', e_no_role), (''network'', e_kubernetes_policy), (''network'', e_store_admits_each_pod),
      (''network'', e_egress_to_store), (''network'', e_internet_with_no_label), (''network'', e_fqdn_with_no_label),
      (''network'', e_world_with_fqdn_label), (''image'', e_tag_only), (''image'', e_other_registry), (''namespace-label'', e_no_label)]"

section \<open>The checks\<close>

definition no_exceptions :: yaml where
  "no_exceptions = YMap [(''pods'', YMap []), (''runtime'', YMap [])]"

text \<open>\<^verbatim>\<open>f" {rule}: " in line.split("\n")[0]\<close> for some line of the audit, and \<^verbatim>\<open>text in line\<close>.\<close>

definition any_first_line :: "string \<Rightarrow> audit_finding list \<Rightarrow> bool" where
  "any_first_line txt got = list_ex (\<lambda>a. sublist txt (fst (split_once (CHR 0x0A) (show_audit a)))) got"

definition any_line :: "string \<Rightarrow> audit_finding list \<Rightarrow> bool" where
  "any_line txt got = list_ex (\<lambda>a. sublist txt (show_audit a)) got"

definition check_rule :: "(string \<Rightarrow> string) \<Rightarrow> string \<times> (doc list \<Rightarrow> doc list option) \<Rightarrow> bool option" where
  "check_rule sha = (\<lambda>(rule, f). do {
     docs \<leftarrow> f SECURE;
     got \<leftarrow> audit_secure sha [docs] no_exceptions [] None YNull;
     Some (any_first_line ('' '' @ rule @ '': '') got)
   })"

definition check_base :: "(string \<Rightarrow> string) \<Rightarrow> bool option" where
  "check_base sha = do { got \<leftarrow> audit_secure sha [SECURE] no_exceptions [] None YNull; Some (got = []) }"

definition check_grant :: "(string \<Rightarrow> string) \<Rightarrow> bool option" where
  "check_grant sha = do { docs \<leftarrow> e_token SECURE; got \<leftarrow> audit_secure sha [docs] no_exceptions [''fixture/app''] None YNull; Some (got = []) }"

definition writable_key :: string where
  "writable_key = ''Deployment/fixture/app read-only''"

definition pods_entry :: "string \<Rightarrow> string \<Rightarrow> yaml" where
  "pods_entry key dig = YMap [(''pods'', YMap [(key, YMap [(''digest'', YStr dig), (''reason'', YStr ''fixture'')])])]"

text \<open>\<^verbatim>\<open>digest(findings(...)[key])\<close>.\<close>

definition digest_at :: "(string \<Rightarrow> string) \<Rightarrow> doc list \<Rightarrow> string option \<Rightarrow> string \<Rightarrow> string option" where
  "digest_at sha docs label key = do { fnd \<leftarrow> findings_secure [docs] [] label; bad \<leftarrow> map_of fnd key; Some (digest sha bad) }"

definition check_entry :: "(string \<Rightarrow> string) \<Rightarrow> bool option" where
  "check_entry sha = do {
     docs \<leftarrow> e_writable SECURE;
     want \<leftarrow> digest_at sha docs None writable_key;
     got \<leftarrow> audit_secure sha [docs] (pods_entry writable_key want) [] None YNull;
     Some (got = [])
   }"

definition check_moved :: "(string \<Rightarrow> string) \<Rightarrow> bool option" where
  "check_moved sha = do {
     docs \<leftarrow> e_writable SECURE;
     got \<leftarrow> audit_secure sha [docs] (pods_entry writable_key (replicate 16 (CHR ''0''))) [] None YNull;
     Some (got \<noteq> [])
   }"

definition check_stale :: "(string \<Rightarrow> string) \<Rightarrow> bool option" where
  "check_stale sha = do {
     docs \<leftarrow> e_writable SECURE;
     want \<leftarrow> digest_at sha docs None writable_key;
     got \<leftarrow> audit_secure sha [SECURE] (pods_entry writable_key want) [] None YNull;
     Some (any_line ''stale entry'' got)
   }"

definition gone_runtime :: yaml where
  "gone_runtime = YMap [(''runtime'', YMap [(''connector'', YMap [(''rule'', YStr ''image''),
     (''created_by'', YStr ''Deployment/fixture/gone''), (''reason'', YStr ''fixture'')])])]"

definition check_runtime :: "(string \<Rightarrow> string) \<Rightarrow> bool option" where
  "check_runtime sha = do { got \<leftarrow> audit_secure sha [SECURE] gone_runtime [] None YNull; Some (any_line ''stale runtime entry'' got) }"

definition check_blind :: "(string \<Rightarrow> string) \<Rightarrow> bool option" where
  "check_blind sha = do { got \<leftarrow> audit_secure sha [[]] no_exceptions [] None YNull; Some (got \<noteq> []) }"

text \<open>The fixture moved to the release namespace, which no document creates.\<close>

definition to_release :: "doc \<Rightarrow> doc option" where
  "to_release d = do {
     m \<leftarrow> get_or_dict d ''metadata'';
     n \<leftarrow> dget m ''namespace'';
     if n = YStr ''fixture'' then edit_at [Key ''metadata''] (set_key ''namespace'' (YStr SECURE_NS)) d else Some d
   }"

definition release_docs :: "doc list option" where
  "release_docs = do { ds \<leftarrow> mfilter (\<lambda>d. do { k \<leftarrow> item d ''kind''; Some (k \<noteq> YStr ''Namespace'') }) SECURE; mmap to_release ds }"

definition check_release :: "(string \<Rightarrow> string) \<Rightarrow> string option \<Rightarrow> bool \<Rightarrow> bool option" where
  "check_release sha level want = do {
     docs \<leftarrow> release_docs;
     got \<leftarrow> audit_secure sha [docs] no_exceptions [] level YNull;
     Some (any_line '' namespace-label: '' got = want)
   }"

definition check_script :: "string \<times> string option \<Rightarrow> bool option" where
  "check_script = (\<lambda>(txt, want). Some (install_enforce_label txt = want))"

definition label_line :: "string \<Rightarrow> string" where
  "label_line level = ''kubectl label ns gibson '' @ ENFORCE @ ''='' @ level @ [CHR 0x0A]"

definition SCRIPTS_SECURE :: "(string \<times> string option) list" where
  "SCRIPTS_SECURE = [(label_line ''restricted'', Some ''restricted''),
     (label_line ''restricted'' @ label_line ''baseline'', Some ''baseline''),
     (''kubectl create namespace gibson'' @ [CHR 0x0A], None)]"

definition release_entry :: "string \<Rightarrow> yaml" where
  "release_entry dig = YMap [(''pods'', YMap [(release_key, YMap [(''digest'', YStr dig), (''reason'', YStr ''fixture'')])]), (''runtime'', YMap [])]"

definition check_release_entry :: "(string \<Rightarrow> string) \<Rightarrow> string \<Rightarrow> bool option" where
  "check_release_entry sha level = do {
     docs \<leftarrow> release_docs;
     want \<leftarrow> digest_at sha docs (Some ''privileged'') release_key;
     got \<leftarrow> audit_secure sha [docs] (release_entry want) [] (Some level) YNull;
     Some (any_line ''no entry can cover it'' got)
   }"

definition spire_fixture :: yaml where
  "spire_fixture = YStr ''spire-fixture''"

definition e_spire :: "doc list \<Rightarrow> doc list option" where
  "e_spire = edit_workload [Key ''metadata''] (set_key ''namespace'' spire_fixture)"

definition e_agent :: "doc list \<Rightarrow> doc list option" where
  "e_agent docs = do {
     ds \<leftarrow> edit_workload [Key ''metadata''] (\<lambda>m. do {
       ls \<leftarrow> dget_default m ''labels'' (YMap []);
       ls' \<leftarrow> set_key ''app.kubernetes.io/name'' (YStr ''agent'') ls;
       set_key ''labels'' ls' m
     }) docs;
     edit_workload [] (set_key ''kind'' (YStr ''DaemonSet'')) ds
   }"

definition check_spire :: "(string \<Rightarrow> string) \<Rightarrow> (doc list \<Rightarrow> doc list option) \<Rightarrow> string \<Rightarrow> bool \<Rightarrow> bool option" where
  "check_spire sha f txt want = do {
     docs \<leftarrow> f SECURE;
     got \<leftarrow> audit_secure sha [docs] no_exceptions [] None spire_fixture;
     Some (any_line txt got = want)
   }"

definition selftest_secure :: "(string \<Rightarrow> string) \<Rightarrow> int option" where
  "selftest_secure sha = selftest_rc
     ([check_base sha] @ map (check_rule sha) MUST_FAIL_SECURE
      @ [check_grant sha, check_entry sha, check_moved sha, check_stale sha, check_runtime sha, check_blind sha]
      @ map (\<lambda>level. check_release sha level True) [Some ''baseline'', Some ''privileged'', None]
      @ [check_release sha (Some ''restricted'') False] @ map check_script SCRIPTS_SECURE
      @ [check_release_entry sha ''privileged'', check_release_entry sha ''restricted'',
         check_spire sha Some ''privileged namespace'' False,
         check_spire sha e_spire ''Deployment/spire-fixture/app: only the SPIRE agent'' True,
         check_spire sha (\<lambda>docs. do { ds \<leftarrow> e_spire docs; e_agent ds }) ''privileged namespace'' False])"

definition main_secure :: "string list \<Rightarrow> (string \<Rightarrow> string) \<Rightarrow> (string \<Rightarrow> string list \<Rightarrow> string \<Rightarrow> doc list)
    \<Rightarrow> yaml \<Rightarrow> string \<Rightarrow> yaml \<Rightarrow> yaml \<Rightarrow> int option" where
  "main_secure args sha helm allowlist script values exceptions_file =
     (if ''--selftest'' \<in> set args then selftest_secure sha else do {
        renders \<leftarrow> render_secure helm;
        granted \<leftarrow> granted_accounts allowlist;
        let label = install_enforce_label script;
        if ''--print'' \<in> set args \<or> ''--entries'' \<in> set args
        then do { _ \<leftarrow> findings_secure renders granted label; Some 0 }
        else do {
          exceptions \<leftarrow> load_exceptions exceptions_file;
          spire \<leftarrow> spire_namespace values;
          bad \<leftarrow> audit_secure sha renders exceptions granted label spire;
          Some (if bad = [] then 0 else 1)
        }
      })"

section \<open>Evaluation\<close>

text \<open>The secure fixture passes; of the edits, one of each kind of finding is evaluated here.\<close>

lemma eval_network_base: "network_findings SECURE = Some []"
  by code_simp

lemma eval_base: "audit_secure sha [SECURE] no_exceptions [] None YNull = Some []"
  by code_simp

lemma eval_privileged: "check_rule sha (''restricted'', e_privileged) = Some True"
  by code_simp

lemma eval_egress_to_store: "check_rule sha (''network'', e_egress_to_store) = Some True"
  by code_simp

lemma eval_scripts: "list_all (\<lambda>x. check_script x = Some True) SCRIPTS_SECURE"
  by code_simp

section \<open>Witnesses\<close>

text \<open>The endpoints of the client and of the store of the fixture, and the rules of the fixture.\<close>

definition app_labels :: yaml where
  "app_labels = YMap [(''app'', YStr ''app''), (''gibson.zeroroot.ai/net-role'', YStr ''platform''), (''gibson.zeroroot.ai/client-redis'', YStr ''true'')]"

definition redis_labels :: yaml where
  "redis_labels = YMap [(''app'', YStr ''redis''), (''gibson.zeroroot.ai/net-role'', YStr ''datastore''), (''gibson.zeroroot.ai/datastore'', YStr ''redis'')]"

definition ep_fixture :: "yaml \<Rightarrow> yaml" where
  "ep_fixture labels = the (endpoint (YStr ''fixture'') labels)"

definition fixture_pods :: "net_pod list" where
  "fixture_pods = the (net_pods SECURE)"

definition fixture_rules :: "net_rule list" where
  "fixture_rules = the (rules SECURE (YStr SECURE_NS))"

lemma fixture_pods_eval:
  "net_pods SECURE = Some fixture_pods \<and> (''Deployment/fixture/app'', YStr ''fixture'', app_labels) \<in> set fixture_pods
   \<and> net_stores SECURE fixture_pods = Some [(ep_fixture redis_labels, YStr ''redis'')]"
  by code_simp

lemma fixture_rules_eval: "rules SECURE (YStr SECURE_NS) = Some fixture_rules"
  by code_simp

lemma fixture_reaches:
  "endpoint (YStr ''fixture'') app_labels = Some (ep_fixture app_labels)
   \<and> reaches fixture_rules (ep_fixture app_labels) (ep_fixture redis_labels) (YInt 6379) = Some True"
  by code_simp

theorem store_isolated_witness: "may_use_store app_labels (YStr ''redis'') = Some True"
  by (rule store_isolated [OF eval_network_base, of fixture_pods "''Deployment/fixture/app''" "YStr ''fixture''" app_labels
        "[(ep_fixture redis_labels, YStr ''redis'')]" "ep_fixture redis_labels" "YStr ''redis''" fixture_rules
        "ep_fixture app_labels" "YInt 6379"])
     (simp_all add: fixture_pods_eval fixture_rules_eval fixture_reaches)

text \<open>A pod of the release that is labelled for the internet, a SPIRE agent, and an entry for the
  writable root filesystem of the pod.\<close>

definition w_pod :: doc where
  "w_pod = YMap [(''kind'', YStr ''Pod''), (''metadata'', YMap [(''name'', YStr ''app''),
     (''labels'', YMap [(''gibson.zeroroot.ai/net-role'', YStr ''system''), (''gibson.zeroroot.ai/egress-internet'', YStr ''true'')])]),
     (''spec'', YMap [(''automountServiceAccountToken'', YBool False),
       (''containers'', YList [YMap [(''name'', YStr ''c''), (''image'', YStr (''ghcr.io/zeroroot-ai/a@sha256:'' @ replicate 64 (CHR ''0''))),
         (''securityContext'', YMap [(''runAsNonRoot'', YBool True), (''seccompProfile'', YMap [(''type'', YStr ''RuntimeDefault'')]),
            (''allowPrivilegeEscalation'', YBool False), (''capabilities'', YMap [(''drop'', YList [YStr ''ALL''])])])]])])]"

definition w_agent :: doc where
  "w_agent = YMap [(''kind'', YStr ''DaemonSet''), (''metadata'', YMap [(''name'', YStr ''agent''), (''namespace'', YStr ''spire''),
     (''labels'', YMap [(''app.kubernetes.io/name'', YStr ''agent'')])]),
     (''spec'', YMap [(''template'', YMap [(''metadata'', YMap [(''labels'', YMap [(''gibson.zeroroot.ai/net-role'', YStr ''system'')])]),
        (''spec'', YMap [(''automountServiceAccountToken'', YBool False)])])])]"

definition w_rule :: yaml where
  "w_rule = YMap [(''endpointSelector'', YMap [(''matchLabels'', YMap [(''gibson.zeroroot.ai/egress-internet'', YStr ''true'')])]),
     (''egress'', YList [to_world])]"

definition w_internet :: doc where
  "w_internet = YMap [(''kind'', YStr ''CiliumNetworkPolicy''), (''metadata'', YMap [(''name'', YStr ''i'')]), (''spec'', w_rule)]"

definition w_deny :: doc where
  "w_deny = YMap [(''kind'', YStr ''CiliumClusterwideNetworkPolicy''), (''metadata'', YMap [(''name'', YStr ''d'')]),
     (''spec'', YMap [(''endpointSelector'', YMap []), (''ingress'', YList [YMap []]),
       (''egress'', YList [YMap [(''toEndpoints'', YList [YMap [(''matchLabels'', YMap [(''k8s-app'', YStr ''kube-dns'')])]]),
          (''toPorts'', YList [YMap [(''ports'', YList [YMap [(''port'', YStr ''53'')]])]])]])])]"

definition w_namespace :: doc where
  "w_namespace = YMap [(''kind'', YStr ''Namespace''), (''metadata'', YMap [(''name'', YStr ''spire''),
     (''labels'', YMap [(''pod-security.kubernetes.io/enforce'', YStr ''restricted'')])])]"

definition w_docs :: "doc list" where
  "w_docs = [w_namespace, w_deny, w_internet, w_pod, w_agent]"

definition w_finding :: string where
  "w_finding = ''container c: readOnlyRootFilesystem is not true''"

definition w_listed :: dict where
  "w_listed = [(''Pod/gibson/app read-only'', YMap [(''digest'', YStr (digest (\<lambda>s. s) [w_finding])), (''reason'', YStr ''r'')])]"

definition w_exceptions :: yaml where
  "w_exceptions = YMap [(''pods'', YMap w_listed)]"

lemma eval_w_audit: "audit_secure (\<lambda>s. s) [w_docs] w_exceptions [] (Some ''restricted'') (YStr ''spire'') = Some []"
  by code_simp

lemma eval_w_findings: "findings_secure [w_docs] [] (Some ''restricted'') = Some [(''Pod/gibson/app read-only'', [w_finding])]"
  by code_simp

lemma eval_w_network:
  "network_findings w_docs = Some [] \<and> accounts_of w_docs = Some []
   \<and> labels_of_ns w_docs = Some [(YStr ''spire'', YMap [(''pod-security.kubernetes.io/enforce'', YStr ''restricted'')])]"
  by code_simp

lemma eval_w_rules: "pod_rules [] [] [] w_pod = Some (''Pod/gibson/app'', [(''restricted'', []), (''read-only'', [w_finding]), (''token'', []), (''network'', []), (''image'', [])])"
  by code_simp

lemma eval_w_pod: "is_workload w_pod = Some True \<and> secure_ns_of w_pod = Some (YStr SECURE_NS)
    \<and> is_workload w_agent = Some True \<and> secure_ns_of w_agent = Some (YStr ''spire'')"
  by code_simp

lemma w_pod_finding: "pod_finding [] w_docs ''Pod/gibson/app read-only'' w_finding"
proof -
  have "w_pod \<in> set w_docs" by (simp add: w_docs_def)
  moreover have "(''read-only'', [w_finding]) \<in> set [(''restricted'', []), (''read-only'', [w_finding]), (''token'', []), (''network'', []), (''image'', [])]"
    by simp
  moreover have "''Pod/gibson/app read-only'' = ''Pod/gibson/app'' @ '' '' @ ''read-only''" by simp
  ultimately show ?thesis
    unfolding pod_finding_def using eval_w_network eval_w_rules eval_w_pod
    by (metis list.set_intros(1))
qed

theorem findings_exact_witness:
  "w_finding \<in> set (dict_get [(''Pod/gibson/app read-only'', [w_finding])] ''Pod/gibson/app read-only'' [])"
  using findings_exact [OF eval_w_findings, of w_finding "''Pod/gibson/app read-only''"] w_pod_finding by simp

theorem audit_covers_witness:
  "\<exists>fnd listed entry. findings_secure [w_docs] [] (Some ''restricted'') = Some fnd \<and> w_finding \<in> set (dict_get fnd ''Pod/gibson/app read-only'' [])
    \<and> get_or_dict w_exceptions ''pods'' = Some (YMap listed) \<and> map_of listed ''Pod/gibson/app read-only'' = Some entry
    \<and> dget entry ''digest'' = Some (YStr (digest (\<lambda>s. s) (dict_get fnd ''Pod/gibson/app read-only'' [])))"
  using audit_covers [OF eval_w_audit _ w_pod_finding] by simp

theorem release_namespace_enforced_witness:
  "\<exists>label. audit_secure (\<lambda>s. s) [w_docs] w_exceptions [] label (YStr ''spire'') = Some [] \<and> label = Some ''restricted''"
proof (intro exI conjI)
  show "Some ''restricted'' = Some ''restricted''"
    by (rule release_namespace_enforced [OF eval_w_audit, of w_docs w_pod])
       (simp_all add: eval_w_pod eval_w_network, simp_all add: w_docs_def SECURE_NS_def)
qed (rule eval_w_audit)

theorem spire_namespace_closed_witness:
  "item w_agent ''kind'' = Some (YStr ''DaemonSet'') \<and>
    (\<exists>m ls. item w_agent ''metadata'' = Some m \<and> get_or_dict m ''labels'' = Some ls
      \<and> dget ls ''app.kubernetes.io/name'' \<in> {Some (YStr ''agent''), Some (YStr ''spiffe-csi-driver'')})"
  by (rule spire_namespace_closed [OF eval_w_audit, of w_docs]) (simp_all add: w_docs_def eval_w_pod)

theorem entries_not_stale_witness:
  "\<exists>x. \<exists>docs \<in> set [w_docs]. pod_finding [] docs ''Pod/gibson/app read-only'' x \<or> namespace_finding (Some ''restricted'') docs ''Pod/gibson/app read-only'' x"
  by (rule entries_not_stale [OF eval_w_audit, of w_listed]) (simp_all add: w_exceptions_def w_listed_def)

definition w_labels :: yaml where
  "w_labels = YMap [(''gibson.zeroroot.ai/net-role'', YStr ''system''), (''gibson.zeroroot.ai/egress-internet'', YStr ''true'')]"

definition w_ep :: yaml where
  "w_ep = the (endpoint (YStr SECURE_NS) w_labels)"

lemma eval_w_net:
  "net_pods w_docs = Some (the (net_pods w_docs)) \<and> (''Pod/gibson/app'', YStr SECURE_NS, w_labels) \<in> set (the (net_pods w_docs))
   \<and> rules w_docs (YStr SECURE_NS) = Some (the (rules w_docs (YStr SECURE_NS)))
   \<and> (w_internet, w_rule, YStr SECURE_NS) \<in> set (the (rules w_docs (YStr SECURE_NS)))
   \<and> endpoint (YStr SECURE_NS) w_labels = Some w_ep \<and> rule_selects w_rule (YStr SECURE_NS) w_ep = Some True
   \<and> egress_world w_rule = Some True"
  by code_simp

theorem internet_needs_label_witness: "dget w_labels (NET @ ''egress-internet'') = Some (YStr ''true'')"
  by (rule internet_needs_label [of w_docs "[]" _ "''Pod/gibson/app''" "YStr SECURE_NS" w_labels _ w_ep w_internet w_rule "YStr SECURE_NS"])
     (use eval_w_net eval_w_network in \<open>auto\<close>)

end
