(* ===== verification/WalContinuity.thy ===== *)
theory WalContinuity
  imports Prelude
begin

text \<open>
  \<^verbatim>\<open>src/scripts/lib/wal-continuity.py\<close>: is the archive of Postgres WAL segments continuous from the
  base backup on? The listing of the bucket is the list of its lines. The theory proves that the
  name of a segment and its index are inverse to each other inside a timeline, that a positive
  answer leaves no hole after the backup, and that every archive without a hole is accepted.
\<close>

section \<open>Names and indices\<close>

definition is_hex_upper :: "char \<Rightarrow> bool" where
  "is_hex_upper c = (is_digit c \<or> c \<in> set ''ABCDEF'')"

text \<open>\<^verbatim>\<open>SEGMENT.match(s)\<close> for \<^verbatim>\<open>^[0-9A-F]{24}$\<close>; \<^verbatim>\<open>$\<close> matches before a final newline too.\<close>

definition segment_name :: "string \<Rightarrow> bool" where
  "segment_name s = (length s = 24 \<and> list_all is_hex_upper s)"

definition is_segment :: "string \<Rightarrow> bool" where
  "is_segment s = (segment_name s \<or> (s \<noteq> [] \<and> last s = CHR 0x0A \<and> segment_name (butlast s)))"

text \<open>\<^verbatim>\<open>int(s, 16)\<close> on upper-case hexadecimal digits.\<close>

definition hex_val :: "char \<Rightarrow> int" where
  "hex_val c = (if is_digit c then of_char c - 48 else of_char c - 55)"

definition hex_int :: "string \<Rightarrow> int" where
  "hex_int s = fold (\<lambda>c n. 16 * n + hex_val c) s 0"

definition segment_index :: "string \<Rightarrow> int" where
  "segment_index name = hex_int (take 8 (drop 8 name)) * 256 + hex_int (take 8 (drop 16 name))"

section \<open>The listing\<close>

definition COMPRESSION :: "string list" where
  "COMPRESSION = [''.gz'', ''.zst'', ''.lz4'', ''.snappy'', ''.bz2'', ''.xz'']"

text \<open>\<^verbatim>\<open>line.split()\<close> and \<^verbatim>\<open>os.path.basename(p)\<close>.\<close>

fun split_blanks :: "string \<Rightarrow> string list" where
  "split_blanks [] = [[]]"
| "split_blanks (c # cs) =
     (if py_space c then [] # split_blanks cs
      else (case split_blanks cs of [] \<Rightarrow> [[c]] | w # ws \<Rightarrow> (c # w) # ws))"

definition py_words :: "string \<Rightarrow> string list" where
  "py_words s = filter (\<lambda>w. w \<noteq> []) (split_blanks s)"

definition basename :: "string \<Rightarrow> string" where
  "basename p = rev (takeWhile (\<lambda>c. c \<noteq> CHR ''/'') (rev p))"

fun drop_suffix :: "string list \<Rightarrow> string \<Rightarrow> string" where
  "drop_suffix [] s = s"
| "drop_suffix (x # xs) s = (if endswith s x then take (length s - length x) s else drop_suffix xs s)"

definition parse_line :: "string \<Rightarrow> string list" where
  "parse_line line =
     (let parts = py_words line in
      if parts = [] then []
      else let name = drop_suffix COMPRESSION (basename (last parts)) in if is_segment name then [name] else [])"

definition parse_listing :: "string list \<Rightarrow> string list" where
  "parse_listing lines = mk_set (concat (map parse_line lines))"

section \<open>The check\<close>

datatype wal_result =
    Usage
  | NothingArchived
  | NoTimeline string
  | NotArchived string string
  | Gaps nat int string
  | Continuous int string

definition timeline_of :: "string list \<Rightarrow> string \<Rightarrow> string" where
  "timeline_of names begin_wal = (if is_segment begin_wal then take 8 begin_wal else Max (set (map (take 8) names)))"

text \<open>The first of the two named segments that is not in the archive.\<close>

definition unarchived :: "string list \<Rightarrow> string \<Rightarrow> string \<Rightarrow> (string \<times> string) option" where
  "unarchived names begin_wal end_wal =
     find (\<lambda>(label, wal). wal \<noteq> [] \<and> wal \<notin> set names) [(''beginWal'', begin_wal), (''endWal'', end_wal)]"

definition wal_check :: "string list \<Rightarrow> string \<Rightarrow> string \<Rightarrow> wal_result" where
  "wal_check names begin_wal end_wal =
     (if names = [] then NothingArchived
      else let timeline = timeline_of names begin_wal;
               on_timeline = sort (filter (\<lambda>n. take 8 n = timeline) names) in
        if on_timeline = [] then NoTimeline timeline
        else case unarchived names begin_wal end_wal of
            Some (label, wal) \<Rightarrow> NotArchived label wal
          | None \<Rightarrow>
             let first = (if begin_wal \<in> set names then segment_index begin_wal else segment_index (hd on_timeline));
                 present = map segment_index on_timeline;
                 final = Max (set present);
                 missing = filter (\<lambda>i. i \<notin> set present) [first..final] in
             if missing \<noteq> [] then Gaps (length missing) (hd missing) timeline
             else Continuous (final - first + 1) timeline)"

fun wal_exit :: "wal_result \<Rightarrow> int" where
  "wal_exit Usage = 2"
| "wal_exit (Continuous n t) = 0"
| "wal_exit _ = 1"

text \<open>\<open>read\<close> stands for the lines of the file that the first argument names.\<close>

definition main_wal :: "(string \<Rightarrow> string list) \<Rightarrow> string list \<Rightarrow> int" where
  "main_wal read argv =
     (if length argv \<noteq> 4 then wal_exit Usage
      else wal_exit (wal_check (parse_listing (read (argv ! 1))) (argv ! 2) (argv ! 3)))"

section \<open>Lemmas\<close>

subsection \<open>Hexadecimal numbers\<close>

text \<open>The writer: the digits of a number in a fixed width, and the name of the segment with an index.\<close>

definition hex_digit :: "int \<Rightarrow> char" where
  "hex_digit d = char_of (if d < 10 then nat d + 48 else nat d + 55)"

fun hex_fixed :: "nat \<Rightarrow> int \<Rightarrow> string" where
  "hex_fixed 0 n = []"
| "hex_fixed (Suc k) n = hex_fixed k (n div 16) @ [hex_digit (n mod 16)]"

definition wal_name :: "string \<Rightarrow> int \<Rightarrow> string" where
  "wal_name timeline i = timeline @ hex_fixed 8 (i div 256) @ hex_fixed 8 (i mod 256)"

lemma hex_digit_cases:
  assumes "0 \<le> d" "d < 16"
  shows "hex_val (hex_digit d) = d \<and> is_hex_upper (hex_digit d)"
proof -
  have "d \<in> {0..15}" using assms by simp
  then have "d \<in> set [0..15]" by simp
  moreover have "\<forall>d \<in> set [0..15]. hex_val (hex_digit d) = d \<and> is_hex_upper (hex_digit d)"
    by code_simp
  ultimately show ?thesis by blast
qed

lemma hex_upper_chars: "is_hex_upper c \<Longrightarrow> c \<in> set ''0123456789ABCDEF''"
proof (cases "is_digit c")
  case True
  then have "c \<in> char_of ` {48..<58 :: nat}"
    by (intro image_eqI [of _ _ "of_char c"]) (auto simp: is_digit_def)
  moreover have "char_of ` {48..<58 :: nat} \<subseteq> set ''0123456789ABCDEF''" by code_simp
  ultimately show ?thesis by blast
next
  case False
  assume "is_hex_upper c"
  with False show ?thesis by (auto simp: is_hex_upper_def)
qed

lemma hex_val_cases:
  assumes "is_hex_upper c"
  shows "0 \<le> hex_val c \<and> hex_val c < 16 \<and> hex_digit (hex_val c) = c"
proof -
  have "\<forall>c \<in> set ''0123456789ABCDEF''. 0 \<le> hex_val c \<and> hex_val c < 16 \<and> hex_digit (hex_val c) = c"
    by code_simp
  with hex_upper_chars [OF assms] show ?thesis by blast
qed

lemma hex_int_snoc: "hex_int (s @ [c]) = 16 * hex_int s + hex_val c"
  by (simp add: hex_int_def)

lemma length_hex_fixed [simp]: "length (hex_fixed k n) = k"
  by (induction k n rule: hex_fixed.induct) auto

lemma hex_fixed_hex: "list_all is_hex_upper (hex_fixed k n)"
  by (induction k n rule: hex_fixed.induct) (auto simp: hex_digit_cases)

lemma hex_int_fixed: "0 \<le> n \<Longrightarrow> n < 16 ^ k \<Longrightarrow> hex_int (hex_fixed k n) = n"
proof (induction k n rule: hex_fixed.induct)
  case (1 n)
  then show ?case by (simp add: hex_int_def)
next
  case (2 k n)
  then have "n div 16 < 16 ^ k" by (simp add: div_less_iff_less_mult mult.commute)
  with 2 have "hex_int (hex_fixed k (n div 16)) = n div 16" by (simp add: pos_imp_zdiv_nonneg_iff)
  then show ?case using hex_digit_cases [of "n mod 16"] by (simp add: hex_int_snoc)
qed

lemma hex_fixed_int: "list_all is_hex_upper s \<Longrightarrow> hex_fixed (length s) (hex_int s) = s"
proof (induction s rule: rev_induct)
  case Nil
  then show ?case by simp
next
  case (snoc c s)
  then have "0 \<le> hex_val c" "hex_val c < 16" "hex_digit (hex_val c) = c" using hex_val_cases by auto
  with snoc show ?case by (simp add: hex_int_snoc)
qed

lemma hex_int_nonneg: "list_all is_hex_upper s \<Longrightarrow> 0 \<le> hex_int s"
  by (induction s rule: rev_induct) (auto simp: hex_int_snoc hex_int_def hex_val_cases)

subsection \<open>The listing\<close>

lemma split_blanks_append: "py_space c \<Longrightarrow> split_blanks (a @ c # b) = split_blanks a @ split_blanks b"
proof (induction a)
  case (Cons x a)
  have "split_blanks a \<noteq> []" for a by (cases a) (auto split: list.splits)
  with Cons show ?case by (auto split: list.splits)
qed simp

lemma split_blanks_word: "\<not> list_ex py_space w \<Longrightarrow> split_blanks w = [w]"
  by (induction w) auto

lemma py_words_last: "py_space c \<Longrightarrow> \<not> list_ex py_space w \<Longrightarrow> w \<noteq> [] \<Longrightarrow> \<exists>ws. py_words (a @ c # w) = ws @ [w]"
  by (simp add: py_words_def split_blanks_append split_blanks_word)

lemma basename_path: "CHR ''/'' \<notin> set n \<Longrightarrow> basename (dir @ CHR ''/'' # n) = n"
  by (auto simp: basename_def takeWhile_append)

lemma segment_chars: "segment_name s \<Longrightarrow> c \<in> set s \<Longrightarrow> c \<in> set ''0123456789ABCDEF''"
  by (rule hex_upper_chars) (auto simp: segment_name_def list_all_iff)

lemma segment_word:
  assumes "segment_name s" "x \<in> set ([] # COMPRESSION)"
  shows "\<not> list_ex py_space (s @ x) \<and> CHR ''/'' \<notin> set (s @ x)"
proof -
  let ?ok = "\<lambda>c. \<not> py_space c \<and> c \<noteq> CHR ''/''"
  have "\<forall>c \<in> set ''0123456789ABCDEF''. ?ok c" by code_simp
  then have s: "\<forall>c \<in> set s. ?ok c" using segment_chars [OF assms(1)] by blast
  have "\<forall>x \<in> set ([] # COMPRESSION). \<forall>c \<in> set x. ?ok c" by code_simp
  then have "\<forall>c \<in> set x. ?ok c" using assms(2) by blast
  with s show ?thesis by (auto simp: list_ex_iff)
qed

lemma drop_suffix_name:
  assumes "segment_name s" "x \<in> set ([] # COMPRESSION)"
  shows "drop_suffix COMPRESSION (s @ x) = s"
proof -
  let ?ok = "\<lambda>c. c \<noteq> CHR ''z'' \<and> c \<noteq> CHR ''t'' \<and> c \<noteq> CHR ''y''"
  have "\<forall>c \<in> set ''0123456789ABCDEF''. ?ok c" by code_simp
  then have ok: "?ok c" if "c \<in> set s" for c using segment_chars [OF assms(1) that] by blast
  obtain u where u: "s = rev u" "2 \<le> length u"
    using assms(1) by (intro that [of "rev s"]) (auto simp: segment_name_def)
  then obtain c d t where "u = c # d # t" by (cases u; cases "tl u") auto
  with u(1) have s: "s = rev t @ [d, c]" by simp
  with ok have "?ok c" "?ok d" by simp_all
  with assms(2) show ?thesis
    by (auto simp: COMPRESSION_def endswith_def suffix_to_prefix s)
qed

text \<open>Every name of a listing is a segment name.\<close>

lemma split_blanks_no_blank: "w \<in> set (split_blanks s) \<Longrightarrow> \<not> list_ex py_space w"
  by (induction s arbitrary: w) (auto split: if_splits list.splits)

lemma drop_suffix_prefix: "\<exists>k. drop_suffix xs s = take k s"
  by (induction xs) (auto intro: exI [of _ "length s"])

lemma parse_listing_segments:
  assumes "n \<in> set (parse_listing lines)"
  shows "segment_name n"
proof -
  obtain line where seg: "is_segment n" and "py_words line \<noteq> []"
    and n: "n = drop_suffix COMPRESSION (basename (last (py_words line)))"
    using assms by (auto simp: parse_listing_def parse_line_def Let_def split: if_splits)
  then have "last (py_words line) \<in> set (split_blanks line)"
    using last_in_set [of "py_words line"] by (auto simp: py_words_def)
  then have "\<not> list_ex py_space (last (py_words line))" by (rule split_blanks_no_blank)
  then have "\<not> list_ex py_space (basename (last (py_words line)))"
    by (auto simp: basename_def list_ex_iff dest!: set_takeWhileD)
  then have "\<not> list_ex py_space n"
    using drop_suffix_prefix [of COMPRESSION "basename (last (py_words line))"] n by (auto simp: list_ex_iff dest!: in_set_takeD)
  then have "n = [] \<or> last n \<noteq> CHR 0x0A" by (cases n rule: rev_cases) (auto simp: py_space_def)
  with seg show ?thesis by (auto simp: is_segment_def segment_name_def)
qed

subsection \<open>The check\<close>

lemma unarchived_None: "unarchived names b e = None \<longleftrightarrow> (b = [] \<or> b \<in> set names) \<and> (e = [] \<or> e \<in> set names)"
  by (auto simp: unarchived_def)

lemma wal_check_Continuous:
  assumes "b \<in> set names" "segment_name b" "e = [] \<or> e \<in> set names"
  shows "(\<exists>n t. wal_check names b e = Continuous n t) \<longleftrightarrow>
    (\<forall>i \<ge> segment_index b. (\<exists>m \<in> set names. take 8 m = take 8 b \<and> i \<le> segment_index m)
        \<longrightarrow> (\<exists>s \<in> set names. take 8 s = take 8 b \<and> segment_index s = i))"
proof -
  let ?on = "sort (filter (\<lambda>n. take 8 n = take 8 b) names)"
  have tl: "timeline_of names b = take 8 b" using assms(2) by (simp add: timeline_of_def is_segment_def)
  have ne: "names \<noteq> []" "?on \<noteq> []" "set ?on \<noteq> {}" using assms(1) by (auto simp flip: set_empty)
  have un: "unarchived names b e = None" using assms(1,3) by (simp add: unarchived_None)
  have on: "i \<in> segment_index ` set ?on \<longleftrightarrow> (\<exists>s \<in> set names. take 8 s = take 8 b \<and> segment_index s = i)"
    "(\<exists>m \<in> set ?on. i \<le> segment_index m) \<longleftrightarrow> (\<exists>m \<in> set names. take 8 m = take 8 b \<and> i \<le> segment_index m)" for i
    by auto
  have "(\<exists>n t. wal_check names b e = Continuous n t) \<longleftrightarrow>
      filter (\<lambda>i. i \<notin> set (map segment_index ?on)) [segment_index b..Max (set (map segment_index ?on))] = []"
    by (simp add: wal_check_def tl ne un assms(1) Let_def)
  also have "\<dots> \<longleftrightarrow> (\<forall>i \<ge> segment_index b. (\<exists>m \<in> set ?on. i \<le> segment_index m) \<longrightarrow> i \<in> segment_index ` set ?on)"
  proof -
    have "i \<le> Max (segment_index ` set ?on) \<longleftrightarrow> (\<exists>m \<in> set ?on. i \<le> segment_index m)" for i
      using ne(3) by (subst Max_ge_iff) (simp_all del: set_sort)
    then show ?thesis by (simp only: filter_empty_conv set_upto atLeastAtMost_iff set_map not_not Ball_def) blast
  qed
  finally show ?thesis unfolding on .
qed

lemma wal_name_segment: "length t = 8 \<Longrightarrow> list_all is_hex_upper t \<Longrightarrow> segment_name (wal_name t i)"
  by (simp add: segment_name_def wal_name_def hex_fixed_hex)

lemma wal_name_index:
  assumes "length t = 8" "0 \<le> i" "i < 2 ^ 40"
  shows "segment_index (wal_name t i) = i"
proof -
  have "i div 256 < 16 ^ 8" using assms(2,3) by (simp add: div_less_iff_less_mult)
  moreover have "i mod 256 < 16 ^ 8" using pos_mod_bound [of 256 i] by simp
  ultimately have "hex_int (hex_fixed 8 (i div 256)) = i div 256" "hex_int (hex_fixed 8 (i mod 256)) = i mod 256"
    using assms(2) by (auto intro!: hex_int_fixed simp: pos_imp_zdiv_nonneg_iff)
  then show ?thesis by (simp add: segment_index_def wal_name_def assms(1))
qed

section \<open>Properties\<close>

text \<open>The index of a segment name round-trips: the name that a timeline and an index below the
  2^40 segments of a timeline make is listed by a line of the bucket listing, with any
  compression suffix, as itself, and its index is the index it was made from.\<close>

theorem wal_listing_roundtrip:
  assumes "length t = 8" "list_all is_hex_upper t" "0 \<le> i" "i < 2 ^ 40"
    and "\<not> list_ex py_space dir" "x \<in> set ([] # COMPRESSION)"
  shows "map segment_index (parse_line (pre @ '' '' @ dir @ ''/'' @ wal_name t i @ x)) = [i]"
proof -
  let ?s = "wal_name t i"
  have s: "segment_name ?s" using assms(1,2) by (rule wal_name_segment)
  have w: "\<not> list_ex py_space (dir @ ''/'' @ ?s @ x)"
    using segment_word [OF s assms(6)] assms(5) by (auto simp: py_space_def)
  then obtain ws where "py_words (pre @ CHR '' '' # (dir @ ''/'' @ ?s @ x)) = ws @ [dir @ ''/'' @ ?s @ x]"
    using py_words_last [of "CHR '' ''" "dir @ ''/'' @ ?s @ x" pre] by (auto simp: py_space_def)
  moreover have "basename (dir @ ''/'' @ ?s @ x) = ?s @ x"
    using basename_path [of "?s @ x" dir] segment_word [OF s assms(6)] by simp
  ultimately have "parse_line (pre @ '' '' @ dir @ ''/'' @ ?s @ x) = [?s]"
    using drop_suffix_name [OF s assms(6)] s by (simp add: parse_line_def Let_def is_segment_def)
  then show ?thesis using wal_name_index assms by simp
qed

theorem wal_listing_roundtrip_witness:
  "map segment_index (parse_line (''2026-10-01 12:00:00 16777216'' @ '' '' @ ''base/wals'' @ ''/'' @ wal_name ''00000001'' 511 @ ''.gz'')) = [511]"
  by (rule wal_listing_roundtrip) (simp_all add: is_hex_upper_def is_digit_def py_space_def COMPRESSION_def)


text \<open>No silent success: exit code 0 means that exactly three arguments were given, that each of
  the two segments that the caller names is archived, and that something is archived.\<close>

theorem main_wal_archived:
  assumes "main_wal read argv = 0"
  shows "length argv = 4 \<and> parse_listing (read (argv ! 1)) \<noteq> []
    \<and> (\<forall>w \<in> {argv ! 2, argv ! 3}. w = [] \<or> w \<in> set (parse_listing (read (argv ! 1))))"
proof -
  have one: "wal_exit r = 0 \<Longrightarrow> \<exists>n t. r = Continuous n t" for r by (cases r) auto
  from assms have "length argv = 4" by (auto simp: main_wal_def split: if_splits)
  moreover from assms obtain n t where "wal_check (parse_listing (read (argv ! 1))) (argv ! 2) (argv ! 3) = Continuous n t"
    by (auto simp: main_wal_def split: if_splits dest!: one)
  then have "parse_listing (read (argv ! 1)) \<noteq> []" "unarchived (parse_listing (read (argv ! 1))) (argv ! 2) (argv ! 3) = None"
    by (auto simp: wal_check_def Let_def split: if_splits option.splits)
  ultimately show ?thesis by (auto simp: unarchived_None)
qed

definition wal_sample :: "string list" where
  "wal_sample = [''2026-10-01 12:00:00 16777216 base/wals/0000000100000000000000FE.gz'',
                 ''2026-10-01 12:05:00 16777216 base/wals/0000000100000000000000FF.zst'',
                 ''2026-10-01 12:10:00 16777216 base/wals/000000010000000100000000'']"

lemma wal_sample_names:
  "parse_listing wal_sample = [''0000000100000000000000FE'', ''0000000100000000000000FF'', ''000000010000000100000000'']"
  by code_simp

lemma wal_sample_check: "wal_check (parse_listing wal_sample) ''0000000100000000000000FE'' [] = Continuous 3 ''00000001''"
  by code_simp


theorem main_wal_archived_witness:
  "''0000000100000000000000FE'' \<in> set (parse_listing wal_sample)"
proof -
  have "main_wal (\<lambda>_. wal_sample) [[], [], ''0000000100000000000000FE'', []] = 0"
    by (simp add: main_wal_def wal_sample_check)
  from main_wal_archived [OF this] show ?thesis by simp
qed

end
