(* ===== verification/UpgradePair.thy ===== *)
theory UpgradePair
  imports Prelude
begin

text \<open>
  \<^verbatim>\<open>src/scripts/resolve-upgrade-pair.py\<close>: the published chart version to upgrade from, and the one
  to upgrade to. The answers of the registry are a parameter. The theory proves that the loop
  over the pages returns every tag, that \<^verbatim>\<open>previous\<close> returns the greatest version below the
  target in version order, and that a run that succeeds names a real upgrade between published
  versions. Tags that differ only in how they write a number (01 and 1) compare equal; Python
  leaves open which of them a set yields first, so the theorems speak of version keys.
\<close>

definition REPO :: string where
  "REPO = ''zeroroot-ai/charts/gibson''"

definition REGISTRY_URL :: string where
  "REGISTRY_URL = ''https://ghcr.io''"

definition MIN_TAGS :: nat where
  "MIN_TAGS = 20"

text \<open>\<^verbatim>\<open>SEMVER.match(s)\<close> for \<^verbatim>\<open>^\d+\.\d+\.\d+$\<close>; \<^verbatim>\<open>$\<close> matches before a final newline too.\<close>

definition digits :: "string \<Rightarrow> bool" where
  "digits s = (s \<noteq> [] \<and> list_all is_digit s)"

definition semver_core :: "string \<Rightarrow> bool" where
  "semver_core s = (case split_all (CHR ''.'') s of [a, b, c] \<Rightarrow> digits a \<and> digits b \<and> digits c | _ \<Rightarrow> False)"

definition is_semver :: "string \<Rightarrow> bool" where
  "is_semver s = (semver_core s \<or> (s \<noteq> [] \<and> last s = CHR 0x0A \<and> semver_core (butlast s)))"

text \<open>\<^verbatim>\<open>tuple(int(x) for x in v.split("."))\<close>; tuples compare lexicographically, as lists do here.\<close>

definition version_key :: "string \<Rightarrow> int list option" where
  "version_key v = mmap py_int (split_all (CHR ''.'') v)"

definition key_or :: "string \<Rightarrow> int list" where
  "key_or v = (case version_key v of None \<Rightarrow> [] | Some k \<Rightarrow> k)"

definition key_less :: "string \<Rightarrow> string \<Rightarrow> bool option" where
  "key_less t to = do { a \<leftarrow> version_key t; b \<leftarrow> version_key to; Some (a < b) }"

definition previous :: "string list \<Rightarrow> string \<Rightarrow> string option option" where
  "previous tags to = do {
     let published = mk_set (filter is_semver tags);
     _ \<leftarrow> mmap version_key published;
     below \<leftarrow> mfilter (\<lambda>t. key_less t to) (sort_key key_or published);
     Some (if below = [] then None else Some (last below))
   }"

text \<open>Why a named version cannot be the one to upgrade from.\<close>

datatype named_problem = NotSemver string | NotPublished string | NotBelow string string

definition named :: "string list \<Rightarrow> string \<Rightarrow> string \<Rightarrow> named_problem option option" where
  "named tags to frm =
     (if \<not> is_semver frm then Some (Some (NotSemver frm))
      else if frm \<notin> set tags then Some (Some (NotPublished frm))
      else do {
        a \<leftarrow> version_key frm;
        b \<leftarrow> version_key to;
        Some (if b \<le> a then Some (NotBelow frm to) else None)
      })"

fun show_named :: "named_problem \<Rightarrow> string" where
  "show_named (NotSemver frm) = ''--from '' @ frm @ '' is not a bare semver''"
| "show_named (NotPublished frm) = ''--from '' @ frm @ '' is not a published version''"
| "show_named (NotBelow frm to) = ''--from '' @ frm @ '' is not below '' @ to @ '': that is not an upgrade''"

section \<open>The registry\<close>

text \<open>\<open>fetch url\<close> stands for the tags and the Link header of the response to an authorised request
  (an empty header when there is none), \<open>None\<close> when the request fails.\<close>

type_synonym registry = "string \<Rightarrow> (string list \<times> string) option"

definition next_url :: "string \<Rightarrow> string option" where
  "next_url link =
     (if sublist (''rel='' @ [CHR 0x22] @ ''next'' @ [CHR 0x22]) link
      then let nxt = strip_set ''<> '' (fst (split_once (CHR '';'') link)) in
        Some (if startswith nxt ''http'' then nxt else REGISTRY_URL @ nxt)
      else None)"

definition first_url :: string where
  "first_url = REGISTRY_URL @ ''/v2/'' @ REPO @ ''/tags/list?n=1000''"

definition MAX_PAGES :: nat where
  "MAX_PAGES = 50"

text \<open>\<^verbatim>\<open>while url and pages < 50\<close>: the number of pages still allowed decreases.\<close>

fun tag_pages :: "registry \<Rightarrow> nat \<Rightarrow> string option \<Rightarrow> string list \<Rightarrow> string list option" where
  "tag_pages fetch 0 url out = Some out"
| "tag_pages fetch (Suc n) None out = Some out"
| "tag_pages fetch (Suc n) (Some url) out = do { (tags, link) \<leftarrow> fetch url; tag_pages fetch n (next_url link) (out @ tags) }"

definition all_tags :: "registry \<Rightarrow> string list option" where
  "all_tags fetch = tag_pages fetch MAX_PAGES (Some first_url) []"

section \<open>The run\<close>

text \<open>\<^verbatim>\<open>sys.argv[sys.argv.index(flag) + 1]\<close>: IndexError when nothing follows the flag.\<close>

fun arg_after :: "string \<Rightarrow> string list \<Rightarrow> string option" where
  "arg_after flag [] = None"
| "arg_after flag (x # xs) = (if x = flag then (case xs of [] \<Rightarrow> None | y # ys \<Rightarrow> Some y) else arg_after flag xs)"

text \<open>\<^verbatim>\<open>max(sem, key=key)\<close>: the first greatest.\<close>

fun greatest :: "string list \<Rightarrow> string \<Rightarrow> string option" where
  "greatest [] best = Some best"
| "greatest (t # ts) best = do { lt \<leftarrow> key_less best t; greatest ts (if lt then t else best) }"

definition newest :: "string list \<Rightarrow> string option" where
  "newest ts = (case ts of [] \<Rightarrow> None | t # ts' \<Rightarrow> do { _ \<leftarrow> version_key t; greatest ts' t })"

definition target :: "string list \<Rightarrow> string list \<Rightarrow> string option" where
  "target argv published = (if ''--to'' \<in> set argv then arg_after ''--to'' argv else newest published)"

datatype run_result =
    PartialRead nat
  | Refused named_problem
  | NothingBelow string
  | Upgrade string string

definition resolve :: "string list \<Rightarrow> registry \<Rightarrow> run_result option" where
  "resolve argv fetch = do {
     _ \<leftarrow> (if ''--to'' \<in> set argv then arg_after ''--to'' argv else Some []);
     tags \<leftarrow> all_tags fetch;
     let published = filter is_semver tags;
     if length published < MIN_TAGS then Some (PartialRead (length published)) else do {
     to \<leftarrow> target argv published;
     frm \<leftarrow> (if ''--from'' \<in> set argv then arg_after ''--from'' argv else Some []);
     if frm \<noteq> [] then do {
       why \<leftarrow> named tags to frm;
       Some (case why of Some p \<Rightarrow> Refused p | None \<Rightarrow> Upgrade frm to)
     }
     else do {
       prev \<leftarrow> previous tags to;
       Some (case prev of None \<Rightarrow> NothingBelow to | Some p \<Rightarrow> Upgrade p to)
     } }
   }"

fun run_exit :: "run_result \<Rightarrow> int" where
  "run_exit (Upgrade p to) = 0"
| "run_exit _ = 1"

section \<open>The selftest\<close>

definition PREVIOUS_CASES :: "(string list \<times> string \<times> string option) list" where
  "PREVIOUS_CASES =
     [([''0.9.0'', ''0.10.0'', ''0.10.1''], ''0.10.1'', Some ''0.10.0''),
      ([''0.132.9'', ''0.132.14'', ''0.136.0''], ''0.136.1'', Some ''0.136.0''),
      ([''0.132.9'', ''0.132.14''], ''0.136.1'', Some ''0.132.14''),
      ([''1.0.0''], ''1.0.0'', None),
      ([], ''1.0.0'', None)]"

definition NAMED_CASES :: "(string \<times> string option) list" where
  "NAMED_CASES = [(''0.136.2'', None), (''0.136.6'', Some ''not below''), (''0.137.0'', Some ''not a published''),
     (''9.9.9'', Some ''not a published''), (''latest'', Some ''not a bare semver'')]"

definition named_case_ok :: "string \<times> string option \<Rightarrow> bool option" where
  "named_case_ok = (\<lambda>(frm, want). do {
     got \<leftarrow> named [''0.136.2'', ''0.136.5'', ''0.136.6'', ''latest''] ''0.136.6'' frm;
     Some (case (got, want) of
         (None, None) \<Rightarrow> True
       | (Some p, Some w) \<Rightarrow> sublist w (show_named p)
       | _ \<Rightarrow> False)
   })"

definition selftest_pair :: "int option" where
  "selftest_pair = selftest_rc
     (map (\<lambda>(tags, to, want). do { got \<leftarrow> previous tags to; Some (got = want) }) PREVIOUS_CASES
      @ [do { got \<leftarrow> previous [''latest'', ''sha-abc1234'', ''0.5.0''] ''0.6.0''; Some (got = Some ''0.5.0'') }]
      @ map named_case_ok NAMED_CASES)"

definition main_pair :: "string list \<Rightarrow> registry \<Rightarrow> int option" where
  "main_pair argv fetch =
     (if ''--selftest'' \<in> set argv then selftest_pair else map_option run_exit (resolve argv fetch))"

lemma selftest_pair_ok: "selftest_pair = Some 0"
  by code_simp

section \<open>Lemmas\<close>

lemma digit_not_special: "is_digit c \<Longrightarrow> \<not> py_space c \<and> c \<noteq> CHR ''-'' \<and> c \<noteq> CHR ''+'' \<and> c \<noteq> CHR ''_''"
  by (auto simp: py_space_def is_digit_def)

lemma int_digits_total: "list_all is_digit s \<Longrightarrow> \<exists>k. int_digits s acc = Some k"
  by (induction s arbitrary: acc) auto

lemma dropWhile_stays: "xs \<noteq> [] \<Longrightarrow> \<not> P (hd xs) \<Longrightarrow> dropWhile P xs = xs"
  by (cases xs) auto

lemma py_int_digits:
  assumes "digits s" "set t \<subseteq> {CHR 0x0A}"
  shows "\<exists>k. py_int (s @ t) = Some k"
proof -
  obtain c cs where s: "s = c # cs" "is_digit c" "list_all is_digit cs" using assms(1) by (cases s) (auto simp: digits_def)
  have "last s \<in> set s" using s(1) by simp
  then have "is_digit (last s)" using assms(1) by (auto simp: digits_def list_all_iff)
  moreover have "s \<noteq> []" using s(1) by simp
  ultimately have "dropWhile py_space (rev s) = rev s"
    using digit_not_special by (intro dropWhile_stays) (simp_all add: hd_rev)
  moreover have "dropWhile py_space (rev t @ rev s) = dropWhile py_space (rev s)"
    using assms(2) by (intro dropWhile_append2) (auto simp: py_space_def)
  ultimately have "strip (s @ t) = s" using s(1) digit_not_special [OF s(2)] by (simp add: strip_def)
  then show ?thesis
    using int_digits_total [OF s(3), of "digit_val c"] s(1,2) digit_not_special [OF s(2)] by (simp add: py_int_def Let_def unsigned_int_def)
qed

lemma split_all_snoc:
  "x \<noteq> c \<Longrightarrow> split_all c (s @ [x]) = butlast (split_all c s) @ [last (split_all c s) @ [x]]"
  by (induction s) (auto split: list.splits)

lemma semver_key_defined:
  assumes "is_semver t"
  shows "version_key t = Some (key_or t)"
proof -
  have core: "\<exists>a b c. split_all (CHR ''.'') s = [a, b, c] \<and> digits a \<and> digits b \<and> digits c" if "semver_core s" for s
    using that by (auto simp: semver_core_def split: list.splits)
  have "\<exists>a b c w. split_all (CHR ''.'') t = [a, b, c @ w] \<and> digits a \<and> digits b \<and> digits c \<and> set w \<subseteq> {CHR 0x0A}"
  proof (cases "semver_core t")
    case True
    then obtain a b c where "split_all (CHR ''.'') t = [a, b, c @ []] \<and> digits a \<and> digits b \<and> digits c"
      using core by (metis append_Nil2)
    then show ?thesis by (metis empty_subsetI list.set(1))
  next
    case False
    with assms have t: "t = butlast t @ [CHR 0x0A]" "semver_core (butlast t)"
      by (auto simp: is_semver_def) (metis append_butlast_last_id)
    from core [OF t(2)] obtain a b c where "split_all (CHR ''.'') (butlast t) = [a, b, c]" "digits a" "digits b" "digits c" by blast
    moreover from this have "split_all (CHR ''.'') t = [a, b, c @ [CHR 0x0A]]"
      by (subst t(1)) (simp add: split_all_snoc)
    moreover have "set [CHR 0x0A] \<subseteq> {CHR 0x0A}" by simp
    ultimately show ?thesis by blast
  qed
  then obtain a b c w where "split_all (CHR ''.'') t = [a, b, c @ w]" "digits a" "digits b" "digits c" "set w \<subseteq> {CHR 0x0A}" by blast
  moreover from this obtain x y z where "py_int a = Some x" "py_int b = Some y" "py_int (c @ w) = Some z"
    using py_int_digits [of a "[]"] py_int_digits [of b "[]"] py_int_digits [of c w] by auto
  ultimately have "\<exists>k. version_key t = Some k" by (simp add: version_key_def)
  then show ?thesis by (auto simp: key_or_def)
qed

lemma last_sorted_max:
  assumes "sorted (map f xs)" "x \<in> set xs"
  shows "f x \<le> f (last xs)"
proof -
  from assms(2) obtain ys y where "xs = ys @ [y]" by (cases xs rule: rev_cases) auto
  with assms show ?thesis by (auto simp: sorted_append)
qed

text \<open>The two outcomes of \<^verbatim>\<open>previous\<close>.\<close>

definition below_target :: "string list \<Rightarrow> int list \<Rightarrow> string \<Rightarrow> bool" where
  "below_target tags k t \<longleftrightarrow> t \<in> set tags \<and> is_semver t \<and> key_or t < k"

lemma previous_eq:
  assumes "version_key to = Some k"
  shows "previous tags to =
    Some (let below = filter (\<lambda>t. key_or t < k) (sort_key key_or (mk_set (filter is_semver tags))) in
          if below = [] then None else Some (last below))"
proof -
  let ?p = "mk_set (filter is_semver tags)"
  have less: "key_less t to = Some (key_or t < k)" if "t \<in> set ?p" for t
    using that semver_key_defined [of t] assms by (auto simp: key_less_def)
  have "mmap version_key ?p = mmap (\<lambda>t. Some (key_or t)) ?p" by (rule mmap_cong) (auto simp: semver_key_defined)
  moreover have "mfilter (\<lambda>t. key_less t to) (sort_key key_or ?p) = mfilter (\<lambda>t. Some (key_or t < k)) (sort_key key_or ?p)"
    by (rule mfilter_cong) (auto simp: less)
  ultimately show ?thesis by (simp add: previous_def Let_def)
qed

section \<open>Properties\<close>

text \<open>C15. \<^verbatim>\<open>previous\<close> is correct: for a target with a version key it returns, without an exception, a
  published version below the target that no published version below the target exceeds, and
  nothing exactly when no published version is below the target.\<close>

theorem previous_correct:
  assumes "version_key to = Some k"
  shows "case previous tags to of
      None \<Rightarrow> False
    | Some None \<Rightarrow> (\<nexists>t. below_target tags k t)
    | Some (Some p) \<Rightarrow> below_target tags k p \<and> (\<forall>t. below_target tags k t \<longrightarrow> key_or t \<le> key_or p)"
proof -
  let ?b = "filter (\<lambda>t. key_or t < k) (sort_key key_or (mk_set (filter is_semver tags)))"
  have set: "set ?b = {t. below_target tags k t}" by (auto simp: below_target_def)
  have "sorted (map key_or ?b)" by (rule sorted_filter) simp
  then have "\<forall>t. below_target tags k t \<longrightarrow> key_or t \<le> key_or (last ?b)"
    using last_sorted_max [of key_or ?b] set by blast
  moreover have "?b \<noteq> [] \<Longrightarrow> below_target tags k (last ?b)" using last_in_set [of ?b] set by blast
  moreover have "?b = [] \<Longrightarrow> (\<nexists>t. below_target tags k t)" using set by (metis empty_set mem_Collect_eq empty_iff)
  ultimately show ?thesis by (simp add: previous_eq [OF assms] Let_def del: filter_empty_conv)
qed

theorem previous_correct_witness:
  "case previous [''0.9.0'', ''latest'', ''0.10.0''] ''0.10.1'' of
      None \<Rightarrow> False
    | Some None \<Rightarrow> (\<nexists>t. below_target [''0.9.0'', ''latest'', ''0.10.0''] [0, 10, 1] t)
    | Some (Some p) \<Rightarrow> below_target [''0.9.0'', ''latest'', ''0.10.0''] [0, 10, 1] p
        \<and> (\<forall>t. below_target [''0.9.0'', ''latest'', ''0.10.0''] [0, 10, 1] t \<longrightarrow> key_or t \<le> key_or p)"
proof -
  have "version_key ''0.10.1'' = Some [0, 10, 1]" by code_simp
  then show ?thesis by (rule previous_correct)
qed

text \<open>A registry that serves the tags on pages: each page links to the next, the last one to none.\<close>

fun linked :: "registry \<Rightarrow> (string \<times> string list \<times> string) list \<Rightarrow> bool" where
  "linked fetch [] = False"
| "linked fetch [(u, ts, link)] = (fetch u = Some (ts, link) \<and> next_url link = None)"
| "linked fetch ((u, ts, link) # p # ps) = (fetch u = Some (ts, link) \<and> next_url link = Some (fst p) \<and> linked fetch (p # ps))"

lemma tag_pages_linked:
  "linked fetch ps \<Longrightarrow> tag_pages fetch n (Some (fst (hd ps))) out = Some (out @ concat (map (\<lambda>p. fst (snd p)) (take n ps)))"
proof (induction fetch ps arbitrary: n out rule: linked.induct)
  case (2 fetch u ts link)
  then show ?case by (cases n; cases "n - 1") auto
next
  case (3 fetch u ts link p ps)
  then show ?case by (cases n) auto
qed simp

text \<open>C26. The loop over the pages ends and returns every tag of the first fifty pages, in order, so
  all tags of a registry that needs at most fifty pages.\<close>

theorem all_tags_pages:
  assumes "linked fetch ps" "fst (hd ps) = first_url"
  shows "all_tags fetch = Some (concat (map (\<lambda>p. fst (snd p)) (take 50 ps)))"
  using tag_pages_linked [OF assms(1), of MAX_PAGES "[]"] assms(2) by (simp add: all_tags_def MAX_PAGES_def)

definition two_pages :: "(string \<times> string list \<times> string) list" where
  "two_pages =
     [(first_url, [''0.1.0''], ''</v2/x?last=0.1.0>; rel='' @ [CHR 0x22] @ ''next'' @ [CHR 0x22]),
      (''https://ghcr.io/v2/x?last=0.1.0'', [''0.2.0''], [])]"

definition two_page_registry :: registry where
  "two_page_registry u = map_of two_pages u"

theorem all_tags_pages_witness:
  "all_tags two_page_registry = Some (concat (map (\<lambda>p. fst (snd p)) (take 50 two_pages)))"
proof (rule all_tags_pages)
  show "linked two_page_registry two_pages" by code_simp
qed (simp add: two_pages_def)

text \<open>A run that resolves a pair names an upgrade: the version to start from is published, is a
  semver, is strictly below the target in version order, whether it was named or resolved, and
  the list of tags was not below the floor.\<close>

theorem resolve_upgrades:
  assumes "resolve argv fetch = Some (Upgrade p to)"
  shows "\<exists>tags k. all_tags fetch = Some tags \<and> 20 \<le> length (filter is_semver tags)
    \<and> version_key to = Some k \<and> below_target tags k p"
proof -
  from assms have "\<exists>tags. all_tags fetch = Some tags \<and> \<not> length (filter is_semver tags) < 20
      \<and> (named tags to p = Some None \<or> previous tags to = Some (Some p))"
    by (auto simp: resolve_def Let_def MIN_TAGS_def elim!: bindE split: if_splits option.splits)
  then obtain tags where tags: "all_tags fetch = Some tags" "20 \<le> length (filter is_semver tags)"
    and "named tags to p = Some None \<or> previous tags to = Some (Some p)" by auto
  then consider "named tags to p = Some None" | "previous tags to = Some (Some p)" by blast
  then have "\<exists>k. version_key to = Some k \<and> below_target tags k p"
  proof cases
    case 1
    then show ?thesis by (auto simp: named_def below_target_def key_or_def elim!: bindE split: if_splits)
  next
    case 2
    then obtain below where "mfilter (\<lambda>t. key_less t to) (sort_key key_or (mk_set (filter is_semver tags))) = Some below"
      "below \<noteq> []" "p = last below"
      by (auto simp: previous_def Let_def elim!: bindE split: if_splits)
    then have "key_less p to = Some True" "p \<in> set tags" "is_semver p"
      using mfilter_set last_in_set by fastforce+
    then show ?thesis by (auto simp: key_less_def below_target_def key_or_def elim!: bindE)
  qed
  with tags show ?thesis by blast
qed

definition many_tags :: "string list" where
  "many_tags = map (\<lambda>i. ''0.1.'' @ nat_dec i) [0..<20]"

theorem resolve_upgrades_witness:
  "\<exists>tags k. all_tags (\<lambda>_. Some (many_tags, [])) = Some tags \<and> 20 \<le> length (filter is_semver tags)
    \<and> version_key ''0.1.19'' = Some k \<and> below_target tags k ''0.1.18''"
proof (rule resolve_upgrades)
  show "resolve [''resolve''] (\<lambda>_. Some (many_tags, [])) = Some (Upgrade ''0.1.18'' ''0.1.19'')" by code_simp
qed

end
