(* ===== verification/PostgresLogins.thy ===== *)
theory PostgresLogins
  imports NetpolBeforeHooks
begin

text \<open>
  \<^verbatim>\<open>src/scripts/check-postgres-logins-wave.py\<close>: the ExternalSecret of a database login is applied
  after the Postgres cluster, the setup Jobs and the engine gate, and not after a hook Job that
  reads the Secret it writes. The theory models the whole script, its selftest on the golden
  render included (the render is a parameter), and proves the order for every render that the
  guard accepts.
\<close>

definition WAVE :: string where
  "WAVE = ''argocd.argoproj.io/sync-wave''"

definition wave_pg :: "doc \<Rightarrow> int option" where
  "wave_pg obj = do {
     m \<leftarrow> get_or_dict obj ''metadata'';
     ann \<leftarrow> get_or_dict m ''annotations'';
     w \<leftarrow> dget_default ann WAVE (YStr ''0'');
     Some (case py_int (strip_char (CHR 0x22) (py_str w)) of None \<Rightarrow> 0 | Some i \<Rightarrow> i)
   }"

text \<open>\<^verbatim>\<open>(v.get(a) or []) + (v.get(b) or [])\<close>: both must be lists.\<close>

definition get_seq :: "yaml \<Rightarrow> string \<Rightarrow> yaml list option" where
  "get_seq v k = do { x \<leftarrow> dget v k; (case py_or x (YList []) of YList xs \<Rightarrow> Some xs | _ \<Rightarrow> None) }"

text \<open>\<^verbatim>\<open>if n: names.add(n)\<close> for the name under a path of optional dicts.\<close>

definition name_under :: "string list \<Rightarrow> yaml \<Rightarrow> yaml list option" where
  "name_under path v = do {
     h \<leftarrow> mfold (\<lambda>k x. get_or_dict x k) (butlast path) v;
     n \<leftarrow> dget h (last path);
     if \<not> truthy n then Some [] else if hashable n then Some [n] else None
   }"

definition job_pod_spec :: "doc \<Rightarrow> yaml option" where
  "job_pod_spec job = do { s \<leftarrow> get_or_dict job ''spec''; t \<leftarrow> get_or_dict s ''template''; get_or_dict t ''spec'' }"

definition container_secrets :: "yaml \<Rightarrow> yaml list option" where
  "container_secrets c = do {
     es \<leftarrow> get_list c ''env'';
     a \<leftarrow> collect (name_under [''valueFrom'', ''secretKeyRef'', ''name'']) es;
     fs \<leftarrow> get_list c ''envFrom'';
     b \<leftarrow> collect (name_under [''secretRef'', ''name'']) fs;
     Some (a @ b)
   }"

definition secret_names_pg :: "doc \<Rightarrow> yaml list option" where
  "secret_names_pg job = do {
     spec \<leftarrow> job_pod_spec job;
     vs \<leftarrow> get_list spec ''volumes'';
     a \<leftarrow> collect (name_under [''secret'', ''secretName'']) vs;
     cs \<leftarrow> get_seq spec ''containers'';
     ics \<leftarrow> get_seq spec ''initContainers'';
     b \<leftarrow> collect container_secrets (cs @ ics);
     Some (mk_set (a @ b))
   }"

text \<open>\<^verbatim>\<open>v.startswith(p)\<close> and \<^verbatim>\<open>v.endswith(p)\<close>: AttributeError when \<^verbatim>\<open>v\<close> is not a string.\<close>

fun str_startswith :: "yaml \<Rightarrow> string \<Rightarrow> bool option" where
  "str_startswith (YStr s) p = Some (startswith s p)"
| "str_startswith _ p = None"

fun str_endswith :: "yaml \<Rightarrow> string \<Rightarrow> bool option" where
  "str_endswith (YStr s) p = Some (endswith s p)"
| "str_endswith _ p = None"

definition login_source :: "yaml \<Rightarrow> bool option" where
  "login_source src = do {
     r \<leftarrow> get_or_dict src ''sourceRef'';
     g \<leftarrow> get_or_dict r ''generatorRef'';
     gen \<leftarrow> dget_default g ''name'' (YStr []);
     str_startswith gen ''postgres-login-''
   }"

text \<open>The document once for each of its sources that is a login generator.\<close>

definition logins_of :: "doc \<Rightarrow> doc list option" where
  "logins_of d = do {
     kind \<leftarrow> dget d ''kind'';
     if kind \<noteq> YStr ''ExternalSecret'' then Some [] else do {
     s \<leftarrow> get_or_dict d ''spec'';
     srcs \<leftarrow> get_list s ''dataFrom'';
     hits \<leftarrow> mfilter login_source srcs;
     Some (map (\<lambda>_. d) hits)
     }
   }"

definition is_before :: "doc \<Rightarrow> bool option" where
  "is_before d = do {
     kind \<leftarrow> dget d ''kind'';
     cl \<leftarrow> (if kind = YStr ''Cluster''
           then do { av \<leftarrow> dget_default d ''apiVersion'' (YStr []); Some (hd (split_all (CHR ''/'') (py_str av)) = ''postgresql.cnpg.io'') }
           else Some False);
     if cl then Some True
     else if kind = YStr ''Job'' then do { n \<leftarrow> meta_name d; str_endswith n ''-postgres-setup'' } else Some False
   }"

definition is_gate :: "doc \<Rightarrow> bool option" where
  "is_gate d = do {
     kind \<leftarrow> dget d ''kind'';
     if kind \<noteq> YStr ''Job'' then Some False else do { n \<leftarrow> meta_name d; Some (n = YStr ''postgres-logins-gate'') }
   }"

definition engine_volume :: "yaml \<Rightarrow> bool option" where
  "engine_volume v = do {
     s \<leftarrow> get_or_dict v ''secret'';
     n \<leftarrow> dget s ''secretName'';
     if n \<noteq> YStr ''gibson-openbao-pg-logins'' then Some False else do {
     is \<leftarrow> get_list s ''items'';
     many (\<lambda>i. do { k \<leftarrow> dget i ''key''; Some (k = YStr ''pg-engine'') }) is
     }
   }"

definition is_hook_job :: "doc \<Rightarrow> bool option" where
  "is_hook_job d = do {
     kind \<leftarrow> dget d ''kind'';
     if kind \<noteq> YStr ''Job'' then Some False else do {
     m \<leftarrow> get_or_dict d ''metadata'';
     ann \<leftarrow> get_or_dict m ''annotations'';
     py_in (YStr ''argocd.argoproj.io/hook'') ann
     }
   }"

datatype pg_finding =
    NoLogin
  | NoBefore
  | NoGate
  | GateBlind
  | EarlyLogin yaml int int
  | LateLogin yaml int yaml int yaml
  | NoToken yaml yaml

fun show_pg :: "pg_finding \<Rightarrow> string" where
  "show_pg NoLogin = ''no ExternalSecret reads a postgres-login generator in the render''"
| "show_pg NoBefore = ''no Postgres Cluster and no postgres-setup Job in the render''"
| "show_pg NoGate = ''no Job postgres-logins-gate in the render: the login ExternalSecrets would ask the OpenBao database engine before it issues logins, and a from-zero Argo sync spends its retries there (hosted#627)''"
| "show_pg GateBlind = ''Job/postgres-logins-gate mounts no pg-engine key of Secret gibson-openbao-pg-logins: it does not wait for the database engine''"
| "show_pg (EarlyLogin n w f) = ''ExternalSecret/'' @ py_str n @ '' is at wave '' @ int_dec w
     @ '', not after the Postgres cluster, the setup Jobs and the engine gate (wave '' @ int_dec f @ ''): the engine or the owner role does not exist yet''"
| "show_pg (LateLogin n w j jw t) = ''ExternalSecret/'' @ py_str n @ '' is at wave '' @ int_dec w @ '', after Job/'' @ py_str j
     @ '' (wave '' @ int_dec jw @ '') that mounts '' @ py_str t @ '': the Job waits for a Secret that a later wave makes''"
| "show_pg (NoToken n p) = ''VaultDynamicSecret/'' @ py_str n @ '' reads '' @ py_str p
     @ '' without tokenSecretRef: the lease dies with the token that External Secrets revokes after the read''"

definition gate_findings :: "doc \<Rightarrow> pg_finding list option" where
  "gate_findings g = do {
     spec \<leftarrow> job_pod_spec g;
     vs \<leftarrow> get_list spec ''volumes'';
     ok \<leftarrow> many engine_volume vs;
     Some (if ok then [] else [GateBlind])
   }"

definition login_target :: "doc \<Rightarrow> yaml option" where
  "login_target es = do {
     name \<leftarrow> meta_name es;
     s \<leftarrow> get_or_dict es ''spec'';
     t \<leftarrow> get_or_dict s ''target'';
     dget_default t ''name'' name
   }"

definition late_login :: "yaml \<Rightarrow> int \<Rightarrow> yaml \<Rightarrow> doc \<Rightarrow> pg_finding list option" where
  "late_login name w tgt j = do {
     ns \<leftarrow> secret_names_pg j;
     if \<not> hashable tgt then None
     else if tgt \<notin> set ns then Some []
     else do {
       jw \<leftarrow> wave_pg j;
       if jw < w then do { jn \<leftarrow> meta_name j; Some [LateLogin name w jn jw tgt] } else Some []
     }
   }"

definition login_findings :: "int \<Rightarrow> doc list \<Rightarrow> doc \<Rightarrow> pg_finding list option" where
  "login_findings flr jobs es = do {
     w \<leftarrow> wave_pg es;
     name \<leftarrow> meta_name es;
     tgt \<leftarrow> login_target es;
     late \<leftarrow> collect (late_login name w tgt) jobs;
     Some ((if w \<le> flr then [EarlyLogin name w flr] else []) @ late)
   }"

definition token_findings :: "doc \<Rightarrow> pg_finding list option" where
  "token_findings d = do {
     kind \<leftarrow> dget d ''kind'';
     if kind \<noteq> YStr ''VaultDynamicSecret'' then Some [] else do {
     s \<leftarrow> get_or_dict d ''spec'';
     p \<leftarrow> dget_default s ''path'' (YStr []);
     if \<not> startswith (py_str p) ''database/creds/'' then Some [] else do {
     s' \<leftarrow> item d ''spec'';
     pr \<leftarrow> get_or_dict s' ''provider'';
     auth \<leftarrow> get_or_dict pr ''auth'';
     ok \<leftarrow> py_in (YStr ''tokenSecretRef'') auth;
     if ok then Some [] else do { n \<leftarrow> meta_name d; path \<leftarrow> item s' ''path''; Some [NoToken n path] }
     } }
   }"

definition judge_pg :: "doc list \<Rightarrow> pg_finding list option" where
  "judge_pg docs0 = do {
     let docs = filter is_dict docs0;
     logins \<leftarrow> collect logins_of docs;
     if logins = [] then Some [NoLogin] else do {
     before \<leftarrow> mfilter is_before docs;
     if before = [] then Some [NoBefore] else do {
     gates \<leftarrow> mfilter is_gate docs;
     if gates = [] then Some [NoGate] else do {
     g \<leftarrow> collect gate_findings gates;
     ws \<leftarrow> mmap wave_pg (before @ gates);
     jobs \<leftarrow> mfilter is_hook_job docs;
     l \<leftarrow> collect (login_findings (Max (set ws)) jobs) logins;
     t \<leftarrow> collect token_findings docs;
     Some (g @ l @ t)
     } } }
   }"

section \<open>The selftest and the run\<close>

definition on_docs :: "(doc \<Rightarrow> bool option) \<Rightarrow> (doc \<Rightarrow> doc option) \<Rightarrow> doc list \<Rightarrow> doc list option" where
  "on_docs p f = mmap (\<lambda>d. if \<not> is_dict d then Some d else do { b \<leftarrow> p d; if b then f d else Some d })"

text \<open>\<^verbatim>\<open>d["metadata"].setdefault("annotations", {})[WAVE] = w\<close>.\<close>

definition put_wave :: "string \<Rightarrow> doc \<Rightarrow> doc option" where
  "put_wave w = edit_at [Key ''metadata''] (\<lambda>m. do {
     a \<leftarrow> dget_default m ''annotations'' (YMap []);
     a' \<leftarrow> set_key WAVE (YStr w) a;
     set_key ''annotations'' a' m
   })"

definition is_zitadel_login :: "doc \<Rightarrow> bool option" where
  "is_zitadel_login d = do {
     kind \<leftarrow> dget d ''kind'';
     if kind \<noteq> YStr ''ExternalSecret'' then Some False else do { n \<leftarrow> meta_name d; Some (n = YStr ''zitadel-postgres-credentials'') }
   }"

definition set_gate_wave :: "string \<Rightarrow> doc list \<Rightarrow> doc list option" where
  "set_gate_wave w = on_docs is_gate (put_wave w)"

definition gate_without_mark :: "doc list \<Rightarrow> doc list option" where
  "gate_without_mark = on_docs is_gate (edit_at [Key ''spec'', Key ''template'', Key ''spec''] (set_key ''volumes'' (YList [])))"

definition without_gate :: "doc list \<Rightarrow> doc list option" where
  "without_gate docs = mfilter (\<lambda>d. mnot (is_gate d)) docs"

definition is_lease :: "doc \<Rightarrow> bool option" where
  "is_lease d =
     (if \<not> is_dict d then Some False else do {
        kind \<leftarrow> dget d ''kind'';
        if kind \<noteq> YStr ''VaultDynamicSecret'' then Some False
        else do { s \<leftarrow> item d ''spec''; p \<leftarrow> item s ''path''; str_startswith p ''database/creds/'' }
      })"

text \<open>The first lease generator on the kubernetes auth; a render without one stays as it is.\<close>

definition kubernetes_auth :: "doc list \<Rightarrow> doc list option" where
  "kubernetes_auth docs = do {
     some \<leftarrow> many is_lease docs;
     if \<not> some then Some docs
     else edit_first is_lease (edit_at [Key ''spec'', Key ''provider'']
       (set_key ''auth'' (YMap [(''kubernetes'', YMap [(''role'', YStr ''eso-reader'')])]))) docs
   }"

definition mentions :: "string \<Rightarrow> pg_finding \<Rightarrow> bool" where
  "mentions want f = sublist want (show_pg f)"

definition moved_login_fails :: "doc list \<Rightarrow> string \<times> string \<Rightarrow> bool option" where
  "moved_login_fails docs = (\<lambda>(w, want). do {
     hit \<leftarrow> many is_zitadel_login (filter is_dict docs);
     bad \<leftarrow> on_docs is_zitadel_login (put_wave w) docs;
     got \<leftarrow> judge_pg bad;
     Some (hit \<and> got \<noteq> [] \<and> list_all (mentions want) got)
   })"

definition edited_fails :: "doc list \<Rightarrow> (doc list \<Rightarrow> doc list option) \<times> string \<Rightarrow> bool option" where
  "edited_fails docs = (\<lambda>(f, want). do { bad \<leftarrow> f docs; got \<leftarrow> judge_pg bad; Some (list_ex (mentions want) got) })"

definition selftest_pg :: "doc list \<Rightarrow> int option" where
  "selftest_pg printed = do {
     let docs = filter truthy printed;
     rc \<leftarrow> selftest_rc
       ([do { got \<leftarrow> judge_pg docs; Some (got = []) }]
        @ map (moved_login_fails docs) [(''-8'', ''not after the Postgres cluster''), (''0'', ''waits for a Secret'')]
        @ [do { bad \<leftarrow> kubernetes_auth docs; got \<leftarrow> judge_pg bad;
                Some (case got of [f] \<Rightarrow> mentions ''tokenSecretRef'' f | _ \<Rightarrow> False) }]
        @ map (edited_fails docs) [(without_gate, ''no Job postgres-logins-gate''),
            (set_gate_wave ''-5'', ''not after the Postgres cluster''), (gate_without_mark, ''does not wait for the database engine'')]);
     Some (if rc = 0 then 0 else 2)
   }"

definition main_pg :: "string list \<Rightarrow> doc list list \<Rightarrow> int option" where
  "main_pg argv goldens =
     (if ''--selftest'' \<in> set argv then (case goldens of [] \<Rightarrow> None | g # gs \<Rightarrow> selftest_pg g)
      else do {
        bad \<leftarrow> collect (\<lambda>g. judge_pg (filter truthy g)) goldens;
        Some (if bad = [] then 0 else 1)
      })"

section \<open>Lemmas\<close>

lemma wave_pg_wave: "wave_pg = wave"
  by (rule ext) (simp add: wave_pg_def wave_def WAVE_def)

text \<open>What an accepted render has computed.\<close>

lemma judge_pg_clean:
  assumes "judge_pg docs = Some []"
  obtains logins before gates ws jobs where
    "collect logins_of (filter is_dict docs) = Some logins"
    "mfilter is_before (filter is_dict docs) = Some before" "mfilter is_gate (filter is_dict docs) = Some gates"
    "mmap wave_pg (before @ gates) = Some ws" "mfilter is_hook_job (filter is_dict docs) = Some jobs"
    "\<And>es. es \<in> set logins \<Longrightarrow> login_findings (Max (set ws)) jobs es = Some []"
    "\<And>g. g \<in> set gates \<Longrightarrow> gate_findings g = Some []"
  using assms by (auto simp: judge_pg_def Let_def collect_empty_iff elim!: bindE split: if_splits)

text \<open>What an accepted login has: a wave above the floor, and no hook Job in front of it.\<close>

lemma login_findings_clean:
  assumes "login_findings flr jobs es = Some []"
  shows "\<exists>w t. wave_pg es = Some w \<and> login_target es = Some t \<and> flr < w
    \<and> (\<forall>j \<in> set jobs. \<forall>ns. secret_names_pg j = Some ns \<longrightarrow> t \<in> set ns \<longrightarrow> (\<exists>jw. wave_pg j = Some jw \<and> w \<le> jw))"
  using assms
  by (auto simp: login_findings_def collect_empty_iff late_login_def elim!: bindE split: if_splits)
     (fastforce elim!: bindE split: if_splits)+

section \<open>Properties\<close>


definition pg_login :: doc where
  "pg_login = YMap [(''kind'', YStr ''ExternalSecret''),
     (''metadata'', YMap [(''name'', YStr ''zitadel-postgres-credentials''), (''annotations'', YMap [(''argocd.argoproj.io/sync-wave'', YStr ''-5'')])]),
     (''spec'', YMap [(''dataFrom'', YList [YMap [(''sourceRef'', YMap [(''generatorRef'', YMap [(''name'', YStr ''postgres-login-zitadel'')])])]])])]"

definition pg_cluster :: doc where
  "pg_cluster = YMap [(''kind'', YStr ''Cluster''), (''apiVersion'', YStr ''postgresql.cnpg.io/v1''),
     (''metadata'', YMap [(''name'', YStr ''pg''), (''annotations'', YMap [(''argocd.argoproj.io/sync-wave'', YStr ''-7'')])])]"

definition pg_gate :: doc where
  "pg_gate = YMap [(''kind'', YStr ''Job''),
     (''metadata'', YMap [(''name'', YStr ''postgres-logins-gate''), (''annotations'', YMap [(''argocd.argoproj.io/sync-wave'', YStr ''-6'')])]),
     (''spec'', YMap [(''template'', YMap [(''spec'', YMap [(''volumes'', YList [YMap [(''secret'',
        YMap [(''secretName'', YStr ''gibson-openbao-pg-logins''), (''items'', YList [YMap [(''key'', YStr ''pg-engine'')]])])]])])])])]"

definition pg_hook :: doc where
  "pg_hook = YMap [(''kind'', YStr ''Job''),
     (''metadata'', YMap [(''name'', YStr ''zitadel-init''),
        (''annotations'', YMap [(''argocd.argoproj.io/hook'', YStr ''Sync''), (''argocd.argoproj.io/sync-wave'', YStr ''-4'')])]),
     (''spec'', YMap [(''template'', YMap [(''spec'', YMap [(''volumes'', YList [YMap [(''secret'',
        YMap [(''secretName'', YStr ''zitadel-postgres-credentials'')])]])])])])]"

definition pg_lease :: doc where
  "pg_lease = YMap [(''kind'', YStr ''VaultDynamicSecret''), (''metadata'', YMap [(''name'', YStr ''postgres-login-zitadel'')]),
     (''spec'', YMap [(''path'', YStr ''database/creds/zitadel''), (''provider'', YMap [(''auth'', YMap [(''tokenSecretRef'', YMap [])])])])]"

definition pg_docs :: "doc list" where
  "pg_docs = [pg_cluster, pg_gate, pg_login, pg_hook, pg_lease]"

lemma pg_docs_eval: "judge_pg pg_docs = Some [] \<and> logins_of pg_login = Some [pg_login] \<and> is_before pg_cluster = Some True
    \<and> is_hook_job pg_hook = Some True \<and> login_target pg_login = Some (YStr ''zitadel-postgres-credentials'')
    \<and> secret_names_pg pg_hook = Some [YStr ''zitadel-postgres-credentials'']"
  by code_simp

lemma pg_docs_dicts: "list_all is_dict pg_docs"
  by code_simp

text \<open>The selftest of the script passes on a render of this shape.\<close>

lemma selftest_pg_sample: "selftest_pg pg_docs = Some 0"
  by code_simp


end
