(* ===== verification/VeleroDatapath.thy ===== *)
theory VeleroDatapath
  imports CiliumPolicy
begin

text \<open>
  \<^verbatim>\<open>src/scripts/check-velero-datapath-selected.py\<close>: a Cilium policy selects each pod that Velero makes
  for a volume backup, and lets it reach the API server and the bucket; on AWS the bucket rule
  names the two hosts of one bucket. The golden render and the pod fixtures are parameters. The
  script has its own copy of the selector evaluator; the theory proves that it agrees with the
  shared one, that an accepted bucket rule names exactly the two hosts, and what holds of every
  pod of an accepted render.
\<close>

section \<open>Selectors\<close>

definition VELERO_NS_KEY :: string where
  "VELERO_NS_KEY = ''io.kubernetes.pod.namespace''"

definition velero_expression :: "yaml \<Rightarrow> yaml \<Rightarrow> bool option" where
  "velero_expression labels e = do {
     k0 \<leftarrow> item e ''key'';
     k \<leftarrow> norm k0;
     op \<leftarrow> item e ''operator'';
     vals \<leftarrow> dget e ''values'';
     if op = YStr ''Exists'' then py_in k labels
     else if op = YStr ''DoesNotExist'' then mnot (py_in k labels)
     else if op = YStr ''In'' then do { x \<leftarrow> dget_key labels k; py_in x (py_or vals (YList [])) }
     else if op = YStr ''NotIn'' then do { x \<leftarrow> dget_key labels k; mnot (py_in x (py_or vals (YList []))) }
     else Some True
   }"

text \<open>The labels of a pod with its namespace under the Cilium key.\<close>

definition pod_labels_ns :: "doc \<Rightarrow> yaml option" where
  "pod_labels_ns pod = do {
     m \<leftarrow> item pod ''metadata'';
     ls \<leftarrow> get_or_dict m ''labels'';
     l \<leftarrow> items ls;
     ns \<leftarrow> item m ''namespace'';
     Some (YMap (AList.update VELERO_NS_KEY ns l))
   }"

definition selects_labels :: "yaml \<Rightarrow> yaml \<Rightarrow> bool option" where
  "selects_labels sel labels = do {
     ml \<leftarrow> get_or_dict sel ''matchLabels'';
     ps \<leftarrow> items ml;
     ok \<leftarrow> mall (label_pair_holds norm_str labels) ps;
     if \<not> ok then Some False
     else do { es \<leftarrow> get_list sel ''matchExpressions''; mall (velero_expression labels) es }
   }"

definition selects_velero :: "yaml \<Rightarrow> doc \<Rightarrow> bool option" where
  "selects_velero sel pod = do { labels \<leftarrow> pod_labels_ns pod; selects_labels sel labels }"

section \<open>Egress\<close>

definition is_bucket_rule :: "yaml \<Rightarrow> bool option" where
  "is_bucket_rule r = do { f \<leftarrow> dget r ''toFQDNs''; if truthy f then Some True else do { c \<leftarrow> dget r ''toCIDR''; Some (truthy c) } }"

definition names_apiserver :: "yaml \<Rightarrow> bool option" where
  "names_apiserver r = do { es \<leftarrow> dget r ''toEntities''; py_in (YStr ''kube-apiserver'') (py_or es (YList [])) }"

datatype egress_problem = NoApiserver | BucketRules nat | BucketPorts nat

definition rule_ports :: "yaml \<Rightarrow> yaml list option" where
  "rule_ports r = do { tps \<leftarrow> get_list r ''toPorts''; collect (\<lambda>tp. get_list tp ''ports'') tps }"

definition egress_problems :: "yaml \<Rightarrow> egress_problem list option" where
  "egress_problems spec = do {
     rs \<leftarrow> get_list spec ''egress'';
     api \<leftarrow> many names_apiserver rs;
     if \<not> api then Some [NoApiserver] else do {
     bucket \<leftarrow> mfilter is_bucket_rule rs;
     (case bucket of
        [b] \<Rightarrow> do { ports \<leftarrow> rule_ports b; Some (if length ports \<noteq> 1 then [BucketPorts (length ports)] else []) }
      | _ \<Rightarrow> Some [BucketRules (length bucket)])
     }
   }"

section \<open>The hosts of the bucket\<close>

definition AWS_DOMAIN :: string where
  "AWS_DOMAIN = ''.amazonaws.com''"

definition low_alnum :: "char \<Rightarrow> bool" where
  "low_alnum c = (CHR ''a'' \<le> c \<and> c \<le> CHR ''z'' \<or> is_digit c)"

definition drop_end :: "nat \<Rightarrow> string \<Rightarrow> string" where
  "drop_end n s = take (length s - n) s"

text \<open>\<^verbatim>\<open>S3_BUCKET_HOST.match(n)\<close>: the part in front of the domain ends in a region, a word without a
  dot, and in front of it stands \<^verbatim>\<open>.s3\<close> or \<^verbatim>\<open>.s3.dualstack\<close>, so the groups are determined from the
  end. \<^verbatim>\<open>$\<close> matches before a final newline too.\<close>

definition bucket_name :: "string \<Rightarrow> bool" where
  "bucket_name b = (b \<noteq> [] \<and> low_alnum (hd b) \<and> list_all (\<lambda>c. low_alnum c \<or> c = CHR ''.'' \<or> c = CHR ''-'') b)"

definition region_name :: "string \<Rightarrow> bool" where
  "region_name r = (r \<noteq> [] \<and> list_all (\<lambda>c. low_alnum c \<or> c = CHR ''-'') r)"

definition bucket_host_core :: "string \<Rightarrow> (string \<times> string) option" where
  "bucket_host_core n =
     (if \<not> endswith n AWS_DOMAIN then None
      else let core = drop_end (length AWS_DOMAIN) n;
               region = rev (takeWhile (\<lambda>c. c \<noteq> CHR ''.'') (rev core));
               pre = drop_end (length region + 1) core;
               bucket = (if endswith pre ''.s3'' then Some (drop_end 3 pre)
                         else if endswith pre ''.s3.dualstack'' then Some (drop_end 13 pre) else None) in
        case bucket of
          None \<Rightarrow> None
        | Some b \<Rightarrow> (if region_name region \<and> bucket_name b then Some (b, region) else None))"

definition bucket_host :: "string \<Rightarrow> (string \<times> string) option" where
  "bucket_host n = (case bucket_host_core n of
       Some p \<Rightarrow> Some p
     | None \<Rightarrow> (if n \<noteq> [] \<and> last n = CHR 0x0A then bucket_host_core (butlast n) else None))"

definition regional_host :: "string \<Rightarrow> string \<Rightarrow> string" where
  "regional_host b r = b @ ''.s3.'' @ r @ AWS_DOMAIN"

definition dualstack_host :: "string \<Rightarrow> string \<Rightarrow> string" where
  "dualstack_host b r = b @ ''.s3.dualstack.'' @ r @ AWS_DOMAIN"

datatype s3_problem =
    S3Pattern "yaml list"
  | S3Shared "string list"
  | S3Buckets "(string \<times> string) list"
  | S3Missing "string list"
  | S3NoBucket "string list"
  | S3Other "string list"

text \<open>\<^verbatim>\<open>[f["matchName"] for f in fqdns if f.get("matchName")]\<close>; a name must be a string, the code
  calls its string methods.\<close>

definition match_names :: "yaml list \<Rightarrow> string list option" where
  "match_names fqdns = collect (\<lambda>f. do {
     n \<leftarrow> dget f ''matchName'';
     if \<not> truthy n then Some [] else (case n of YStr s \<Rightarrow> Some [s] | _ \<Rightarrow> None)
   }) fqdns"

definition match_patterns :: "yaml list \<Rightarrow> yaml list option" where
  "match_patterns fqdns = collect (\<lambda>f. do {
     has \<leftarrow> py_in (YStr ''matchPattern'') f;
     if has then do { p \<leftarrow> item f ''matchPattern''; Some [p] } else Some []
   }) fqdns"

definition bucket_pairs :: "string list \<Rightarrow> (string \<times> string) list" where
  "bucket_pairs names = mk_set (List.map_filter bucket_host (filter (\<lambda>n. \<not> startswith n ''s3.'') names))"

definition sort_pairs :: "(string \<times> string) list \<Rightarrow> (string \<times> string) list" where
  "sort_pairs ps = sort_key fst (sort_key snd ps)"

definition pair_hosts :: "string \<times> string \<Rightarrow> string list" where
  "pair_hosts = (\<lambda>(b, r). [regional_host b r, dualstack_host b r])"

definition missing_hosts :: "string list \<Rightarrow> string \<times> string \<Rightarrow> s3_problem list" where
  "missing_hosts names p =
     (let missing = sort (filter (\<lambda>h. h \<notin> set names) (pair_hosts p)) in if missing = [] then [] else [S3Missing missing])"

definition s3_host_problems :: "yaml list \<Rightarrow> s3_problem list option" where
  "s3_host_problems fqdns = do {
     names \<leftarrow> match_names fqdns;
     patterns \<leftarrow> match_patterns fqdns;
     let aws = list_ex (\<lambda>n. endswith n AWS_DOMAIN) names;
     if \<not> aws \<and> patterns = [] then Some [] else do {
     let shared = filter (\<lambda>n. startswith n ''s3.'') names;
     let pairs = bucket_pairs names;
     let other = sort (filter (\<lambda>n. n \<notin> set (concat (map pair_hosts pairs))) (mk_set names));
     Some ((if patterns \<noteq> [] then [S3Pattern patterns] else [])
           @ (if shared \<noteq> [] then [S3Shared shared] else [])
           @ (if 1 < length pairs then [S3Buckets (sort_pairs pairs)] else [])
           @ concat (map (missing_hosts names) (sort_pairs pairs))
           @ (if pairs = [] \<and> aws then [S3NoBucket names] else [])
           @ (if pairs \<noteq> [] \<and> other \<noteq> [] then [S3Other other] else []))
     }
   }"

section \<open>The check\<close>

text \<open>The name, the namespace and the spec of each CiliumNetworkPolicy spec.\<close>

type_synonym policy_spec = "yaml \<times> yaml \<times> yaml"

definition policy_specs :: "doc list \<Rightarrow> policy_spec list option" where
  "policy_specs docs = collect (\<lambda>d. do {
     cnp \<leftarrow> (if \<not> is_dict d then Some False else do { k \<leftarrow> dget d ''kind''; Some (k = YStr ''CiliumNetworkPolicy'') });
     if \<not> cnp then Some [] else do {
     name \<leftarrow> meta_name d;
     m \<leftarrow> item d ''metadata'';
     ns \<leftarrow> dget_default m ''namespace'' (YStr []);
     ss \<leftarrow> dget d ''specs'';
     s \<leftarrow> dget d ''spec'';
     specs \<leftarrow> py_iter (py_or ss (YList (if truthy s then [s] else [])));
     Some (map (\<lambda>sp. (name, ns, sp)) specs)
     }
   }) docs"

datatype velero_finding =
    VNoPolicy
  | VNoFixture
  | VNoVelero
  | VNoBucket yaml yaml yaml
  | VHosts yaml yaml yaml s3_problem
  | VUnselected yaml yaml yaml
  | VEgress yaml yaml yaml egress_problem

definition is_velero_policy :: "policy_spec \<Rightarrow> bool option" where
  "is_velero_policy = (\<lambda>(n, ns, sp). case n of YStr s \<Rightarrow> Some (endswith s ''-velero'') | _ \<Rightarrow> None)"

definition spec_bucket_problems :: "policy_spec \<Rightarrow> velero_finding list option" where
  "spec_bucket_problems = (\<lambda>(name, ns, spec). do {
     sel \<leftarrow> get_or_dict spec ''endpointSelector'';
     rs \<leftarrow> get_list spec ''egress'';
     bucket \<leftarrow> mfilter is_bucket_rule rs;
     hosts \<leftarrow> collect (\<lambda>r. do {
       f \<leftarrow> dget r ''toFQDNs'';
       if \<not> truthy f then Some []
       else do { fs \<leftarrow> py_iter f; ps \<leftarrow> s3_host_problems fs; Some (map (VHosts ns name sel) ps) }
     }) bucket;
     Some ((if bucket = [] then [VNoBucket ns name sel] else []) @ hosts)
   })"

definition bucket_rule_problems :: "doc list \<Rightarrow> velero_finding list option" where
  "bucket_rule_problems docs = do {
     specs \<leftarrow> policy_specs docs;
     velero \<leftarrow> mfilter is_velero_policy specs;
     if velero = [] then Some [VNoVelero] else collect spec_bucket_problems velero
   }"

definition spec_hits :: "doc \<Rightarrow> yaml \<Rightarrow> policy_spec \<Rightarrow> bool option" where
  "spec_hits pod pns = (\<lambda>(n, ns, s).
     if \<not> py_eq ns pns then Some False else do { sel \<leftarrow> get_or_dict s ''endpointSelector''; selects_velero sel pod })"

definition pod_findings :: "policy_spec list \<Rightarrow> doc \<Rightarrow> velero_finding list option" where
  "pod_findings specs pod = do {
     m \<leftarrow> item pod ''metadata'';
     pname \<leftarrow> item m ''name'';
     pns \<leftarrow> item m ''namespace'';
     hits \<leftarrow> mfilter (spec_hits pod pns) specs;
     if hits = [] then do { ls \<leftarrow> dget m ''labels''; Some [VUnselected pns pname ls] }
     else collect (\<lambda>(n, ns, s). do { ps \<leftarrow> egress_problems s; Some (map (VEgress pns pname n) ps) }) hits
   }"

definition check_velero :: "doc list \<Rightarrow> doc list \<Rightarrow> velero_finding list option" where
  "check_velero docs pods = do {
     specs \<leftarrow> policy_specs docs;
     if specs = [] then Some [VNoPolicy]
     else if pods = [] then Some [VNoFixture]
     else do {
       a \<leftarrow> bucket_rule_problems docs;
       b \<leftarrow> collect (pod_findings specs) pods;
       Some (a @ b)
     }
   }"

text \<open>The fixtures: each file holds one Pod, else the run ends.\<close>

definition load_pods :: "doc list \<Rightarrow> doc list option" where
  "load_pods files = mmap (\<lambda>d. if \<not> is_dict d then None else do { k \<leftarrow> dget d ''kind''; if k = YStr ''Pod'' then Some d else None }) files"

section \<open>Lemmas\<close>

lemma velero_expression_agrees:
  "velero_expression labels e = Some b \<Longrightarrow> cilium_expression labels e = Some b"
proof -
  have get: "item e k = Some x \<Longrightarrow> dget e k = Some x" for k x by (cases e) auto
  assume "velero_expression labels e = Some b"
  then show ?thesis
    unfolding velero_expression_def cilium_expression_def expression_holds_def
    by (elim bindE) (auto simp: get split: if_splits)
qed

lemma selects_labels_agrees:
  assumes v: "selects_labels sel labels = Some b" and c: "selects sel labels = Some c" and d: "is_dict sel"
  shows "b = c"
proof -
  obtain m where m: "sel = YMap m" using d by (cases sel) auto
  then have sel: "py_or sel (YMap []) = sel" by simp
  from v obtain ml ps where ml: "get_or_dict sel ''matchLabels'' = Some ml" "items ml = Some ps"
    by (auto simp: selects_labels_def elim!: bindE)
  from c obtain es where es: "get_list sel ''matchExpressions'' = Some es"
    by (auto simp: selects_def sel elim!: bindE)
  let ?p = "mall (label_pair_holds norm_str labels) ps"
  have "c \<longleftrightarrow> mall (cilium_expression labels) es = Some True \<and> ?p = Some True"
    using c by (auto simp: selects_def sel es ml split: if_splits elim!: bindE)
  moreover have "b \<longleftrightarrow> ?p = Some True \<and> mall (velero_expression labels) es = Some True"
    using v by (auto simp: selects_labels_def es ml split: if_splits elim!: bindE)
  moreover have "mall (velero_expression labels) es = Some True \<Longrightarrow> mall (cilium_expression labels) es = Some True"
    by (auto simp: mall_True_iff velero_expression_agrees)
  moreover have "mall (velero_expression labels) es = Some True"
    if "mall (cilium_expression labels) es = Some True" "?p = Some True"
  proof -
    from v that(2) obtain x where x: "mall (velero_expression labels) es = Some x"
      by (auto simp: selects_labels_def es ml elim!: bindE split: if_splits)
    show ?thesis
    proof (cases x)
      case False
      with x obtain e where "e \<in> set es" "velero_expression labels e = Some False" by (auto dest: mall_FalseD)
      with that(1) show ?thesis by (auto simp: mall_True_iff dest: velero_expression_agrees)
    qed (simp add: x)
  qed
  ultimately show ?thesis by blast
qed

lemma velero_expression_enc: "velero_expression (enc_labels ls) (enc_expr x) = cilium_expression (enc_labels ls) (enc_expr x)"
proof -
  have "item (enc_expr x) ''key'' = dget (enc_expr x) ''key''" "item (enc_expr x) ''operator'' = dget (enc_expr x) ''operator''"
    by (simp_all add: enc_expr_def split: prod.splits)
  then show ?thesis
    by (auto simp: velero_expression_def cilium_expression_def expression_holds_def split: Option.bind_splits)
qed

interpretation velero: label_selector selects_labels norm_str
proof unfold_locales
  fix s ls
  show "selects_labels (enc_selector s) (enc_labels ls) = Some (sel_matches norm_str s ls)"
    by (auto simp: selects_labels_def velero_expression_enc sel_matches_def list_all_iff cong: mall_cong)
qed

lemma pod_labels_ns_endpoint:
  "pod_labels_ns pod = do { m \<leftarrow> item pod ''metadata''; ls \<leftarrow> get_or_dict m ''labels''; l \<leftarrow> items ls; ns \<leftarrow> item m ''namespace''; endpoint ns ls }"
  by (auto simp: pod_labels_ns_def endpoint_def VELERO_NS_KEY_def split: Option.bind_splits)

lemma egress_problems_clean:
  assumes "egress_problems spec = Some []"
  shows "\<exists>rs r b p. get_list spec ''egress'' = Some rs \<and> r \<in> set rs \<and> names_apiserver r = Some True
    \<and> mfilter is_bucket_rule rs = Some [b] \<and> rule_ports b = Some [p]"
proof -
  have one: "length xs = Suc 0 \<longleftrightarrow> (\<exists>x. xs = [x])" for xs :: "yaml list" by (cases xs) auto
  from assms obtain rs b p where "get_list spec ''egress'' = Some rs" "many names_apiserver rs = Some True"
    "mfilter is_bucket_rule rs = Some [b]" "rule_ports b = Some [p]"
    by (auto simp: egress_problems_def one elim!: bindE split: if_splits list.splits)
  then show ?thesis by (blast dest: many_TrueD)
qed

section \<open>Properties\<close>

text \<open>C20. The two selector evaluators agree: the copy of the Velero guard and the shared evaluator
  never give different answers for a selector and a pod when both return, whatever the manifests
  are, although they test labels and expressions in a different order and read expressions
  differently.\<close>

theorem velero_selects_agrees:
  assumes "selects_velero sel pod = Some b" "item pod ''metadata'' = Some m" "get_or_dict m ''labels'' = Some ls"
    and "item m ''namespace'' = Some ns" "endpoint ns ls = Some ep" "selects sel ep = Some c"
  shows "b = c"
proof -
  have "pod_labels_ns pod = Some ep"
    using assms(2-5) by (auto simp: pod_labels_ns_endpoint endpoint_def elim!: bindE)
  then have v: "selects_labels sel ep = Some b" using assms(1) by (simp add: selects_velero_def)
  then have "is_dict sel" by (cases sel) (auto simp: selects_labels_def get_or_dict_def dget_def)
  with v assms(6) show ?thesis by (rule selects_labels_agrees)
qed

text \<open>An accepted bucket rule names one bucket: when the S3 test reports nothing about a rule that
  names an AWS host, the rule holds no pattern and its names are exactly the regional and the
  dual-stack host of one bucket in one region.\<close>

theorem s3_hosts_exact:
  assumes "s3_host_problems fqdns = Some []" "match_names fqdns = Some names"
    and "n \<in> set names" "endswith n ''.amazonaws.com''"
  shows "match_patterns fqdns = Some [] \<and> (\<exists>b r. bucket_name b \<and> region_name r
    \<and> set names = {regional_host b r, dualstack_host b r})"
proof -
  let ?pairs = "bucket_pairs names"
  have aws: "list_ex (\<lambda>n. endswith n AWS_DOMAIN) names" using assms(3,4) by (auto simp: list_ex_iff AWS_DOMAIN_def)
  have nil: "sort xs = [] \<longleftrightarrow> xs = []" for xs :: "string list" by (metis set_empty set_sort)
  from assms(1,2) aws have pat: "match_patterns fqdns = Some []" and "length ?pairs \<le> 1" and "?pairs \<noteq> []"
    and missing: "concat (map (missing_hosts names) (sort_pairs ?pairs)) = []"
    and other: "filter (\<lambda>n. n \<notin> set (concat (map pair_hosts ?pairs))) (mk_set names) = []"
    by (auto simp: s3_host_problems_def Let_def nil elim!: bindE split: if_splits)
  then obtain b r where p: "?pairs = [(b, r)]" by (cases ?pairs) (auto split: prod.splits)
  then have "(b, r) \<in> set ?pairs" by simp
  then obtain h where "bucket_host h = Some (b, r)" by (auto simp: bucket_pairs_def List.map_filter_def)
  then have ok: "bucket_name b" "region_name r"
    by (auto simp: bucket_host_def bucket_host_core_def Let_def split: option.splits if_splits)
  have "set names \<subseteq> {regional_host b r, dualstack_host b r}"
    using other by (auto simp: p pair_hosts_def filter_empty_conv)
  moreover have "{regional_host b r, dualstack_host b r} \<subseteq> set names"
    using missing by (auto simp: p sort_pairs_def missing_hosts_def pair_hosts_def Let_def nil split: if_splits)
  ultimately show ?thesis using pat ok by blast
qed

text \<open>Each data path pod of an accepted render can work: some policy spec of its namespace selects
  it, and that spec lets it reach the API server and exactly one bucket rule on one port.\<close>

theorem check_velero_selected:
  assumes "check_velero docs pods = Some []" "pod \<in> set pods"
  shows "\<exists>specs m pns n ns s rs r b p. policy_specs docs = Some specs \<and> (n, ns, s) \<in> set specs
    \<and> item pod ''metadata'' = Some m \<and> item m ''namespace'' = Some pns \<and> spec_hits pod pns (n, ns, s) = Some True
    \<and> get_list s ''egress'' = Some rs \<and> r \<in> set rs \<and> names_apiserver r = Some True
    \<and> mfilter is_bucket_rule rs = Some [b] \<and> rule_ports b = Some [p]"
proof -
  from assms obtain specs where specs: "policy_specs docs = Some specs" and "pod_findings specs pod = Some []"
    by (auto simp: check_velero_def collect_empty_iff elim!: bindE split: if_splits)
  then obtain m pns hits where m: "item pod ''metadata'' = Some m" "item m ''namespace'' = Some pns"
    and hits: "mfilter (spec_hits pod pns) specs = Some hits" "hits \<noteq> []"
    and ok: "\<forall>h \<in> set hits. egress_problems (snd (snd h)) = Some []"
    by (auto simp: pod_findings_def collect_empty_iff elim!: bindE split: if_splits)
       (fastforce elim!: bindE)+
  then obtain n ns s where h: "(n, ns, s) \<in> set hits" by (cases hits) auto
  then have "(n, ns, s) \<in> set specs" "spec_hits pod pns (n, ns, s) = Some True"
    using mfilter_set [OF hits(1)] by blast+
  moreover from ok h have "egress_problems s = Some []" by force
  from egress_problems_clean [OF this] obtain rs r b p where
    "get_list s ''egress'' = Some rs \<and> r \<in> set rs \<and> names_apiserver r = Some True
      \<and> mfilter is_bucket_rule rs = Some [b] \<and> rule_ports b = Some [p]" by blast
  ultimately show ?thesis using specs m by (intro exI conjI) auto
qed

end
