(* ===== verification/VeleroSelftest.thy ===== *)
theory VeleroSelftest
  imports VeleroDatapath
begin

text \<open>
  \<^verbatim>\<open>src/scripts/check-velero-datapath-selected.py\<close>, the selftest and \<^verbatim>\<open>main\<close>: the edits of the golden
  render, each of which must fail, and their evaluation on the policy of the committed render.
  The theory holds the witnesses of the properties of \<^verbatim>\<open>VeleroDatapath\<close> too.
\<close>

text \<open>\<^verbatim>\<open>f.get("matchName", "").endswith(".amazonaws.com")\<close> for some host of some rule; only the text
  of a passing run depends on it.\<close>

definition fqdns_of :: "policy_spec \<Rightarrow> yaml list option" where
  "fqdns_of = (\<lambda>(n, ns, sp). do { rs \<leftarrow> get_list sp ''egress''; collect (\<lambda>r. get_list r ''toFQDNs'') rs })"

definition host_mentions :: "(string \<Rightarrow> bool) \<Rightarrow> yaml \<Rightarrow> bool option" where
  "host_mentions p f = do { n \<leftarrow> dget_default f ''matchName'' (YStr []); (case n of YStr s \<Rightarrow> Some (p s) | _ \<Rightarrow> None) }"

definition has_aws_bucket_rule :: "doc list \<Rightarrow> bool option" where
  "has_aws_bucket_rule docs = do {
     specs \<leftarrow> policy_specs docs;
     fs \<leftarrow> collect fqdns_of specs;
     many (host_mentions (\<lambda>s. endswith s AWS_DOMAIN)) fs
   }"

section \<open>The selftest and the run\<close>

text \<open>An edit of each spec of each CiliumNetworkPolicy of a copy of the render.\<close>

definition is_cnp :: "doc \<Rightarrow> bool option" where
  "is_cnp d = (if \<not> is_dict d then Some False else do { k \<leftarrow> dget d ''kind''; Some (k = YStr ''CiliumNetworkPolicy'') })"

fun edit_items :: "(yaml list \<Rightarrow> yaml list option) \<Rightarrow> yaml \<Rightarrow> yaml option" where
  "edit_items f (YList xs) = map_option YList (f xs)"
| "edit_items f _ = None"

definition on_cnps :: "(yaml list \<Rightarrow> yaml list option) \<Rightarrow> doc list \<Rightarrow> doc list option" where
  "on_cnps f = mmap (\<lambda>d. do { c \<leftarrow> is_cnp d; if c then edit_at [Key ''specs''] (edit_items f) d else Some d })"

definition v_strip :: "string \<Rightarrow> doc list \<Rightarrow> doc list option" where
  "v_strip key = on_cnps (mfilter (\<lambda>s. do {
     sel \<leftarrow> get_or_dict s ''endpointSelector'';
     es \<leftarrow> get_list sel ''matchExpressions'';
     mnot (many (\<lambda>e. do { k \<leftarrow> dget e ''key''; Some (k = YStr key) }) es)
   }))"

definition edit_egress :: "(yaml list \<Rightarrow> yaml list option) \<Rightarrow> yaml \<Rightarrow> yaml option" where
  "edit_egress f = edit_at [Key ''egress''] (edit_items f)"

definition v_without_api :: "doc list \<Rightarrow> doc list option" where
  "v_without_api = on_cnps (mmap (edit_egress (mfilter (\<lambda>r. mnot (py_in (YStr ''toEntities'') r)))))"

text \<open>\<^verbatim>\<open>if r.get("toFQDNs"): r["toFQDNs"] = edit(r["toFQDNs"])\<close>.\<close>

definition edit_fqdns :: "(yaml list \<Rightarrow> yaml list option) \<Rightarrow> yaml \<Rightarrow> yaml option" where
  "edit_fqdns f r = do { x \<leftarrow> dget r ''toFQDNs''; if truthy x then edit_at [Key ''toFQDNs''] (edit_items f) r else Some r }"

definition v_fqdns :: "(yaml list \<Rightarrow> yaml list option) \<Rightarrow> doc list \<Rightarrow> doc list option" where
  "v_fqdns f = on_cnps (mmap (edit_egress (mmap (edit_fqdns f))))"

definition is_server_spec :: "yaml \<Rightarrow> bool option" where
  "is_server_spec sp = do {
     sel \<leftarrow> get_or_dict sp ''endpointSelector'';
     ml \<leftarrow> dget_default sel ''matchLabels'' (YMap []);
     n \<leftarrow> dget ml ''app.kubernetes.io/name'';
     Some (n = YStr ''velero'')
   }"

definition on_server :: "(yaml \<Rightarrow> yaml option) \<Rightarrow> doc list \<Rightarrow> doc list option" where
  "on_server f = on_cnps (mmap (\<lambda>sp. do { b \<leftarrow> is_server_spec sp; if b then f sp else Some sp }))"

definition v_server_only :: "(yaml list \<Rightarrow> yaml list option) \<Rightarrow> doc list \<Rightarrow> doc list option" where
  "v_server_only f = on_server (edit_egress (mmap (edit_fqdns f)))"

definition v_no_bucket_rule :: "doc list \<Rightarrow> doc list option" where
  "v_no_bucket_rule = on_server (edit_egress (mfilter (\<lambda>r. do { f \<leftarrow> dget r ''toFQDNs''; Some (\<not> truthy f) })))"

definition match_name :: "string \<Rightarrow> yaml" where
  "match_name n = YMap [(''matchName'', YStr n)]"

definition match_pattern :: "string \<Rightarrow> yaml" where
  "match_pattern p = YMap [(''matchPattern'', YStr p)]"

definition legacy_only :: "yaml list \<Rightarrow> yaml list option" where
  "legacy_only names = Some [match_name ''s3-us-east-1.amazonaws.com'']"

definition pattern_only :: "yaml list \<Rightarrow> yaml list option" where
  "pattern_only names = Some [match_pattern ''*.s3.us-east-1.amazonaws.com'']"

definition with_other_policy :: "doc list \<Rightarrow> doc list" where
  "with_other_policy docs = docs @ [YMap [(''kind'', YStr ''CiliumNetworkPolicy''),
     (''metadata'', YMap [(''name'', YStr ''gibson-velero-metrics''), (''namespace'', YStr ''gibson'')]),
     (''specs'', YList [YMap [(''endpointSelector'', YMap [(''matchLabels'', YMap [(''x'', YStr ''y'')])]),
        (''egress'', YList [YMap [(''toEntities'', YList [YStr ''kube-apiserver''])]])]])]]"

definition with_pattern :: "yaml list \<Rightarrow> yaml list option" where
  "with_pattern names = Some (names @ [match_pattern ''*.amazonaws.com''])"

definition with_other_bucket :: "yaml list \<Rightarrow> yaml list option" where
  "with_other_bucket names = Some (names @ [match_name ''other-bucket.s3.us-east-1.amazonaws.com'',
     match_name ''other-bucket.s3.dualstack.us-east-1.amazonaws.com''])"

definition names_dualstack :: "yaml \<Rightarrow> bool option" where
  "names_dualstack f = do { n \<leftarrow> dget_default f ''matchName'' (YStr []); py_in (YStr ''.s3.dualstack.'') n }"

definition no_dualstack :: "yaml list \<Rightarrow> yaml list option" where
  "no_dualstack names = mfilter (\<lambda>f. mnot (names_dualstack f)) names"

definition no_regional :: "yaml list \<Rightarrow> yaml list option" where
  "no_regional names = mfilter names_dualstack names"

definition with_shared :: "yaml list \<Rightarrow> yaml list option" where
  "with_shared names = Some (names @ [match_name ''s3.us-east-1.amazonaws.com''])"

definition v_renamed :: "doc list \<Rightarrow> doc list option" where
  "v_renamed = mmap (\<lambda>d. do {
     c \<leftarrow> is_cnp d;
     if c then edit_at [Key ''metadata''] (set_key ''name'' (YStr ''renamed'')) d else Some d
   })"

definition v_pod :: "string \<Rightarrow> string \<Rightarrow> string \<Rightarrow> doc" where
  "v_pod name ns label = YMap [(''apiVersion'', YStr ''v1''), (''kind'', YStr ''Pod''),
     (''metadata'', YMap [(''name'', YStr name), (''namespace'', YStr ns), (''labels'', YMap [(label, YStr name)])])]"

text \<open>The broken inputs: an edit of the render and of the fixtures.\<close>

definition VELERO_CASES :: "((doc list \<Rightarrow> doc list option) \<times> (doc list \<Rightarrow> doc list)) list" where
  "VELERO_CASES =
     [(v_strip ''velero.io/pod-volume-backup'', id), (v_strip ''velero.io/pod-volume-restore'', id),
      (Some, \<lambda>_. [v_pod ''du'' ''gibson'' ''velero.io/data-upload'']),
      (Some, \<lambda>_. [v_pod ''pvb'' ''other'' ''velero.io/pod-volume-backup'']),
      (v_without_api, id), (v_fqdns no_dualstack, id), (v_fqdns no_regional, id), (v_fqdns with_shared, id),
      (v_server_only no_dualstack, id), (v_fqdns with_pattern, id), (v_server_only legacy_only, id), (v_no_bucket_rule, id),
      (v_fqdns with_other_bucket, id), (\<lambda>_. Some [YMap [(''kind'', YStr ''ConfigMap'')]], id), (v_renamed, id),
      (Some, \<lambda>_. [])]"

fun is_pattern_finding :: "velero_finding \<Rightarrow> bool" where
  "is_pattern_finding (VHosts ns n sel (S3Pattern ps)) = True"
| "is_pattern_finding _ = False"

definition velero_case_fails :: "doc list \<Rightarrow> doc list \<Rightarrow> (doc list \<Rightarrow> doc list option) \<times> (doc list \<Rightarrow> doc list) \<Rightarrow> bool option" where
  "velero_case_fails docs pods = (\<lambda>(f, g). do { ds \<leftarrow> f docs; got \<leftarrow> check_velero ds (g pods); Some (got \<noteq> []) })"

definition velero_base_checks :: "doc list \<Rightarrow> doc list \<Rightarrow> bool option list" where
  "velero_base_checks docs pods =
     [do { got \<leftarrow> check_velero docs pods; Some (got = []) },
      do { ds \<leftarrow> v_fqdns pattern_only docs; got \<leftarrow> bucket_rule_problems ds; Some (got \<noteq> [] \<and> list_all is_pattern_finding got) },
      do { got \<leftarrow> bucket_rule_problems (with_other_policy docs); Some (got = []) },
      do { specs \<leftarrow> policy_specs docs; fs \<leftarrow> collect fqdns_of specs; many names_dualstack fs }]"

definition selftest_velero :: "doc list \<Rightarrow> doc list \<Rightarrow> int option" where
  "selftest_velero docs pods = selftest_rc (velero_base_checks docs pods @ map (velero_case_fails docs pods) VELERO_CASES)"

definition main_velero :: "string list \<Rightarrow> doc list \<Rightarrow> doc list \<Rightarrow> int option" where
  "main_velero argv golden files = do {
     let docs = filter truthy golden;
     pods \<leftarrow> load_pods files;
     if ''--selftest'' \<in> set argv then selftest_velero docs pods
     else do {
       findings \<leftarrow> check_velero docs pods;
       if findings \<noteq> [] then Some 1 else do { _ \<leftarrow> has_aws_bucket_rule docs; Some 0 }
     }
   }"

section \<open>Witnesses\<close>

text \<open>The policy of the committed render and the two kinds of data path pods.\<close>

definition velero_spec :: "string \<times> yaml \<Rightarrow> yaml" where
  "velero_spec sel = YMap [(''endpointSelector'', YMap [sel]),
     (''egress'', YList [YMap [(''toEntities'', YList [YStr ''kube-apiserver''])],
        YMap [(''toFQDNs'', YList [match_name ''b.s3.us-east-1.amazonaws.com'', match_name ''b.s3.dualstack.us-east-1.amazonaws.com'']),
              (''toPorts'', YList [YMap [(''ports'', YList [YMap [(''port'', YStr ''443''), (''protocol'', YStr ''TCP'')]])]])]])]"

definition exists_key :: "string \<Rightarrow> string \<times> yaml" where
  "exists_key k = (''matchExpressions'', YList [YMap [(''key'', YStr k), (''operator'', YStr ''Exists'')]])"

definition velero_policy :: doc where
  "velero_policy = YMap [(''kind'', YStr ''CiliumNetworkPolicy''),
     (''metadata'', YMap [(''name'', YStr ''gibson-velero-velero''), (''namespace'', YStr ''gibson'')]),
     (''specs'', YList [velero_spec (''matchLabels'', YMap [(''app.kubernetes.io/name'', YStr ''velero'')]),
        velero_spec (exists_key ''velero.io/repo-name''), velero_spec (exists_key ''velero.io/pod-volume-backup''),
        velero_spec (exists_key ''velero.io/pod-volume-restore'')])]"

definition velero_pods :: "doc list" where
  "velero_pods = [v_pod ''pvb'' ''gibson'' ''velero.io/pod-volume-backup'', v_pod ''pvr'' ''gibson'' ''velero.io/pod-volume-restore'']"

lemma velero_sample_clean: "check_velero [velero_policy] velero_pods = Some []"
  by code_simp

text \<open>The selftest of the script passes on this render.\<close>

lemma selftest_velero_base: "mall id (velero_base_checks [velero_policy] velero_pods) = Some True"
  by code_simp

lemma selftest_velero_cases1: "mall id (map (velero_case_fails [velero_policy] velero_pods) (take 5 VELERO_CASES)) = Some True"
  by code_simp

lemma selftest_velero_cases2: "mall id (map (velero_case_fails [velero_policy] velero_pods) (take 5 (drop 5 VELERO_CASES))) = Some True"
  by code_simp

lemma selftest_velero_cases3: "mall id (map (velero_case_fails [velero_policy] velero_pods) (drop 5 (drop 5 VELERO_CASES))) = Some True"
  by code_simp

lemma selftest_velero_sample: "selftest_velero [velero_policy] velero_pods = Some 0"
proof -
  have "VELERO_CASES = take 5 VELERO_CASES @ take 5 (drop 5 VELERO_CASES) @ drop 5 (drop 5 VELERO_CASES)"
    by (simp only: append_take_drop_id)
  then have "mall id (map (velero_case_fails [velero_policy] velero_pods) VELERO_CASES) = Some True"
    using selftest_velero_cases1 selftest_velero_cases2 selftest_velero_cases3
    by (metis (no_types, lifting) map_append mall_append mand_simps(1))
  then show ?thesis
    by (simp add: selftest_velero_def selftest_rc_def selftest_velero_base)
qed

definition pvb_ep :: yaml where
  "pvb_ep = YMap [(''velero.io/pod-volume-backup'', YStr ''pvb''), (''io.kubernetes.pod.namespace'', YStr ''gibson'')]"

lemma pvb_eval:
  "selects_velero (YMap [exists_key ''velero.io/pod-volume-backup'']) (v_pod ''pvb'' ''gibson'' ''velero.io/pod-volume-backup'') = Some True
   \<and> selects (YMap [exists_key ''velero.io/pod-volume-backup'']) pvb_ep = Some True"
  by code_simp

theorem velero_selects_agrees_witness:
  "\<exists>b c. selects_velero (YMap [exists_key ''velero.io/pod-volume-backup'']) (v_pod ''pvb'' ''gibson'' ''velero.io/pod-volume-backup'') = Some b
     \<and> selects (YMap [exists_key ''velero.io/pod-volume-backup'']) pvb_ep = Some c \<and> b = c"
proof (intro exI conjI)
  let ?ls = "YMap [(''velero.io/pod-volume-backup'', YStr ''pvb'')]"
  let ?m = "YMap [(''name'', YStr ''pvb''), (''namespace'', YStr ''gibson''), (''labels'', ?ls)]"
  show "True = True"
    by (rule velero_selects_agrees [OF pvb_eval [THEN conjunct1], of ?m ?ls "YStr ''gibson''" pvb_ep])
       (simp_all add: v_pod_def endpoint_def pvb_ep_def pvb_eval [unfolded pvb_ep_def])
qed (use pvb_eval in blast)+

definition two_hosts :: "yaml list" where
  "two_hosts = [match_name ''b.s3.us-east-1.amazonaws.com'', match_name ''b.s3.dualstack.us-east-1.amazonaws.com'']"

lemma two_hosts_eval:
  "s3_host_problems two_hosts = Some []
   \<and> match_names two_hosts = Some [''b.s3.us-east-1.amazonaws.com'', ''b.s3.dualstack.us-east-1.amazonaws.com'']
   \<and> endswith ''b.s3.us-east-1.amazonaws.com'' ''.amazonaws.com''"
  by code_simp

theorem s3_hosts_exact_witness:
  "match_patterns two_hosts = Some [] \<and> (\<exists>b r. bucket_name b \<and> region_name r
    \<and> set [''b.s3.us-east-1.amazonaws.com'', ''b.s3.dualstack.us-east-1.amazonaws.com''] = {regional_host b r, dualstack_host b r})"
  by (rule s3_hosts_exact [of _ _ "''b.s3.us-east-1.amazonaws.com''"]) (use two_hosts_eval in simp_all)

theorem check_velero_selected_witness:
  "\<exists>specs m pns n ns s rs r b p. policy_specs [velero_policy] = Some specs \<and> (n, ns, s) \<in> set specs
    \<and> item (hd velero_pods) ''metadata'' = Some m \<and> item m ''namespace'' = Some pns \<and> spec_hits (hd velero_pods) pns (n, ns, s) = Some True
    \<and> get_list s ''egress'' = Some rs \<and> r \<in> set rs \<and> names_apiserver r = Some True
    \<and> mfilter is_bucket_rule rs = Some [b] \<and> rule_ports b = Some [p]"
  by (rule check_velero_selected [OF velero_sample_clean]) (simp add: velero_pods_def)

end
