(* ===== verification/Json.thy ===== *)
theory Json
  imports Prelude
begin

text \<open>
  Python's \<^verbatim>\<open>json\<close> module on the values of the model: \<^verbatim>\<open>dumps\<close> with and without sorted keys, and \<^verbatim>\<open>loads\<close> as a
  scanner and a pushdown automaton over tokens. A text that holds a number with a fraction or an exponent,
  NaN, an infinity or a character above 255 has no value in the model; \<^verbatim>\<open>JOut\<close> says so. The theory proves that
  what \<^verbatim>\<open>dumps\<close> writes \<^verbatim>\<open>loads\<close> reads back.
\<close>

section \<open>Writing\<close>

text \<open>\<^verbatim>\<open>json.dumps(v, sort_keys=True)\<close>.\<close>

definition hex_low :: "nat \<Rightarrow> char" where
  "hex_low d = ''0123456789abcdef'' ! d"

definition json_char :: "char \<Rightarrow> string" where
  "json_char c =
     (if c = CHR 0x22 \<or> c = CHR 0x5C then [CHR 0x5C, c]
      else if c = CHR 0x0A then [CHR 0x5C, CHR ''n'']
      else if c = CHR 0x0D then [CHR 0x5C, CHR ''r'']
      else if c = CHR 0x09 then [CHR 0x5C, CHR ''t'']
      else if c = CHR 0x08 then [CHR 0x5C, CHR ''b'']
      else if c = CHR 0x0C then [CHR 0x5C, CHR ''f'']
      else if CHR '' '' \<le> c \<and> c \<le> CHR ''~'' then [c]
      else [CHR 0x5C, CHR ''u'', CHR ''0'', CHR ''0'', hex_low (of_char c div 16), hex_low (of_char c mod 16)])"

definition json_str :: "string \<Rightarrow> string" where
  "json_str s = [CHR 0x22] @ concat (map json_char s) @ [CHR 0x22]"

fun json_dumps :: "yaml \<Rightarrow> string" where
  "json_dumps YNull = ''null''"
| "json_dumps (YBool b) = (if b then ''true'' else ''false'')"
| "json_dumps (YInt i) = int_dec i"
| "json_dumps (YStr s) = json_str s"
| "json_dumps (YList xs) = ''['' @ join '', '' (map json_dumps xs) @ '']''"
| "json_dumps (YMap m) =
     ''{'' @ join '', '' (map snd (sort_key fst (map (\<lambda>(k, v). (k, json_str k @ '': '' @ json_dumps v)) m))) @ ''}''"

text \<open>\<^verbatim>\<open>json.dumps(v)\<close>: the keys in the order of the dictionary.\<close>

fun json_write :: "yaml \<Rightarrow> string" where
  "json_write YNull = ''null''"
| "json_write (YBool b) = (if b then ''true'' else ''false'')"
| "json_write (YInt i) = int_dec i"
| "json_write (YStr s) = json_str s"
| "json_write (YList xs) = ''['' @ join '', '' (map json_write xs) @ '']''"
| "json_write (YMap m) = ''{'' @ join '', '' (map (\<lambda>(k, v). json_str k @ '': '' @ json_write v) m) @ ''}''"

section \<open>Scanning\<close>

datatype token = TOpen bool | TClose bool | TColon | TComma | TVal yaml | TStr string

text \<open>\<open>TOpen True\<close> is an opening brace and \<open>TOpen False\<close> an opening bracket. A scanned piece of the text comes
  with a flag that it is outside the model.\<close>

definition hex_nibble :: "char \<Rightarrow> nat option" where
  "hex_nibble c = (if CHR ''0'' \<le> c \<and> c \<le> CHR ''9'' then Some (of_char c - 48)
     else if CHR ''a'' \<le> c \<and> c \<le> CHR ''f'' then Some (of_char c - 87)
     else if CHR ''A'' \<le> c \<and> c \<le> CHR ''F'' then Some (of_char c - 55) else None)"

definition hex4 :: "char \<Rightarrow> char \<Rightarrow> char \<Rightarrow> char \<Rightarrow> nat option" where
  "hex4 a b c d = do { w \<leftarrow> hex_nibble a; x \<leftarrow> hex_nibble b; y \<leftarrow> hex_nibble c; z \<leftarrow> hex_nibble d; Some (4096 * w + 256 * x + 16 * y + z) }"

definition escape :: "char \<Rightarrow> char option" where
  "escape e = map_of [(CHR 0x22, CHR 0x22), (CHR 0x5C, CHR 0x5C), (CHR ''/'', CHR ''/''), (CHR ''b'', CHR 0x08), (CHR ''f'', CHR 0x0C),
     (CHR ''n'', CHR 0x0A), (CHR ''r'', CHR 0x0D), (CHR ''t'', CHR 0x09)] e"

text \<open>One character of a string, or one escape, with the flag and the text after it; an escape of a character
  above 255 yields nothing and sets the flag.\<close>

definition str_item :: "char \<Rightarrow> string \<Rightarrow> (string \<times> bool \<times> string) option" where
  "str_item c s =
     (if c = CHR 0x5C then
        (case s of
           [] \<Rightarrow> None
         | e # t \<Rightarrow>
             (if e = CHR ''u'' then
                (case t of
                   h1 # h2 # h3 # h4 # u \<Rightarrow> map_option (\<lambda>n. if n < 256 then ([char_of n], False, u) else ([], True, u)) (hex4 h1 h2 h3 h4)
                 | _ \<Rightarrow> None)
              else map_option (\<lambda>x. ([x], False, t)) (escape e)))
      else if c < CHR '' '' then None
      else Some ([c], False, s))"

lemma str_item_le: "str_item c s = Some (x, o', u) \<Longrightarrow> length u \<le> length s"
  by (auto simp: str_item_def split: if_splits list.splits)

text \<open>The rest of a string after its opening quote: the characters, the flag and the text after the closing
  quote.\<close>

function scan_str :: "string \<Rightarrow> bool \<Rightarrow> string \<Rightarrow> (string \<times> bool \<times> string) option" where
  "scan_str acc out [] = None"
| "scan_str acc out (c # s) =
     (if c = CHR 0x22 then Some (acc, out, s)
      else case str_item c s of None \<Rightarrow> None | Some (x, w, u) \<Rightarrow> scan_str (acc @ x) (out \<or> w) u)"
  by pat_completeness auto
termination
  by (relation "measure (\<lambda>(acc, out, s). length s)") (auto dest!: sym [THEN str_item_le] simp: str_item_le le_imp_less_Suc)

text \<open>An unsigned whole number without leading zeros.\<close>

definition scan_nat :: "string \<Rightarrow> (int \<times> string) option" where
  "scan_nat s = (case s of [] \<Rightarrow> None
     | c # t \<Rightarrow> (if c = CHR ''0'' then Some (0, t)
                else if is_digit c then do { n \<leftarrow> int_digits (takeWhile is_digit s) 0; Some (n, dropWhile is_digit s) }
                else None))"

definition fraction :: "string \<Rightarrow> bool" where
  "fraction s = (case s of c # d # _ \<Rightarrow> c = CHR ''.'' \<and> is_digit d | _ \<Rightarrow> False)"

definition drop_fraction :: "string \<Rightarrow> string" where
  "drop_fraction s = (if fraction s then dropWhile is_digit (tl s) else s)"

definition drop_exponent :: "string \<Rightarrow> string" where
  "drop_exponent s = (case s of [] \<Rightarrow> s
     | c # t \<Rightarrow> (if c \<noteq> CHR ''e'' \<and> c \<noteq> CHR ''E'' then s
                else (let u = (case t of x # y \<Rightarrow> if x = CHR ''+'' \<or> x = CHR ''-'' then y else t | [] \<Rightarrow> t)
                      in case u of d # _ \<Rightarrow> if is_digit d then dropWhile is_digit u else s | [] \<Rightarrow> s)))"

definition scan_number :: "string \<Rightarrow> (yaml \<times> bool \<times> string) option" where
  "scan_number s = (let neg = startswith s ''-'' in do {
     (n, t) \<leftarrow> scan_nat (if neg then tl s else s);
     let u = drop_exponent (drop_fraction t);
     Some (YInt (if neg then - n else n), u \<noteq> t, u)
   })"

definition json_space :: "char \<Rightarrow> bool" where
  "json_space c = (c \<in> set [CHR '' '', CHR 0x09, CHR 0x0A, CHR 0x0D])"

definition CONSTANTS :: "(string \<times> yaml \<times> bool) list" where
  "CONSTANTS = [(''null'', YNull, False), (''true'', YBool True, False), (''false'', YBool False, False),
     (''NaN'', YNull, True), (''Infinity'', YNull, True), (''-Infinity'', YNull, True)]"

definition scan_constant :: "string \<Rightarrow> (yaml \<times> bool \<times> string) option" where
  "scan_constant s = map_option (\<lambda>(w, v, out). (v, out, drop (length w) s)) (find (\<lambda>(w, _). startswith s w) CONSTANTS)"

definition scan_token :: "string \<Rightarrow> (token \<times> bool \<times> string) option" where
  "scan_token s = (case s of [] \<Rightarrow> None
     | c # t \<Rightarrow>
         (if c = CHR ''{'' then Some (TOpen True, False, t)
          else if c = CHR ''}'' then Some (TClose True, False, t)
          else if c = CHR ''['' then Some (TOpen False, False, t)
          else if c = CHR '']'' then Some (TClose False, False, t)
          else if c = CHR '':'' then Some (TColon, False, t)
          else if c = CHR '','' then Some (TComma, False, t)
          else if c = CHR 0x22 then do { (x, out, u) \<leftarrow> scan_str [] False t; Some (TStr x, out, u) }
          else case scan_constant s of
            Some (v, out, u) \<Rightarrow> Some (TVal v, out, u)
          | None \<Rightarrow> do { (v, out, u) \<leftarrow> scan_number s; Some (TVal v, out, u) }))"

lemma scan_str_shorter: "scan_str acc out s = Some (x, o', u) \<Longrightarrow> length u < length s"
proof (induction "length s" arbitrary: acc out s rule: less_induct)
  case less
  show ?case
  proof (cases s)
    case (Cons c t)
    show ?thesis
    proof (cases "c = CHR 0x22")
      case False
      with less.prems Cons obtain y w v where i: "str_item c t = Some (y, w, v)" "scan_str (acc @ y) (out \<or> w) v = Some (x, o', u)"
        by (auto split: option.splits)
      from str_item_le [OF i(1)] Cons have "length v < length s" by simp
      then show ?thesis using less.hyps [OF _ i(2)] by linarith
    qed (use less.prems Cons in simp)
  qed (use less.prems in simp)
qed

lemma scan_nat_shorter: "scan_nat s = Some (n, u) \<Longrightarrow> length u < length s"
  by (auto simp: scan_nat_def bind_eq_Some_conv split: list.splits if_splits intro: le_imp_less_Suc length_dropWhile_le)

lemma drop_fraction_le: "length (drop_fraction s) \<le> length s"
  using length_dropWhile_le [of is_digit "tl s"] by (auto simp: drop_fraction_def)

lemma drop_exponent_le: "length (drop_exponent s) \<le> length s"
  by (auto simp: drop_exponent_def Let_def split: list.split intro: le_trans [OF length_dropWhile_le] le_SucI)

lemma scan_number_shorter: "scan_number s = Some (v, o', u) \<Longrightarrow> length u < length s"
proof -
  assume "scan_number s = Some (v, o', u)"
  then obtain n t where t: "scan_nat (if startswith s ''-'' then tl s else s) = Some (n, t)" "u = drop_exponent (drop_fraction t)"
    by (auto simp: scan_number_def Let_def bind_eq_Some_conv)
  then have "length t < length s" using scan_nat_shorter [OF t(1)] by (auto split: if_splits)
  then show ?thesis using t(2) drop_fraction_le [of t] drop_exponent_le [of "drop_fraction t"] by simp
qed

lemma scan_constant_shorter: "scan_constant s = Some (v, o', u) \<Longrightarrow> length u < length s"
  by (auto simp: scan_constant_def find_Some_iff CONSTANTS_def startswith_def prefix_def nth_Cons' split: if_splits)

lemma scan_token_shorter: "scan_token s = Some (t, o', u) \<Longrightarrow> length u < length s"
  by (cases s) (auto simp: scan_token_def bind_eq_Some_conv split: if_splits option.splits
      dest: scan_str_shorter scan_constant_shorter scan_number_shorter)

lemma scan_token_rest: "scan_token (dropWhile json_space s) = Some (t, o', u) \<Longrightarrow> length u < length s"
  using scan_token_shorter [of "dropWhile json_space s" t o' u] length_dropWhile_le [of json_space s] by simp

text \<open>The tokens of a text, with the flag.\<close>

function scan :: "string \<Rightarrow> (token list \<times> bool) option" where
  "scan s = (let t = dropWhile json_space s in
     if t = [] then Some ([], False)
     else case scan_token t of None \<Rightarrow> None
       | Some (tok, out, u) \<Rightarrow> map_option (\<lambda>(ts, o'). (tok # ts, out \<or> o')) (scan u))"
  by pat_completeness auto
termination
  by (relation "measure length") (auto dest: scan_token_rest)

declare scan.simps [simp del]

section \<open>Parsing\<close>

text \<open>The containers that are open, the innermost first: an array with its elements so far, or an object with
  its items so far and the key whose value is being read. What the automaton expects next: a value, a
  value or the end of an empty array, a key or the end of an empty object, a key, a colon, or what may
  follow a value.\<close>

datatype frame = InArray "yaml list" | InObject dict string

datatype expects = EValue | EFirst | EFirstKey dict | EKey dict | EColon dict string | EAfter yaml

definition put_value_in :: "yaml \<Rightarrow> frame \<Rightarrow> yaml" where
  "put_value_in v f = (case f of InArray xs \<Rightarrow> YList (xs @ [v]) | InObject m k \<Rightarrow> YMap (AList.update k v m))"

fun pvalue :: "token \<Rightarrow> frame list \<Rightarrow> (frame list \<times> expects) option" where
  "pvalue (TVal v) st = Some (st, EAfter v)"
| "pvalue (TStr s) st = Some (st, EAfter (YStr s))"
| "pvalue (TOpen b) st = Some (if b then (st, EFirstKey []) else (InArray [] # st, EFirst))"
| "pvalue _ st = None"

text \<open>What follows a value.\<close>

fun pafter :: "token \<Rightarrow> frame list \<Rightarrow> yaml \<Rightarrow> (frame list \<times> expects) option" where
  "pafter TComma (InArray xs # st) v = Some (InArray (xs @ [v]) # st, EValue)"
| "pafter TComma (InObject m k # st) v = Some (st, EKey (AList.update k v m))"
| "pafter (TClose b) (f # st) v = (if b = (case f of InObject _ _ \<Rightarrow> True | InArray _ \<Rightarrow> False) then Some (st, EAfter (put_value_in v f)) else None)"
| "pafter _ _ v = None"

definition pstep :: "token \<Rightarrow> frame list \<times> expects \<Rightarrow> (frame list \<times> expects) option" where
  "pstep t = (\<lambda>(st, e). case e of
       EValue \<Rightarrow> pvalue t st
     | EFirst \<Rightarrow> (if t = TClose False then Some (tl st, EAfter (YList [])) else pvalue t st)
     | EFirstKey m \<Rightarrow> (case t of TClose True \<Rightarrow> Some (st, EAfter (YMap m)) | TStr k \<Rightarrow> Some (st, EColon m k) | _ \<Rightarrow> None)
     | EKey m \<Rightarrow> (case t of TStr k \<Rightarrow> Some (st, EColon m k) | _ \<Rightarrow> None)
     | EColon m k \<Rightarrow> (if t = TColon then Some (InObject m k # st, EValue) else None)
     | EAfter v \<Rightarrow> pafter t st v)"

datatype json_result = JBad | JOut | JVal yaml

definition json_loads :: "string \<Rightarrow> json_result" where
  "json_loads s = (case scan s of None \<Rightarrow> JBad
     | Some (ts, out) \<Rightarrow> (case mfold pstep ts ([], EValue) of
         Some ([], EAfter v) \<Rightarrow> (if out then JOut else JVal v)
       | _ \<Rightarrow> JBad))"

section \<open>Round trip\<close>

text \<open>Strings.\<close>

lemma hex_nibble_low: "d < 16 \<Longrightarrow> hex_nibble (hex_low d) = Some d"
proof -
  assume "d < 16"
  then have "d \<in> set [0..<16]" by simp
  moreover have "list_all (\<lambda>d. hex_nibble (hex_low d) = Some d) [0..<16]" by code_simp
  ultimately show ?thesis by (auto simp: list_all_iff)
qed

lemma hex4_char: "hex4 (CHR ''0'') (CHR ''0'') (hex_low (of_char c div 16)) (hex_low (of_char c mod 16)) = Some (of_char c)"
proof -
  have "of_char c < (256 :: nat)" by simp
  then have "of_char c div 16 < (16 :: nat)" by (simp add: div_less_iff_less_mult)
  moreover have "hex_nibble (CHR ''0'') = Some 0" by code_simp
  ultimately show ?thesis by (simp add: hex4_def hex_nibble_low)
qed

lemma scan_str_char: "scan_str acc out (json_char c @ s) = scan_str (acc @ [c]) out s"
proof -
  have u: "str_item (CHR 0x5C) (CHR ''u'' # CHR ''0'' # CHR ''0'' # hex_low (of_char c div 16) # hex_low (of_char c mod 16) # s) = Some ([c], False, s)"
    by (simp add: str_item_def hex4_char)
  have e: "str_item (CHR 0x5C) (x # s) = Some ([y], False, s)" if "escape x = Some y" "x \<noteq> CHR ''u''" for x y using that by (simp add: str_item_def)
  have esc: "escape (CHR 0x22) = Some (CHR 0x22)" "escape (CHR 0x5C) = Some (CHR 0x5C)" "escape (CHR ''n'') = Some (CHR 0x0A)" "escape (CHR ''r'') = Some (CHR 0x0D)"
    "escape (CHR ''t'') = Some (CHR 0x09)" "escape (CHR ''b'') = Some (CHR 0x08)" "escape (CHR ''f'') = Some (CHR 0x0C)" by code_simp+
  have p: "str_item c s = Some ([c], False, s)" if "CHR '' '' \<le> c" "c \<noteq> CHR 0x5C" using that by (simp add: str_item_def leD)
  show ?thesis unfolding json_char_def by (auto simp: u e [OF esc(1)] e [OF esc(2)] e [OF esc(3)] e [OF esc(4)] e [OF esc(5)] e [OF esc(6)] e [OF esc(7)] p)
qed

lemma scan_str_write: "scan_str acc out (concat (map json_char x) @ CHR 0x22 # s) = Some (acc @ x, out, s)"
  by (induction x arbitrary: acc) (simp_all add: scan_str_char del: scan_str.simps, simp)

text \<open>Numbers.\<close>

lemma int_digits_append:
  "list_all is_digit ds \<Longrightarrow> is_digit d \<Longrightarrow> int_digits (ds @ [d]) acc = map_option (\<lambda>n. 10 * n + digit_val d) (int_digits ds acc)"
proof (induction ds arbitrary: acc)
  case (Cons c ds)
  then show ?case by (simp only: append_Cons int_digits.simps list.pred_inject if_True)
qed simp

lemma int_digits_nat_dec: "int_digits (nat_dec n) 0 = Some (int n)"
proof (induction n rule: nat_dec.induct)
  case (1 n)
  have v: "digit_val (digit_char d) = int d" if "d < 10" for d
  proof -
    have "of_char (digit_char d) = 48 + d" using that by (simp add: digit_char_def)
    then have "(of_char (digit_char d) :: int) = int (48 + d)" by (metis of_nat_of_char)
    then show ?thesis by (simp add: digit_val_def)
  qed
  show ?case
  proof (cases "n < 10")
    case True
    then show ?thesis by (subst nat_dec.simps) (simp add: is_digit_digit_char v)
  next
    case False
    have "list_all is_digit (nat_dec (n div 10))" using nat_dec_digits by (auto simp: list_all_iff)
    moreover have "10 * int (n div 10) + int (n mod 10) = int n" by presburger
    ultimately show ?thesis using False 1 by (subst nat_dec.simps) (simp add: int_digits_append is_digit_digit_char v)
  qed
qed

lemma nat_dec_hd: "n \<noteq> 0 \<Longrightarrow> hd (nat_dec n) \<noteq> CHR ''0''"
proof (induction n rule: nat_dec.induct)
  case (1 n)
  have z: "CHR ''0'' = digit_char 0" by code_simp
  show ?case
  proof (cases "n < 10")
    case True
    then show ?thesis using "1.prems" by (subst nat_dec.simps) (simp add: z digit_char_inj)
  next
    case False
    then show ?thesis using 1 by (subst nat_dec.simps) simp
  qed
qed

definition ends_number :: "string \<Rightarrow> bool" where
  "ends_number s = (case s of [] \<Rightarrow> True | c # _ \<Rightarrow> \<not> is_digit c \<and> c \<notin> set ''.eE'')"

lemma scan_nat_dec: "ends_number s \<Longrightarrow> scan_nat (nat_dec n @ s) = Some (int n, s)"
proof -
  assume s: "ends_number s"
  show ?thesis
  proof (cases "n = 0")
    case True
    have "nat_dec 0 = [CHR ''0'']" by code_simp
    with True show ?thesis by (simp add: scan_nat_def)
  next
    case False
    obtain d ds where nd: "nat_dec n = d # ds" by (cases "nat_dec n") auto
    have d: "list_all is_digit (nat_dec n)" using nat_dec_digits by (auto simp: list_all_iff)
    have t: "takeWhile is_digit s = []" "dropWhile is_digit s = s" using s by (cases s; simp add: ends_number_def)+
    have "takeWhile is_digit (nat_dec n @ s) = nat_dec n" "dropWhile is_digit (nat_dec n @ s) = s"
      using d t by (auto simp: list_all_iff)
    then show ?thesis using nat_dec_hd [OF False] d int_digits_nat_dec [of n] by (simp add: scan_nat_def nd)
  qed
qed

lemma scan_number_dec: "ends_number s \<Longrightarrow> scan_number (int_dec i @ s) = Some (YInt i, False, s)"
proof -
  assume s: "ends_number s"
  then have r: "drop_exponent (drop_fraction s) = s"
    by (cases s) (auto simp: ends_number_def drop_exponent_def drop_fraction_def fraction_def split: list.split)
  have m: "\<not> startswith (nat_dec n @ s) ''-''" for n
  proof -
    obtain d ds where nd: "nat_dec n = d # ds" by (cases "nat_dec n") auto
    have "is_digit d" using nat_dec_digits [of d n] nd by simp
    moreover have "\<not> is_digit (CHR ''-'')" by code_simp
    ultimately show ?thesis by (auto simp: startswith_def nd)
  qed
  show ?thesis
    using scan_nat_dec [OF s] r m by (cases "i < 0") (auto simp: scan_number_def int_dec_def startswith_def [of "CHR ''-'' # t" for t] Let_def)
qed

text \<open>The tokens of what is written.\<close>

fun tjoin :: "token list list \<Rightarrow> token list" where
  "tjoin [] = []"
| "tjoin [t] = t"
| "tjoin (t # u # ts) = t @ TComma # tjoin (u # ts)"

fun toks :: "yaml \<Rightarrow> token list" where
  "toks (YStr s) = [TStr s]"
| "toks (YList xs) = TOpen False # tjoin (map toks xs) @ [TClose False]"
| "toks (YMap m) = TOpen True # tjoin (map (\<lambda>(k, v). TStr k # TColon # toks v) m) @ [TClose True]"
| "toks v = [TVal v]"

definition scans :: "string \<Rightarrow> token list \<Rightarrow> bool" where
  "scans w ts = (\<forall>s us out. ends_number s \<longrightarrow> scan s = Some (us, out) \<longrightarrow> scan (w @ s) = Some (ts @ us, out))"

lemma scan_one:
  assumes "scan_token (w @ s) = Some (t, False, s)" and "w \<noteq> []" and "\<not> json_space (hd w)" and "scan s = Some (us, out)"
  shows "scan (w @ s) = Some (t # us, out)"
proof -
  have "dropWhile json_space (w @ s) = w @ s" using assms(2,3) by (cases w) auto
  then show ?thesis using assms by (subst scan.simps) (simp add: Let_def)
qed

lemma scan_char:
  assumes "scan_token (c # s) = Some (t, False, s)" and "\<not> json_space c" and "scan s = Some (us, out)"
  shows "scan (c # s) = Some (t # us, out)"
  using scan_one [of "[c]" s t us out] assms by simp

lemma scan_space: "json_space c \<Longrightarrow> scan (c # s) = scan s"
  by (subst (1 2) scan.simps) simp

lemma scan_marks:
  assumes "scan s = Some (us, out)"
  shows "scan (CHR ''['' # s) = Some (TOpen False # us, out)" "scan (CHR '']'' # s) = Some (TClose False # us, out)"
    "scan (CHR ''{'' # s) = Some (TOpen True # us, out)" "scan (CHR ''}'' # s) = Some (TClose True # us, out)"
    "scan (CHR '','' # s) = Some (TComma # us, out)" "scan (CHR '':'' # s) = Some (TColon # us, out)"
    "scan (CHR '' '' # s) = Some (us, out)"
  using assms by (auto intro!: scan_char simp: scan_token_def json_space_def scan_space)

lemma scan_json_str: "scan s = Some (us, out) \<Longrightarrow> scan (json_str x @ s) = Some (TStr x # us, out)"
proof -
  assume s: "scan s = Some (us, out)"
  have "scan_token (json_str x @ s) = Some (TStr x, False, s)" using scan_str_write [of "[]" False x s] by (simp add: scan_token_def json_str_def)
  from scan_one [OF this _ _ s] show ?thesis by (simp add: json_str_def json_space_def)
qed

lemma scan_join:
  assumes "list_all2 scans ws ts" and "ends_number s" and "scan s = Some (us, out)"
  shows "scan (join '', '' ws @ s) = Some (tjoin ts @ us, out)"
  using assms(1)
proof (induction ws arbitrary: ts)
  case Nil
  then show ?case using assms(3) by simp
next
  case (Cons w ws)
  show ?case
  proof (cases ws)
    case Nil
    then show ?thesis using Cons.prems assms(2,3) by (auto simp: list_all2_Cons1 scans_def)
  next
    case (Cons v vs)
    with Cons.prems obtain t u ts' where t: "ts = t # u # ts'" "scans w t" "list_all2 scans ws (u # ts')" by (auto simp: list_all2_Cons1)
    from Cons.IH [OF t(3)] have "scan (CHR '','' # CHR '' '' # join '', '' ws @ s) = Some (TComma # tjoin (u # ts') @ us, out)"
      by (intro scan_marks)
    moreover have "ends_number (CHR '','' # x)" for x by (simp add: ends_number_def is_digit_def)
    ultimately show ?thesis using t(1,2) Cons by (auto simp: scans_def)
  qed
qed

lemma int_dec_start: "\<exists>c t. int_dec i @ s = c # t \<and> (is_digit c \<or> c = CHR ''-'' \<and> (\<exists>d u. t = d # u \<and> is_digit d))"
proof -
  have "\<exists>d u. nat_dec n @ s = d # u \<and> is_digit d" for n using nat_dec_digits [of _ n] by (cases "nat_dec n") auto
  then show ?thesis by (cases "i < 0") (simp add: int_dec_def, simp add: int_dec_def, metis)
qed

definition not_number :: "char list" where
  "not_number = [CHR 0x22, CHR 0x09, CHR 0x0A, CHR 0x0D] @ ''{}[]:,ntfNI- ''"

lemma digit_not_number: "is_digit c \<Longrightarrow> c \<notin> set not_number"
proof -
  have "list_all (\<lambda>c. \<not> is_digit c) not_number" by code_simp
  then show "is_digit c \<Longrightarrow> c \<notin> set not_number" by (auto simp: list_all_iff)
qed

lemma scan_int: "ends_number s \<Longrightarrow> scan s = Some (us, out) \<Longrightarrow> scan (int_dec i @ s) = Some (TVal (YInt i) # us, out)"
proof -
  assume s: "ends_number s" "scan s = Some (us, out)"
  obtain c t where c: "int_dec i @ s = c # t" "is_digit c \<or> c = CHR ''-'' \<and> (\<exists>d u. t = d # u \<and> is_digit d)" by (rule exE [OF int_dec_start [of i s]]) metis
  have digit: "CHR ''n'' \<noteq> x \<and> CHR ''t'' \<noteq> x \<and> CHR ''f'' \<noteq> x \<and> CHR ''N'' \<noteq> x \<and> CHR ''I'' \<noteq> x \<and> CHR ''-'' \<noteq> x" if "is_digit x" for x
    using digit_not_number [OF that] by (simp add: not_number_def eq_commute [of _ x])
  from c(2) have k: "scan_constant (c # t) = None"
  proof (elim disjE conjE exE)
    assume "is_digit c"
    from digit [OF this] show ?thesis by (simp add: scan_constant_def CONSTANTS_def startswith_def)
  next
    fix d u assume "c = CHR ''-''" "t = d # u" "is_digit d"
    then show ?thesis using digit [of d] by (simp add: scan_constant_def CONSTANTS_def startswith_def)
  qed
  have "c \<notin> set (CHR 0x22 # ''{}[]:,'')" using c(2) digit_not_number [of c] by (elim disjE) (simp_all add: not_number_def)
  then have "scan_token (c # t) = do { (v, out, u) \<leftarrow> scan_number (c # t); Some (TVal v, out, u) }" using k by (simp add: scan_token_def)
  then have "scan_token (int_dec i @ s) = Some (TVal (YInt i), False, s)" using scan_number_dec [OF s(1), of i] unfolding c(1) by simp
  moreover have "\<not> json_space c" using c(2) digit_not_number [of c] by (elim disjE) (simp_all add: not_number_def json_space_def)
  moreover have "dropWhile json_space (int_dec i @ s) = int_dec i @ s" using c(1) \<open>\<not> json_space c\<close> by simp
  ultimately show ?thesis using s(2) c(1) by (subst scan.simps) (simp add: Let_def)
qed

lemma scans_write: "scans (json_write v) (toks v)"
proof (induction v)
  case YNull
  show ?case by (auto simp: scans_def scan_token_def scan_constant_def CONSTANTS_def startswith_def json_space_def intro!: scan_one [of "''null''", simplified])
next
  case (YBool b)
  show ?case by (cases b) (auto simp: scans_def scan_token_def scan_constant_def CONSTANTS_def startswith_def json_space_def
      intro!: scan_one [of "''true''", simplified] scan_one [of "''false''", simplified])
next
  case (YInt i)
  show ?case by (simp add: scans_def scan_int)
next
  case (YStr s)
  show ?case by (simp add: scans_def scan_json_str)
next
  case (YList xs)
  then have "list_all2 scans (map json_write xs) (map toks xs)" by (auto simp: list_all2_map1 list_all2_map2 list_all2_same)
  moreover have "ends_number (CHR '']'' # x)" for x by (simp add: ends_number_def is_digit_def)
  ultimately have "scan (join '', '' (map json_write xs) @ CHR '']'' # s) = Some (tjoin (map toks xs) @ TClose False # us, out)"
    if "scan s = Some (us, out)" for s us out using scan_join scan_marks(2) [OF that] by blast
  then show ?case by (simp add: scans_def scan_marks)
next
  case (YMap m)
  have "scans (json_str k @ '': '' @ json_write v) (TStr k # TColon # toks v)" if "(k, v) \<in> set m" for k v
    using YMap [of "(k, v)" v] that by (auto simp: scans_def intro!: scan_json_str scan_marks)
  then have "list_all2 scans (map (\<lambda>(k, v). json_str k @ '': '' @ json_write v) m) (map (\<lambda>(k, v). TStr k # TColon # toks v) m)"
    by (auto simp: list_all2_map1 list_all2_map2 list_all2_same)
  moreover have "ends_number (CHR ''}'' # x)" for x by (simp add: ends_number_def is_digit_def)
  ultimately have "scan (join '', '' (map (\<lambda>(k, v). json_str k @ '': '' @ json_write v) m) @ CHR ''}'' # s)
      = Some (tjoin (map (\<lambda>(k, v). TStr k # TColon # toks v) m) @ TClose True # us, out)"
    if "scan s = Some (us, out)" for s us out using scan_join scan_marks(4) [OF that] by blast
  then show ?case by (simp add: scans_def scan_marks)
qed

text \<open>The automaton on the tokens of a value.\<close>

lemma pstep_simps [simp]:
  "pstep t (st, EValue) = pvalue t st"
  "pstep t (st, EFirst) = (if t = TClose False then Some (tl st, EAfter (YList [])) else pvalue t st)"
  "pstep (TClose True) (st, EFirstKey m) = Some (st, EAfter (YMap m))"
  "pstep (TStr k) (st, EFirstKey m) = Some (st, EColon m k)"
  "pstep (TStr k) (st, EKey m) = Some (st, EColon m k)"
  "pstep TColon (st, EColon m k) = Some (InObject m k # st, EValue)"
  "pstep t (st, EAfter v) = pafter t st v"
  by (simp_all add: pstep_def)

definition parses :: "token list \<Rightarrow> yaml \<Rightarrow> bool" where
  "parses ts v = (\<forall>us st e. (e = EValue \<or> e = EFirst) \<longrightarrow> mfold pstep (ts @ us) (st, e) = mfold pstep us (st, EAfter v))"

lemma parsesD: "parses ts v \<Longrightarrow> e = EValue \<or> e = EFirst \<Longrightarrow> mfold pstep (ts @ us) (st, e) = mfold pstep us (st, EAfter v)"
  unfolding parses_def by blast

lemma parses_list:
  assumes "list_all2 parses tss vs" and "vs \<noteq> []" and "e = EValue \<or> e = EFirst"
  shows "mfold pstep (tjoin tss @ TClose False # us) (InArray ys # st, e) = mfold pstep us (st, EAfter (YList (ys @ vs)))"
  using assms
proof (induction tss arbitrary: vs ys e)
  case (Cons ts tss)
  then obtain v ws where v: "vs = v # ws" "parses ts v" "list_all2 parses tss ws" by (auto simp: list_all2_Cons1)
  show ?case
  proof (cases tss)
    case Nil
    then show ?thesis using v Cons.prems(3) by (simp add: parsesD put_value_in_def)
  next
    case (Cons u us')
    then have "ws \<noteq> []" "tjoin (ts # tss) = ts @ TComma # tjoin tss" using v(3) by auto
    then show ?thesis using v Cons.IH [OF v(3), of EValue "ys @ [v]"] Cons.prems(3) by (simp add: parsesD)
  qed
qed simp

lemma update_new: "k \<notin> fst ` set m \<Longrightarrow> AList.update k v m = m @ [(k, v)]"
  by (induction m) auto

lemma parses_map:
  assumes "\<And>k v. (k, v) \<in> set m \<Longrightarrow> parses (toks v) v" and "m \<noteq> []" and "e = EFirstKey acc \<or> e = EKey acc" and "distinct (map fst (acc @ m))"
  shows "mfold pstep (tjoin (map (\<lambda>(k, v). TStr k # TColon # toks v) m) @ TClose True # us) (st, e) = mfold pstep us (st, EAfter (YMap (acc @ m)))"
  using assms
proof (induction m arbitrary: acc e)
  case (Cons x m)
  obtain k v where x: "x = (k, v)" by (cases x)
  have p: "parses (toks v) v" using Cons.prems(1) [of k v] x by simp
  have upd: "AList.update k v acc = acc @ [(k, v)]" using Cons.prems(4) by (intro update_new) (auto simp: x)
  show ?case
  proof (cases m)
    case Nil
    then show ?thesis using p upd Cons.prems(3) by (auto simp: x parsesD put_value_in_def)
  next
    case (Cons y m')
    then have "tjoin (map (\<lambda>(k, v). TStr k # TColon # toks v) (x # m)) = TStr k # TColon # toks v @ TComma # tjoin (map (\<lambda>(k, v). TStr k # TColon # toks v) m)"
      by (simp add: x)
    moreover have "mfold pstep (tjoin (map (\<lambda>(k, v). TStr k # TColon # toks v) m) @ TClose True # us) (st, EKey (acc @ [(k, v)]))
        = mfold pstep us (st, EAfter (YMap ((acc @ [(k, v)]) @ m)))"
      using Cons Cons.prems by (intro Cons.IH) (auto simp: x)
    ultimately show ?thesis using p upd Cons.prems(3) by (auto simp: x parsesD)
  qed
qed simp

lemma parses_toks: "wf_yaml v \<Longrightarrow> parses (toks v) v"
proof (induction v)
  case (YList xs)
  show ?case
  proof (cases xs)
    case Nil
    then show ?thesis by (auto simp: parses_def)
  next
    case (Cons y ys)
    have "list_all2 parses (map toks xs) xs" using YList by (auto simp: list_all2_map1 list_all2_same list_all_iff)
    from parses_list [OF this, of EFirst _ "[]"] Cons show ?thesis by (auto simp: parses_def)
  qed
next
  case (YMap m)
  show ?case
  proof (cases m)
    case Nil
    then show ?thesis by (auto simp: parses_def)
  next
    case (Cons y ys)
    have "parses (toks v) v" if "(k, v) \<in> set m" for k v using YMap(1) [of "(k, v)" v] YMap(2) that by (auto simp: list_all_iff)
    from parses_map [of m "EFirstKey []" "[]", OF this] Cons YMap(2) show ?thesis by (auto simp: parses_def)
  qed
qed (auto simp: parses_def)

lemma json_loads_write:
  assumes "wf_yaml v"
  shows "json_loads (json_write v) = JVal v"
proof -
  have "scan [] = Some ([], False)" by (subst scan.simps) simp
  moreover have "ends_number []" by (simp add: ends_number_def)
  ultimately have "scan (json_write v @ []) = Some (toks v @ [], False)" using scans_write [of v] unfolding scans_def by blast
  moreover have "mfold pstep (toks v) ([], EValue) = Some ([], EAfter v)"
    using parses_toks [OF assms] by (simp add: parses_def) (metis append_Nil2 mfold.simps(1))
  ultimately show ?thesis by (simp add: json_loads_def)
qed


definition json_sample :: yaml where
  "json_sample = YMap [(''flow'', YMap [(''port'', YInt (- 5432)), (''name'', YStr [CHR 0x22, CHR 0x0A, CHR 0xE9]), (''ok'', YList [YBool True, YNull, YMap []])])]"


text \<open>What is read has distinct keys in every object.\<close>

definition wf_frame :: "frame \<Rightarrow> bool" where
  "wf_frame f = (case f of InArray xs \<Rightarrow> wf_yaml (YList xs) | InObject m k \<Rightarrow> wf_yaml (YMap m))"

definition wf_expects :: "expects \<Rightarrow> bool" where
  "wf_expects e = (case e of EFirstKey m \<Rightarrow> wf_yaml (YMap m) | EKey m \<Rightarrow> wf_yaml (YMap m) | EColon m k \<Rightarrow> wf_yaml (YMap m) | EAfter v \<Rightarrow> wf_yaml v | _ \<Rightarrow> True)"

lemma wf_update: "wf_yaml (YMap m) \<Longrightarrow> wf_yaml v \<Longrightarrow> wf_yaml (YMap (AList.update k v m))"
proof -
  assume m: "wf_yaml (YMap m)" "wf_yaml v"
  have "set (AList.update k v m) \<subseteq> insert (k, v) (set m)" by (induction m) auto
  then show ?thesis using m by (auto simp: distinct_update list_all_iff)
qed

lemma wf_put_value: "wf_frame f \<Longrightarrow> wf_yaml v \<Longrightarrow> wf_yaml (put_value_in v f)"
  by (cases f) (auto simp: wf_frame_def put_value_in_def simp del: wf_yaml.simps(2) intro: wf_update)

definition wf_token :: "token \<Rightarrow> bool" where
  "wf_token t = (case t of TVal v \<Rightarrow> wf_yaml v | _ \<Rightarrow> True)"

lemma pafter_wf:
  "pafter t st v = Some (st', e') \<Longrightarrow> list_all wf_frame st \<Longrightarrow> wf_yaml v \<Longrightarrow> list_all wf_frame st' \<and> wf_expects e'"
  by (induction t st v rule: pafter.induct) (auto simp: wf_frame_def wf_expects_def wf_put_value simp del: wf_yaml.simps(2) intro!: wf_update split: if_splits frame.splits)

lemma pstep_wf:
  assumes "pstep t (st, e) = Some (st', e')" and "wf_token t" and "list_all wf_frame st" and "wf_expects e"
  shows "list_all wf_frame st' \<and> wf_expects e'"
proof -
  have first: "list_all wf_frame st' \<and> wf_expects e'" if "pvalue t st = Some (st', e')"
    using that assms(2,3) by (cases t) (auto simp: wf_token_def wf_expects_def wf_frame_def split: if_splits)
  show ?thesis
  proof (cases e)
    case EValue
    then show ?thesis using assms(1) first by simp
  next
    case EFirst
    then show ?thesis using assms(1,3) first by (cases st) (auto simp: wf_expects_def split: if_splits)
  next
    case (EAfter v)
    then show ?thesis using assms pafter_wf [of t st v st' e'] by (simp add: wf_expects_def)
  qed (use assms in \<open>auto simp: pstep_def wf_expects_def wf_frame_def split: token.splits bool.splits if_splits\<close>)
qed

lemma scan_token_wf: "scan_token s = Some (t, o', u) \<Longrightarrow> wf_token t"
  by (auto simp: scan_token_def wf_token_def scan_constant_def CONSTANTS_def scan_number_def Let_def bind_eq_Some_conv
      split: list.splits if_splits option.splits)

lemma scan_wf: "scan s = Some (ts, out) \<Longrightarrow> list_all wf_token ts"
proof (induction "length s" arbitrary: s ts out rule: less_induct)
  case less
  show ?case
  proof (cases "dropWhile json_space s = []")
    case True
    then show ?thesis using less.prems by (simp add: scan.simps [of s] Let_def)
  next
    case False
    with less.prems obtain tok o1 u us o2 where t: "scan_token (dropWhile json_space s) = Some (tok, o1, u)" "scan u = Some (us, o2)" "ts = tok # us"
      by (simp add: scan.simps [of s] Let_def del: dropWhile_eq_Nil_conv split: option.splits prod.splits) auto
    then show ?thesis using less.hyps [OF scan_token_rest [OF t(1)] t(2)] scan_token_wf [OF t(1)] by simp
  qed
qed

lemma json_loads_wf: "json_loads s = JVal v \<Longrightarrow> wf_yaml v"
proof -
  assume "json_loads s = JVal v"
  then obtain ts out where t: "scan s = Some (ts, out)" "mfold pstep ts ([], EValue) = Some ([], EAfter v)"
    by (auto simp: json_loads_def split: option.splits list.splits prod.splits expects.splits if_splits)
  have "list_all wf_frame [] \<and> wf_expects (EAfter v)"
    using mfold_invariant [OF t(2), of "\<lambda>(st, e). list_all wf_frame st \<and> wf_expects e"] pstep_wf scan_wf [OF t(1)]
    by (fastforce simp: list_all_iff wf_expects_def)
  then show ?thesis by (simp add: wf_expects_def)
qed


definition repeated_key :: string where
  "repeated_key = (let q = [CHR 0x22] in ''{'' @ q @ ''a'' @ q @ '': 1, '' @ q @ ''a'' @ q @ '': [2]}'')"


end
