(* ===== verification/WorkloadRbac.thy ===== *)
theory WorkloadRbac
  imports Json "HOL-Library.Multiset"
begin

text \<open>
  \<^verbatim>\<open>src/scripts/check-workload-rbac.py\<close>: every grant to a ServiceAccount is on an allowlist, keyed by
  subject, role and scope, with a digest of the rules of the role. SHA-256 is the parameter
  \<open>sha\<close>, the render and the allowlist file are parameters. The theory proves that the digest does
  not depend on the order of the rules, that the verdict is exact, and that a passing run lists
  every grant of the render. Strings are printed in JSON as Python prints characters below 256.
\<close>

section \<open>Digests and grants\<close>

text \<open>\<^verbatim>\<open>sorted(r.get(field) or [])\<close>.\<close>

definition sorted_field :: "yaml \<Rightarrow> string \<Rightarrow> yaml option" where
  "sorted_field r fld = do { xs \<leftarrow> get_list r fld; ys \<leftarrow> py_sorted xs; Some (YList ys) }"

definition norm_rule :: "yaml \<Rightarrow> yaml option" where
  "norm_rule r = do {
     g \<leftarrow> sorted_field r ''apiGroups'';
     s \<leftarrow> sorted_field r ''resources'';
     n \<leftarrow> sorted_field r ''resourceNames'';
     v \<leftarrow> sorted_field r ''verbs'';
     u \<leftarrow> sorted_field r ''nonResourceURLs'';
     Some (YMap [(''apiGroups'', g), (''resources'', s), (''resourceNames'', n), (''verbs'', v), (''nonResourceURLs'', u)])
   }"

definition rules_digest :: "(string \<Rightarrow> string) \<Rightarrow> yaml \<Rightarrow> string option" where
  "rules_digest sha rules = do {
     rs \<leftarrow> py_iter (py_or rules (YList []));
     ns \<leftarrow> mmap norm_rule rs;
     Some (take 16 (sha (json_dumps (YList (sort_key json_dumps ns)))))
   }"

type_synonym role_id = "yaml \<times> yaml \<times> yaml"

definition WL_NS :: string where
  "WL_NS = ''gibson''"

definition put_role :: "(string \<Rightarrow> string) \<Rightarrow> doc \<Rightarrow> (role_id \<times> string) list \<Rightarrow> (role_id \<times> string) list option" where
  "put_role sha d roles = do {
     kind \<leftarrow> dget d ''kind'';
     if \<not> in_strtuple kind [''Role'', ''ClusterRole''] then Some roles else do {
     ns \<leftarrow> (if kind = YStr ''Role'' then meta_ns_or d WL_NS else Some (YStr []));
     n \<leftarrow> meta_name d;
     rs \<leftarrow> dget d ''rules'';
     dig \<leftarrow> rules_digest sha rs;
     if hashable ns \<and> hashable n then Some (AList.update (kind, ns, n) dig roles) else None
     }
   }"

text \<open>The key of a binding and the line of a subject in it.\<close>

definition binding_role :: "doc \<Rightarrow> (role_id \<times> yaml) option" where
  "binding_role d = do {
     kind \<leftarrow> dget d ''kind'';
     ref \<leftarrow> get_or_dict d ''roleRef'';
     bns \<leftarrow> (if kind = YStr ''RoleBinding'' then meta_ns_or d WL_NS else Some (YStr []));
     rk \<leftarrow> dget ref ''kind'';
     rn \<leftarrow> dget ref ''name'';
     let key = (rk, if rk = YStr ''Role'' then bns else YStr [], rn);
     if hashable rk \<and> hashable (fst (snd key)) \<and> hashable rn then Some (key, bns) else None
   }"

definition grant_line :: "doc \<Rightarrow> role_id \<Rightarrow> yaml \<Rightarrow> yaml \<Rightarrow> string list option" where
  "grant_line d key bns s = do {
     kind \<leftarrow> dget d ''kind'';
     sk \<leftarrow> dget s ''kind'';
     if sk \<noteq> YStr ''ServiceAccount'' then Some [] else do {
     sns \<leftarrow> dget s ''namespace'';
     sn \<leftarrow> item s ''name'';
     Some [py_str (py_or sns (YStr WL_NS)) @ ''/'' @ py_str sn @ '' -> '' @ py_str (fst key) @ ''/'' @ py_str (snd (snd key)) @ '' ''
           @ (if kind = YStr ''RoleBinding'' then ''in '' @ py_str bns else ''cluster-wide'')]
     }
   }"

definition put_grants :: "(role_id \<times> string) list \<Rightarrow> doc \<Rightarrow> (string \<times> string) list \<Rightarrow> (string \<times> string) list option" where
  "put_grants roles d out = do {
     kind \<leftarrow> dget d ''kind'';
     if \<not> in_strtuple kind [''RoleBinding'', ''ClusterRoleBinding''] then Some out else do {
     (key, bns) \<leftarrow> binding_role d;
     let dig = dict_get roles key ''external'';
     ss \<leftarrow> get_list d ''subjects'';
     lines \<leftarrow> collect (grant_line d key bns) ss;
     Some (fold (\<lambda>l m. AList.update l dig m) lines out)
     }
   }"

definition grants :: "(string \<Rightarrow> string) \<Rightarrow> doc list \<Rightarrow> (string \<times> string) list option" where
  "grants sha docs = do {
     roles \<leftarrow> mfold (put_role sha) docs [];
     mfold (put_grants roles) docs []
   }"

definition load_grants :: "yaml \<Rightarrow> (string \<times> string) list option" where
  "load_grants data0 = do {
     g \<leftarrow> get_or_dict (py_or data0 (YMap [])) ''grants'';
     es \<leftarrow> items g;
     Some (map (\<lambda>(k, v). (k, py_str v)) es)
   }"

datatype rbac_finding = UnlistedGrant string string | RulesChanged string string string | StaleGrant string

definition judge_grant :: "(string \<times> string) list \<Rightarrow> string \<times> string \<Rightarrow> rbac_finding list" where
  "judge_grant allowed = (\<lambda>(k, dig). case map_of allowed k of
       None \<Rightarrow> [UnlistedGrant k dig]
     | Some a \<Rightarrow> (if a \<noteq> dig then [RulesChanged k a dig] else []))"

definition judge_rbac :: "(string \<times> string) list \<Rightarrow> (string \<times> string) list \<Rightarrow> rbac_finding list" where
  "judge_rbac cur allowed =
     concat (map (judge_grant allowed) (sort_key fst cur))
     @ map StaleGrant (filter (\<lambda>k. map_of cur k = None) (sort (map fst allowed)))"

section \<open>The selftest and the run\<close>

definition RBAC_FIXTURE :: "doc list" where
  "RBAC_FIXTURE =
     [YMap [(''apiVersion'', YStr ''rbac.authorization.k8s.io/v1''), (''kind'', YStr ''Role''),
        (''metadata'', YMap [(''name'', YStr ''reader''), (''namespace'', YStr ''gibson'')]),
        (''rules'', YList [YMap [(''apiGroups'', YList [YStr []]), (''resources'', YList [YStr ''secrets'']),
           (''verbs'', YList [YStr ''get'', YStr ''list''])]])],
      YMap [(''apiVersion'', YStr ''rbac.authorization.k8s.io/v1''), (''kind'', YStr ''RoleBinding''),
        (''metadata'', YMap [(''name'', YStr ''reader''), (''namespace'', YStr ''gibson'')]),
        (''roleRef'', YMap [(''kind'', YStr ''Role''), (''name'', YStr ''reader'')]),
        (''subjects'', YList [YMap [(''kind'', YStr ''ServiceAccount''), (''name'', YStr ''app''), (''namespace'', YStr ''gibson'')]])]]"

definition RBAC_KEY :: string where
  "RBAC_KEY = ''gibson/app -> Role/reader in gibson''"

text \<open>\<^verbatim>\<open>docs[0]["rules"][0]["verbs"].append("delete")\<close>.\<close>

definition widened_fixture :: "doc list option" where
  "widened_fixture = do {
     d \<leftarrow> edit_at [Key ''rules'', Idx 0, Key ''verbs''] (append_item (YStr ''delete'')) (hd RBAC_FIXTURE);
     Some (d # tl RBAC_FIXTURE)
   }"

definition selftest_rbac :: "(string \<Rightarrow> string) \<Rightarrow> doc list \<Rightarrow> yaml \<Rightarrow> int option" where
  "selftest_rbac sha render allowlist = do {
     cur \<leftarrow> grants sha RBAC_FIXTURE;
     if map fst cur \<noteq> [RBAC_KEY] then Some 1
     else if judge_rbac cur cur \<noteq> [] then Some 1
     else do {
       docs \<leftarrow> widened_fixture;
       wide \<leftarrow> grants sha docs;
       if \<not> (case judge_rbac wide cur of [RulesChanged k a dig] \<Rightarrow> True | _ \<Rightarrow> False) then Some 1
       else if \<not> (case judge_rbac wide [] of [UnlistedGrant k dig] \<Rightarrow> True | _ \<Rightarrow> False) then Some 1
       else if \<not> (case judge_rbac [] cur of [StaleGrant k] \<Rightarrow> True | _ \<Rightarrow> False) then Some 1
       else do {
         now \<leftarrow> grants sha (filter truthy render);
         al \<leftarrow> load_grants allowlist;
         Some (if judge_rbac now al \<noteq> [] then 1 else 0)
       }
     }
   }"

definition main_rbac :: "string list \<Rightarrow> (string \<Rightarrow> string) \<Rightarrow> doc list \<Rightarrow> yaml \<Rightarrow> int option" where
  "main_rbac argv sha render allowlist =
     (if ''--print'' \<in> set argv then do { _ \<leftarrow> grants sha (filter truthy render); Some 0 }
      else if ''--selftest'' \<in> set argv then selftest_rbac sha render allowlist
      else do {
        now \<leftarrow> grants sha (filter truthy render);
        al \<leftarrow> load_grants allowlist;
        Some (if judge_rbac now al \<noteq> [] then 1 else 0)
      })"

section \<open>Lemmas\<close>

lemma mmap_the:
  "mmap f zs = (if \<exists>x \<in> set zs. f x = None then None else Some (map (\<lambda>x. the (f x)) zs))"
proof (induction zs)
  case (Cons a zs)
  then show ?case by (cases "f a") auto
qed simp

lemma map_sort_key: "map f (sort_key f xs) = sort (map f xs)" for f :: "'a \<Rightarrow> 'b :: linorder"
proof -
  have "map f (insort_key f x ys) = insort (f x) (map f ys)" for x ys by (induction ys) auto
  then show ?thesis by (induction xs) auto
qed

lemma json_sorted_rules: "json_dumps (YList (sort_key json_dumps ns)) = ''['' @ join '', '' (sort (map json_dumps ns)) @ '']''"
  by (simp add: map_sort_key)

lemma map_of_sort_key [simp]: "distinct (map fst xs) \<Longrightarrow> map_of (sort_key fst xs) = map_of xs"
  by (rule map_of_inject_set [THEN iffD2]) (simp_all add: map_sort_key)

lemma judge_grant_Nil: "judge_grant allowed (k, dig) = [] \<longleftrightarrow> map_of allowed k = Some dig"
  by (auto simp: judge_grant_def split: option.split)

lemma put_role_keys: "put_role sha d roles = Some roles' \<Longrightarrow> distinct (map fst roles) \<Longrightarrow> distinct (map fst roles')"
  by (auto simp: put_role_def distinct_update elim!: bindE split: if_splits)

lemma fold_update_keys: "distinct (map fst m) \<Longrightarrow> distinct (map fst (fold (\<lambda>l m. AList.update l dig m) ls m))"
  by (induction ls arbitrary: m) (simp_all add: distinct_update)

lemma put_grants_keys: "put_grants roles d out = Some out' \<Longrightarrow> distinct (map fst out) \<Longrightarrow> distinct (map fst out')"
  by (auto simp: put_grants_def fold_update_keys elim!: bindE split: if_splits)

lemma grants_keys: "grants sha docs = Some cur \<Longrightarrow> distinct (map fst cur)"
  by (auto simp: grants_def elim!: bindE mfold_invariant dest: put_grants_keys)

text \<open>The line \<open>l\<close> stands for a ServiceAccount among the subjects of the binding \<open>d\<close>.\<close>

definition binds_line :: "doc \<Rightarrow> string \<Rightarrow> bool" where
  "binds_line d l = (\<exists>kind. dget d ''kind'' = Some kind \<and> in_strtuple kind [''RoleBinding'', ''ClusterRoleBinding'']
     \<and> (\<exists>key bns ss. binding_role d = Some (key, bns) \<and> get_list d ''subjects'' = Some ss
          \<and> (\<exists>s \<in> set ss. grant_line d key bns s = Some [l])))"

lemma fold_update_dom: "fst ` set (fold (\<lambda>l m. AList.update l dig m) ls m) = set ls \<union> fst ` set m"
  by (induction ls arbitrary: m) (auto simp: dom_update)

lemma grant_line_single: "grant_line d key bns s = Some ls \<Longrightarrow> ls = [] \<or> (\<exists>l. ls = [l])"
  by (auto simp: grant_line_def elim!: bindE split: if_splits)

lemma collect_lines:
  assumes "collect (grant_line d key bns) ss = Some ls"
  shows "l \<in> set ls \<longleftrightarrow> (\<exists>s \<in> set ss. grant_line d key bns s = Some [l])"
  using collect_set [OF assms] grant_line_single [of d key bns] by fastforce

lemma put_grants_lines:
  assumes "put_grants roles d out = Some out'"
  shows "l \<in> fst ` set out' \<longleftrightarrow> l \<in> fst ` set out \<or> binds_line d l"
  using assms by (auto simp: put_grants_def binds_line_def fold_update_dom collect_lines elim!: bindE split: if_splits del: imageE image_eqI rev_image_eqI) blast

lemma grants_lines:
  assumes "grants sha docs = Some cur"
  shows "l \<in> fst ` set cur \<longleftrightarrow> (\<exists>d \<in> set docs. binds_line d l)"
proof -
  from assms obtain roles where run: "mfold (put_grants roles) docs [] = Some cur" by (auto simp: grants_def elim!: bindE)
  show ?thesis
    using mfold_collects [OF _ run, where P = "\<lambda>m. l \<in> fst ` set m" and Q = "\<lambda>d. binds_line d l"] put_grants_lines by simp
qed

lemma rules_digest_list:
  "rules_digest sha (YList rs) = (if \<exists>x \<in> set rs. norm_rule x = None then None
     else Some (take 16 (sha (''['' @ join '', '' (sort (map (\<lambda>x. json_dumps (the (norm_rule x))) rs)) @ '']''))))"
  by (cases rs) (simp_all add: rules_digest_def json_sorted_rules mmap_the comp_def del: json_dumps.simps)

lemma judge_rbac_exact_lemma:
  assumes cur: "grants sha docs = Some cur"
  shows "judge_rbac cur allowed = [] \<longleftrightarrow> map_of cur = map_of allowed"
proof
  assume "judge_rbac cur allowed = []"
  then have fwd: "\<And>k dig. (k, dig) \<in> set cur \<Longrightarrow> map_of allowed k = Some dig"
    and bwd: "\<And>k. k \<in> fst ` set allowed \<Longrightarrow> map_of cur k \<noteq> None"
    by (auto simp: judge_rbac_def judge_grant_Nil [symmetric] filter_empty_conv)
  show "map_of cur = map_of allowed"
  proof
    fix k show "map_of cur k = map_of allowed k"
    proof (cases "map_of cur k")
      case None
      then have "k \<notin> fst ` set allowed" using bwd by blast
      then have "map_of allowed k = None" by (simp add: map_of_eq_None_iff)
      with None show ?thesis by simp
    next
      case (Some dig)
      with fwd [OF map_of_SomeD [OF Some]] show ?thesis by simp
    qed
  qed
next
  assume eq: "map_of cur = map_of allowed"
  have "judge_grant allowed (k, dig) = []" if "(k, dig) \<in> set cur" for k dig
    using that grants_keys [OF cur] eq by (simp add: judge_grant_Nil flip: eq)
  moreover have "map_of cur k \<noteq> None" if "k \<in> fst ` set allowed" for k
    using that eq by (simp add: map_of_eq_None_iff)
  ultimately show "judge_rbac cur allowed = []"
    by (auto simp: judge_rbac_def filter_empty_conv)
qed

section \<open>Properties\<close>

text \<open>A reorder does not move the digest: two lists of rules that hold the same rules in any
  order have the same digest, or both raise.\<close>

theorem rules_digest_reorder:
  assumes "mset rs = mset rs'"
  shows "rules_digest sha (YList rs) = rules_digest sha (YList rs')"
proof -
  have same: "set rs = set rs'" using assms by (rule mset_eq_setD)
  have "mset (map (\<lambda>x. json_dumps (the (norm_rule x))) rs) = mset (map (\<lambda>x. json_dumps (the (norm_rule x))) rs')"
    using assms by simp
  then have "sort (map (\<lambda>x. json_dumps (the (norm_rule x))) rs) = sort (map (\<lambda>x. json_dumps (the (norm_rule x))) rs')"
    by (metis sorted_list_of_multiset_mset)
  with same show ?thesis by (simp add: rules_digest_list)
qed

theorem rules_digest_reorder_witness:
  "rules_digest id (YList [YMap [], YMap [(''verbs'', YList [YStr ''get''])]]) = rules_digest id (YList [YMap [(''verbs'', YList [YStr ''get''])], YMap []])"
  by (rule rules_digest_reorder) simp

text \<open>The verdict is exact: on two dictionaries the guard reports nothing exactly when the render
  and the allowlist hold the same grants with the same digests.\<close>

theorem judge_rbac_exact:
  assumes "grants sha docs = Some cur"
  shows "judge_rbac cur allowed = [] \<longleftrightarrow> map_of cur = map_of allowed"
  by (rule judge_rbac_exact_lemma [OF assms])

theorem judge_rbac_exact_witness:
  "\<exists>cur. grants (\<lambda>s. s) RBAC_FIXTURE = Some cur \<and> (judge_rbac cur cur = [] \<longleftrightarrow> map_of cur = map_of cur)"
proof -
  have "grants (\<lambda>s. s) RBAC_FIXTURE \<noteq> None" by code_simp
  then obtain cur where cur: "grants (\<lambda>s. s) RBAC_FIXTURE = Some cur" by auto
  show ?thesis by (intro exI conjI) (rule cur, rule judge_rbac_exact [OF cur])
qed

text \<open>A run that exits 0 has every grant reviewed and no line left over: a line is in the
  allowlist exactly when a ServiceAccount among the subjects of a rendered binding produces it.\<close>

theorem passing_run_lists_grants:
  assumes "main_rbac [] sha render allowlist = Some 0" and "load_grants allowlist = Some al"
  shows "l \<in> fst ` set al \<longleftrightarrow> (\<exists>d \<in> set render. truthy d \<and> binds_line d l)"
proof -
  from assms obtain cur where cur: "grants sha (filter truthy render) = Some cur" and "judge_rbac cur al = []"
    by (auto simp: main_rbac_def elim!: bindE split: if_splits)
  then have "map_of cur = map_of al" by (simp add: judge_rbac_exact_lemma)
  then have "dom (map_of cur) = dom (map_of al)" by simp
  then have "fst ` set cur = fst ` set al" by (simp add: dom_map_of_conv_image_fst)
  with grants_lines [OF cur, of l] show ?thesis by (simp add: Bex_def conj_assoc)
qed

definition rbac_allowlist :: yaml where
  "rbac_allowlist = YMap [(''grants'', YMap [(RBAC_KEY, YStr ''0123456789abcdef'')])]"

theorem passing_run_lists_grants_witness:
  "\<exists>al. load_grants rbac_allowlist = Some al \<and> (RBAC_KEY \<in> fst ` set al \<longleftrightarrow> (\<exists>d \<in> set RBAC_FIXTURE. truthy d \<and> binds_line d RBAC_KEY))"
proof -
  have run: "main_rbac [] (\<lambda>s. ''0123456789abcdef'') RBAC_FIXTURE rbac_allowlist = Some 0" by code_simp
  have "load_grants rbac_allowlist \<noteq> None" by code_simp
  then obtain al where al: "load_grants rbac_allowlist = Some al" by auto
  show ?thesis by (intro exI conjI) (rule al, rule passing_run_lists_grants [OF run al])
qed

end
