(* ===== verification/OperatorRbac.thy ===== *)
theory OperatorRbac
  imports OwnerReads "HOL-Library.Product_Lexorder"
begin

text \<open>
  \<^verbatim>\<open>src/scripts/check-operator-rbac-covers.py\<close>: the chart grants each operator at least the
  ClusterRole its own controllers declare. The render and the vendored roles are parameters; the
  printed lines are left out, the problems and the exit status are kept. The theory proves that the
  check is sound for the API server's reading of the rules when no granted rule is narrowed to
  object names, that it is complete for the triples it asks for, and that a granted rule narrowed to
  object names passes although it does not grant the collection.
\<close>

section \<open>Model\<close>

definition OPERATORS :: "(string \<times> string) list" where
  "OPERATORS = [(''tenant'', ''gibson-tenant-operator''), (''connector'', ''gibson-connector-operator''),
     (''platform'', ''gibson-platform-operator'')]"

text \<open>\<^verbatim>\<open>{name: rules or []}\<close> over the ClusterRoles; the rules are iterated by the caller.\<close>

definition put_cluster_role :: "doc \<Rightarrow> (yaml \<times> yaml) list \<Rightarrow> (yaml \<times> yaml) list option" where
  "put_cluster_role d roles = do {
     kind \<leftarrow> dget d ''kind'';
     if kind \<noteq> YStr ''ClusterRole'' then Some roles else do {
     n \<leftarrow> meta_name d;
     rs \<leftarrow> dget d ''rules'';
     if hashable n then Some (AList.update n (py_or rs (YList [])) roles) else None
     }
   }"

definition is_sa_subject :: "string \<Rightarrow> yaml \<Rightarrow> bool option" where
  "is_sa_subject sa s = do {
     k \<leftarrow> dget s ''kind'';
     if k \<noteq> YStr ''ServiceAccount'' then Some False else do { n \<leftarrow> dget s ''name''; Some (n = YStr sa) }
   }"

definition operator_bound_rules :: "(yaml \<times> yaml) list \<Rightarrow> string \<Rightarrow> doc \<Rightarrow> yaml list option" where
  "operator_bound_rules roles sa d = do {
     kind \<leftarrow> dget d ''kind'';
     if kind \<noteq> YStr ''ClusterRoleBinding'' then Some [] else do {
     ss \<leftarrow> get_list d ''subjects'';
     b \<leftarrow> many (is_sa_subject sa) ss;
     if \<not> b then Some [] else do {
     ref \<leftarrow> item d ''roleRef'';
     n \<leftarrow> item ref ''name'';
     if hashable n then py_iter (dict_get roles n (YList [])) else None
     }}
   }"

definition cluster_rules :: "doc list \<Rightarrow> string \<Rightarrow> yaml list option" where
  "cluster_rules docs sa = do {
     roles \<leftarrow> mfold put_cluster_role docs [];
     collect (operator_bound_rules roles sa) docs
   }"

definition has :: "yaml \<Rightarrow> string \<Rightarrow> yaml \<Rightarrow> bool option" where
  "has rule key v = do {
     vs0 \<leftarrow> dget rule key;
     let vs = py_or vs0 (YList []);
     mor (py_in v vs) (py_in (YStr ''*'') vs)
   }"

type_synonym gap = "yaml \<times> yaml \<times> yaml"

definition grant_covers :: "yaml \<Rightarrow> gap \<Rightarrow> bool option" where
  "grant_covers g = (\<lambda>(group, res, verb).
     mand (mand (has g ''apiGroups'' group) (has g ''resources'' res)) (has g ''verbs'' verb))"

text \<open>\<^verbatim>\<open>itertools.product\<close> of the three lists of a rule.\<close>

definition rule_triples :: "yaml \<Rightarrow> gap list option" where
  "rule_triples r = do {
     gs0 \<leftarrow> dget r ''apiGroups'';
     gs \<leftarrow> py_iter (py_or gs0 (YList [YStr []]));
     ss \<leftarrow> get_list r ''resources'';
     vs \<leftarrow> get_list r ''verbs'';
     Some (List.product gs (List.product ss vs))
   }"

definition gap_of :: "yaml list \<Rightarrow> gap \<Rightarrow> gap list option" where
  "gap_of got t = do {
     b \<leftarrow> many (\<lambda>g. grant_covers g t) got;
     Some (if b then [] else [(py_or (fst t) (YStr ''core''), snd t)])
   }"

definition missing :: "yaml list \<Rightarrow> yaml list \<Rightarrow> gap list option" where
  "missing want got = collect (\<lambda>r. do { ts \<leftarrow> rule_triples r; collect (gap_of got) ts }) want"

definition want_rules_of :: "doc \<Rightarrow> yaml list option" where
  "want_rules_of d = (if \<not> truthy d then Some [] else do {
     kind \<leftarrow> dget d ''kind'';
     if kind \<noteq> YStr ''ClusterRole'' then Some [] else get_list d ''rules''
   })"

definition want :: "(string \<Rightarrow> doc list) \<Rightarrow> string \<Rightarrow> yaml list option" where
  "want contract op = collect want_rules_of (contract op)"

subsection \<open>The selftest\<close>

definition oidc_rule :: "string list \<Rightarrow> string list \<Rightarrow> yaml" where
  "oidc_rule ress verbs = YMap [(''apiGroups'', YList [YStr ''gibson.zeroroot.ai'']),
     (''resources'', YList (map YStr ress)), (''verbs'', YList (map YStr verbs))]"

definition selftest_render :: "yaml list \<Rightarrow> string \<Rightarrow> string \<Rightarrow> doc list" where
  "selftest_render rules binding role =
     [YMap [(''kind'', YStr role), (''metadata'', YMap [(''name'', YStr ''r''), (''namespace'', YStr ''gibson'')]),
        (''rules'', YList rules)],
      YMap [(''kind'', YStr binding), (''metadata'', YMap [(''name'', YStr ''b''), (''namespace'', YStr ''gibson'')]),
        (''roleRef'', YMap [(''kind'', YStr role), (''name'', YStr ''r'')]),
        (''subjects'', YList [YMap [(''kind'', YStr ''ServiceAccount''), (''name'', YStr ''gibson-tenant-operator'')]])]]"

definition selftest_operator :: "int option" where
  "selftest_operator =
     (let want_rules = [oidc_rule [''oidcclients''] [''get'', ''list'', ''watch'']];
          full = [oidc_rule [''oidcclients''] [''get'', ''list'', ''watch'', ''create'']];
          left = (\<lambda>docs. do { got \<leftarrow> cluster_rules docs ''gibson-tenant-operator''; gs \<leftarrow> missing want_rules got; Some (length gs) });
          expect = (\<lambda>docs n. do { k \<leftarrow> left docs; Some (k = n) })
      in selftest_rc
        [expect (selftest_render full ''ClusterRoleBinding'' ''ClusterRole'') 0,
         expect (selftest_render [oidc_rule [''oidcclients''] [''get'', ''list'']] ''ClusterRoleBinding'' ''ClusterRole'') 1,
         expect (selftest_render [oidc_rule [''tenants''] [''get'', ''list'', ''watch'']] ''ClusterRoleBinding'' ''ClusterRole'') 3,
         expect (selftest_render full ''RoleBinding'' ''Role'') 3])"

subsection \<open>The run\<close>

datatype operator_problem =
    NoVendoredRule string
  | NoClusterRole string string
  | MissingGrants string "string list" yaml yaml string

text \<open>\<^verbatim>\<open>by.setdefault((group, res), []).append(verb)\<close>: the keys are hashed, the verbs are joined
  later, which raises on a verb that is not a string.\<close>

definition put_gap :: "gap \<Rightarrow> ((yaml \<times> yaml) \<times> yaml list) list \<Rightarrow> ((yaml \<times> yaml) \<times> yaml list) list option" where
  "put_gap = (\<lambda>(group, res, verb) m.
     if hashable group \<and> hashable res then Some (AList.update (group, res) (dict_get m (group, res) [] @ [verb]) m)
     else None)"

text \<open>\<^verbatim>\<open>sorted(by.items())\<close>: the keys are distinct, so the order is that of the keys; a column that
  mixes strings and other values raises TypeError.\<close>

definition sort_gaps :: "((yaml \<times> yaml) \<times> yaml list) list \<Rightarrow> ((yaml \<times> yaml) \<times> yaml list) list option" where
  "sort_gaps m =
     (if length m \<le> 1 then Some m
      else if list_all (\<lambda>e. is_str (fst (fst e)) \<and> is_str (snd (fst e))) m
      then Some (sort_key (\<lambda>e. (str_of (fst (fst e)), str_of (snd (fst e)))) m)
      else None)"

definition gap_problem :: "string \<Rightarrow> string \<Rightarrow> (yaml \<times> yaml) \<times> yaml list \<Rightarrow> operator_problem option" where
  "gap_problem op sa = (\<lambda>((group, res), verbs).
     if list_all is_str verbs then Some (MissingGrants op (map str_of verbs) res group sa) else None)"

definition operator_problems :: "(string \<Rightarrow> doc list) \<Rightarrow> doc list \<Rightarrow> string \<times> string \<Rightarrow> operator_problem list option" where
  "operator_problems contract docs = (\<lambda>(op, sa). do {
     want_rules \<leftarrow> want contract op;
     got_rules \<leftarrow> cluster_rules docs sa;
     gaps \<leftarrow> missing want_rules got_rules;
     by_key \<leftarrow> mfold put_gap gaps [];
     es \<leftarrow> sort_gaps by_key;
     ps \<leftarrow> mmap (gap_problem op sa) es;
     Some ((if want_rules = [] then [NoVendoredRule op] else [])
           @ (if got_rules = [] then [NoClusterRole op sa] else []) @ ps)
   })"

definition main_operator :: "string list \<Rightarrow> (string \<Rightarrow> doc list) \<Rightarrow> doc list \<Rightarrow> int option" where
  "main_operator argv contract render =
     (if ''--selftest'' \<in> set argv then selftest_operator
      else do {
        problems \<leftarrow> collect (operator_problems contract (filter truthy render)) OPERATORS;
        Some (if problems \<noteq> [] then 1 else 0)
      })"

section \<open>Lemmas\<close>

text \<open>What the API server grants with a rule: the verb on an object of the group and resource, by
  its name or on the collection.\<close>

definition rule_permits :: "policy_rule \<Rightarrow> string \<Rightarrow> string \<Rightarrow> string \<Rightarrow> string option \<Rightarrow> bool" where
  "rule_permits r g res verb n \<longleftrightarrow>
     pr_lists (pr_groups r) g \<and> pr_lists (pr_resources r) res \<and> pr_lists (pr_verbs r) verb \<and> pr_names_ok r n"

definition pr_covers :: "policy_rule \<Rightarrow> string \<times> string \<times> string \<Rightarrow> bool" where
  "pr_covers r = (\<lambda>(g, res, verb). pr_lists (pr_groups r) g \<and> pr_lists (pr_resources r) res \<and> pr_lists (pr_verbs r) verb)"

definition pr_triples :: "policy_rule \<Rightarrow> (string \<times> string \<times> string) list" where
  "pr_triples r = List.product (if pr_groups r = [] then [[]] else pr_groups r) (List.product (pr_resources r) (pr_verbs r))"

definition ystr3 :: "string \<times> string \<times> string \<Rightarrow> gap" where
  "ystr3 = (\<lambda>(a, b, c). (YStr a, YStr b, YStr c))"

lemma pr_names_ok_code [code]: "pr_names_ok r n = (pr_names r = [] \<or> (case n of None \<Rightarrow> False | Some x \<Rightarrow> x \<in> set (pr_names r)))"
  by (auto simp: pr_names_ok_def split: option.split)

lemma has_lists: "has r k (YStr x) = lists r k x"
  by (simp add: has_def lists_def)

lemma grant_covers_enc [simp]: "grant_covers (enc_policy_rule r) (ystr3 t) = Some (pr_covers r t)"
  by (cases t) (simp add: grant_covers_def ystr3_def has_lists pr_covers_def)

lemma product_map: "List.product (map f xs) (map g ys) = map (\<lambda>(x, y). (f x, g y)) (List.product xs ys)"
  by (induction xs) (auto simp: comp_def)

lemma rule_triples_enc [simp]: "rule_triples (enc_policy_rule r) = Some (map ystr3 (pr_triples r))"
proof -
  have "rule_triples (enc_policy_rule r) = Some (List.product (map YStr (if pr_groups r = [] then [[]] else pr_groups r))
      (List.product (map YStr (pr_resources r)) (map YStr (pr_verbs r))))"
    by (auto simp: rule_triples_def enc_policy_rule_def py_or_def)
  then show ?thesis
    by (simp add: pr_triples_def ystr3_def product_map comp_def case_prod_unfold)
qed

text \<open>The check on typed rules: one gap for each triple that no granted rule covers.\<close>

definition pr_missing :: "policy_rule list \<Rightarrow> policy_rule list \<Rightarrow> (string \<times> string \<times> string) list" where
  "pr_missing ws gs = filter (\<lambda>t. \<not> (\<exists>g \<in> set gs. pr_covers g t)) (concat (map pr_triples ws))"

definition core_name :: "gap \<Rightarrow> gap" where
  "core_name t = (py_or (fst t) (YStr ''core''), snd t)"

lemma gap_of_enc: "gap_of (map enc_policy_rule gs) (ystr3 t) =
    Some (if \<exists>g \<in> set gs. pr_covers g t then [] else [core_name (ystr3 t)])"
  by (simp add: gap_of_def core_name_def list_ex_iff)

lemma filter_concat_if: "concat (map (\<lambda>t. if P t then [] else [f t]) ts) = map f (filter (\<lambda>t. \<not> P t) ts)"
  by (induction ts) auto

lemma missing_enc: "missing (map enc_policy_rule ws) (map enc_policy_rule gs) = Some (map (\<lambda>t. core_name (ystr3 t)) (pr_missing ws gs))"
  by (simp add: missing_def gap_of_enc filter_concat_if pr_missing_def filter_concat map_concat comp_def)

lemma pr_lists_wild: "pr_lists xs x \<Longrightarrow> \<exists>y \<in> set xs. \<forall>ys. pr_lists ys y \<longrightarrow> pr_lists ys x"
  by (auto simp: pr_lists_def)

lemma permits_by_cover:
  assumes "rule_permits w g res verb n"
  shows "\<exists>t \<in> set (pr_triples w). \<forall>r. pr_covers r t \<longrightarrow> pr_names r = [] \<longrightarrow> rule_permits r g res verb n"
proof -
  from assms obtain g' res' verb' where "g' \<in> set (pr_groups w)" "res' \<in> set (pr_resources w)" "verb' \<in> set (pr_verbs w)"
    and up: "\<forall>ys. pr_lists ys g' \<longrightarrow> pr_lists ys g" "\<forall>ys. pr_lists ys res' \<longrightarrow> pr_lists ys res" "\<forall>ys. pr_lists ys verb' \<longrightarrow> pr_lists ys verb"
    unfolding rule_permits_def by (metis pr_lists_wild)
  then have "(g', res', verb') \<in> set (pr_triples w)" by (auto simp: pr_triples_def)
  with up show ?thesis by (intro bexI [of _ "(g', res', verb')"]) (auto simp: pr_covers_def rule_permits_def pr_names_ok_def)
qed

text \<open>A gap is never lost on the way to a problem.\<close>

lemma put_gap_grows: "put_gap t m = Some m' \<Longrightarrow> m' \<noteq> []"
  by (cases t) (auto simp: put_gap_def update_conv' split: if_splits dest!: arg_cong [where f = map_of] fun_cong)

lemma mfold_put_gap: "mfold put_gap gaps m = Some [] \<Longrightarrow> gaps = [] \<and> m = []"
proof (induction gaps arbitrary: m)
  case (Cons t gaps)
  then show ?case using put_gap_grows by (fastforce elim!: bindE)
qed simp

lemma mmap_Nil_iff: "mmap f xs = Some [] \<longleftrightarrow> xs = []"
  by (cases xs) (auto elim!: bindE)

lemma sort_gaps_Nil: "sort_gaps m = Some [] \<Longrightarrow> m = []"
  by (auto simp: sort_gaps_def split: if_splits dest!: arg_cong [where f = set])

lemma operator_problems_Nil:
  assumes "operator_problems contract docs (op, sa) = Some []"
  shows "\<exists>ws gs. want contract op = Some ws \<and> ws \<noteq> [] \<and> cluster_rules docs sa = Some gs \<and> gs \<noteq> [] \<and> missing ws gs = Some []"
  using assms
  by (auto simp: operator_problems_def mmap_Nil_iff elim!: bindE split: if_splits dest!: sort_gaps_Nil mfold_put_gap)

section \<open>Properties\<close>

text \<open>C32. The coverage check is sound: when it reports no gap and no granted rule is narrowed to
  object names, the API server grants the ServiceAccount every request that the operator's own role
  permits.\<close>

theorem missing_sound:
  assumes "missing (map enc_policy_rule ws) (map enc_policy_rule gs) = Some []"
    and "\<forall>r \<in> set gs. pr_names r = []"
    and "\<exists>w \<in> set ws. rule_permits w g res verb n"
  shows "\<exists>r \<in> set gs. rule_permits r g res verb n"
proof -
  from assms(3) obtain w t where w: "w \<in> set ws" and t: "t \<in> set (pr_triples w)"
    and up: "\<forall>r. pr_covers r t \<longrightarrow> pr_names r = [] \<longrightarrow> rule_permits r g res verb n" using permits_by_cover by blast
  from assms(1) have "pr_missing ws gs = []" by (simp add: missing_enc)
  with w t obtain r where "r \<in> set gs" "pr_covers r t" by (auto simp: pr_missing_def filter_empty_conv)
  with up assms(2) show ?thesis by blast
qed

definition watcher_rule :: policy_rule where
  "watcher_rule = \<lparr>pr_groups = [''gibson.zeroroot.ai''], pr_resources = [''oidcclients''], pr_verbs = [''get'', ''list''], pr_names = []\<rparr>"

definition wildcard_rule :: policy_rule where
  "wildcard_rule = \<lparr>pr_groups = [''gibson.zeroroot.ai''], pr_resources = [''*''], pr_verbs = [''*''], pr_names = []\<rparr>"

theorem missing_sound_witness: "\<exists>r \<in> set [wildcard_rule]. rule_permits r ''gibson.zeroroot.ai'' ''oidcclients'' ''list'' None"
  by (rule missing_sound [of "[watcher_rule]"]) code_simp+

text \<open>The coverage check is complete for the triples it asks for: it reports the triples of the
  operator's role that no granted rule covers, each with its group (the core group by that name),
  resource and verb, in order, and nothing else. It never raises on typed rules.\<close>

theorem missing_exact:
  "missing (map enc_policy_rule ws) (map enc_policy_rule gs) =
     Some (map (\<lambda>t. core_name (ystr3 t)) (filter (\<lambda>t. \<not> (\<exists>g \<in> set gs. pr_covers g t)) (concat (map pr_triples ws))))"
  by (simp add: missing_enc pr_missing_def)


text \<open>A run that exits 0 has read rules for every operator: the vendored role and the rules bound
  at cluster scope are both present, and no triple of the role is missing.\<close>

theorem passing_operator_run:
  assumes "main_operator [] contract render = Some 0" and "(op, sa) \<in> set OPERATORS"
  shows "\<exists>ws gs. want contract op = Some ws \<and> ws \<noteq> []
           \<and> cluster_rules (filter truthy render) sa = Some gs \<and> gs \<noteq> [] \<and> missing ws gs = Some []"
proof (rule operator_problems_Nil)
  from assms(1) have "collect (operator_problems contract (filter truthy render)) OPERATORS = Some []"
    by (auto simp: main_operator_def elim!: bindE split: if_splits)
  with assms(2) show "operator_problems contract (filter truthy render) (op, sa) = Some []"
    by (auto simp: collect_empty_iff)
qed

definition operator_role :: "string \<Rightarrow> doc list" where
  "operator_role op = [YMap [(''kind'', YStr ''ClusterRole''), (''rules'', YList [enc_policy_rule watcher_rule])]]"

definition operator_render :: "doc list" where
  "operator_render =
     [YMap [(''kind'', YStr ''ClusterRole''), (''metadata'', YMap [(''name'', YStr ''ops'')]),
        (''rules'', YList [enc_policy_rule wildcard_rule])],
      YMap [(''kind'', YStr ''ClusterRoleBinding''), (''metadata'', YMap [(''name'', YStr ''ops'')]),
        (''roleRef'', YMap [(''name'', YStr ''ops'')]),
        (''subjects'', YList (map (\<lambda>e. YMap [(''kind'', YStr ''ServiceAccount''), (''name'', YStr (snd e))]) OPERATORS))]]"

theorem passing_operator_run_witness:
  "\<exists>ws gs. want operator_role ''tenant'' = Some ws \<and> ws \<noteq> []
     \<and> cluster_rules (filter truthy operator_render) ''gibson-tenant-operator'' = Some gs \<and> gs \<noteq> [] \<and> missing ws gs = Some []"
  by (rule passing_operator_run) code_simp+

theorem selftest_operator_passes: "selftest_operator = Some 0"
  by code_simp

end
