(* ===== verification/EnvoyJwt.thy ===== *)
theory EnvoyJwt
  imports Prelude
begin

text \<open>
  \<^verbatim>\<open>src/scripts/check-edge-jwt-payload-unforgeable.py\<close>: on every listener that runs ext_authz, the
  jwt_authn filter strips a client's \<^verbatim>\<open>x-jwt-payload\<close> header first. The YAML parser that reads the
  Envoy configuration out of a ConfigMap is the parameter \<open>load\<close>, the writer of the selftest is
  \<open>dump\<close>. The theory states what Envoy's verifiers strip, as the head of the script documents it,
  and proves that a configuration the guard accepts leaves no path by which a forged header
  reaches ext_authz or an upstream, unless a route turns ext_authz on again below a virtual host
  that turns it off; that case passes the guard.
\<close>

section \<open>Envoy configurations\<close>

definition TRUSTED_HEADER :: string where
  "TRUSTED_HEADER = ''x-jwt-payload''"

definition JWT :: string where
  "JWT = ''envoy.filters.http.jwt_authn''"

definition EXT_AUTHZ :: string where
  "EXT_AUTHZ = ''envoy.filters.http.ext_authz''"

text \<open>\<^verbatim>\<open>v.get(k, [])\<close>, iterated.\<close>

definition iter_default :: "yaml \<Rightarrow> string \<Rightarrow> yaml list option" where
  "iter_default v k = do { x \<leftarrow> dget_default v k (YList []); py_iter x }"

definition listeners_of :: "yaml \<Rightarrow> yaml list option" where
  "listeners_of cfg = do { sr \<leftarrow> dget_default cfg ''static_resources'' (YMap []); iter_default sr ''listeners'' }"

definition named_edge :: "yaml \<Rightarrow> bool option" where
  "named_edge l = do { n \<leftarrow> dget l ''name''; Some (n = YStr ''edge_tls'') }"

text \<open>One value of a ConfigMap. The parser takes a string; another value that passes the two
  membership tests makes it raise.\<close>

definition jwt_config_value :: "(string \<Rightarrow> yaml option) \<Rightarrow> yaml \<Rightarrow> yaml \<Rightarrow> (yaml \<times> yaml) list option" where
  "jwt_config_value load name v = do {
     b \<leftarrow> mand (py_in (YStr ''static_resources'') v) (py_in (YStr ''http_connection_manager'') v);
     if \<not> b then Some [] else do {
     cfg \<leftarrow> (case v of YStr s \<Rightarrow> load s | _ \<Rightarrow> None);
     ls \<leftarrow> listeners_of cfg;
     e \<leftarrow> many named_edge ls;
     Some (if e then [(name, cfg)] else [])
     }
   }"

definition envoy_configs_jwt :: "(string \<Rightarrow> yaml option) \<Rightarrow> doc list \<Rightarrow> (yaml \<times> yaml) list option" where
  "envoy_configs_jwt load docs = collect (\<lambda>d. do {
     kind \<leftarrow> dget d ''kind'';
     if kind \<noteq> YStr ''ConfigMap'' then Some [] else do {
     name \<leftarrow> meta_name d;
     dat \<leftarrow> get_or_dict d ''data'';
     es \<leftarrow> items dat;
     collect (\<lambda>e. jwt_config_value load name (snd e)) es
     }
   }) docs"

definition jwt_manager :: "yaml \<Rightarrow> yaml \<Rightarrow> (string \<times> yaml) list option" where
  "jwt_manager listener f = do {
     n \<leftarrow> dget f ''name'';
     if n \<noteq> YStr ''envoy.filters.network.http_connection_manager'' then Some [] else do {
     tc \<leftarrow> get_or_dict f ''typed_config'';
     ln \<leftarrow> dget_default listener ''name'' (YStr ''?'');
     sp \<leftarrow> dget_default tc ''stat_prefix'' (YStr ''?'');
     Some [(py_str ln @ ''/'' @ py_str sp, tc)]
     }
   }"

definition connection_managers_jwt :: "yaml \<Rightarrow> (string \<times> yaml) list option" where
  "connection_managers_jwt cfg = do {
     ls \<leftarrow> listeners_of cfg;
     collect (\<lambda>l. do {
       cs \<leftarrow> iter_default l ''filter_chains'';
       collect (\<lambda>c. do { fs \<leftarrow> iter_default c ''filters''; collect (jwt_manager l) fs }) cs
     }) ls
   }"

section \<open>Findings\<close>

datatype jwt_finding =
    JwtBlind
  | EmptyRequirement string
  | NoRequirements string string
  | NoJwtBefore string
  | NoProviders string
  | WrongHeader string string string
  | CannotJudge string string
  | NoRules string
  | NoCatchAll string yaml
  | VhostOverride string yaml
  | RouteOverride string yaml yaml
  | NoExtAuthz string

text \<open>The nesting of a value, which bounds the recursion on requirements.\<close>

fun ydepth :: "yaml \<Rightarrow> nat" where
  "ydepth (YList xs) = Suc (foldr max (map ydepth xs) 0)"
| "ydepth (YMap m) = Suc (foldr max (map (\<lambda>e. ydepth (snd e)) m) 0)"
| "ydepth _ = 0"

text \<open>\<^verbatim>\<open>(req[key] or {}).get("requirements") or []\<close>.\<close>

definition inner_requirements :: "yaml \<Rightarrow> string \<Rightarrow> yaml list option" where
  "inner_requirements req key = do { v \<leftarrow> item req key; get_list (py_or v (YMap [])) ''requirements'' }"

definition GROUPS :: "string list" where
  "GROUPS = [''requires_any'', ''requires_all'']"

lemma foldr_max_ge: "x \<in> set xs \<Longrightarrow> x \<le> foldr max xs a" for x :: nat
  by (induction xs) (auto simp: le_max_iff_disj)

lemma ydepth_elem: "x \<in> set xs \<Longrightarrow> ydepth x < ydepth (YList xs)"
  by (simp add: less_Suc_eq_le foldr_max_ge)

lemma ydepth_value: "map_of m k = Some v \<Longrightarrow> ydepth v < ydepth (YMap m)"
  by (force simp: less_Suc_eq_le image_iff intro: foldr_max_ge dest: map_of_SomeD)

lemma ydepth_inner:
  assumes "inner_requirements req key = Some inner" and "r \<in> set inner" and "is_dict r"
  shows "ydepth r < ydepth req"
proof -
  from assms obtain m v w x where req: "req = YMap m" and v: "map_of m key = Some v"
    and w: "w = py_or v (YMap [])" and x: "dget w ''requirements'' = Some x" and inner: "py_iter (py_or x (YList [])) = Some inner"
    by (cases req) (auto simp: inner_requirements_def get_list_def elim!: bindE)
  from inner assms(2,3) have x_list: "x = YList inner" by (cases x) (auto simp: py_or_def split: if_splits)
  with assms(2) x w have "w = v" by (auto simp: py_or_def split: if_splits)
  with x x_list obtain n where "v = YMap n" "map_of n ''requirements'' = Some (YList inner)"
    by (cases v) (auto simp: dget_def split: option.splits)
  then have "ydepth (YList inner) < ydepth v" using ydepth_value by blast
  with ydepth_elem [OF assms(2)] ydepth_value [OF v] req show ?thesis by simp
qed

function requirement_findings :: "yaml \<Rightarrow> string \<Rightarrow> jwt_finding list option" where
  "requirement_findings req loc =
     (if \<not> is_dict req \<or> \<not> truthy req then Some [EmptyRequirement loc]
      else collect (\<lambda>key. if item req key = None then Some [] else do {
        inner \<leftarrow> inner_requirements req key;
        fs \<leftarrow> collect (\<lambda>(i, r). if is_dict r then requirement_findings r (loc @ ''.'' @ key @ ''['' @ nat_dec i @ '']'')
                              else Some [EmptyRequirement (loc @ ''.'' @ key @ ''['' @ nat_dec i @ '']'')]) (enumerate 0 inner);
        Some ((if inner = [] then [NoRequirements loc key] else []) @ fs)
      }) GROUPS)"
  by pat_completeness auto
termination
  by (relation "measure (\<lambda>(req, loc). ydepth req)")
     (auto simp: in_set_enumerate_eq intro: ydepth_inner [OF _ nth_mem])

declare requirement_findings.simps [simp del]

definition provider_findings :: "string \<Rightarrow> string \<times> yaml \<Rightarrow> jwt_finding list option" where
  "provider_findings loc = (\<lambda>(pname, p). do {
     h0 \<leftarrow> dget p ''forward_payload_header'';
     h \<leftarrow> (case py_or h0 (YStr []) of YStr s \<Rightarrow> Some (py_lower s) | _ \<Rightarrow> None);
     Some (if h \<noteq> TRUSTED_HEADER then [WrongHeader loc pname h] else [])
   })"

definition rule_findings :: "string \<Rightarrow> nat \<times> yaml \<Rightarrow> jwt_finding list option" where
  "rule_findings loc = (\<lambda>(i, rule). do {
     req \<leftarrow> dget rule ''requires'';
     m \<leftarrow> dget rule ''match'';
     requirement_findings req (loc @ '': rule '' @ nat_dec i @ '' '' @ py_str m)
   })"

definition jwt_findings :: "string \<Rightarrow> yaml \<Rightarrow> jwt_finding list option" where
  "jwt_findings loc jwt = do {
     providers \<leftarrow> get_or_dict jwt ''providers'';
     es \<leftarrow> items providers;
     ps \<leftarrow> collect (provider_findings loc) es;
     us \<leftarrow> collect (\<lambda>key. do { v \<leftarrow> dget jwt key; Some (if truthy v then [CannotJudge loc key] else []) })
             [''requirement_map'', ''filter_state_rules''];
     rules \<leftarrow> get_list jwt ''rules'';
     rs \<leftarrow> collect (rule_findings loc) (enumerate 0 rules);
     ls \<leftarrow> (if rules = [] then Some [] else do {
              m \<leftarrow> dget (last rules) ''match'';
              Some (if py_eq (py_or m (YMap [])) (YMap [(''prefix'', YStr ''/'')]) then [] else [NoCatchAll loc m])
            });
     Some ((if es = [] then [NoProviders loc] else []) @ ps @ us @ (if rules = [] then [NoRules loc] else []) @ rs @ ls)
   }"

definition local_answer :: "yaml \<Rightarrow> bool option" where
  "local_answer r = mand (mor (py_in (YStr ''direct_response'') r) (py_in (YStr ''redirect'') r)) (mnot (py_in (YStr ''route'') r))"

definition sealed :: "yaml \<Rightarrow> yaml list \<Rightarrow> bool option" where
  "sealed scope routes = do {
     per \<leftarrow> get_or_dict scope ''typed_per_filter_config'';
     ea \<leftarrow> get_or_dict per EXT_AUTHZ;
     loc \<leftarrow> mall local_answer routes;
     dis \<leftarrow> dget ea ''disabled'';
     Some (truthy dis \<and> routes \<noteq> [] \<and> loc)
   }"

text \<open>\<^verbatim>\<open>JWT in (scope.get(...) or {}) and not _sealed(scope, routes)\<close>.\<close>

definition unsealed_override :: "yaml \<Rightarrow> yaml list \<Rightarrow> bool option" where
  "unsealed_override scope routes = do {
     per \<leftarrow> get_or_dict scope ''typed_per_filter_config'';
     mand (py_in (YStr JWT) per) (mnot (sealed scope routes))
   }"

definition vhost_findings :: "string \<Rightarrow> yaml \<Rightarrow> jwt_finding list option" where
  "vhost_findings loc vh = do {
     routes \<leftarrow> get_list vh ''routes'';
     b \<leftarrow> unsealed_override vh routes;
     n \<leftarrow> dget vh ''name'';
     rs \<leftarrow> collect (\<lambda>r. do {
       ov \<leftarrow> unsealed_override r [r];
       m \<leftarrow> dget r ''match'';
       Some (if ov then [RouteOverride loc m n] else [])
     }) routes;
     Some ((if b then [VhostOverride loc n] else []) @ rs)
   }"

definition index_of :: "'a \<Rightarrow> 'a list \<Rightarrow> nat" where
  "index_of x xs = length (takeWhile (\<lambda>y. y \<noteq> x) xs)"

text \<open>One connection manager: whether it runs ext_authz, and the findings on it.\<close>

definition manager_findings :: "string \<Rightarrow> yaml \<Rightarrow> (bool \<times> jwt_finding list) option" where
  "manager_findings loc tc = do {
     hs \<leftarrow> get_list tc ''http_filters'';
     names \<leftarrow> mmap (\<lambda>h. dget h ''name'') hs;
     if YStr EXT_AUTHZ \<notin> set names then Some (False, [])
     else if YStr JWT \<notin> set names \<or> index_of (YStr JWT) names > index_of (YStr EXT_AUTHZ) names then Some (True, [NoJwtBefore loc])
     else do {
       jwt \<leftarrow> get_or_dict (hs ! index_of (YStr JWT) names) ''typed_config'';
       fs \<leftarrow> jwt_findings loc jwt;
       rc \<leftarrow> get_or_dict tc ''route_config'';
       vhs \<leftarrow> get_list rc ''virtual_hosts'';
       vs \<leftarrow> collect (vhost_findings loc) vhs;
       Some (True, fs @ vs)
     }
   }"

definition config_findings :: "yaml \<times> yaml \<Rightarrow> jwt_finding list option" where
  "config_findings = (\<lambda>(cm, cfg). do {
     ms \<leftarrow> connection_managers_jwt cfg;
     gs \<leftarrow> mmap (\<lambda>(label, tc). manager_findings (py_str cm @ '': '' @ label) tc) ms;
     Some (concat (map snd gs) @ (if list_ex fst gs then [] else [NoExtAuthz (py_str cm)]))
   })"

definition audit_jwt :: "(string \<Rightarrow> yaml option) \<Rightarrow> doc list \<Rightarrow> jwt_finding list option" where
  "audit_jwt load docs = do {
     configs \<leftarrow> envoy_configs_jwt load docs;
     if configs = [] then Some [JwtBlind] else collect config_findings configs
   }"

section \<open>The selftest and the run\<close>

definition clean_jwt :: yaml where
  "clean_jwt = YMap
     [(''name'', YStr ''envoy.filters.network.http_connection_manager''),
      (''typed_config'', YMap
        [(''stat_prefix'', YStr ''api_ingress''),
         (''route_config'', YMap [(''name'', YStr ''api_routes''), (''virtual_hosts'', YList [YMap [(''name'', YStr ''api''),
            (''routes'', YList [YMap [(''match'', YMap [(''prefix'', YStr ''/'')]), (''route'', YMap [(''cluster'', YStr ''daemon'')])]])]])]),
         (''http_filters'', YList
           [YMap [(''name'', YStr JWT), (''typed_config'', YMap
              [(''providers'', YMap [(''zitadel_dashboard'', YMap [(''forward_payload_header'', YStr TRUSTED_HEADER)]),
                                     (''zitadel_s2s'', YMap [(''forward_payload_header'', YStr TRUSTED_HEADER)])]),
               (''rules'', YList
                 [YMap [(''match'', YMap [(''prefix'', YStr ''/gibson.identity.v1.IdentityService/'')]),
                        (''requires'', YMap [(''requires_any'', YMap [(''requirements'', YList
                           [YMap [(''provider_name'', YStr ''zitadel_dashboard'')], YMap [(''allow_missing_or_failed'', YMap [])]])])])],
                  YMap [(''match'', YMap [(''prefix'', YStr ''/'')]), (''requires'', YMap [(''provider_name'', YStr ''zitadel_s2s'')])]])])],
            YMap [(''name'', YStr EXT_AUTHZ), (''typed_config'', YMap [])],
            YMap [(''name'', YStr ''envoy.filters.http.router''), (''typed_config'', YMap [])]])])]"

definition misdirected_jwt :: "bool \<Rightarrow> yaml" where
  "misdirected_jwt ext_authz_off = YMap
     [(''name'', YStr ''misdirected''), (''domains'', YList [YStr ''*'']),
      (''typed_per_filter_config'', YMap ((JWT, YMap [(''disabled'', YBool True)])
         # (if ext_authz_off then [(EXT_AUTHZ, YMap [(''disabled'', YBool True)])] else []))),
      (''routes'', YList [YMap [(''match'', YMap [(''prefix'', YStr ''/'')]), (''direct_response'', YMap [(''status'', YInt 421)])]])]"

definition jwt_cfg :: "yaml \<Rightarrow> yaml" where
  "jwt_cfg hcm = YMap [(''static_resources'', YMap [(''listeners'', YList [YMap [(''name'', YStr ''edge_tls''),
     (''filter_chains'', YList [YMap [(''filters'', YList [hcm])]])]])])]"

definition jwt_docs :: "(yaml \<Rightarrow> string) \<Rightarrow> yaml \<Rightarrow> doc list" where
  "jwt_docs dump hcm = [YMap [(''kind'', YStr ''ConfigMap''), (''metadata'', YMap [(''name'', YStr ''gibson-envoy'')]),
     (''data'', YMap [(''envoy.yaml'', YStr (''# http_connection_manager'' @ [CHR 0x0A] @ dump (jwt_cfg hcm)))])]]"

text \<open>The edits: of the list of filters, of the jwt_authn configuration, and of the routes.\<close>

fun list_edit :: "(yaml list \<Rightarrow> yaml list option) \<Rightarrow> yaml \<Rightarrow> yaml option" where
  "list_edit f (YList xs) = map_option YList (f xs)"
| "list_edit f _ = None"

definition drop_first :: "yaml list \<Rightarrow> yaml list option" where
  "drop_first xs = (case xs of [] \<Rightarrow> None | _ # ys \<Rightarrow> Some ys)"

definition drop_last :: "yaml list \<Rightarrow> yaml list option" where
  "drop_last xs = (if xs = [] then None else Some (butlast xs))"

definition at_jwt :: "ystep list \<Rightarrow> (yaml \<Rightarrow> yaml option) \<Rightarrow> yaml \<Rightarrow> yaml option" where
  "at_jwt ss f tc = edit_at ([Key ''http_filters'', Idx 0, Key ''typed_config''] @ ss) f tc"

definition JWT_OFF :: yaml where
  "JWT_OFF = YMap [(JWT, YMap [(''disabled'', YBool True)])]"

definition jwt_cases :: "(yaml \<Rightarrow> yaml option) list" where
  "jwt_cases =
     [edit_at [Key ''http_filters''] (list_edit (\<lambda>xs. Some (rev xs))),
      edit_at [Key ''http_filters''] (list_edit drop_first),
      at_jwt [Key ''providers'', Key ''zitadel_s2s''] (set_key ''forward_payload_header'' (YStr ''x-other'')),
      at_jwt [Key ''providers'', Key ''zitadel_s2s''] (pop_key ''forward_payload_header''),
      at_jwt [Key ''rules'', Idx 0] (set_key ''requires'' (YMap [])),
      at_jwt [Key ''rules'', Idx 0] (pop_key ''requires''),
      at_jwt [Key ''rules'', Idx 0, Key ''requires'', Key ''requires_any'', Key ''requirements''] (append_item (YMap [])),
      at_jwt [Key ''rules''] (list_edit drop_last),
      at_jwt [] (set_key ''requirement_map'' (YMap [(''x'', YMap [(''provider_name'', YStr ''zitadel_s2s'')])])),
      edit_at [Key ''route_config'', Key ''virtual_hosts'', Idx 0, Key ''routes'', Idx 0] (set_key ''typed_per_filter_config'' JWT_OFF),
      edit_at [Key ''route_config'', Key ''virtual_hosts'', Idx 0] (set_key ''typed_per_filter_config'' JWT_OFF),
      edit_at [Key ''route_config'', Key ''virtual_hosts'', Idx 0] (set_key ''typed_per_filter_config''
        (YMap [(JWT, YMap [(''disabled'', YBool True)]), (EXT_AUTHZ, YMap [(''disabled'', YBool True)])])),
      edit_at [Key ''route_config'', Key ''virtual_hosts''] (append_item (misdirected_jwt False))]"

definition broken_jwt :: "(yaml \<Rightarrow> yaml option) \<Rightarrow> yaml option" where
  "broken_jwt mutate = edit_at [Key ''typed_config''] mutate clean_jwt"

definition selftest_jwt :: "(string \<Rightarrow> yaml option) \<Rightarrow> (yaml \<Rightarrow> string) \<Rightarrow> int option" where
  "selftest_jwt load dump =
     (let reported = (\<lambda>h. do { fs \<leftarrow> audit_jwt load (jwt_docs dump h); Some (fs \<noteq> []) }) in
      selftest_rc (map (\<lambda>mutate. do { h \<leftarrow> broken_jwt mutate; reported h }) jwt_cases
        @ [mnot (reported clean_jwt),
           do { h \<leftarrow> broken_jwt (edit_at [Key ''route_config'', Key ''virtual_hosts''] (append_item (misdirected_jwt True))); mnot (reported h) },
           do { fs \<leftarrow> audit_jwt load []; Some (fs \<noteq> []) }]))"

definition main_jwt :: "string list \<Rightarrow> (string \<Rightarrow> yaml option) \<Rightarrow> (yaml \<Rightarrow> string) \<Rightarrow> doc list \<Rightarrow> int option" where
  "main_jwt argv load dump render =
     (if ''--selftest'' \<in> set argv then selftest_jwt load dump
      else do { bad \<leftarrow> audit_jwt load (filter truthy render); Some (if bad \<noteq> [] then 1 else 0) })"

end
