(* ===== verification/EnvoyJwtMeaning.thy ===== *)
theory EnvoyJwtMeaning
  imports EnvoyJwt
begin

text \<open>
  What the configurations of \<^verbatim>\<open>check-edge-jwt-payload-unforgeable.py\<close> mean, as the head of the script
  documents Envoy: which requirement strips the trusted header, which rule a path meets, what an
  override of a filter on a virtual host or a route does. Typed configurations, the YAML they are
  written as, and the proof that what the guard accepts carries no forged header to ext_authz or
  to an upstream.
\<close>

section \<open>Typed configurations\<close>

datatype requirement =
    ProviderName string
  | ProviderAudiences string "string list"
  | AllowMissing
  | AllowMissingOrFailed
  | RequiresAny "requirement list"
  | RequiresAll "requirement list"
  | AllowAll

fun enc_requirement :: "requirement \<Rightarrow> yaml" where
  "enc_requirement (ProviderName p) = YMap [(''provider_name'', YStr p)]"
| "enc_requirement (ProviderAudiences p as) =
     YMap [(''provider_and_audiences'', YMap [(''provider_name'', YStr p), (''audiences'', YList (map YStr as))])]"
| "enc_requirement AllowMissing = YMap [(''allow_missing'', YMap [])]"
| "enc_requirement AllowMissingOrFailed = YMap [(''allow_missing_or_failed'', YMap [])]"
| "enc_requirement (RequiresAny rs) = YMap [(''requires_any'', YMap [(''requirements'', YList (map enc_requirement rs))])]"
| "enc_requirement (RequiresAll rs) = YMap [(''requires_all'', YMap [(''requirements'', YList (map enc_requirement rs))])]"
| "enc_requirement AllowAll = YMap []"

text \<open>The providers with the header each forwards its payload to. A verifier for one provider strips
  that provider's header, one that allows a missing token strips every provider's; a group strips
  when every verifier in it does, whichever of them runs; the empty requirement strips nothing.\<close>

type_synonym providers = "(string \<times> string option) list"

definition forwards :: "providers \<Rightarrow> string \<Rightarrow> string \<Rightarrow> bool" where
  "forwards ps p h = (case map_of ps p of Some (Some x) \<Rightarrow> py_lower x = h | _ \<Rightarrow> False)"

fun strips :: "providers \<Rightarrow> string \<Rightarrow> requirement \<Rightarrow> bool" where
  "strips ps h (ProviderName p) = forwards ps p h"
| "strips ps h (ProviderAudiences p as) = forwards ps p h"
| "strips ps h AllowMissing = list_ex (\<lambda>e. forwards ps (fst e) h) ps"
| "strips ps h AllowMissingOrFailed = list_ex (\<lambda>e. forwards ps (fst e) h) ps"
| "strips ps h (RequiresAny rs) = (rs \<noteq> [] \<and> list_all (strips ps h) rs)"
| "strips ps h (RequiresAll rs) = (rs \<noteq> [] \<and> list_all (strips ps h) rs)"
| "strips ps h AllowAll = False"

text \<open>The providers a requirement names exist; Envoy refuses a configuration where they do not.\<close>

fun names_known :: "providers \<Rightarrow> requirement \<Rightarrow> bool" where
  "names_known ps (ProviderName p) = (map_of ps p \<noteq> None)"
| "names_known ps (ProviderAudiences p as) = (map_of ps p \<noteq> None)"
| "names_known ps (RequiresAny rs) = list_all (names_known ps) rs"
| "names_known ps (RequiresAll rs) = list_all (names_known ps) rs"
| "names_known ps _ = True"

datatype path_match = MPrefix string | MPath string | MRegex string

fun enc_match :: "path_match \<Rightarrow> yaml" where
  "enc_match (MPrefix s) = YMap [(''prefix'', YStr s)]"
| "enc_match (MPath s) = YMap [(''path'', YStr s)]"
| "enc_match (MRegex s) = YMap [(''safe_regex'', YMap [(''regex'', YStr s)])]"

fun path_matches :: "(string \<Rightarrow> string \<Rightarrow> bool) \<Rightarrow> path_match \<Rightarrow> string \<Rightarrow> bool" where
  "path_matches rx (MPrefix s) p = prefix s p"
| "path_matches rx (MPath s) p = (p = s)"
| "path_matches rx (MRegex s) p = rx s p"

record jwt_filter =
  jf_providers :: providers
  jf_rules :: "(path_match \<times> requirement option) list"

definition enc_provider :: "string \<times> string option \<Rightarrow> string \<times> yaml" where
  "enc_provider = (\<lambda>(p, h). (p, YMap (case h of None \<Rightarrow> [] | Some x \<Rightarrow> [(''forward_payload_header'', YStr x)])))"

definition enc_jwt_rule :: "path_match \<times> requirement option \<Rightarrow> yaml" where
  "enc_jwt_rule = (\<lambda>(m, r). YMap ((''match'', enc_match m) # (case r of None \<Rightarrow> [] | Some q \<Rightarrow> [(''requires'', enc_requirement q)])))"

definition enc_jwt_filter :: "jwt_filter \<Rightarrow> yaml" where
  "enc_jwt_filter c = YMap [(''providers'', YMap (map enc_provider (jf_providers c))), (''rules'', YList (map enc_jwt_rule (jf_rules c)))]"

text \<open>The first rule whose match fits the path decides.\<close>

definition rule_strips :: "(string \<Rightarrow> string \<Rightarrow> bool) \<Rightarrow> jwt_filter \<Rightarrow> string \<Rightarrow> bool" where
  "rule_strips rx c p = (case List.find (\<lambda>e. path_matches rx (fst e) p) (jf_rules c) of
     Some (m, Some q) \<Rightarrow> strips (jf_providers c) TRUSTED_HEADER q
   | _ \<Rightarrow> False)"

datatype http_filter = FJwt jwt_filter | FExt | FOther string

fun enc_filter :: "http_filter \<Rightarrow> yaml" where
  "enc_filter (FJwt c) = YMap [(''name'', YStr JWT), (''typed_config'', enc_jwt_filter c)]"
| "enc_filter FExt = YMap [(''name'', YStr EXT_AUTHZ)]"
| "enc_filter (FOther n) = YMap [(''name'', YStr n)]"

text \<open>A scope may override jwt_authn, and may turn ext_authz off or give it settings of its own.\<close>

datatype ext_override = ExtOff | ExtSettings

record edge_route =
  er_match :: path_match
  er_jwt :: bool
  er_ext :: "ext_override option"
  er_local :: bool

record edge_vhost =
  ev_name :: string
  ev_jwt :: bool
  ev_ext :: "ext_override option"
  ev_routes :: "edge_route list"

record edge_manager =
  em_filters :: "http_filter list"
  em_vhosts :: "edge_vhost list"

definition enc_overrides :: "bool \<Rightarrow> ext_override option \<Rightarrow> (string \<times> yaml) list" where
  "enc_overrides j e = [(''typed_per_filter_config'', YMap
     ((if j then [(JWT, YMap [(''disabled'', YBool True)])] else [])
      @ (case e of None \<Rightarrow> [] | Some ExtOff \<Rightarrow> [(EXT_AUTHZ, YMap [(''disabled'', YBool True)])]
         | Some ExtSettings \<Rightarrow> [(EXT_AUTHZ, YMap [(''check_settings'', YMap [])])])))]"

definition enc_edge_route :: "edge_route \<Rightarrow> yaml" where
  "enc_edge_route r = YMap ((''match'', enc_match (er_match r))
     # (if er_local r then (''direct_response'', YMap [(''status'', YInt 421)]) else (''route'', YMap [(''cluster'', YStr ''daemon'')]))
     # enc_overrides (er_jwt r) (er_ext r))"

definition enc_edge_vhost :: "edge_vhost \<Rightarrow> yaml" where
  "enc_edge_vhost v = YMap ((''name'', YStr (ev_name v)) # (''routes'', YList (map enc_edge_route (ev_routes v)))
     # enc_overrides (ev_jwt v) (ev_ext v))"

definition enc_manager :: "edge_manager \<Rightarrow> yaml" where
  "enc_manager m = YMap [(''http_filters'', YList (map enc_filter (em_filters m))),
     (''route_config'', YMap [(''virtual_hosts'', YList (map enc_edge_vhost (em_vhosts m)))])]"

section \<open>What a request meets\<close>

text \<open>The override of a route hides that of its virtual host.\<close>

definition ext_runs :: "edge_vhost \<Rightarrow> edge_route \<Rightarrow> bool" where
  "ext_runs v r = ((case er_ext r of None \<Rightarrow> ev_ext v | e \<Rightarrow> e) \<noteq> Some ExtOff)"

text \<open>A client sends the trusted header. \<open>forged\<close> walks the filters with the knowledge whether the
  client's header is still there: it is, when an ext_authz filter runs or when the request leaves
  for an upstream.\<close>

fun forged :: "(string \<Rightarrow> string \<Rightarrow> bool) \<Rightarrow> edge_vhost \<Rightarrow> edge_route \<Rightarrow> string \<Rightarrow> http_filter list \<Rightarrow> bool \<Rightarrow> bool" where
  "forged rx v r p [] there = (there \<and> \<not> er_local r)"
| "forged rx v r p (FJwt c # fs) there = forged rx v r p fs (there \<and> (ev_jwt v \<or> er_jwt r \<or> \<not> rule_strips rx c p))"
| "forged rx v r p (FExt # fs) there = (there \<and> ext_runs v r \<or> forged rx v r p fs there)"
| "forged rx v r p (FOther n # fs) there = forged rx v r p fs there"

definition wf_filter :: "http_filter \<Rightarrow> bool" where
  "wf_filter f = (case f of
       FJwt c \<Rightarrow> distinct (map fst (jf_providers c)) \<and> list_all (\<lambda>e. case snd e of None \<Rightarrow> True | Some q \<Rightarrow> names_known (jf_providers c) q) (jf_rules c)
     | FExt \<Rightarrow> True
     | FOther n \<Rightarrow> n \<noteq> JWT \<and> n \<noteq> EXT_AUTHZ)"

section \<open>Lemmas\<close>

lemma forged_gone: "\<not> forged rx v r p fs False"
proof (induction fs)
  case (Cons f fs)
  then show ?case by (cases f) auto
qed simp

lemma forged_sealed: "\<not> ext_runs v r \<Longrightarrow> er_local r \<Longrightarrow> \<not> forged rx v r p fs b"
proof (induction fs arbitrary: b)
  case (Cons f fs)
  then show ?case by (cases f) auto
qed simp

lemma forged_stripped:
  assumes "\<not> ev_jwt v" "\<not> er_jwt r" "rule_strips rx c p" "\<forall>f \<in> set us. \<exists>n. f = FOther n"
  shows "\<not> forged rx v r p (us @ FJwt c # vs) b"
  using assms(4) by (induction us) (auto simp: assms(1-3) forged_gone)

subsection \<open>Requirements\<close>

lemma requirement_group:
  assumes "requirement_findings (YMap [(key, YMap [(''requirements'', YList rs)])]) loc = Some []" and "key \<in> set GROUPS"
  shows "rs \<noteq> [] \<and> (\<forall>r \<in> set rs. \<exists>l. requirement_findings r l = Some [])"
proof -
  define body where "body = (\<lambda>key (i, r). if is_dict r then requirement_findings r (loc @ ''.'' @ key @ ''['' @ nat_dec i @ '']'')
      else Some [EmptyRequirement (loc @ ''.'' @ key @ ''['' @ nat_dec i @ '']'')])"
  have "requirement_findings (YMap [(key, YMap [(''requirements'', YList rs)])]) loc =
      do { fs \<leftarrow> collect (body key) (enumerate 0 rs); Some ((if rs = [] then [NoRequirements loc key] else []) @ fs) }"
    unfolding requirement_findings.simps [of "YMap [(key, v)]" for v]
    using assms(2) by (auto simp: GROUPS_def inner_requirements_def collect_Cons body_def)
  with assms(1) have "rs \<noteq> []" and each: "\<forall>e \<in> set (enumerate 0 rs). body key e = Some []"
    by (auto simp: bind_eq_Some_conv collect_empty_iff split: if_splits)
  moreover have "\<exists>l. requirement_findings r l = Some []" if "r \<in> set rs" for r
  proof -
    from that obtain i where "(i, r) \<in> set (enumerate 0 rs)" using in_set_enumerate_ex by fast
    with each have "body key (i, r) = Some []" by blast
    then show ?thesis by (auto simp: body_def split: if_splits)
  qed
  ultimately show ?thesis by blast
qed

lemma accepted_requirement_strips:
  assumes "ps \<noteq> []" and "\<And>q. map_of ps q \<noteq> None \<Longrightarrow> forwards ps q h"
  shows "requirement_findings (enc_requirement q) loc = Some [] \<Longrightarrow> names_known ps q \<Longrightarrow> strips ps h q"
proof (induction q arbitrary: loc)
  case AllowMissing
  from assms(1) obtain e es where "ps = e # es" by (cases ps) auto
  with assms(2) [of "fst e"] show ?case by simp
next
  case AllowMissingOrFailed
  from assms(1) obtain e es where "ps = e # es" by (cases ps) auto
  with assms(2) [of "fst e"] show ?case by simp
next
  case (RequiresAny rs)
  from RequiresAny.prems(1) have "rs \<noteq> []" "\<forall>r \<in> set rs. \<exists>l. requirement_findings (enc_requirement r) l = Some []"
    by (auto dest!: requirement_group simp: GROUPS_def)
  with RequiresAny show ?case by (auto simp: list_all_iff)
next
  case (RequiresAll rs)
  from RequiresAll.prems(1) have "rs \<noteq> []" "\<forall>r \<in> set rs. \<exists>l. requirement_findings (enc_requirement r) l = Some []"
    by (auto dest!: requirement_group simp: GROUPS_def)
  with RequiresAll show ?case by (auto simp: list_all_iff)
qed (use assms(2) in \<open>auto simp: requirement_findings.simps [of "YMap []"]\<close>)

subsection \<open>The filter\<close>

lemma provider_findings_enc:
  "provider_findings loc (enc_provider (p, h)) = Some [] \<longleftrightarrow> (\<exists>x. h = Some x \<and> py_lower x = TRUSTED_HEADER)"
proof -
  have "py_lower [] \<noteq> TRUSTED_HEADER" by code_simp
  then show ?thesis
    by (cases h) (auto simp: provider_findings_def enc_provider_def py_or_def split: if_splits)
qed

lemma enc_match_root: "py_eq (py_or (enc_match m) (YMap [])) (YMap [(''prefix'', YStr ''/'')]) \<longleftrightarrow> m = MPrefix ''/''"
  by (cases m) (auto simp: py_eq.simps [of "YMap m" for m] py_or_def)

lemma enc_match_truthy [simp]: "truthy (enc_match m)"
  by (cases m) auto

lemma jwt_findings_clean:
  assumes "jwt_findings loc (enc_jwt_filter c) = Some []"
  shows "jf_providers c \<noteq> []" "\<forall>e \<in> set (jf_providers c). \<exists>x. snd e = Some x \<and> py_lower x = TRUSTED_HEADER"
    "jf_rules c \<noteq> []" "fst (last (jf_rules c)) = MPrefix ''/''"
    "\<forall>e \<in> set (jf_rules c). \<exists>q l. snd e = Some q \<and> requirement_findings (enc_requirement q) l = Some []"
proof -
  from assms have ps: "jf_providers c \<noteq> []" "collect (provider_findings loc) (map enc_provider (jf_providers c)) = Some []"
    and rs: "jf_rules c \<noteq> []" "collect (rule_findings loc) (enumerate 0 (map enc_jwt_rule (jf_rules c))) = Some []"
    and l: "dget (last (map enc_jwt_rule (jf_rules c))) ''match'' = Some m \<Longrightarrow> py_eq (py_or m (YMap [])) (YMap [(''prefix'', YStr ''/'')])" for m
    by (auto simp: jwt_findings_def enc_jwt_filter_def py_or_def bind_eq_Some_conv split: if_splits)
  show "jf_providers c \<noteq> []" "jf_rules c \<noteq> []" by fact+
  show "\<forall>e \<in> set (jf_providers c). \<exists>x. snd e = Some x \<and> py_lower x = TRUSTED_HEADER"
    using ps(2) provider_findings_enc by (auto simp: collect_empty_iff simp del: collect_map)
  have "dget (last (map enc_jwt_rule (jf_rules c))) ''match'' = Some (enc_match (fst (last (jf_rules c))))"
    using rs(1) by (simp add: last_map enc_jwt_rule_def case_prod_unfold)
  from l [OF this] show "fst (last (jf_rules c)) = MPrefix ''/''" by (simp add: enc_match_root)
  show "\<forall>e \<in> set (jf_rules c). \<exists>q l. snd e = Some q \<and> requirement_findings (enc_requirement q) l = Some []"
  proof
    fix e assume "e \<in> set (jf_rules c)"
    then obtain i where "(i, enc_jwt_rule e) \<in> set (enumerate 0 (map enc_jwt_rule (jf_rules c)))"
      using in_set_enumerate_ex by (metis image_eqI list.set_map)
    with rs(2) have "rule_findings loc (i, enc_jwt_rule e) = Some []" by (auto simp: collect_empty_iff)
    then show "\<exists>q l. snd e = Some q \<and> requirement_findings (enc_requirement q) l = Some []"
      by (cases "snd e") (auto simp: rule_findings_def enc_jwt_rule_def case_prod_unfold requirement_findings.simps [of YNull])
  qed
qed

lemma accepted_filter_strips:
  assumes clean: "jwt_findings loc (enc_jwt_filter c) = Some []" and wf: "wf_filter (FJwt c)" and p: "prefix ''/'' p"
  shows "rule_strips rx c p"
proof -
  note jc = jwt_findings_clean [OF clean]
  have fw: "forwards (jf_providers c) q TRUSTED_HEADER" if "map_of (jf_providers c) q \<noteq> None" for q
  proof -
    from that obtain y where y: "map_of (jf_providers c) q = Some y" by auto
    with jc(2) obtain x where "y = Some x" "py_lower x = TRUSTED_HEADER" using map_of_SomeD [OF y] by fastforce
    with y show ?thesis by (simp add: forwards_def)
  qed
  have "path_matches rx (fst (last (jf_rules c))) p" using jc(4) p by simp
  with jc(3) obtain e where e: "List.find (\<lambda>e. path_matches rx (fst e) p) (jf_rules c) = Some e"
    by (metis (no_types, lifting) find_None_iff last_in_set not_None_eq)
  then have "e \<in> set (jf_rules c)" by (auto simp: find_Some_iff)
  moreover from this jc(5) obtain q l where q: "snd e = Some q" "requirement_findings (enc_requirement q) l = Some []" by blast
  ultimately have "names_known (jf_providers c) q" using wf by (auto simp: wf_filter_def list_all_iff)
  with accepted_requirement_strips [OF jc(1) fw q(2)] have "strips (jf_providers c) TRUSTED_HEADER q" by simp
  with e q(1) show ?thesis by (cases e) (simp add: rule_strips_def)
qed

subsection \<open>Scopes and managers\<close>

lemma jwt_not_ext: "JWT \<noteq> EXT_AUTHZ"
  by code_simp

lemma overrides_enc:
  assumes "dget scope ''typed_per_filter_config'' = Some (snd (hd (enc_overrides j e)))"
  shows "unsealed_override scope rs = Some False \<longleftrightarrow>
    (j \<longrightarrow> e = Some ExtOff \<and> rs \<noteq> [] \<and> mall local_answer rs = Some True)"
  using assms jwt_not_ext
  by (cases j; cases e rule: option.exhaust; cases "mall local_answer rs")
     (auto simp: unsealed_override_def sealed_def enc_overrides_def get_or_dict_def py_or_def mnot_def split: ext_override.splits if_splits)

lemma enc_edge_route_scope [simp]:
  "dget (enc_edge_route r) ''typed_per_filter_config'' = Some (snd (hd (enc_overrides (er_jwt r) (er_ext r))))"
  "local_answer (enc_edge_route r) = Some (er_local r)"
  by (auto simp: enc_edge_route_def enc_overrides_def local_answer_def)

lemma enc_edge_vhost_scope [simp]:
  "dget (enc_edge_vhost v) ''typed_per_filter_config'' = Some (snd (hd (enc_overrides (ev_jwt v) (ev_ext v))))"
  "get_list (enc_edge_vhost v) ''routes'' = Some (map enc_edge_route (ev_routes v))"
  by (auto simp: enc_edge_vhost_def enc_overrides_def py_or_def)

lemma vhost_findings_clean:
  assumes "vhost_findings loc (enc_edge_vhost v) = Some []"
  shows "ev_jwt v \<Longrightarrow> ev_ext v = Some ExtOff \<and> (\<forall>r \<in> set (ev_routes v). er_local r)"
    and "r \<in> set (ev_routes v) \<Longrightarrow> er_jwt r \<Longrightarrow> er_ext r = Some ExtOff \<and> er_local r"
proof -
  from assms have v: "unsealed_override (enc_edge_vhost v) (map enc_edge_route (ev_routes v)) = Some False"
    and rs: "\<forall>r \<in> set (ev_routes v). unsealed_override (enc_edge_route r) [enc_edge_route r] = Some False"
    by (auto simp: vhost_findings_def bind_eq_Some_conv collect_empty_iff split: if_splits)
  show "ev_jwt v \<Longrightarrow> ev_ext v = Some ExtOff \<and> (\<forall>r \<in> set (ev_routes v). er_local r)"
    using v by (simp add: overrides_enc list_all_iff)
  show "r \<in> set (ev_routes v) \<Longrightarrow> er_jwt r \<Longrightarrow> er_ext r = Some ExtOff \<and> er_local r"
    using rs by (auto simp: overrides_enc split: if_splits)
qed

fun filter_name :: "http_filter \<Rightarrow> string" where
  "filter_name (FJwt c) = JWT"
| "filter_name FExt = EXT_AUTHZ"
| "filter_name (FOther n) = n"

lemma dget_filter_name [simp]: "dget (enc_filter f) ''name'' = Some (YStr (filter_name f))"
  by (cases f) auto

lemma split_at_index:
  assumes "x \<in> set (map g fs)"
  shows "\<exists>us f vs. fs = us @ f # vs \<and> g f = x \<and> index_of x (map g fs) = length us \<and> x \<notin> set (map g us)"
  using assms
proof (induction fs)
  case (Cons f fs)
  show ?case
  proof (cases "g f = x")
    case True
    then show ?thesis by (intro exI [of _ "[]"]) (auto simp: index_of_def)
  next
    case False
    with Cons obtain us h vs where "fs = us @ h # vs" "g h = x" "index_of x (map g fs) = length us" "x \<notin> set (map g us)" by auto
    with False show ?thesis by (intro exI [of _ "f # us"]) (auto simp: index_of_def)
  qed
qed simp

lemma index_of_before: "index_of x (us @ vs) \<ge> length us \<Longrightarrow> x \<notin> set us"
  by (induction us) (auto simp: index_of_def split: if_splits)

lemma index_of_inj: "inj f \<Longrightarrow> index_of (f x) (map f xs) = index_of x xs"
  by (simp add: index_of_def takeWhile_map comp_def inj_eq)

lemma manager_findings_clean:
  assumes clean: "manager_findings loc (enc_manager m) = Some (True, [])" and wf: "\<forall>f \<in> set (em_filters m). wf_filter f"
  shows "\<exists>us c vs. em_filters m = us @ FJwt c # vs \<and> (\<forall>f \<in> set us. \<exists>n. f = FOther n) \<and> jwt_findings loc (enc_jwt_filter c) = Some []"
    and "\<forall>v \<in> set (em_vhosts m). vhost_findings loc (enc_edge_vhost v) = Some []"
proof -
  let ?names = "map filter_name (em_filters m)"
  have names: "mmap (\<lambda>h. dget h ''name'') (map enc_filter (em_filters m)) = Some (map YStr ?names)" by (simp add: comp_def)
  have idx: "index_of (YStr n) (map YStr ?names) = index_of n ?names" for n by (rule index_of_inj) (simp add: inj_def)
  have hs: "get_list (enc_manager m) ''http_filters'' = Some (map enc_filter (em_filters m))"
    by (cases "em_filters m") (simp_all add: enc_manager_def py_or_def)
  have vh: "get_or_dict (enc_manager m) ''route_config'' = Some (YMap [(''virtual_hosts'', YList (map enc_edge_vhost (em_vhosts m)))])"
    by (simp add: enc_manager_def py_or_def)
  have mem: "YStr n \<in> set (map YStr ?names) \<longleftrightarrow> n \<in> set ?names" for n by auto
  note unfold = clean [unfolded manager_findings_def hs names bind.simps mem idx vh]
  from unfold have in_names: "EXT_AUTHZ \<in> set ?names" "JWT \<in> set ?names"
    and order: "index_of JWT ?names \<le> index_of EXT_AUTHZ ?names"
    and rest: "\<exists>jwt. get_or_dict (map enc_filter (em_filters m) ! index_of JWT ?names) ''typed_config'' = Some jwt \<and> jwt_findings loc jwt = Some []"
    and vhosts: "collect (vhost_findings loc) (map enc_edge_vhost (em_vhosts m)) = Some []"
    by (auto simp: py_or_def bind_eq_Some_conv simp del: collect_map set_map split: if_splits)
  obtain us f vs where fs: "em_filters m = us @ f # vs" and f: "filter_name f = JWT" and at: "index_of JWT ?names = length us"
    and us: "JWT \<notin> set (map filter_name us)" using split_at_index [OF in_names(2)] by blast
  from wf f have "\<exists>c. f = FJwt c" using jwt_not_ext fs by (cases f) (auto simp: wf_filter_def)
  then obtain c where c: "f = FJwt c" by blast
  have "EXT_AUTHZ \<notin> set (map filter_name us)"
    using order at fs by (intro index_of_before [of _ _ "map filter_name (f # vs)"]) simp
  with us have "\<forall>g \<in> set us. \<exists>n. g = FOther n" by (auto simp: image_iff) (metis filter_name.cases filter_name.simps(1,2))
  moreover have "jwt_findings loc (enc_jwt_filter c) = Some []"
    using rest unfolding at by (auto simp: fs c nth_append enc_jwt_filter_def py_or_def)
  ultimately show "\<exists>us c vs. em_filters m = us @ FJwt c # vs \<and> (\<forall>f \<in> set us. \<exists>n. f = FOther n) \<and> jwt_findings loc (enc_jwt_filter c) = Some []"
    using fs c by blast
  show "\<forall>v \<in> set (em_vhosts m). vhost_findings loc (enc_edge_vhost v) = Some []"
    using vhosts by (simp add: collect_empty_iff)
qed

section \<open>Properties\<close>

text \<open>C7. What the guard accepts is unforgeable: when it reports nothing on a connection manager that
  runs ext_authz, a header \<^verbatim>\<open>x-jwt-payload\<close> that a client sends on any path reaches neither
  ext_authz nor an upstream, on every route that does not turn ext_authz on again below a virtual
  host that overrides jwt_authn.\<close>

theorem accepted_edge_unforgeable:
  assumes "manager_findings loc (enc_manager m) = Some (True, [])"
    and "\<forall>f \<in> set (em_filters m). wf_filter f"
    and "v \<in> set (em_vhosts m)" and "r \<in> set (ev_routes v)"
    and "ev_jwt v \<longrightarrow> er_ext r \<noteq> Some ExtSettings"
    and "prefix ''/'' p"
  shows "\<not> forged rx v r p (em_filters m) True"
proof (cases "ev_jwt v \<or> er_jwt r")
  case True
  from manager_findings_clean(2) [OF assms(1,2)] assms(3) have clean: "vhost_findings loc (enc_edge_vhost v) = Some []" by blast
  have "\<not> ext_runs v r \<and> er_local r"
  proof (cases "er_jwt r")
    case True
    with vhost_findings_clean(2) [OF clean assms(4)] show ?thesis by (simp add: ext_runs_def)
  next
    case False
    with \<open>ev_jwt v \<or> er_jwt r\<close> vhost_findings_clean(1) [OF clean] assms(4,5) show ?thesis
      by (cases "er_ext r") (auto simp: ext_runs_def, metis ext_override.exhaust)
  qed
  then show ?thesis by (simp add: forged_sealed)
next
  case False
  from manager_findings_clean(1) [OF assms(1,2)] obtain us c vs where fs: "em_filters m = us @ FJwt c # vs"
    and us: "\<forall>f \<in> set us. \<exists>n. f = FOther n" and c: "jwt_findings loc (enc_jwt_filter c) = Some []" by blast
  have "rule_strips rx c p" using accepted_filter_strips [OF c _ assms(6)] assms(2) fs by simp
  with False us fs show ?thesis by (simp add: forged_stripped)
qed

definition unforgeable_edge :: "ext_override option \<Rightarrow> edge_manager" where
  "unforgeable_edge e = \<lparr>em_filters =
      [FJwt \<lparr>jf_providers = [(''zitadel_s2s'', Some ''X-Jwt-Payload'')],
             jf_rules = [(MPath ''/healthz'', Some AllowMissing), (MPrefix ''/'', Some (RequiresAny [ProviderName ''zitadel_s2s'', AllowMissingOrFailed]))]\<rparr>,
       FExt, FOther ''envoy.filters.http.router''],
     em_vhosts = [\<lparr>ev_name = ''misdirected'', ev_jwt = True, ev_ext = Some ExtOff,
       ev_routes = [\<lparr>er_match = MPrefix ''/'', er_jwt = False, er_ext = e, er_local = True\<rparr>]\<rparr>]\<rparr>"

theorem accepted_edge_unforgeable_witness:
  "\<not> forged (\<lambda>_ _. False) (hd (em_vhosts (unforgeable_edge None))) (hd (ev_routes (hd (em_vhosts (unforgeable_edge None))))) ''/x''
     (em_filters (unforgeable_edge None)) True"
  by (rule accepted_edge_unforgeable [where loc = "''edge''"]) code_simp+


section \<open>The selftest\<close>

text \<open>With a parser that reads what the writer wrote, every broken edge is reported and the clean
  edges are not.\<close>

lemma audit_jwt_docs:
  assumes "load (''# http_connection_manager'' @ [CHR 0x0A] @ dump (jwt_cfg h)) = Some (jwt_cfg h)"
    and "sublist ''static_resources'' (dump (jwt_cfg h))"
  shows "audit_jwt load (jwt_docs dump h) = config_findings (YStr ''gibson-envoy'', jwt_cfg h)"
proof -
  have "sublist ''static_resources'' (''# http_connection_manager'' @ [CHR 0x0A] @ dump (jwt_cfg h))"
    using assms(2) by (meson sublist_appendI sublist_order.order.trans suffix_imp_sublist suffixI)
  moreover have "sublist ''http_connection_manager'' (''# http_connection_manager'' @ [CHR 0x0A] @ dump (jwt_cfg h))"
    unfolding sublist_def by (rule exI [of _ "''# ''"], rule exI [of _ "[CHR 0x0A] @ dump (jwt_cfg h)"]) simp
  ultimately have "envoy_configs_jwt load (jwt_docs dump h) = Some [(YStr ''gibson-envoy'', jwt_cfg h)]"
    using assms(1) by (simp add: envoy_configs_jwt_def jwt_docs_def jwt_config_value_def meta_name_def py_or_def
        listeners_of_def iter_default_def named_edge_def jwt_cfg_def collect_Cons)
  then show ?thesis by (simp add: audit_jwt_def collect_Cons)
qed

definition edge_reported :: "yaml \<Rightarrow> bool option" where
  "edge_reported h = do { fs \<leftarrow> config_findings (YStr ''gibson-envoy'', jwt_cfg h); Some (fs \<noteq> []) }"

lemma jwt_fixtures:
  "mall id (map (\<lambda>mutate. do { h \<leftarrow> broken_jwt mutate; edge_reported h }) jwt_cases) = Some True"
  "edge_reported clean_jwt = Some False"
  "do { h \<leftarrow> broken_jwt (edit_at [Key ''route_config'', Key ''virtual_hosts''] (append_item (misdirected_jwt True))); edge_reported h } = Some False"
  by code_simp+

theorem selftest_jwt_passes:
  assumes "\<And>h. load (''# http_connection_manager'' @ [CHR 0x0A] @ dump (jwt_cfg h)) = Some (jwt_cfg h)"
    and "\<And>h. sublist ''static_resources'' (dump (jwt_cfg h))"
  shows "selftest_jwt load dump = Some 0"
proof -
  have audit: "do { fs \<leftarrow> audit_jwt load (jwt_docs dump h); Some (fs \<noteq> []) } = edge_reported h" for h
    using audit_jwt_docs [of load dump h, OF assms] by (simp add: edge_reported_def)
  have "mnot (Some False) = Some True" by (simp add: mnot_def)
  moreover have "do { h \<leftarrow> x; mnot (edge_reported h) } = mnot (do { h \<leftarrow> x; edge_reported h })" for x
    by (cases x) (simp_all add: mnot_def)
  moreover have "audit_jwt load [] = Some [JwtBlind]" by (simp add: audit_jwt_def envoy_configs_jwt_def)
  ultimately show ?thesis
    unfolding selftest_jwt_def Let_def audit selftest_rc_def by (simp only: mall_append jwt_fixtures) simp
qed

end
