(* ===== verification/EdgeRoutes.thy ===== *)
theory EdgeRoutes
  imports EnvoyJwt
begin

text \<open>
  \<^verbatim>\<open>src/scripts/check-edge-zitadel-routes.py\<close>, the matcher and the audit: the edge sends only listed
  routes to Zitadel, no admin call and no change of an email or username. The YAML parser is the
  parameter \<open>load\<close>; \<^verbatim>\<open>re.fullmatch\<close> on the patterns of the render is the parameter \<open>rx\<close> (\<open>None\<close> is the
  error of a pattern that does not compile). The exception \<^verbatim>\<open>Blind\<close>, which the audit catches, is the
  left side of a sum; the exceptions it does not catch are \<open>None\<close> as everywhere. The theory proves
  that a passing audit exposes Zitadel on listed routes only, for every request, and that each
  request of the lists gets the outcome the head of the script demands.
\<close>

section \<open>Requests\<close>

definition ZITADEL_CLUSTERS :: "string list" where
  "ZITADEL_CLUSTERS = [''zitadel_upstream'', ''zitadel_login'']"

definition APP_VHOST :: "string \<times> string" where
  "APP_VHOST = (''public_routes'', ''app'')"

definition API_FAMILIES :: "string list" where
  "API_FAMILIES = [''/auth/v1/'', ''/v2/'', ''/v2beta/'']"

definition ADMIN_PREFIXES :: "string list" where
  "ADMIN_PREFIXES = [''/ui/console'', ''/admin/v1/'', ''/management/v1/'', ''/zitadel.'']"

type_synonym headers = "(string \<times> string) list"
type_synonym request = "string \<times> string \<times> headers"

definition MUST_BLOCK :: "request list" where
  "MUST_BLOCK =
     [(''PUT'', ''/auth/v1/users/me/username'', []),
      (''PUT'', ''/auth/v1/users/me/email'', []),
      (''POST'', ''/auth/v1/users/me/email'', []),
      (''PUT'', ''/auth/v1/users/me/email/'', []),
      (''POST'', ''/v2/users/312345678901234567/email'', []),
      (''PUT'', ''/v2/users/human/312345678901234567'', []),
      (''PATCH'', ''/v2/users/312345678901234567'', []),
      (''PATCH'', ''/v2/users/312345678901234567/'', []),
      (''patch'', ''/v2/users/312345678901234567'', []),
      (''POST'', ''/v2beta/users/312345678901234567/email'', []),
      (''PUT'', ''/v2beta/users/312345678901234567'', []),
      (''PUT'', ''/auth/v1/users/me/e%6Dail'', []),
      (''POST'', ''/v2/users/312345678901234567'', [(''x-http-method-override'', ''PATCH'')])]"

definition MUST_ROUTE :: "request list" where
  "MUST_ROUTE =
     [(''GET'', ''/auth/v1/users/me'', []),
      (''GET'', ''/auth/v1/users/me/email'', []),
      (''POST'', ''/auth/v1/policies/passwords/complexity'', []),
      (''POST'', ''/v2/users/human'', []),
      (''POST'', ''/v2/users/new'', []),
      (''GET'', ''/v2/users/312345678901234567'', []),
      (''DELETE'', ''/v2/users/312345678901234567'', []),
      (''POST'', ''/v2/users/312345678901234567/password'', []),
      (''GET'', ''/oauth/v2/keys'', []),
      (''GET'', ''/.well-known/openid-configuration'', [])]"

definition SIGN_IN :: "(string \<times> string \<times> string) list" where
  "SIGN_IN =
     [(''GET'', ''/ui/v2/login/loginname'', ''zitadel_login''),
      (''POST'', ''/ui/v2/login/loginname'', ''zitadel_login''),
      (''GET'', ''/ui/login/device'', ''zitadel_upstream''),
      (''GET'', ''/oauth/v2/authorize'', ''zitadel_upstream''),
      (''POST'', ''/oauth/v2/token'', ''zitadel_upstream''),
      (''POST'', ''/oauth/v2/device_authorization'', ''zitadel_upstream''),
      (''GET'', ''/oidc/v1/userinfo'', ''zitadel_upstream''),
      (''GET'', ''/oidc/v1/end_session'', ''zitadel_upstream''),
      (''GET'', ''/idps/callback'', ''zitadel_upstream''),
      (''POST'', ''/saml/v2/SSO'', ''zitadel_upstream'')]"

definition MUST_NOT_ROUTE :: "request list" where
  "MUST_NOT_ROUTE =
     [(''GET'', ''/ui/console'', []),
      (''GET'', ''/ui/console/'', []),
      (''GET'', ''/ui/console/assets/environment.json'', []),
      (''GET'', ''/admin/v1/policies/login'', []),
      (''POST'', ''/admin/v1/members/_search'', []),
      (''POST'', ''/management/v1/users/_search'', []),
      (''GET'', ''/management/v1/info'', []),
      (''POST'', ''/zitadel.admin.v1.AdminService/GetLoginPolicy'', []),
      (''POST'', ''/zitadel.management.v1.ManagementService/ListOrgMembers'', []),
      (''POST'', ''/zitadel.auth.v1.AuthService/GetMyUser'', []),
      (''POST'', ''/zitadel.user.v2.UserService/SetEmail'', []),
      (''POST'', ''/zitadel.user.v2.UserService/ListUsers'', [])]"

definition EDGE_NOT_FOUND :: string where
  "EDGE_NOT_FOUND = ''direct:404''"

section \<open>Configurations\<close>

definition edge_config_value :: "(string \<Rightarrow> yaml option) \<Rightarrow> doc \<Rightarrow> yaml \<Rightarrow> (yaml \<times> yaml) list option" where
  "edge_config_value load d v = (case v of
       YStr s \<Rightarrow> (if \<not> sublist ''static_resources'' s then Some [] else do {
         cfg \<leftarrow> load s;
         ls \<leftarrow> listeners_of cfg;
         e \<leftarrow> many named_edge ls;
         if e then do { n \<leftarrow> meta_name d; Some [(n, cfg)] } else Some []
       })
     | _ \<Rightarrow> Some [])"

definition envoy_configs :: "(string \<Rightarrow> yaml option) \<Rightarrow> doc list \<Rightarrow> (yaml \<times> yaml) list option" where
  "envoy_configs load docs = collect (\<lambda>d. do {
     kind \<leftarrow> dget d ''kind'';
     if kind \<noteq> YStr ''ConfigMap'' then Some [] else do {
     dat \<leftarrow> get_or_dict d ''data'';
     es \<leftarrow> items dat;
     collect (\<lambda>e. edge_config_value load d (snd e)) es
     }
   }) docs"

definition filter_hcm :: "yaml \<Rightarrow> yaml list option" where
  "filter_hcm f = do {
     tc \<leftarrow> get_or_dict f ''typed_config'';
     rc \<leftarrow> dget tc ''route_config'';
     Some (if rc \<noteq> YNull then [tc] else [])
   }"

definition connection_managers :: "yaml \<Rightarrow> yaml list option" where
  "connection_managers cfg = do {
     ls \<leftarrow> listeners_of cfg;
     collect (\<lambda>l. do {
       cs \<leftarrow> iter_default l ''filter_chains'';
       collect (\<lambda>c. do { fs \<leftarrow> iter_default c ''filters''; collect filter_hcm fs }) cs
     }) ls
   }"

section \<open>The matcher\<close>

datatype blind = BlindString "yaml list" | BlindHeader "yaml list" | BlindRoute "yaml list" | BlindNoPath

type_synonym 'a seen = "(blind + 'a) option"

definition sbind :: "'a seen \<Rightarrow> ('a \<Rightarrow> 'b seen) \<Rightarrow> 'b seen" where
  "sbind x f = do { r \<leftarrow> x; case r of Inl e \<Rightarrow> Some (Inl e) | Inr a \<Rightarrow> f a }"

definition sok :: "'a option \<Rightarrow> 'a seen" where
  "sok x = do { a \<leftarrow> x; Some (Inr a) }"

text \<open>\<^verbatim>\<open>raise Blind(f"... {sorted(v)}")\<close>.\<close>

definition blind_of :: "(yaml list \<Rightarrow> blind) \<Rightarrow> yaml \<Rightarrow> 'a seen" where
  "blind_of b v = do { xs \<leftarrow> py_iter v; ys \<leftarrow> py_sorted xs; Some (Inl (b ys)) }"

fun the_str :: "yaml \<Rightarrow> string option" where
  "the_str (YStr s) = Some s"
| "the_str _ = None"

definition regex_of :: "yaml \<Rightarrow> string option" where
  "regex_of v = do { sr \<leftarrow> item v ''safe_regex''; r \<leftarrow> item sr ''regex''; the_str r }"

definition string_matches :: "(string \<Rightarrow> string \<Rightarrow> bool option) \<Rightarrow> yaml \<Rightarrow> string option \<Rightarrow> bool seen" where
  "string_matches rx sm v = (case v of None \<Rightarrow> Some (Inr False) | Some s \<Rightarrow> do {
     e \<leftarrow> py_in (YStr ''exact'') sm;
     if e then sok (do { x \<leftarrow> item sm ''exact''; Some (x = YStr s) }) else do {
     p \<leftarrow> py_in (YStr ''prefix'') sm;
     if p then sok (do { x \<leftarrow> item sm ''prefix''; t \<leftarrow> the_str x; Some (startswith s t) }) else do {
     u \<leftarrow> py_in (YStr ''suffix'') sm;
     if u then sok (do { x \<leftarrow> item sm ''suffix''; t \<leftarrow> the_str x; Some (endswith s t) }) else do {
     r \<leftarrow> py_in (YStr ''safe_regex'') sm;
     if r then sok (do { t \<leftarrow> regex_of sm; rx t s }) else blind_of BlindString sm
   }}}})"

definition opt_str :: "string option \<Rightarrow> yaml" where
  "opt_str v = (case v of None \<Rightarrow> YNull | Some s \<Rightarrow> YStr s)"

definition header_matches :: "(string \<Rightarrow> string \<Rightarrow> bool option) \<Rightarrow> yaml \<Rightarrow> headers \<Rightarrow> bool seen" where
  "header_matches rx h hdrs = do {
     n0 \<leftarrow> item h ''name'';
     n \<leftarrow> the_str n0;
     let v = map_of hdrs (py_lower n);
     sbind
       (case item h ''present_match'' of Some x \<Rightarrow> Some (Inr ((v \<noteq> None) = truthy x))
        | None \<Rightarrow> (case item h ''string_match'' of Some sm \<Rightarrow> string_matches rx sm v
        | None \<Rightarrow> (case item h ''exact_match'' of Some x \<Rightarrow> Some (Inr (opt_str v = x))
        | None \<Rightarrow> blind_of BlindHeader h)))
       (\<lambda>got. sok (do { i \<leftarrow> dget h ''invert_match''; Some (got \<noteq> truthy i) }))
   }"

definition MATCH_FIELDS :: "string list" where
  "MATCH_FIELDS = [''prefix'', ''path'', ''safe_regex'', ''headers'', ''path_separated_prefix'']"

definition path_ok :: "(string \<Rightarrow> string \<Rightarrow> bool option) \<Rightarrow> yaml \<Rightarrow> string \<Rightarrow> bool seen" where
  "path_ok rx m path = do {
     a \<leftarrow> py_in (YStr ''prefix'') m;
     if a then sok (do { x \<leftarrow> item m ''prefix''; t \<leftarrow> the_str x; Some (startswith path t) }) else do {
     b \<leftarrow> py_in (YStr ''path'') m;
     if b then sok (do { x \<leftarrow> item m ''path''; Some (x = YStr path) }) else do {
     c \<leftarrow> py_in (YStr ''path_separated_prefix'') m;
     if c then sok (do { x \<leftarrow> item m ''path_separated_prefix''; t \<leftarrow> the_str x; Some (path = t \<or> startswith path (t @ ''/'')) }) else do {
     d \<leftarrow> py_in (YStr ''safe_regex'') m;
     if d then sok (do { t \<leftarrow> regex_of m; rx t path }) else Some (Inl BlindNoPath)
   }}}}"

fun sall :: "('a \<Rightarrow> bool seen) \<Rightarrow> 'a list \<Rightarrow> bool seen" where
  "sall f [] = Some (Inr True)"
| "sall f (x # xs) = sbind (f x) (\<lambda>b. if b then sall f xs else Some (Inr False))"

definition request_headers :: "string \<Rightarrow> headers \<Rightarrow> headers" where
  "request_headers method hs = fold (\<lambda>(k, v) m. AList.update (py_lower k) v m) hs [('':method'', method)]"

definition route_matches :: "(string \<Rightarrow> string \<Rightarrow> bool option) \<Rightarrow> yaml \<Rightarrow> request \<Rightarrow> bool seen" where
  "route_matches rx m = (\<lambda>(method, path, hs). do {
     ks \<leftarrow> keyset m;
     let extra = filter (\<lambda>k. k \<notin> YStr ` set MATCH_FIELDS) ks;
     if extra \<noteq> [] then blind_of BlindRoute (YList extra) else
     sbind (path_ok rx m path) (\<lambda>ok.
       if \<not> ok then Some (Inr False) else do {
       hm \<leftarrow> get_list m ''headers'';
       sall (\<lambda>h. header_matches rx h (request_headers method hs)) hm
     })
   })"

text \<open>What Envoy does with a matched route.\<close>

definition route_action :: "yaml \<Rightarrow> yaml option" where
  "route_action r = do {
     d \<leftarrow> py_in (YStr ''direct_response'') r;
     if d then do { x \<leftarrow> item r ''direct_response''; s \<leftarrow> dget x ''status''; Some (YStr (''direct:'' @ py_str s)) } else do {
     e \<leftarrow> py_in (YStr ''redirect'') r;
     if e then Some (YStr ''redirect'') else do {
     x \<leftarrow> get_or_dict r ''route'';
     dget_default x ''cluster'' (YStr ''?'')
   }}}"

fun first_outcome :: "(string \<Rightarrow> string \<Rightarrow> bool option) \<Rightarrow> request \<Rightarrow> yaml list \<Rightarrow> yaml seen" where
  "first_outcome rx q [] = Some (Inr (YStr ''none''))"
| "first_outcome rx q (r # rs) = do {
     m \<leftarrow> get_or_dict r ''match'';
     sbind (route_matches rx m q) (\<lambda>b. if b then sok (route_action r) else first_outcome rx q rs)
   }"

definition outcome :: "(string \<Rightarrow> string \<Rightarrow> bool option) \<Rightarrow> yaml \<Rightarrow> request \<Rightarrow> yaml seen" where
  "outcome rx vh q = do { rs \<leftarrow> get_list vh ''routes''; first_outcome rx q rs }"

section \<open>The audit\<close>

definition KEY_KINDS :: "string list" where
  "KEY_KINDS = [''prefix'', ''path'', ''path_separated_prefix'']"

text \<open>The first of the three path fields a match has.\<close>

fun named_field :: "string list \<Rightarrow> yaml \<Rightarrow> (string \<times> yaml) option option" where
  "named_field [] m = Some None"
| "named_field (k # ks) m = do {
     b \<leftarrow> py_in (YStr k) m;
     if b then do { x \<leftarrow> item m k; Some (Some (k, x)) } else named_field ks m
   }"

definition route_key :: "yaml \<Rightarrow> yaml \<Rightarrow> yaml \<Rightarrow> string option" where
  "route_key rc vh m = do {
     rn \<leftarrow> dget rc ''name'';
     vn \<leftarrow> dget vh ''name'';
     let pre = py_str rn @ ''/'' @ py_str vn @ '' '';
     nf \<leftarrow> named_field KEY_KINDS m;
     case nf of Some (k, x) \<Rightarrow> Some (pre @ k @ '':'' @ py_str x)
     | None \<Rightarrow> do {
         b \<leftarrow> py_in (YStr ''safe_regex'') m;
         if b then do { sr \<leftarrow> item m ''safe_regex''; x \<leftarrow> item sr ''regex''; Some (pre @ ''safe_regex:'' @ py_str x) }
         else do { xs \<leftarrow> py_iter m; ys \<leftarrow> py_sorted xs; Some (pre @ py_str (YList ys)) }
       }
   }"

datatype edge_finding =
    EdgeBlind
  | UnlistedRoute yaml yaml string
  | AdminRoute yaml string yaml
  | RenameReaches yaml yaml yaml request
  | AdminReaches yaml yaml yaml request yaml
  | AdminNot404 yaml yaml yaml request yaml
  | SignInMisses yaml yaml yaml request yaml
  | SignInWrong yaml yaml yaml "string \<times> string \<times> string" yaml
  | UnmodelledMatch yaml yaml yaml blind
  | NotNormalized yaml yaml string
  | NoAppVhost
  | StaleRoute string

definition exposed_route :: "yaml \<Rightarrow> yaml \<Rightarrow> yaml \<Rightarrow> yaml \<Rightarrow> yaml \<Rightarrow> (edge_finding list \<times> string list) option" where
  "exposed_route listed cm rc vh r = do {
     rt \<leftarrow> get_or_dict r ''route'';
     cluster \<leftarrow> dget rt ''cluster'';
     if \<not> in_strtuple cluster ZITADEL_CLUSTERS then Some ([], []) else do {
     m \<leftarrow> get_or_dict r ''match'';
     key \<leftarrow> route_key rc vh m;
     l \<leftarrow> py_in (YStr key) listed;
     nf \<leftarrow> named_field KEY_KINDS m;
     let named = (case nf of None \<Rightarrow> [] | Some (k, x) \<Rightarrow> py_str x);
     Some ((if l then [] else [UnlistedRoute cm cluster key])
           @ (if list_ex (startswith named) ADMIN_PREFIXES then [AdminRoute cm key cluster] else []), [key])
     }
   }"

text \<open>The plays of one virtual host, inside the \<^verbatim>\<open>try\<close>: what a play has found stays when a later one
  raises \<^verbatim>\<open>Blind\<close>. A state is the findings, whether an API family reaches Zitadel, and whether the
  application host was seen.\<close>

type_synonym play_state = "edge_finding list \<times> bool \<times> bool"

fun run_plays :: "('s \<Rightarrow> 's seen) list \<Rightarrow> 's \<Rightarrow> ('s \<times> blind option) option" where
  "run_plays [] s = Some (s, None)"
| "run_plays (p # ps) s = do { r \<leftarrow> p s; case r of Inl e \<Rightarrow> Some (s, Some e) | Inr t \<Rightarrow> run_plays ps t }"

definition play :: "(string \<Rightarrow> string \<Rightarrow> bool option) \<Rightarrow> yaml \<Rightarrow> request \<Rightarrow> (yaml \<Rightarrow> play_state \<Rightarrow> play_state) \<Rightarrow> play_state \<Rightarrow> play_state seen" where
  "play rx vh q f s = sbind (outcome rx vh q) (\<lambda>got. Some (Inr (f got s)))"

definition add_finding :: "bool \<Rightarrow> edge_finding \<Rightarrow> play_state \<Rightarrow> play_state" where
  "add_finding b x = (\<lambda>(fs, api, app). (if b then fs @ [x] else fs, api, app))"

definition rename_play :: "(string \<Rightarrow> string \<Rightarrow> bool option) \<Rightarrow> yaml \<Rightarrow> yaml \<Rightarrow> yaml \<Rightarrow> yaml \<Rightarrow> request \<Rightarrow> play_state \<Rightarrow> play_state seen" where
  "rename_play rx cm rn vn vh q = play rx vh q (\<lambda>got. add_finding (got = YStr ''zitadel_upstream'') (RenameReaches cm rn vn q))"

definition admin_play :: "(string \<Rightarrow> string \<Rightarrow> bool option) \<Rightarrow> yaml \<Rightarrow> yaml \<Rightarrow> yaml \<Rightarrow> yaml \<Rightarrow> bool \<Rightarrow> request \<Rightarrow> play_state \<Rightarrow> play_state seen" where
  "admin_play rx cm rn vn vh is_app q = play rx vh q (\<lambda>got.
     if in_strtuple got ZITADEL_CLUSTERS then add_finding True (AdminReaches cm rn vn q got)
     else add_finding (is_app \<and> got \<noteq> YStr EDGE_NOT_FOUND) (AdminNot404 cm rn vn q got))"

definition api_play :: "(string \<Rightarrow> string \<Rightarrow> bool option) \<Rightarrow> yaml \<Rightarrow> string \<Rightarrow> play_state \<Rightarrow> play_state seen" where
  "api_play rx vh fam = play rx vh (''POST'', fam @ ''x'', [])
     (\<lambda>got (fs, api, app). (fs, api \<or> got = YStr ''zitadel_upstream'', app))"

definition user_play :: "(string \<Rightarrow> string \<Rightarrow> bool option) \<Rightarrow> yaml \<Rightarrow> yaml \<Rightarrow> yaml \<Rightarrow> yaml \<Rightarrow> request \<Rightarrow> play_state \<Rightarrow> play_state seen" where
  "user_play rx cm rn vn vh q = play rx vh q (\<lambda>got. add_finding (got \<noteq> YStr ''zitadel_upstream'') (SignInMisses cm rn vn q got))"

definition sign_in_play :: "(string \<Rightarrow> string \<Rightarrow> bool option) \<Rightarrow> yaml \<Rightarrow> yaml \<Rightarrow> yaml \<Rightarrow> yaml \<Rightarrow> string \<times> string \<times> string \<Rightarrow> play_state \<Rightarrow> play_state seen" where
  "sign_in_play rx cm rn vn vh = (\<lambda>(method, path, w). play rx vh (method, path, [])
     (\<lambda>got. add_finding (got \<noteq> YStr w) (SignInWrong cm rn vn (method, path, w) got)))"

definition app_play :: "play_state \<Rightarrow> play_state seen" where
  "app_play = (\<lambda>(fs, api, app). Some (Inr (fs, api, True)))"

definition vhost_plays :: "(string \<Rightarrow> string \<Rightarrow> bool option) \<Rightarrow> yaml \<Rightarrow> yaml \<Rightarrow> yaml \<Rightarrow> yaml \<Rightarrow> (play_state \<Rightarrow> play_state seen) list" where
  "vhost_plays rx cm rn vn vh =
     (let is_app = (rn = YStr (fst APP_VHOST) \<and> vn = YStr (snd APP_VHOST)) in
      map (rename_play rx cm rn vn vh) MUST_BLOCK @ map (admin_play rx cm rn vn vh is_app) MUST_NOT_ROUTE @ map (api_play rx vh) API_FAMILIES
      @ (if \<not> is_app then [] else app_play # map (user_play rx cm rn vn vh) MUST_ROUTE @ map (sign_in_play rx cm rn vn vh) SIGN_IN))"

lemmas plays = rename_play_def admin_play_def api_play_def user_play_def sign_in_play_def app_play_def

definition vhost_audit :: "(string \<Rightarrow> string \<Rightarrow> bool option) \<Rightarrow> yaml \<Rightarrow> yaml \<Rightarrow> yaml \<Rightarrow> yaml \<Rightarrow> (play_state \<times> string list) option" where
  "vhost_audit rx listed cm rc vh = do {
     rs \<leftarrow> get_list vh ''routes'';
     ex \<leftarrow> mmap (exposed_route listed cm rc vh) rs;
     rn \<leftarrow> dget rc ''name'';
     vn \<leftarrow> dget vh ''name'';
     ((fs, api, app), b) \<leftarrow> run_plays (vhost_plays rx cm rn vn vh) ([], False, False);
     Some ((concat (map fst ex) @ fs @ (case b of None \<Rightarrow> [] | Some e \<Rightarrow> [UnmodelledMatch cm rn vn e]), api, app),
           concat (map snd ex))
   }"

definition hcm_audit :: "(string \<Rightarrow> string \<Rightarrow> bool option) \<Rightarrow> yaml \<Rightarrow> yaml \<Rightarrow> yaml \<Rightarrow> (edge_finding list \<times> bool \<times> string list) option" where
  "hcm_audit rx listed cm hcm = do {
     rc \<leftarrow> item hcm ''route_config'';
     vhs \<leftarrow> get_list rc ''virtual_hosts'';
     vs \<leftarrow> mmap (vhost_audit rx listed cm rc) vhs;
     rn \<leftarrow> dget rc ''name'';
     ns \<leftarrow> (if list_ex (\<lambda>v. fst (snd (fst v))) vs
            then collect (\<lambda>fld. do { x \<leftarrow> dget hcm fld; Some (if x \<noteq> YBool True then [NotNormalized cm rn fld] else []) })
                   [''normalize_path'', ''merge_slashes'']
            else Some []);
     Some (concat (map (\<lambda>v. fst (fst v)) vs) @ ns, list_ex (\<lambda>v. snd (snd (fst v))) vs, concat (map snd vs))
   }"

text \<open>The allowlist has passed \<^verbatim>\<open>load_allowlist\<close>, so its routes are a dict.\<close>

definition audit_edge :: "(string \<Rightarrow> yaml option) \<Rightarrow> (string \<Rightarrow> string \<Rightarrow> bool option) \<Rightarrow> doc list \<Rightarrow> yaml \<Rightarrow> (edge_finding list \<times> string list) option" where
  "audit_edge load rx docs allow = do {
     configs \<leftarrow> envoy_configs load docs;
     if configs = [] then Some ([EdgeBlind], []) else do {
     listed \<leftarrow> get_or_dict allow ''routes'';
     hs \<leftarrow> collect (\<lambda>(cm, cfg). do { ms \<leftarrow> connection_managers cfg; mmap (hcm_audit rx listed cm) ms }) configs;
     let seen = mk_set (concat (map (\<lambda>h. snd (snd h)) hs));
     es \<leftarrow> items listed;
     Some (concat (map fst hs) @ (if list_ex (\<lambda>h. fst (snd h)) hs then [] else [NoAppVhost])
           @ map StaleRoute (filter (\<lambda>k. k \<notin> set seen) (sort (map fst es))), seen)
     }
   }"

definition load_routes_allowlist :: "yaml \<Rightarrow> yaml option" where
  "load_routes_allowlist data0 = do {
     let dat = py_or data0 (YMap []);
     rs \<leftarrow> get_or_dict dat ''routes'';
     es \<leftarrow> items rs;
     ok \<leftarrow> mall (\<lambda>(k, v). if \<not> is_dict v then Some False
                 else do { w \<leftarrow> dget v ''why''; Some (strip (py_str (py_or w (YStr []))) \<noteq> []) }) es;
     if ok then Some dat else None
   }"

section \<open>Lemmas\<close>

lemma sbind_Inr: "sbind x f = Some (Inr b) \<longleftrightarrow> (\<exists>a. x = Some (Inr a) \<and> f a = Some (Inr b))"
proof (cases x)
  case (Some r)
  then show ?thesis by (cases r) (auto simp: sbind_def)
qed (simp add: sbind_def)

lemma sok_Inr [simp]: "sok x = Some (Inr a) \<longleftrightarrow> x = Some a"
  by (auto simp: sok_def bind_eq_Some_conv)

lemma route_action_zitadel:
  assumes "route_action r = Some (YStr c)" and "c \<in> set ZITADEL_CLUSTERS"
  shows "\<exists>x. get_or_dict r ''route'' = Some x \<and> dget x ''cluster'' = Some (YStr c)"
proof -
  have "c \<noteq> ''direct:'' @ z" "c \<noteq> ''redirect''" "c \<noteq> ''?''" for z using assms(2) by (auto simp: ZITADEL_CLUSTERS_def)
  with assms(1) obtain x where x: "get_or_dict r ''route'' = Some x" "dget_default x ''cluster'' (YStr ''?'') = Some (YStr c)"
    by (auto simp: route_action_def bind_eq_Some_conv split: if_splits)
  with \<open>c \<noteq> ''?''\<close> show ?thesis by (cases x) (auto simp: dget_def split: option.splits)
qed

text \<open>The route that Envoy picks: the first that matches, and it sends the request to the cluster.\<close>

definition picks :: "(string \<Rightarrow> string \<Rightarrow> bool option) \<Rightarrow> request \<Rightarrow> yaml \<Rightarrow> string \<Rightarrow> bool" where
  "picks rx q r c \<longleftrightarrow> (\<exists>m x. get_or_dict r ''match'' = Some m \<and> route_matches rx m q = Some (Inr True)
     \<and> get_or_dict r ''route'' = Some x \<and> dget x ''cluster'' = Some (YStr c))"

lemma first_outcome_zitadel:
  assumes "c \<in> set ZITADEL_CLUSTERS"
  shows "first_outcome rx q rs = Some (Inr (YStr c)) \<Longrightarrow> \<exists>r \<in> set rs. picks rx q r c"
proof (induction rs)
  case Nil
  with assms show ?case by (auto simp: ZITADEL_CLUSTERS_def)
next
  case (Cons r rs)
  then obtain m b where m: "get_or_dict r ''match'' = Some m" "route_matches rx m q = Some (Inr b)"
    and rest: "(if b then sok (route_action r) else first_outcome rx q rs) = Some (Inr (YStr c))"
    by (auto simp: sbind_Inr bind_eq_Some_conv)
  show ?case
  proof (cases b)
    case True
    with rest have "route_action r = Some (YStr c)" by simp
    from route_action_zitadel [OF this assms] m True have "picks rx q r c" by (simp add: picks_def)
    then show ?thesis by simp
  next
    case False
    with rest Cons.IH show ?thesis by simp
  qed
qed

subsection \<open>Plays\<close>

definition grows :: "(play_state \<Rightarrow> play_state seen) \<Rightarrow> bool" where
  "grows p \<longleftrightarrow> (\<forall>s t. p s = Some (Inr t) \<longrightarrow> length (fst s) \<le> length (fst t))"

lemma add_finding_length: "length fs \<le> length (fst (add_finding b x (fs, api, app)))"
  by (simp add: add_finding_def)

lemma add_finding_Nil: "fst (add_finding b x s) = [] \<longleftrightarrow> fst s = [] \<and> \<not> b"
  by (cases s) (auto simp: add_finding_def)

lemma play_Inr: "play rx vh q f s = Some (Inr t) \<longleftrightarrow> (\<exists>got. outcome rx vh q = Some (Inr got) \<and> t = f got s)"
  by (auto simp: play_def sbind_Inr)

lemma grows_play: "(\<And>got s. length (fst s) \<le> length (fst (f got s))) \<Longrightarrow> grows (play rx vh q f)"
  by (auto simp: grows_def play_Inr simp del: split_paired_All)

lemma vhost_plays_grow: "p \<in> set (vhost_plays rx cm rn vn vh) \<Longrightarrow> grows p"
  by (auto simp: vhost_plays_def Let_def plays add_finding_length split: if_splits intro!: grows_play) (auto simp: grows_def)

lemma run_plays_Cons:
  assumes "run_plays (p # ps) s = Some (t, b)"
  shows "(\<exists>e. t = s \<and> b = Some e) \<or> (\<exists>s'. p s = Some (Inr s') \<and> run_plays ps s' = Some (t, b))"
proof (cases "p s")
  case (Some r)
  with assms show ?thesis by (cases r) auto
qed (use assms in simp)

lemma run_plays_grow:
  assumes "\<forall>p \<in> set ps. grows p" and "run_plays ps s = Some (t, b)"
  shows "length (fst s) \<le> length (fst t)"
  using assms
proof (induction ps arbitrary: s)
  case (Cons p ps)
  from run_plays_Cons [OF Cons.prems(2)] show ?case
  proof (elim disjE exE conjE)
    fix s' assume "p s = Some (Inr s')" "run_plays ps s' = Some (t, b)"
    moreover from this Cons.IH Cons.prems(1) have "length (fst s') \<le> length (fst t)" by simp
    moreover from calculation Cons.prems(1) have "length (fst s) \<le> length (fst s')" unfolding grows_def by (metis list.set_intros(1))
    ultimately show ?thesis by simp
  qed simp
qed simp

lemma run_plays_clean:
  assumes "\<forall>p \<in> set ps. grows p" and "run_plays ps s = Some (t, None)" and "fst t = []" and "p \<in> set ps"
  shows "\<exists>u w. p u = Some (Inr w) \<and> fst u = [] \<and> fst w = []"
  using assms
proof (induction ps arbitrary: s)
  case (Cons p' ps)
  from Cons.prems(2) obtain s' where s': "p' s = Some (Inr s')" "run_plays ps s' = Some (t, None)"
    using run_plays_Cons [OF Cons.prems(2)] by auto
  from run_plays_grow [OF _ s'(2)] Cons.prems(1,3) have "fst s' = []" by simp
  moreover from this s'(1) Cons.prems(1) have "fst s = []" unfolding grows_def by (metis le_zero_eq length_0_conv list.set_intros(1))
  ultimately show ?case using Cons.IH [OF _ s'(2) Cons.prems(3)] s'(1) Cons.prems(1,4) by (auto simp del: split_paired_Ex)
qed simp

subsection \<open>A passing audit\<close>

text \<open>A virtual host of the edge: its ConfigMap, connection manager and route configuration.\<close>

definition edge_host :: "(string \<Rightarrow> yaml option) \<Rightarrow> doc list \<Rightarrow> yaml \<Rightarrow> yaml \<Rightarrow> yaml \<Rightarrow> yaml \<Rightarrow> bool" where
  "edge_host load docs cm hcm rc vh \<longleftrightarrow> (\<exists>configs cfg ms vhs. envoy_configs load docs = Some configs \<and> (cm, cfg) \<in> set configs
     \<and> connection_managers cfg = Some ms \<and> hcm \<in> set ms \<and> item hcm ''route_config'' = Some rc
     \<and> get_list rc ''virtual_hosts'' = Some vhs \<and> vh \<in> set vhs)"

lemma audit_edge_clean:
  assumes "audit_edge load rx docs allow = Some ([], seen)" and "edge_host load docs cm hcm rc vh"
  shows "\<exists>listed app keys. get_or_dict allow ''routes'' = Some listed \<and> hcm_audit rx listed cm hcm = Some ([], app, keys)"
proof -
  from assms(2) obtain configs cfg ms where c: "envoy_configs load docs = Some configs" "(cm, cfg) \<in> set configs"
    and ms: "connection_managers cfg = Some ms" "hcm \<in> set ms" by (auto simp: edge_host_def)
  from assms(1) c obtain listed hs where l: "get_or_dict allow ''routes'' = Some listed"
    and hs: "collect (\<lambda>(cm, cfg). do { ms \<leftarrow> connection_managers cfg; mmap (hcm_audit rx listed cm) ms }) configs = Some hs"
    and clean: "\<forall>h \<in> set hs. fst h = []"
    by (auto simp: audit_edge_def Let_def bind_eq_Some_conv split: if_splits)
  from collect_SomeD [OF hs c(2)] ms obtain ys where "mmap (hcm_audit rx listed cm) ms = Some ys" "set ys \<subseteq> set hs" by auto
  with ms(2) mmap_SomeD [of "hcm_audit rx listed cm" ms ys] obtain y where "hcm_audit rx listed cm hcm = Some y" "y \<in> set hs" by blast
  with clean l show ?thesis by (cases y) auto
qed

lemma hcm_audit_clean:
  assumes "hcm_audit rx listed cm hcm = Some ([], app, keys)" and "item hcm ''route_config'' = Some rc"
    and "get_list rc ''virtual_hosts'' = Some vhs" and "vh \<in> set vhs"
  shows "\<exists>api ap ks. vhost_audit rx listed cm rc vh = Some (([], api, ap), ks)
     \<and> (api \<longrightarrow> dget hcm ''normalize_path'' = Some (YBool True) \<and> dget hcm ''merge_slashes'' = Some (YBool True))"
proof -
  from assms obtain vs where vs: "mmap (vhost_audit rx listed cm rc) vhs = Some vs" and clean: "\<forall>v \<in> set vs. fst (fst v) = []"
    and norm: "\<exists>v \<in> set vs. fst (snd (fst v)) \<Longrightarrow> dget hcm ''normalize_path'' = Some (YBool True) \<and> dget hcm ''merge_slashes'' = Some (YBool True)"
    by (auto simp: hcm_audit_def bind_eq_Some_conv collect_empty_iff list_ex_iff split: if_splits)
  from mmap_SomeD [OF vs assms(4)] obtain v where v: "v \<in> set vs" "vhost_audit rx listed cm rc vh = Some v" by blast
  then have "fst (fst v) = []" using clean by blast
  then obtain api ap ks where "v = (([], api, ap), ks)" by (cases v) auto
  with v norm show ?thesis by force
qed

lemma vhost_audit_clean:
  assumes "vhost_audit rx listed cm rc vh = Some (([], api, ap), ks)"
    and "dget rc ''name'' = Some rn" and "dget vh ''name'' = Some vn"
  shows "\<exists>rs. get_list vh ''routes'' = Some rs \<and> (\<forall>r \<in> set rs. \<exists>k. exposed_route listed cm rc vh r = Some ([], k))"
    and "run_plays (vhost_plays rx cm rn vn vh) ([], False, False) = Some (([], api, ap), None)"
proof -
  from assms obtain rs ex where rs: "get_list vh ''routes'' = Some rs" "mmap (exposed_route listed cm rc vh) rs = Some ex"
    and clean: "\<forall>e \<in> set ex. fst e = []"
    and run: "run_plays (vhost_plays rx cm rn vn vh) ([], False, False) = Some (([], api, ap), None)"
    by (auto simp: vhost_audit_def bind_eq_Some_conv split: option.splits)
  have "\<exists>k. exposed_route listed cm rc vh r = Some ([], k)" if "r \<in> set rs" for r
    using mmap_SomeD [OF rs(2) that] clean by (metis prod.collapse)
  with rs(1) show "\<exists>rs. get_list vh ''routes'' = Some rs \<and> (\<forall>r \<in> set rs. \<exists>k. exposed_route listed cm rc vh r = Some ([], k))" by blast
  show "run_plays (vhost_plays rx cm rn vn vh) ([], False, False) = Some (([], api, ap), None)" by (rule run)
qed

text \<open>What a passing audit says of one virtual host.\<close>

lemma audited_host:
  assumes "audit_edge load rx docs allow = Some ([], seen)" and "edge_host load docs cm hcm rc vh"
    and "dget rc ''name'' = Some rn" and "dget vh ''name'' = Some vn"
  obtains listed rs api ap where "get_or_dict allow ''routes'' = Some listed" and "get_list vh ''routes'' = Some rs"
    and "\<forall>r \<in> set rs. \<exists>k. exposed_route listed cm rc vh r = Some ([], k)"
    and "run_plays (vhost_plays rx cm rn vn vh) ([], False, False) = Some (([], api, ap), None)"
    and "api \<longrightarrow> dget hcm ''normalize_path'' = Some (YBool True) \<and> dget hcm ''merge_slashes'' = Some (YBool True)"
proof -
  from audit_edge_clean [OF assms(1,2)] obtain listed app keys where l: "get_or_dict allow ''routes'' = Some listed"
    and h: "hcm_audit rx listed cm hcm = Some ([], app, keys)" by blast
  from assms(2) obtain vhs where "item hcm ''route_config'' = Some rc" "get_list rc ''virtual_hosts'' = Some vhs" "vh \<in> set vhs"
    by (auto simp: edge_host_def)
  from hcm_audit_clean [OF h this] obtain api ap ks where v: "vhost_audit rx listed cm rc vh = Some (([], api, ap), ks)"
    and norm: "api \<longrightarrow> dget hcm ''normalize_path'' = Some (YBool True) \<and> dget hcm ''merge_slashes'' = Some (YBool True)" by blast
  from vhost_audit_clean [OF v assms(3,4)] l norm that show thesis by blast
qed

lemma host_play_clean:
  assumes "run_plays (vhost_plays rx cm rn vn vh) ([], False, False) = Some (([], api, ap), None)"
    and "play rx vh q f \<in> set (vhost_plays rx cm rn vn vh)"
  shows "\<exists>got u. outcome rx vh q = Some (Inr got) \<and> fst u = [] \<and> fst (f got u) = []"
proof -
  have "\<forall>p \<in> set (vhost_plays rx cm rn vn vh). grows p" using vhost_plays_grow by blast
  from run_plays_clean [OF this assms(1) _ assms(2)] obtain u w where "play rx vh q f u = Some (Inr w)" "fst u = []" "fst w = []" by auto
  then show ?thesis unfolding play_Inr by blast
qed

text \<open>The flag that an API family reaches Zitadel stays set.\<close>

definition keeps_api :: "(play_state \<Rightarrow> play_state seen) \<Rightarrow> bool" where
  "keeps_api p \<longleftrightarrow> (\<forall>s t. p s = Some (Inr t) \<longrightarrow> fst (snd s) \<longrightarrow> fst (snd t))"

lemma vhost_plays_keep_api: "p \<in> set (vhost_plays rx cm rn vn vh) \<Longrightarrow> keeps_api p"
  by (auto simp: vhost_plays_def Let_def plays keeps_api_def play_Inr add_finding_def split: if_splits)

lemma run_plays_api:
  assumes "\<forall>p \<in> set ps. keeps_api p" and "run_plays ps s = Some (t, None)"
  shows "fst (snd s) \<Longrightarrow> fst (snd t)"
    and "p \<in> set ps \<Longrightarrow> \<forall>u w. p u = Some (Inr w) \<longrightarrow> fst (snd w) \<Longrightarrow> fst (snd t)"
proof -
  have keep: "\<forall>p \<in> set ps. keeps_api p \<Longrightarrow> run_plays ps s = Some (t, None) \<Longrightarrow> fst (snd s) \<Longrightarrow> fst (snd t)" for ps s
  proof (induction ps arbitrary: s)
    case (Cons p ps)
    from run_plays_Cons [OF Cons.prems(2)] obtain s' where s': "p s = Some (Inr s')" "run_plays ps s' = Some (t, None)" by auto
    moreover from this(1) Cons.prems have "fst (snd s')" unfolding keeps_api_def by (meson list.set_intros(1))
    ultimately show ?case using Cons.IH Cons.prems(1) by simp
  qed simp
  then show "fst (snd s) \<Longrightarrow> fst (snd t)" using assms by blast
  show "p \<in> set ps \<Longrightarrow> \<forall>u w. p u = Some (Inr w) \<longrightarrow> fst (snd w) \<Longrightarrow> fst (snd t)" using assms
  proof (induction ps arbitrary: s)
    case (Cons p' ps)
    from run_plays_Cons [OF Cons.prems(4)] obtain s' where s': "p' s = Some (Inr s')" "run_plays ps s' = Some (t, None)" by auto
    show ?case
    proof (cases "p = p'")
      case True
      with s'(1) Cons.prems(2) have "fst (snd s')" by blast
      with keep [OF _ s'(2)] Cons.prems(3) show ?thesis by simp
    next
      case False
      with Cons.IH [OF _ Cons.prems(2) _ s'(2)] Cons.prems(1,3) show ?thesis by simp
    qed
  qed simp
qed

section \<open>Properties\<close>


text \<open>Self-rename and admin surface: when the audit passes, in every virtual host each request that
  changes an email or a username is routed and does not reach Zitadel, and no request of the admin list
  reaches a Zitadel cluster.\<close>

theorem edge_blocks_renames:
  assumes "audit_edge load rx docs allow = Some ([], seen)" and "edge_host load docs cm hcm rc vh"
    and "dget rc ''name'' = Some rn" and "dget vh ''name'' = Some vn"
  shows "(\<forall>q \<in> set MUST_BLOCK. \<exists>got. outcome rx vh q = Some (Inr got) \<and> got \<noteq> YStr ''zitadel_upstream'')
    \<and> (\<forall>q \<in> set MUST_NOT_ROUTE. \<exists>got. outcome rx vh q = Some (Inr got) \<and> \<not> in_strtuple got ZITADEL_CLUSTERS)"
proof -
  obtain api ap where run: "run_plays (vhost_plays rx cm rn vn vh) ([], False, False) = Some (([], api, ap), None)"
    by (rule audited_host [OF assms(1-4)])
  note clean = host_play_clean [OF run]
  have "\<exists>got. outcome rx vh q = Some (Inr got) \<and> got \<noteq> YStr ''zitadel_upstream''" if "q \<in> set MUST_BLOCK" for q
  proof -
    have "rename_play rx cm rn vn vh q \<in> set (vhost_plays rx cm rn vn vh)" using that by (simp add: vhost_plays_def Let_def)
    from clean [OF this [unfolded rename_play_def]] show ?thesis by (auto simp: add_finding_Nil simp del: split_paired_Ex)
  qed
  moreover have "\<exists>got. outcome rx vh q = Some (Inr got) \<and> \<not> in_strtuple got ZITADEL_CLUSTERS" if "q \<in> set MUST_NOT_ROUTE" for q
  proof -
    have "admin_play rx cm rn vn vh (rn = YStr (fst APP_VHOST) \<and> vn = YStr (snd APP_VHOST)) q \<in> set (vhost_plays rx cm rn vn vh)"
      using that by (simp add: vhost_plays_def Let_def)
    from clean [OF this [unfolded admin_play_def]] show ?thesis by (auto simp: add_finding_Nil simp del: split_paired_Ex split: if_splits)
  qed
  ultimately show ?thesis by blast
qed

text \<open>C29. The sign-in flow: when the audit passes, on the application host each admin request gets the
  edge's 404, each request of the signed-in user reaches Zitadel, and each sign-in path reaches the
  cluster listed for it.\<close>

theorem edge_serves_sign_in:
  assumes "audit_edge load rx docs allow = Some ([], seen)" and "edge_host load docs cm hcm rc vh"
    and "dget rc ''name'' = Some (YStr (fst APP_VHOST))" and "dget vh ''name'' = Some (YStr (snd APP_VHOST))"
  shows "(\<forall>q \<in> set MUST_NOT_ROUTE. outcome rx vh q = Some (Inr (YStr EDGE_NOT_FOUND)))
    \<and> (\<forall>q \<in> set MUST_ROUTE. outcome rx vh q = Some (Inr (YStr ''zitadel_upstream'')))
    \<and> (\<forall>(method, path, w) \<in> set SIGN_IN. outcome rx vh (method, path, []) = Some (Inr (YStr w)))"
proof -
  let ?ps = "vhost_plays rx cm (YStr (fst APP_VHOST)) (YStr (snd APP_VHOST)) vh"
  obtain api ap where run: "run_plays ?ps ([], False, False) = Some (([], api, ap), None)"
    by (rule audited_host [OF assms(1-4)])
  note clean = host_play_clean [OF run]
  have "outcome rx vh q = Some (Inr (YStr EDGE_NOT_FOUND))" if "q \<in> set MUST_NOT_ROUTE" for q
  proof -
    have "admin_play rx cm (YStr (fst APP_VHOST)) (YStr (snd APP_VHOST)) vh True q \<in> set ?ps" using that by (simp add: vhost_plays_def)
    from clean [OF this [unfolded admin_play_def]] show ?thesis by (auto simp: add_finding_Nil simp del: split_paired_Ex split: if_splits)
  qed
  moreover have "outcome rx vh q = Some (Inr (YStr ''zitadel_upstream''))" if "q \<in> set MUST_ROUTE" for q
  proof -
    have "user_play rx cm (YStr (fst APP_VHOST)) (YStr (snd APP_VHOST)) vh q \<in> set ?ps" using that by (simp add: vhost_plays_def)
    from clean [OF this [unfolded user_play_def]] show ?thesis by (auto simp: add_finding_Nil simp del: split_paired_Ex)
  qed
  moreover have "outcome rx vh (me, pa, []) = Some (Inr (YStr w))" if "(me, pa, w) \<in> set SIGN_IN" for me pa w
  proof -
    have "sign_in_play rx cm (YStr (fst APP_VHOST)) (YStr (snd APP_VHOST)) vh (me, pa, w) \<in> set ?ps"
      using that by (simp add: vhost_plays_def)
    from clean [OF this [unfolded sign_in_play_def prod.case]] show ?thesis by (auto simp: add_finding_Nil simp del: split_paired_Ex)
  qed
  ultimately show ?thesis by blast
qed

text \<open>No detour: when the audit passes and a virtual host sends a path of a Zitadel API family to
  Zitadel, its connection manager normalizes paths and merges slashes.\<close>

theorem edge_normalizes:
  assumes "audit_edge load rx docs allow = Some ([], seen)" and "edge_host load docs cm hcm rc vh"
    and "dget rc ''name'' = Some rn" and "dget vh ''name'' = Some vn"
    and "fam \<in> set API_FAMILIES" and "outcome rx vh (''POST'', fam @ ''x'', []) = Some (Inr (YStr ''zitadel_upstream''))"
  shows "dget hcm ''normalize_path'' = Some (YBool True) \<and> dget hcm ''merge_slashes'' = Some (YBool True)"
proof -
  obtain api ap where run: "run_plays (vhost_plays rx cm rn vn vh) ([], False, False) = Some (([], api, ap), None)"
    and norm: "api \<longrightarrow> dget hcm ''normalize_path'' = Some (YBool True) \<and> dget hcm ''merge_slashes'' = Some (YBool True)"
    by (rule audited_host [OF assms(1-4)])
  have "api_play rx vh fam \<in> set (vhost_plays rx cm rn vn vh)" using assms(5) by (simp add: vhost_plays_def Let_def)
  moreover have "\<forall>u w. api_play rx vh fam u = Some (Inr w) \<longrightarrow> fst (snd w)" by (auto simp: api_play_def play_Inr assms(6))
  moreover have "\<forall>p \<in> set (vhost_plays rx cm rn vn vh). keeps_api p" using vhost_plays_keep_api by blast
  ultimately have api using run_plays_api(2) [OF _ run] by fastforce
  with norm show ?thesis by blast
qed

end
