(* ===== verification/EdgeRoutesLive.thy ===== *)
theory EdgeRoutesLive
  imports EdgeRoutes WalContinuity WorkloadRbac
begin

text \<open>
  \<^verbatim>\<open>src/scripts/check-edge-zitadel-routes.py --live\<close>: the same requests played against a running edge
  with curl. The world behind curl is passed along, since a request can change it, and the JSON
  parser is a parameter. The theory proves what exit code 0 says of the responses.
\<close>

section \<open>The live mode\<close>

record edge_env =
  edge_url :: "string option"
  edge_resolve :: "string option"
  edge_insecure :: "string option"
  zitadel_token :: "string option"

text \<open>\<^verbatim>\<open>os.environ.get(k)\<close> as a condition: set and not empty.\<close>

definition env_set :: "string option \<Rightarrow> bool" where
  "env_set v = (case v of None \<Rightarrow> False | Some s \<Rightarrow> s \<noteq> [])"

definition EDGE_BODY :: string where
  "EDGE_BODY = ''forbidden''"

definition EDGE_NOT_FOUND_BODY :: string where
  "EDGE_NOT_FOUND_BODY = ''not found''"

definition RENAME_BODIES :: "(string \<times> yaml) list" where
  "RENAME_BODIES =
     [(''/auth/v1/users/me/email'', YMap [(''email'', YStr ''renamed-by-edge-probe@example.invalid'')]),
      (''/auth/v1/users/me/username'', YMap [(''userName'', YStr ''renamed-by-edge-probe'')])]"

definition setdefault :: "string \<Rightarrow> string \<Rightarrow> headers \<Rightarrow> headers" where
  "setdefault k v m = (if map_of m k = None then AList.update k v m else m)"

definition curl_headers :: "string \<Rightarrow> string \<Rightarrow> headers \<Rightarrow> string option \<Rightarrow> headers" where
  "curl_headers method path hs token =
     (let h = (if startswith path ''/zitadel.'' then setdefault ''connect-protocol-version'' ''1'' (setdefault ''content-type'' ''application/json'' hs)
               else if method \<notin> set [''GET'', ''HEAD'', ''DELETE''] then setdefault ''content-type'' ''application/json'' hs else hs)
      in (if env_set token then AList.update ''authorization'' (''Bearer '' @ the token) h else h))"

text \<open>\<^verbatim>\<open>s.rstrip("/")\<close>.\<close>

definition rstrip_char :: "char \<Rightarrow> string \<Rightarrow> string" where
  "rstrip_char c s = rev (dropWhile (\<lambda>x. x = c) (rev s))"

definition curl_args :: "edge_env \<Rightarrow> string \<Rightarrow> string \<Rightarrow> headers \<Rightarrow> string option \<Rightarrow> string list option" where
  "curl_args env method path hs token = do {
     base \<leftarrow> edge_url env;
     Some ([''curl'', ''-sS'', ''--http1.1'', ''--path-as-is'', ''-X'', method, ''-D'', ''-'', ''-o'', ''-'', ''--max-time'', ''20'']
       @ (if env_set (edge_resolve env) then [''--resolve'', the (edge_resolve env)] else [])
       @ (if edge_insecure env = Some ''1'' then [''-k''] else [])
       @ concat (map (\<lambda>(k, v). [''-H'', k @ '': '' @ v]) (curl_headers method path hs token))
       @ (if method \<notin> set [''GET'', ''HEAD'', ''DELETE''] then [''--data'', json_dumps (dict_get RENAME_BODIES path (YMap []))] else [])
       @ [rstrip_char (CHR ''/'') base @ path])
   }"

text \<open>\<^verbatim>\<open>s.partition("\n\n")\<close> and \<^verbatim>\<open>s.partition(":")\<close>.\<close>

fun head_body :: "string \<Rightarrow> string \<times> string" where
  "head_body (a # b # s) = (if a = CHR 0x0A \<and> b = CHR 0x0A then ([], s) else (let (h, t) = head_body (b # s) in (a # h, t)))"
| "head_body s = (s, [])"

definition header_line :: "string \<Rightarrow> string \<times> string" where
  "header_line l = (let (k, v) = split_once (CHR '':'') l in (py_lower (strip k), strip (case v of None \<Rightarrow> [] | Some t \<Rightarrow> t)))"

type_synonym response = "int \<times> headers \<times> string"

definition read_response :: "string \<Rightarrow> response option" where
  "read_response out = (let (h, body) = head_body out; lines = split_all (CHR 0x0A) h; ws = py_words (hd lines) in
     if length ws < 2 then None else do {
       status \<leftarrow> py_int (ws ! 1);
       Some (status, fold (\<lambda>l m. AList.update (fst (header_line l)) (snd (header_line l)) m) (tl lines) [], body)
     })"

text \<open>One request: the return code and the output of the process, and the world after it.\<close>

type_synonym 'w net = "'w \<Rightarrow> string list \<Rightarrow> (int \<times> string) \<times> 'w"

definition curl :: "'w net \<Rightarrow> edge_env \<Rightarrow> 'w \<Rightarrow> request \<Rightarrow> string option \<Rightarrow> (response \<times> 'w) option" where
  "curl net env w = (\<lambda>(method, path, hs) token. do {
     args \<leftarrow> curl_args env method path hs token;
     let ((rc, out), w') = net w args;
     if rc \<noteq> 0 then None else do { r \<leftarrow> read_response out; Some (r, w') }
   })"

definition edge_refused :: "response \<Rightarrow> bool" where
  "edge_refused r = (fst r = 403 \<and> strip (snd (snd r)) = EDGE_BODY)"

definition whoami :: "(string \<Rightarrow> yaml option) \<Rightarrow> 'w net \<Rightarrow> edge_env \<Rightarrow> 'w \<Rightarrow> string option \<Rightarrow> ((yaml \<times> yaml) \<times> 'w) option" where
  "whoami json net env w token = do {
     (r, w') \<leftarrow> curl net env w (''GET'', ''/auth/v1/users/me'', []) token;
     if fst r \<noteq> 200 then None else do {
     j \<leftarrow> json (snd (snd r));
     user \<leftarrow> get_or_dict j ''user'';
     human \<leftarrow> get_or_dict user ''human'';
     email \<leftarrow> get_or_dict human ''email'';
     u \<leftarrow> dget_default user ''userName'' (YStr []);
     e \<leftarrow> dget_default email ''email'' (YStr []);
     Some ((u, e), w')
     }
   }"

datatype live_finding = NotRefused request int | NotAnswered request int | Not404 request int | UserChanged "yaml \<times> yaml" "yaml \<times> yaml"

definition upper_method :: "string \<Rightarrow> bool" where
  "upper_method m = list_all (\<lambda>c. \<not> (CHR ''a'' \<le> c \<and> c \<le> CHR ''z'')) m"

definition live_step :: "'w net \<Rightarrow> edge_env \<Rightarrow> string option \<Rightarrow> (response \<Rightarrow> bool) \<Rightarrow> (request \<Rightarrow> int \<Rightarrow> live_finding) \<Rightarrow> request
    \<Rightarrow> live_finding list \<times> 'w \<Rightarrow> (live_finding list \<times> 'w) option" where
  "live_step net env token ok bad q = (\<lambda>(fs, w). do {
     (r, w') \<leftarrow> curl net env w q token;
     Some (if ok r then fs else fs @ [bad q (fst r)], w')
   })"

definition answered :: "response \<Rightarrow> bool" where
  "answered r = (\<not> (edge_refused r \<or> fst r = 404 \<or> fst r \<ge> 500))"

definition edge_404 :: "response \<Rightarrow> bool" where
  "edge_404 r = (fst r = 404 \<and> strip (snd (snd r)) = EDGE_NOT_FOUND_BODY)"

definition live_edge :: "(string \<Rightarrow> yaml option) \<Rightarrow> 'w net \<Rightarrow> edge_env \<Rightarrow> 'w \<Rightarrow> int option" where
  "live_edge json net env w0 = (if \<not> env_set (edge_url env) then None else do {
     let token = (if env_set (zitadel_token env) then zitadel_token env else None);
     (before, w1) \<leftarrow> (case token of None \<Rightarrow> Some (None, w0) | Some t \<Rightarrow> do { (u, w) \<leftarrow> whoami json net env w0 token; Some (Some u, w) });
     s2 \<leftarrow> mfold (live_step net env token edge_refused NotRefused) (filter (\<lambda>q. upper_method (fst q)) MUST_BLOCK) ([], w1);
     s3 \<leftarrow> mfold (live_step net env None answered NotAnswered) MUST_ROUTE s2;
     (fs, w4) \<leftarrow> mfold (live_step net env token edge_404 Not404) MUST_NOT_ROUTE s3;
     bad \<leftarrow> (case before of None \<Rightarrow> Some fs
             | Some u \<Rightarrow> do { (v, w) \<leftarrow> whoami json net env w4 token; Some (if v \<noteq> u then fs @ [UserChanged u v] else fs) });
     Some (if bad \<noteq> [] then 1 else 0)
   })"

section \<open>The live verdict\<close>

lemma live_step_Some:
  "live_step net env token ok bad q (fs, w) = Some s \<longleftrightarrow>
     (\<exists>r v. curl net env w q token = Some (r, v) \<and> s = (if ok r then fs else fs @ [bad q (fst r)], v))"
  by (cases "curl net env w q token") (auto simp: live_step_def simp del: split_paired_Ex)

lemma live_step_clean:
  assumes "mfold (live_step net env token ok bad) qs (fs, w) = Some ([], w')"
  shows "fs = [] \<and> (\<forall>q \<in> set qs. \<exists>u r v. curl net env u q token = Some (r, v) \<and> ok r)"
  using assms
proof (induction qs arbitrary: fs w)
  case (Cons q qs)
  from Cons.prems obtain s where s: "live_step net env token ok bad q (fs, w) = Some s"
    and rest: "mfold (live_step net env token ok bad) qs s = Some ([], w')" by (auto elim!: bindE)
  from s obtain r v where r: "curl net env w q token = Some (r, v)" "s = (if ok r then fs else fs @ [bad q (fst r)], v)"
    unfolding live_step_Some by blast
  have "(if ok r then fs else fs @ [bad q (fst r)]) = [] \<and> (\<forall>q \<in> set qs. \<exists>u r v. curl net env u q token = Some (r, v) \<and> ok r)"
    using rest unfolding r(2) by (rule Cons.IH)
  then have "fs = []" "ok r" "\<forall>q \<in> set qs. \<exists>u r v. curl net env u q token = Some (r, v) \<and> ok r" by (simp_all split: if_splits)
  with r(1) show ?case by (simp del: split_paired_Ex) blast
qed simp

definition same_user :: "(string \<Rightarrow> yaml option) \<Rightarrow> 'w net \<Rightarrow> edge_env \<Rightarrow> 'w \<Rightarrow> string option \<Rightarrow> bool" where
  "same_user json net env w0 token \<longleftrightarrow>
     (\<exists>me w1 w4 w5. whoami json net env w0 token = Some (me, w1) \<and> whoami json net env w4 token = Some (me, w5))"

lemma live_edge_parts:
  assumes "live_edge json net env w0 = Some 0"
    and token: "token = (if env_set (zitadel_token env) then zitadel_token env else None)"
  obtains w1 fs2 w2 fs3 w3 w4 where
    "mfold (live_step net env token edge_refused NotRefused) (filter (\<lambda>q. upper_method (fst q)) MUST_BLOCK) ([], w1) = Some (fs2, w2)"
    "mfold (live_step net env None answered NotAnswered) MUST_ROUTE (fs2, w2) = Some (fs3, w3)"
    "mfold (live_step net env token edge_404 Not404) MUST_NOT_ROUTE (fs3, w3) = Some ([], w4)"
    "token \<noteq> None \<longrightarrow> same_user json net env w0 token"
proof -
  define run where "run w1 tail = do {
     s2 \<leftarrow> mfold (live_step net env token edge_refused NotRefused) (filter (\<lambda>q. upper_method (fst q)) MUST_BLOCK) ([], w1);
     s3 \<leftarrow> mfold (live_step net env None answered NotAnswered) MUST_ROUTE s2;
     (fs, w4) \<leftarrow> mfold (live_step net env token edge_404 Not404) MUST_NOT_ROUTE s3;
     bad \<leftarrow> tail fs w4;
     Some (if bad \<noteq> [] then 1 else 0 :: int) }" for w1 and tail :: "live_finding list \<Rightarrow> 'a \<Rightarrow> live_finding list option"
  have parts: "\<exists>fs2 w2 fs3 w3 fs w4. mfold (live_step net env token edge_refused NotRefused) (filter (\<lambda>q. upper_method (fst q)) MUST_BLOCK) ([], w1) = Some (fs2, w2)
      \<and> mfold (live_step net env None answered NotAnswered) MUST_ROUTE (fs2, w2) = Some (fs3, w3)
      \<and> mfold (live_step net env token edge_404 Not404) MUST_NOT_ROUTE (fs3, w3) = Some (fs, w4) \<and> tail fs w4 = Some []"
    if "run w1 tail = Some 0" for w1 tail
    using that by (auto simp: run_def elim!: bindE split: if_splits)
  have body: "do {
     (before, w1) \<leftarrow> (case token of None \<Rightarrow> Some (None, w0) | Some t \<Rightarrow> do { (u, w) \<leftarrow> whoami json net env w0 token; Some (Some u, w) });
     run w1 (\<lambda>fs w4. case before of None \<Rightarrow> Some fs
       | Some u \<Rightarrow> do { (v, w) \<leftarrow> whoami json net env w4 token; Some (if v \<noteq> u then fs @ [UserChanged u v] else fs) }) } = Some 0"
    using assms(1) unfolding live_edge_def Let_def token [symmetric] run_def by (cases "env_set (edge_url env)") simp_all
  show thesis
  proof (cases token)
    case None
    with body have "run w0 (\<lambda>fs w4. Some fs) = Some 0" by simp
    from parts [OF this] None that show thesis by auto
  next
    case (Some t)
    with body obtain me w1 where me: "whoami json net env w0 token = Some (me, w1)"
      and "run w1 (\<lambda>fs w4. do { (v, w) \<leftarrow> whoami json net env w4 token; Some (if v \<noteq> me then fs @ [UserChanged me v] else fs) }) = Some 0"
      by (cases "whoami json net env w0 token") auto
    from parts [OF this(2)] obtain fs2 w2 fs3 w3 fs w4 where
      run: "mfold (live_step net env token edge_refused NotRefused) (filter (\<lambda>q. upper_method (fst q)) MUST_BLOCK) ([], w1) = Some (fs2, w2)"
      "mfold (live_step net env None answered NotAnswered) MUST_ROUTE (fs2, w2) = Some (fs3, w3)"
      "mfold (live_step net env token edge_404 Not404) MUST_NOT_ROUTE (fs3, w3) = Some (fs, w4)"
      and tl: "do { (v, w) \<leftarrow> whoami json net env w4 token; Some (if v \<noteq> me then fs @ [UserChanged me v] else fs) } = Some []" by blast
    from tl obtain w5 where "fs = []" "whoami json net env w4 token = Some (me, w5)"
      by (cases "whoami json net env w4 token") (auto split: if_splits)
    with me run that show thesis unfolding same_user_def by blast
  qed
qed

text \<open>The live verdict: when the live mode exits 0, each blocked request of an upper-case method got
  the edge's own 403, each sign-in request got an answer from Zitadel and each admin request the
  edge's own 404; with a token, the name and email of the user are the same before and after.\<close>

theorem live_edge_verdict:
  assumes "live_edge json net env w0 = Some 0"
    and "token = (if env_set (zitadel_token env) then zitadel_token env else None)"
  shows "(\<forall>q \<in> set MUST_BLOCK. upper_method (fst q) \<longrightarrow> (\<exists>u r v. curl net env u q token = Some (r, v) \<and> edge_refused r))
    \<and> (\<forall>q \<in> set MUST_ROUTE. \<exists>u r v. curl net env u q None = Some (r, v) \<and> answered r)
    \<and> (\<forall>q \<in> set MUST_NOT_ROUTE. \<exists>u r v. curl net env u q token = Some (r, v) \<and> edge_404 r)
    \<and> (token \<noteq> None \<longrightarrow> same_user json net env w0 token)"
proof -
  obtain w1 fs2 w2 fs3 w3 w4 where
    s2: "mfold (live_step net env token edge_refused NotRefused) (filter (\<lambda>q. upper_method (fst q)) MUST_BLOCK) ([], w1) = Some (fs2, w2)"
    and s3: "mfold (live_step net env None answered NotAnswered) MUST_ROUTE (fs2, w2) = Some (fs3, w3)"
    and s4: "mfold (live_step net env token edge_404 Not404) MUST_NOT_ROUTE (fs3, w3) = Some ([], w4)"
    and me: "token \<noteq> None \<longrightarrow> same_user json net env w0 token" by (rule live_edge_parts [OF assms])
  note c4 = live_step_clean [OF s4]
  note c3 = live_step_clean [OF s3 [unfolded c4 [THEN conjunct1]]]
  note c2 = live_step_clean [OF s2 [unfolded c3 [THEN conjunct1]]]
  from c2 c3 c4 me show ?thesis by (simp del: split_paired_Ex split_paired_All)
qed

text \<open>A world that is the list of the answers still to come.\<close>

definition scripted :: "string list net" where
  "scripted w args = (case w of [] \<Rightarrow> ((1, []), []) | out # rest \<Rightarrow> ((0, out), rest))"

definition http_answer :: "string \<Rightarrow> string \<Rightarrow> string" where
  "http_answer status body = ''HTTP/1.1 '' @ status @ '' -'' @ [CHR 0x0A] @ ''server: envoy'' @ [CHR 0x0A, CHR 0x0A] @ body"

definition live_script :: "string list" where
  "live_script = map (\<lambda>_. http_answer ''403'' ''forbidden'') (filter (\<lambda>q. upper_method (fst q)) MUST_BLOCK)
     @ map (\<lambda>_. http_answer ''401'' []) MUST_ROUTE @ map (\<lambda>_. http_answer ''404'' ''not found'') MUST_NOT_ROUTE"

definition live_env :: edge_env where
  "live_env = \<lparr>edge_url = Some ''https://app'', edge_resolve = None, edge_insecure = None, zitadel_token = None\<rparr>"

theorem live_edge_verdict_witness:
  "(\<exists>u r v. curl scripted live_env u (hd MUST_BLOCK) None = Some (r, v) \<and> edge_refused r)
    \<and> (\<exists>u r v. curl scripted live_env u (hd MUST_ROUTE) None = Some (r, v) \<and> answered r)
    \<and> (\<exists>u r v. curl scripted live_env u (hd MUST_NOT_ROUTE) None = Some (r, v) \<and> edge_404 r)"
proof -
  have run: "live_edge (\<lambda>s. None) scripted live_env live_script = Some 0" by code_simp
  have token: "None = (if env_set (zitadel_token live_env) then zitadel_token live_env else None)" by code_simp
  have "hd MUST_BLOCK \<in> set MUST_BLOCK" "hd MUST_ROUTE \<in> set MUST_ROUTE" "hd MUST_NOT_ROUTE \<in> set MUST_NOT_ROUTE"
    by (simp_all add: MUST_BLOCK_def MUST_ROUTE_def MUST_NOT_ROUTE_def)
  moreover have "upper_method (fst (hd MUST_BLOCK))" by code_simp
  ultimately show ?thesis using live_edge_verdict [OF run token] by blast
qed

end
