(* ===== verification/EdgeRoutesSelftest.thy ===== *)
theory EdgeRoutesSelftest
  imports EdgeRoutesLive
begin

text \<open>
  \<^verbatim>\<open>src/scripts/check-edge-zitadel-routes.py\<close>, the edits of its selftest, the selftest and the run,
  with the witnesses of the properties of the audit on a small edge. The parser and the writer of
  YAML are parameters.
\<close>

section \<open>Edits\<close>

text \<open>The elements of \<^verbatim>\<open>v.get(key, [])\<close>, edited in place. Only a list has elements that can be edited.\<close>

definition over_items :: "string \<Rightarrow> (yaml \<Rightarrow> yaml option) \<Rightarrow> yaml \<Rightarrow> yaml option" where
  "over_items key f v = do {
     x \<leftarrow> dget_default v key (YList []);
     xs \<leftarrow> py_iter x;
     ys \<leftarrow> mmap f xs;
     Some (if xs = [] then v else with_key key (YList ys) v)
   }"

definition is_app_hcm :: "yaml \<Rightarrow> bool option" where
  "is_app_hcm hcm = do { rc \<leftarrow> item hcm ''route_config''; n \<leftarrow> dget rc ''name''; Some (n = YStr (fst APP_VHOST)) }"

definition edit_filter :: "(yaml \<Rightarrow> yaml option) \<Rightarrow> yaml \<Rightarrow> yaml option" where
  "edit_filter fn f = do {
     ms \<leftarrow> filter_hcm f;
     case ms of [] \<Rightarrow> Some f
     | hcm # _ \<Rightarrow> do { b \<leftarrow> is_app_hcm hcm; if b then do { h \<leftarrow> fn hcm; Some (with_key ''typed_config'' h f) } else Some f }
   }"

definition edit_config :: "(yaml \<Rightarrow> yaml option) \<Rightarrow> yaml \<Rightarrow> yaml option" where
  "edit_config fn cfg = do {
     sr \<leftarrow> dget_default cfg ''static_resources'' (YMap []);
     sr' \<leftarrow> over_items ''listeners'' (over_items ''filter_chains'' (over_items ''filters'' (edit_filter fn))) sr;
     Some (if item cfg ''static_resources'' = None then cfg else with_key ''static_resources'' sr' cfg)
   }"

definition edit_value :: "(string \<Rightarrow> yaml option) \<Rightarrow> (yaml \<Rightarrow> string) \<Rightarrow> (yaml \<Rightarrow> yaml option) \<Rightarrow> yaml \<Rightarrow> yaml option" where
  "edit_value load dump fn v = (case v of
       YStr s \<Rightarrow> (if \<not> sublist ''static_resources'' s then Some v else do {
         cfg \<leftarrow> load s;
         ms \<leftarrow> connection_managers cfg;
         hits \<leftarrow> mmap is_app_hcm ms;
         cfg' \<leftarrow> edit_config fn cfg;
         Some (if list_ex id hits then YStr (dump cfg') else v)
       })
     | _ \<Rightarrow> Some v)"

definition edit_docs :: "(string \<Rightarrow> yaml option) \<Rightarrow> (yaml \<Rightarrow> string) \<Rightarrow> (yaml \<Rightarrow> yaml option) \<Rightarrow> doc list \<Rightarrow> doc list option" where
  "edit_docs load dump fn docs = mmap (\<lambda>d. do {
     kind \<leftarrow> dget d ''kind'';
     if kind \<noteq> YStr ''ConfigMap'' then Some d else do {
     dat \<leftarrow> get_or_dict d ''data'';
     es \<leftarrow> items dat;
     es' \<leftarrow> mmap (\<lambda>(k, v). do { w \<leftarrow> edit_value load dump fn v; Some (k, w) }) es;
     Some (if es = [] then d else with_key ''data'' (YMap es') d)
     }
   }) docs"

definition on_app :: "(yaml \<Rightarrow> yaml option) \<Rightarrow> yaml \<Rightarrow> yaml option" where
  "on_app f = edit_at [Key ''route_config'', Key ''virtual_hosts'']
     (list_edit (edit_first (\<lambda>v. do { n \<leftarrow> dget v ''name''; Some (n = YStr (snd APP_VHOST)) }) f))"

definition on_routes :: "(yaml list \<Rightarrow> yaml list option) \<Rightarrow> yaml \<Rightarrow> yaml option" where
  "on_routes f = on_app (edit_at [Key ''routes''] (list_edit f))"

definition is_block :: "string \<Rightarrow> yaml \<Rightarrow> bool option" where
  "is_block needle r = do {
     m \<leftarrow> get_or_dict r ''match'';
     d \<leftarrow> py_in (YStr ''direct_response'') r;
     if \<not> d then Some False else do {
     sr \<leftarrow> dget m ''safe_regex'';
     p \<leftarrow> dget m ''path'';
     Some (sublist needle (py_str (py_or sr p)))
     }
   }"

definition drop_block :: "string \<Rightarrow> yaml \<Rightarrow> yaml option" where
  "drop_block needle = on_routes (mfilter (\<lambda>r. mnot (is_block needle r)))"

text \<open>\<^verbatim>\<open>[r for r in routes if r not in sel] + sel\<close>.\<close>

definition move_last :: "(yaml \<Rightarrow> bool option) \<Rightarrow> yaml \<Rightarrow> yaml option" where
  "move_last p = on_routes (\<lambda>rs. do {
     sel \<leftarrow> mfilter p rs;
     Some (filter (\<lambda>r. \<not> list_ex (py_eq r) sel) rs @ sel)
   })"

definition answers_404 :: "yaml \<Rightarrow> bool option" where
  "answers_404 r = do { d \<leftarrow> get_or_dict r ''direct_response''; s \<leftarrow> dget d ''status''; Some (s = YInt 404) }"

definition prefix_match :: "string \<Rightarrow> string \<times> yaml" where
  "prefix_match p = (''match'', YMap [(''prefix'', YStr p)])"

definition answer :: "int \<Rightarrow> string \<times> yaml" where
  "answer status = (''direct_response'', YMap [(''status'', YInt status)])"

definition insert_route :: "(string \<times> yaml) list \<Rightarrow> yaml \<Rightarrow> yaml option" where
  "insert_route es = on_routes (\<lambda>rs. Some (YMap es # rs))"

definition add_route :: "string \<Rightarrow> string \<Rightarrow> yaml \<Rightarrow> yaml option" where
  "add_route p cluster = insert_route [prefix_match p, (''route'', YMap [(''cluster'', YStr cluster)])]"

definition block_sign_in :: "string \<Rightarrow> yaml \<Rightarrow> yaml option" where
  "block_sign_in p = insert_route [prefix_match p, answer 404]"

definition no_normalize :: "yaml \<Rightarrow> yaml option" where
  "no_normalize hcm = (case hcm of YMap m \<Rightarrow> Some (YMap (AList.delete ''normalize_path'' m)) | _ \<Rightarrow> None)"

definition unknown_match :: "yaml \<Rightarrow> yaml option" where
  "unknown_match = insert_route [(''match'', YMap [(''prefix'', YStr ''/''), (''query_parameters'', YList [YMap [(''name'', YStr ''x'')]])]), answer 403]"

definition EDGE_FIXTURES_THAT_MUST_FAIL :: "(yaml \<Rightarrow> yaml option) list" where
  "EDGE_FIXTURES_THAT_MUST_FAIL =
     [add_route ''/system/v1/'' ''zitadel_upstream'',
      add_route ''/debug/'' ''zitadel_login'',
      drop_block ''users/me/'',
      drop_block ''/email/?$'',
      drop_block ''%'',
      drop_block ''^/(?:auth/v1/|v2/|v2beta/).*$'',
      move_last (\<lambda>r. py_in (YStr ''direct_response'') r),
      insert_route [prefix_match ''/v2/'', answer 403],
      block_sign_in ''/oauth/'',
      block_sign_in ''/ui/v2/'',
      block_sign_in ''/idps/'',
      on_routes (mfilter (\<lambda>r. mnot (answers_404 r))),
      move_last answers_404,
      no_normalize,
      unknown_match]"

definition ADMIN_ROUTES_THAT_MUST_FAIL :: "(string \<times> string) list" where
  "ADMIN_ROUTES_THAT_MUST_FAIL =
     [(''/ui/console'', ''zitadel_upstream''),
      (''/admin/v1/'', ''zitadel_upstream''),
      (''/management/v1/'', ''zitadel_upstream''),
      (''/zitadel.'', ''zitadel_upstream''),
      (''/zitadel.user.v2.UserService/'', ''zitadel_upstream''),
      (''/ui/console/'', ''zitadel_login'')]"

section \<open>The selftest\<close>

text \<open>The findings whose text holds \<^verbatim>\<open>admin surface\<close>, \<^verbatim>\<open>unlisted\<close>, or starts with \<^verbatim>\<open>stale entry\<close>.\<close>

definition says_admin :: "edge_finding \<Rightarrow> bool" where
  "says_admin x = (case x of AdminRoute cm k c \<Rightarrow> True | AdminReaches cm rn vn q got \<Rightarrow> True | _ \<Rightarrow> False)"

definition says_unlisted :: "edge_finding \<Rightarrow> bool" where
  "says_unlisted x = (case x of UnlistedRoute cm c k \<Rightarrow> True | _ \<Rightarrow> False)"

definition says_stale :: "edge_finding \<Rightarrow> bool" where
  "says_stale x = (case x of StaleRoute k \<Rightarrow> True | _ \<Rightarrow> False)"

definition listed_also :: "yaml \<Rightarrow> string \<Rightarrow> yaml option" where
  "listed_also allow key = do {
     rs \<leftarrow> item allow ''routes'';
     es \<leftarrow> items rs;
     Some (YMap [(''routes'', YMap (AList.update key (YMap [(''why'', YStr ''fixture'')]) es))])
   }"

definition selftest_edge :: "(string \<Rightarrow> yaml option) \<Rightarrow> (yaml \<Rightarrow> string) \<Rightarrow> (string \<Rightarrow> string \<Rightarrow> bool option) \<Rightarrow> yaml \<Rightarrow> doc list \<Rightarrow> int option" where
  "selftest_edge load dump rx allowlist render = do {
     allow \<leftarrow> load_routes_allowlist allowlist;
     let docs = filter truthy render;
     let found = (\<lambda>ds al. do { r \<leftarrow> audit_edge load rx ds al; Some (fst r) });
     selftest_rc
       ([do { fs \<leftarrow> found docs allow; Some (fs = []) }]
        @ map (\<lambda>(p, cluster). do {
            al \<leftarrow> listed_also allow (''public_routes/app prefix:'' @ p);
            ds \<leftarrow> edit_docs load dump (add_route p cluster) docs;
            fs \<leftarrow> found ds al;
            Some (list_ex says_admin fs \<and> \<not> list_ex says_unlisted fs)
          }) ADMIN_ROUTES_THAT_MUST_FAIL
        @ map (\<lambda>fn. do { ds \<leftarrow> edit_docs load dump fn docs; fs \<leftarrow> found ds allow; Some (fs \<noteq> []) }) EDGE_FIXTURES_THAT_MUST_FAIL
        @ [do { al \<leftarrow> listed_also allow ''public_routes/app prefix:/gone/''; fs \<leftarrow> found docs al; Some (list_ex says_stale fs) },
           do { fs \<leftarrow> found [] allow; Some (fs \<noteq> []) }])
   }"

section \<open>The run\<close>

definition main_edge :: "string list \<Rightarrow> (string \<Rightarrow> yaml option) \<Rightarrow> (yaml \<Rightarrow> string) \<Rightarrow> (string \<Rightarrow> string \<Rightarrow> bool option) \<Rightarrow> (string \<Rightarrow> yaml option)
    \<Rightarrow> 'w net \<Rightarrow> edge_env \<Rightarrow> 'w \<Rightarrow> yaml \<Rightarrow> doc list \<Rightarrow> int option" where
  "main_edge argv load dump rx json net env w allowlist render =
     (if ''--selftest'' \<in> set argv then selftest_edge load dump rx allowlist render
      else if ''--live'' \<in> set argv then live_edge json net env w
      else do {
        allow \<leftarrow> load_routes_allowlist allowlist;
        (bad, seen) \<leftarrow> audit_edge load rx (filter truthy render) allow;
        Some (if ''--print'' \<in> set argv then 0 else if bad \<noteq> [] then 1 else 0)
      })"

section \<open>A small edge\<close>

text \<open>An edge that the audit accepts: the 403 routes for the requests that must be blocked, one 404
  route, and the routes to the two clusters, with a matcher that knows the three patterns it uses.\<close>

definition sample_rx :: "string \<Rightarrow> string \<Rightarrow> bool option" where
  "sample_rx p s =
     (if p = ''rename'' then Some (s \<in> set [''PUT'', ''PATCH'', ''patch''])
      else if p = ''admin'' then Some (list_ex (startswith s) ADMIN_PREFIXES)
      else if p = ''flow'' then Some (list_ex (startswith s) [''/ui/login/'', ''/.well-known/'', ''/oauth/'', ''/oidc/'', ''/idps/'', ''/saml/''])
      else None)"

definition method_header :: "yaml \<Rightarrow> bool \<Rightarrow> yaml" where
  "method_header sm invert = YMap ([(''name'', YStr '':method''), (''string_match'', sm)] @ (if invert then [(''invert_match'', YBool True)] else []))"

definition sample_regex :: "string \<Rightarrow> string \<times> yaml" where
  "sample_regex p = (''safe_regex'', YMap [(''regex'', YStr p)])"

definition sample_to :: "string \<Rightarrow> string \<times> yaml" where
  "sample_to c = (''route'', YMap [(''cluster'', YStr c)])"

definition sample_vhost :: yaml where
  "sample_vhost = YMap [(''name'', YStr ''app''), (''routes'', YList
     [YMap [(''match'', YMap [(''prefix'', YStr ''/auth/v1/users/me/''),
        (''headers'', YList [method_header (YMap [(''exact'', YStr ''GET'')]) True])]), answer 403],
      YMap [(''match'', YMap [(''path'', YStr ''/v2/users/312345678901234567/email'')]), answer 403],
      YMap [(''match'', YMap [(''prefix'', YStr ''/v2/''),
        (''headers'', YList [YMap [(''name'', YStr ''X-HTTP-Method-Override''), (''present_match'', YBool True)]])]), answer 403],
      YMap [(''match'', YMap [(''prefix'', YStr ''/v2/''), (''headers'', YList [method_header (YMap [sample_regex ''rename'']) False])]), answer 403],
      YMap [(''match'', YMap [sample_regex ''admin'']), answer 404],
      YMap [(''match'', YMap [sample_regex ''flow'']), sample_to ''zitadel_upstream''],
      YMap [prefix_match ''/ui/v2/'', sample_to ''zitadel_login''],
      YMap [prefix_match ''/auth/v1/'', sample_to ''zitadel_upstream''],
      YMap [prefix_match ''/v2/'', sample_to ''zitadel_upstream'']])]"

definition sample_rc :: yaml where
  "sample_rc = YMap [(''name'', YStr ''public_routes''), (''virtual_hosts'', YList [sample_vhost])]"

definition sample_hcm :: yaml where
  "sample_hcm = YMap [(''normalize_path'', YBool True), (''merge_slashes'', YBool True), (''route_config'', sample_rc)]"

definition sample_edge :: yaml where
  "sample_edge = YMap [(''static_resources'', YMap [(''listeners'', YList [YMap [(''name'', YStr ''edge_tls''),
     (''filter_chains'', YList [YMap [(''filters'', YList [YMap [(''typed_config'', sample_hcm)]])]])]])])]"

definition sample_docs :: "doc list" where
  "sample_docs = [YMap [(''kind'', YStr ''ConfigMap''), (''metadata'', YMap [(''name'', YStr ''edge'')]),
     (''data'', YMap [(''envoy.yaml'', YStr ''static_resources'')])]]"

definition sample_load :: "string \<Rightarrow> yaml option" where
  "sample_load s = Some sample_edge"

definition sample_allow :: yaml where
  "sample_allow = YMap [(''routes'', YMap (map (\<lambda>k. (''public_routes/app '' @ k, YMap [(''why'', YStr ''sample'')]))
     [''safe_regex:flow'', ''prefix:/ui/v2/'', ''prefix:/auth/v1/'', ''prefix:/v2/'']))]"

lemma sample_audit: "\<exists>seen. audit_edge sample_load sample_rx sample_docs sample_allow = Some ([], seen)"
proof -
  have "map_option fst (audit_edge sample_load sample_rx sample_docs sample_allow) = Some []" by code_simp
  then show ?thesis by auto
qed

lemma sample_host: "edge_host sample_load sample_docs (YStr ''edge'') sample_hcm sample_rc sample_vhost"
proof -
  have "envoy_configs sample_load sample_docs = Some [(YStr ''edge'', sample_edge)]"
    by (simp add: envoy_configs_def sample_docs_def edge_config_value_def sample_load_def sample_edge_def listeners_of_def
        iter_default_def named_edge_def meta_name_def py_or_def collect_Cons)
  moreover have "connection_managers sample_edge = Some [sample_hcm]"
    by (simp add: connection_managers_def sample_edge_def listeners_of_def iter_default_def filter_hcm_def collect_Cons py_or_def
        sample_hcm_def sample_rc_def)
  ultimately show ?thesis by (auto simp: edge_host_def sample_hcm_def sample_rc_def py_or_def)
qed

lemma sample_names: "dget sample_rc ''name'' = Some (YStr (fst APP_VHOST))" "dget sample_vhost ''name'' = Some (YStr (snd APP_VHOST))"
  by (simp_all add: sample_rc_def sample_vhost_def APP_VHOST_def)

lemma sample_outcome: "outcome sample_rx sample_vhost (''POST'', ''/v2/'' @ ''x'', []) = Some (Inr (YStr ''zitadel_upstream''))"
  by code_simp


theorem edge_blocks_renames_witness:
  "(\<exists>got. outcome sample_rx sample_vhost (hd MUST_BLOCK) = Some (Inr got) \<and> got \<noteq> YStr ''zitadel_upstream'')
    \<and> (\<exists>got. outcome sample_rx sample_vhost (hd MUST_NOT_ROUTE) = Some (Inr got) \<and> \<not> in_strtuple got ZITADEL_CLUSTERS)"
proof -
  obtain seen where "audit_edge sample_load sample_rx sample_docs sample_allow = Some ([], seen)" using sample_audit by blast
  moreover have "hd MUST_BLOCK \<in> set MUST_BLOCK" "hd MUST_NOT_ROUTE \<in> set MUST_NOT_ROUTE" by (simp_all add: MUST_BLOCK_def MUST_NOT_ROUTE_def)
  ultimately show ?thesis using edge_blocks_renames [OF _ sample_host sample_names] by blast
qed

theorem edge_serves_sign_in_witness:
  "outcome sample_rx sample_vhost (hd MUST_NOT_ROUTE) = Some (Inr (YStr EDGE_NOT_FOUND))
    \<and> outcome sample_rx sample_vhost (hd MUST_ROUTE) = Some (Inr (YStr ''zitadel_upstream''))"
proof -
  obtain seen where "audit_edge sample_load sample_rx sample_docs sample_allow = Some ([], seen)" using sample_audit by blast
  moreover have "hd MUST_ROUTE \<in> set MUST_ROUTE" "hd MUST_NOT_ROUTE \<in> set MUST_NOT_ROUTE" by (simp_all add: MUST_ROUTE_def MUST_NOT_ROUTE_def)
  ultimately show ?thesis using edge_serves_sign_in [OF _ sample_host sample_names] by blast
qed

theorem edge_normalizes_witness:
  "dget sample_hcm ''normalize_path'' = Some (YBool True) \<and> dget sample_hcm ''merge_slashes'' = Some (YBool True)"
proof -
  obtain seen where "audit_edge sample_load sample_rx sample_docs sample_allow = Some ([], seen)" using sample_audit by blast
  from edge_normalizes [OF this sample_host sample_names _ sample_outcome] show ?thesis by (simp add: API_FAMILIES_def)
qed

end
