(* ===== verification/PyRegex.thy ===== *)
theory PyRegex
  imports Prelude
begin

text \<open>
  The regular expressions of Python's \<^verbatim>\<open>re\<close> that the guards use: a backtracking matcher that lists the
  ways to match in the order in which \<^verbatim>\<open>re\<close> tries them, with groups, anchors, word boundaries and
  lookahead, and \<^verbatim>\<open>match\<close>, \<^verbatim>\<open>search\<close>, \<^verbatim>\<open>fullmatch\<close>, \<^verbatim>\<open>finditer\<close> and \<^verbatim>\<open>sub\<close> on top of it. The patterns of the scripts
  are terms of the datatype \<open>re\<close>. The theory proves that, on expressions without anchors, boundaries
  and lookahead, the matcher finds exactly the words of the regular language. Strings hold characters
  below 256; \<^verbatim>\<open>\w\<close>, \<^verbatim>\<open>\d\<close> and \<^verbatim>\<open>\s\<close> are those of Python on them.
\<close>

section \<open>Expressions\<close>

datatype cls = Range char char | Word | Digit | Space | NotSpace

definition WORD_RANGES :: "(char \<times> char) list" where
  "WORD_RANGES = [(CHR ''0'', CHR ''9''), (CHR ''A'', CHR ''Z''), (CHR ''_'', CHR ''_''), (CHR ''a'', CHR ''z''), (CHR 0xAA, CHR 0xAA),
     (CHR 0xB2, CHR 0xB3), (CHR 0xB5, CHR 0xB5), (CHR 0xB9, CHR 0xBA), (CHR 0xBC, CHR 0xBE), (CHR 0xC0, CHR 0xD6),
     (CHR 0xD8, CHR 0xF6), (CHR 0xF8, CHR 0xFF)]"

definition is_word :: "char \<Rightarrow> bool" where
  "is_word c = list_ex (\<lambda>(a, b). a \<le> c \<and> c \<le> b) WORD_RANGES"

fun in_cls :: "char \<Rightarrow> cls \<Rightarrow> bool" where
  "in_cls c (Range a b) = (a \<le> c \<and> c \<le> b)"
| "in_cls c Word = is_word c"
| "in_cls c Digit = (CHR ''0'' \<le> c \<and> c \<le> CHR ''9'')"
| "in_cls c Space = py_space c"
| "in_cls c NotSpace = (\<not> py_space c)"

text \<open>\<open>Set True\<close> is a class, \<open>Set False\<close> a negated one; \<open>Star\<close> is greedy and \<open>Lazy\<close> is not; \<open>Grp n\<close> is the
  group with number \<open>n\<close>; \<open>Bol\<close> and \<open>Eol\<close> are \<^verbatim>\<open>^\<close> and \<^verbatim>\<open>$\<close> with \<^verbatim>\<open>re.M\<close>, \<open>Bot\<close> and \<open>Eot\<close> without it; \<open>Ahead\<close> is
  \<^verbatim>\<open>(?=...)\<close> or \<^verbatim>\<open>(?!...)\<close>.\<close>

datatype re =
    Eps
  | Set bool "cls list"
  | Seq re re
  | Alt re re
  | Star re
  | Lazy re
  | Grp nat re
  | Bol
  | Eol
  | Bot
  | Eot
  | WordB
  | Ahead bool re

definition Lit :: "char \<Rightarrow> re" where
  "Lit c = Set True [Range c c]"

definition Dot :: re where
  "Dot = Set False [Range (CHR 0x0A) (CHR 0x0A)]"

fun Str :: "string \<Rightarrow> re" where
  "Str [] = Eps"
| "Str [c] = Lit c"
| "Str (c # cs) = Seq (Lit c) (Str cs)"

fun Seqs :: "re list \<Rightarrow> re" where
  "Seqs [] = Eps"
| "Seqs [r] = r"
| "Seqs (r # rs) = Seq r (Seqs rs)"

fun Alts :: "re list \<Rightarrow> re" where
  "Alts [] = Set True []"
| "Alts [r] = r"
| "Alts (r # rs) = Alt r (Alts rs)"

definition Plus :: "re \<Rightarrow> re" where
  "Plus r = Seq r (Star r)"

definition Opt :: "re \<Rightarrow> re" where
  "Opt r = Alt r Eps"

section \<open>The matcher\<close>

text \<open>A place in a text: what is to the left, reversed, what is to the right, and the groups so far. The
  matcher returns the places after a match, the preferred one first. An iteration that consumes nothing
  ends a repetition.\<close>

type_synonym groups = "(nat \<times> string) list"
type_synonym place = "string \<times> string \<times> groups"

definition word_at :: "string \<Rightarrow> bool" where
  "word_at s = (case s of [] \<Rightarrow> False | c # _ \<Rightarrow> is_word c)"

function mt :: "re \<Rightarrow> place \<Rightarrow> place list" where
  "mt Eps (l, s, g) = [(l, s, g)]"
| "mt (Set b cs) (l, s, g) = (case s of [] \<Rightarrow> [] | c # t \<Rightarrow> if list_ex (in_cls c) cs = b then [(c # l, t, g)] else [])"
| "mt (Seq r q) (l, s, g) = concat (map (mt q) (mt r (l, s, g)))"
| "mt (Alt r q) (l, s, g) = mt r (l, s, g) @ mt q (l, s, g)"
| "mt (Star r) (l, s, g) =
     concat (map (\<lambda>(l', s', g'). if length s' < length s then mt (Star r) (l', s', g') else []) (mt r (l, s, g))) @ [(l, s, g)]"
| "mt (Lazy r) (l, s, g) =
     (l, s, g) # concat (map (\<lambda>(l', s', g'). if length s' < length s then mt (Lazy r) (l', s', g') else []) (mt r (l, s, g)))"
| "mt (Grp n r) (l, s, g) = map (\<lambda>(l', s', g'). (l', s', AList.update n (take (length s - length s') s) g')) (mt r (l, s, g))"
| "mt Bol (l, s, g) = (case l of [] \<Rightarrow> [(l, s, g)] | c # _ \<Rightarrow> if c = CHR 0x0A then [(l, s, g)] else [])"
| "mt Eol (l, s, g) = (case s of [] \<Rightarrow> [(l, s, g)] | c # _ \<Rightarrow> if c = CHR 0x0A then [(l, s, g)] else [])"
| "mt Bot (l, s, g) = (if l = [] then [(l, s, g)] else [])"
| "mt Eot (l, s, g) = (if s = [] \<or> s = [CHR 0x0A] then [(l, s, g)] else [])"
| "mt WordB (l, s, g) = (if word_at l \<noteq> word_at s then [(l, s, g)] else [])"
| "mt (Ahead b r) (l, s, g) = (if (mt r (l, s, g) \<noteq> []) = b then [(l, s, g)] else [])"
  by pat_completeness auto
termination
  by (relation "measures [\<lambda>(r, _). size r, \<lambda>(_, (_, s, _)). length s]") auto

text \<open>The groups and the rest after the preferred match here, at the first place where there is one, or
  of a match of the whole text.\<close>

definition re_match :: "re \<Rightarrow> string \<Rightarrow> place option" where
  "re_match r s = (case mt r ([], s, []) of [] \<Rightarrow> None | p # _ \<Rightarrow> Some p)"

fun search_from :: "re \<Rightarrow> string \<Rightarrow> string \<Rightarrow> (string \<times> string \<times> place) option" where
  "search_from r l s = (case mt r (l, s, []) of
       p # _ \<Rightarrow> Some (l, s, p)
     | [] \<Rightarrow> (case s of [] \<Rightarrow> None | c # t \<Rightarrow> search_from r (c # l) t))"

declare search_from.simps [simp del]

definition re_search :: "re \<Rightarrow> string \<Rightarrow> place option" where
  "re_search r s = map_option (\<lambda>(l, t, p). p) (search_from r [] s)"

definition fullmatch :: "re \<Rightarrow> string \<Rightarrow> groups option" where
  "fullmatch r s = (case filter (\<lambda>(l, t, g). t = []) (mt r ([], s, [])) of [] \<Rightarrow> None | (l, t, g) # _ \<Rightarrow> Some g)"

text \<open>\<^verbatim>\<open>m.group(n)\<close>, where a group that took no part is None.\<close>

definition re_group :: "nat \<Rightarrow> groups \<Rightarrow> string option" where
  "re_group n g = map_of g n"

text \<open>\<^verbatim>\<open>finditer\<close>: the text of each match with its groups, from left to right without overlap. The patterns
  of the guards match no empty text; a match that consumes nothing is passed over.\<close>

function finditer_from :: "re \<Rightarrow> string \<Rightarrow> string \<Rightarrow> (string \<times> groups) list" where
  "finditer_from r l s = (case s of [] \<Rightarrow> [] | c # t \<Rightarrow>
     (case mt r (l, s, []) of
        (l', s', g) # _ \<Rightarrow> (if length s' < length s then (take (length s - length s') s, g) # finditer_from r l' s'
                           else finditer_from r (c # l) t)
      | [] \<Rightarrow> finditer_from r (c # l) t))"
  by pat_completeness auto
termination
  by (relation "measure (\<lambda>(r, l, s). length s)") auto

declare finditer_from.simps [simp del]

definition finditer :: "re \<Rightarrow> string \<Rightarrow> (string \<times> groups) list" where
  "finditer r s = finditer_from r [] s"

text \<open>\<^verbatim>\<open>sub\<close> with a function of the groups of each match.\<close>

function sub_from :: "re \<Rightarrow> (groups \<Rightarrow> string) \<Rightarrow> string \<Rightarrow> string \<Rightarrow> string" where
  "sub_from r f l s = (case s of [] \<Rightarrow> [] | c # t \<Rightarrow>
     (case mt r (l, s, []) of
        (l', s', g) # _ \<Rightarrow> (if length s' < length s then f g @ sub_from r f l' s' else c # sub_from r f (c # l) t)
      | [] \<Rightarrow> c # sub_from r f (c # l) t))"
  by pat_completeness auto
termination
  by (relation "measure (\<lambda>(r, f, l, s). length s)") auto

declare sub_from.simps [simp del]

definition re_sub :: "re \<Rightarrow> (groups \<Rightarrow> string) \<Rightarrow> string \<Rightarrow> string" where
  "re_sub r f s = sub_from r f [] s"

section \<open>The language of an expression\<close>

fun plain :: "re \<Rightarrow> bool" where
  "plain (Seq r q) = (plain r \<and> plain q)"
| "plain (Alt r q) = (plain r \<and> plain q)"
| "plain (Star r) = plain r"
| "plain (Lazy r) = plain r"
| "plain (Grp n r) = plain r"
| "plain Eps = True"
| "plain (Set b cs) = True"
| "plain _ = False"

inductive_set star :: "string set \<Rightarrow> string set" for L where
  star_Nil: "[] \<in> star L"
| star_append: "u \<in> L \<Longrightarrow> v \<in> star L \<Longrightarrow> u @ v \<in> star L"

fun lang :: "re \<Rightarrow> string set" where
  "lang Eps = {[]}"
| "lang (Set b cs) = {[c] | c. list_ex (in_cls c) cs = b}"
| "lang (Seq r q) = {u @ v | u v. u \<in> lang r \<and> v \<in> lang q}"
| "lang (Alt r q) = lang r \<union> lang q"
| "lang (Star r) = star (lang r)"
| "lang (Lazy r) = star (lang r)"
| "lang (Grp n r) = lang r"
| "lang _ = {}"

text \<open>A word of the closure that is not empty starts with a word that is not empty.\<close>

lemma star_nonempty:
  assumes "w \<in> star L" and "w \<noteq> []"
  shows "\<exists>u v. w = u @ v \<and> u \<noteq> [] \<and> u \<in> L \<and> v \<in> star L"
  using assms
proof induction
  case (star_append u v)
  then show ?case by (cases "u = []") auto
qed simp

declare mt.simps(5,6) [simp del]

lemma mt_Star_iff:
  "p \<in> set (mt (Star r) (l, s, g)) \<longleftrightarrow> p = (l, s, g) \<or> (\<exists>l' s' g'. (l', s', g') \<in> set (mt r (l, s, g)) \<and> length s' < length s
     \<and> p \<in> set (mt (Star r) (l', s', g')))"
  by (subst mt.simps(5)) (force split: if_splits)

lemma mt_Lazy_iff:
  "p \<in> set (mt (Lazy r) (l, s, g)) \<longleftrightarrow> p = (l, s, g) \<or> (\<exists>l' s' g'. (l', s', g') \<in> set (mt r (l, s, g)) \<and> length s' < length s
     \<and> p \<in> set (mt (Lazy r) (l', s', g')))"
  by (subst mt.simps(6)) (force split: if_splits)

lemma set_mt_Lazy: "set (mt (Lazy r) (l, s, g)) = set (mt (Star r) (l, s, g))"
proof (induction "length s" arbitrary: l s g rule: less_induct)
  case less
  show ?case
  proof (rule set_eqI)
    fix p show "p \<in> set (mt (Lazy r) (l, s, g)) \<longleftrightarrow> p \<in> set (mt (Star r) (l, s, g))"
      unfolding mt_Star_iff [of p r l s g] mt_Lazy_iff [of p r l s g] using less by blast
  qed
qed

lemma mt_Star_sound:
  assumes "\<And>l s g l' s' g'. (l', s', g') \<in> set (mt r (l, s, g)) \<Longrightarrow> \<exists>u \<in> lang r. s = u @ s' \<and> l' = rev u @ l"
  shows "(l', s', g') \<in> set (mt (Star r) (l, s, g)) \<Longrightarrow> \<exists>u \<in> star (lang r). s = u @ s' \<and> l' = rev u @ l"
proof (induction "length s" arbitrary: l s g rule: less_induct)
  case less
  from less.prems [unfolded mt_Star_iff [of _ r l s g]] show ?case
  proof (elim disjE exE conjE)
    fix l1 s1 g1 assume step: "(l1, s1, g1) \<in> set (mt r (l, s, g))" "length s1 < length s" "(l', s', g') \<in> set (mt (Star r) (l1, s1, g1))"
    from assms [OF step(1)] obtain u where u: "u \<in> lang r" "s = u @ s1" "l1 = rev u @ l" by blast
    from less.hyps [OF step(2,3)] obtain v where v: "v \<in> star (lang r)" "s1 = v @ s'" "l' = rev v @ l1" by blast
    with u have "u @ v \<in> star (lang r)" "s = (u @ v) @ s'" "l' = rev (u @ v) @ l" by (auto intro: star_append)
    then show ?thesis by blast
  qed (auto intro: star_Nil)
qed

lemma mt_sound:
  "plain r \<Longrightarrow> (l', s', g') \<in> set (mt r (l, s, g)) \<Longrightarrow> \<exists>u \<in> lang r. s = u @ s' \<and> l' = rev u @ l"
proof (induction r arbitrary: l s g l' s' g')
  case (Seq r q)
  from Seq.prems(2) obtain l1 s1 g1 where m: "(l1, s1, g1) \<in> set (mt r (l, s, g))" "(l', s', g') \<in> set (mt q (l1, s1, g1))" by auto
  from Seq.IH(1) [OF _ m(1)] Seq.prems(1) obtain u where "u \<in> lang r" "s = u @ s1" "l1 = rev u @ l" by auto
  moreover from Seq.IH(2) [OF _ m(2)] Seq.prems(1) obtain v where "v \<in> lang q" "s1 = v @ s'" "l' = rev v @ l1" by auto
  ultimately have "u @ v \<in> lang (Seq r q)" "s = (u @ v) @ s'" "l' = rev (u @ v) @ l" by auto
  then show ?case by blast
next
  case (Star r)
  with mt_Star_sound [of r l' s' g' l s g] show ?case by simp
next
  case (Lazy r)
  with mt_Star_sound [of r l' s' g' l s g] show ?case by (simp add: set_mt_Lazy)
next
  case (Set b cs)
  then show ?case by (cases s) (auto split: if_splits)
next
  case (Alt r q)
  then show ?case by (auto, blast+)
next
  case (Grp n r)
  then show ?case by auto
qed auto

lemma mt_Star_complete:
  assumes step: "\<And>u l s g. u \<in> lang r \<Longrightarrow> \<exists>g'. (rev u @ l, s, g') \<in> set (mt r (l, u @ s, g))"
  shows "w \<in> star (lang r) \<Longrightarrow> \<exists>g'. (rev w @ l, s, g') \<in> set (mt (Star r) (l, w @ s, g))"
proof (induction "length w" arbitrary: w l g rule: less_induct)
  case less
  show ?case
  proof (cases "w = []")
    case True
    then show ?thesis by (auto simp: mt_Star_iff [of _ r l])
  next
    case False
    with star_nonempty less.prems obtain u v where w: "w = u @ v" "u \<noteq> []" "u \<in> lang r" "v \<in> star (lang r)" by blast
    from step [OF w(3)] obtain g1 where "(rev u @ l, v @ s, g1) \<in> set (mt r (l, u @ v @ s, g))" by blast
    moreover from less.hyps [OF _ w(4), of "rev u @ l" g1] w(1,2) obtain g2 where
      "(rev v @ rev u @ l, s, g2) \<in> set (mt (Star r) (rev u @ l, v @ s, g1))" by auto
    ultimately have "(rev v @ rev u @ l, s, g2) \<in> set (mt (Star r) (l, u @ v @ s, g))"
      using w(2) by (subst mt_Star_iff) (auto intro!: exI)
    with w(1) show ?thesis by auto
  qed
qed

lemma mt_complete: "plain r \<Longrightarrow> u \<in> lang r \<Longrightarrow> \<exists>g'. (rev u @ l, s, g') \<in> set (mt r (l, u @ s, g))"
proof (induction r arbitrary: u l s g)
  case (Seq r q)
  then obtain v w where u: "u = v @ w" "v \<in> lang r" "w \<in> lang q" by auto
  from Seq.IH(1) [OF _ u(2), of l "w @ s" g] Seq.prems(1) obtain g1 where a: "(rev v @ l, w @ s, g1) \<in> set (mt r (l, v @ w @ s, g))" by auto
  from Seq.IH(2) [OF _ u(3), of "rev v @ l" s g1] Seq.prems(1) obtain g2 where "(rev w @ rev v @ l, s, g2) \<in> set (mt q (rev v @ l, w @ s, g1))" by auto
  with a u(1) show ?case by (auto intro!: bexI)
next
  case (Star r)
  with mt_Star_complete [of r u l s g] show ?case by simp
next
  case (Lazy r)
  with mt_Star_complete [of r u l s g] show ?case by (simp add: set_mt_Lazy)
next
  case (Alt r q)
  then show ?case by (auto, blast+)
next
  case (Grp n r)
  then obtain g' where "(rev u @ l, s, g') \<in> set (mt r (l, u @ s, g))" by fastforce
  then show ?case by force
qed auto

text \<open>On a plain expression \<^verbatim>\<open>fullmatch\<close> decides the language.\<close>

theorem fullmatch_lang: "plain r \<Longrightarrow> fullmatch r s \<noteq> None \<longleftrightarrow> s \<in> lang r"
proof -
  assume r: "plain r"
  have "fullmatch r s \<noteq> None \<longleftrightarrow> (\<exists>l g. (l, [], g) \<in> set (mt r ([], s, [])))"
  proof -
    have "fullmatch r s = None \<longleftrightarrow> filter (\<lambda>(l, t, g). t = []) (mt r ([], s, [])) = []"
      by (auto simp: fullmatch_def split: list.splits)
    then show ?thesis by (auto simp: filter_empty_conv)
  qed
  also have "\<dots> \<longleftrightarrow> s \<in> lang r"
    using mt_sound [OF r, of _ "[]" _ "[]" s "[]"] mt_complete [OF r, of s "[]" "[]" "[]"] by auto
  finally show ?thesis .
qed

section \<open>Literals and greedy runs\<close>

lemma mt_Lit: "mt (Lit c) (l, s, g) = (case s of [] \<Rightarrow> [] | d # t \<Rightarrow> if d = c then [(c # l, t, g)] else [])"
  by (auto simp: Lit_def split: list.split)

lemma mt_Str: "mt (Str w) (l, s, g) = (if prefix w s then [(rev w @ l, drop (length w) s, g)] else [])"
proof (induction w arbitrary: l s rule: Str.induct)
  case (2 c)
  then show ?case by (cases s) (auto simp: mt_Lit)
next
  case (3 c d cs)
  then show ?case by (cases s) (auto simp: mt_Lit)
qed simp

lemma mt_Alts_Str:
  "mt (Alts (map Str ws)) (l, s, g) = map (\<lambda>w. (rev w @ l, drop (length w) s, g)) (filter (\<lambda>w. prefix w s) ws)"
proof (induction ws)
  case (Cons w ws)
  then show ?case by (cases ws) (simp_all add: mt_Str)
qed (simp split: list.split)

text \<open>A greedy run over a class takes as much as it can first, then gives back one character at a time.\<close>

lemma mt_Star_Set_hd:
  "hd (mt (Star (Set b cs)) (l, s, g)) = (let w = takeWhile (\<lambda>c. list_ex (in_cls c) cs = b) s in (rev w @ l, drop (length w) s, g))"
proof (induction s arbitrary: l)
  case (Cons c s)
  have ne: "mt (Star r) p \<noteq> []" for r p by (cases p) (simp add: mt.simps(5))
  show ?case
  proof (cases "list_ex (in_cls c) cs = b")
    case True
    then show ?thesis using Cons [of "c # l"] ne [of "Set b cs" "(c # l, s, g)"] by (simp add: mt.simps(5) [of _ l] Let_def)
  next
    case False
    then show ?thesis by (simp add: mt.simps(5))
  qed
qed (simp add: mt.simps(5))

section \<open>The preferred match\<close>

text \<open>\<open>prefers r p q\<close>: matching \<open>r\<close> at \<open>p\<close> succeeds, and the way that \<^verbatim>\<open>re\<close> tries first leads to \<open>q\<close>.\<close>

definition prefers :: "re \<Rightarrow> place \<Rightarrow> place \<Rightarrow> bool" where
  "prefers r p q = (\<exists>qs. mt r p = q # qs)"

lemma prefers_Seq [intro]: "prefers r p q \<Longrightarrow> prefers r' q q' \<Longrightarrow> prefers (Seq r r') p q'"
  by (cases p) (auto simp: prefers_def)

lemma prefers_Lit [intro, simp]: "prefers (Lit c) (l, c # s, g) (c # l, s, g)"
  by (simp add: prefers_def mt_Lit)

lemma prefers_Str [intro]: "l' = rev w @ l \<Longrightarrow> prefers (Str w) (l, w @ s, g) (l', s, g)"
  by (simp add: prefers_def mt_Str)

lemma prefers_Set [intro]: "list_ex (in_cls c) cs = b \<Longrightarrow> prefers (Set b cs) (l, c # s, g) (c # l, s, g)"
  by (simp add: prefers_def)

lemma prefers_run:
  assumes "\<And>c. c \<in> set w \<Longrightarrow> list_ex (in_cls c) cs = b" and "s = [] \<or> list_ex (in_cls (hd s)) cs \<noteq> b" and "l' = rev w @ l"
  shows "prefers (Star (Set b cs)) (l, w @ s, g) (l', s, g)"
proof -
  have "takeWhile (\<lambda>c. list_ex (in_cls c) cs = b) s = []" using assms(2) by (cases s) auto
  then have "takeWhile (\<lambda>c. list_ex (in_cls c) cs = b) (w @ s) = w" using assms(1) by simp
  then have "hd (mt (Star (Set b cs)) (l, w @ s, g)) = (l', s, g)" using assms(3) by (simp add: mt_Star_Set_hd Let_def)
  moreover have "mt (Star (Set b cs)) (l, w @ s, g) \<noteq> []" by (simp add: mt.simps(5))
  ultimately show ?thesis by (metis hd_Cons_tl prefers_def)
qed

lemma prefers_Grp:
  assumes "prefers r (l, w @ s, g) (l', s, g')" and "g'' = AList.update n w g'"
  shows "prefers (Grp n r) (l, w @ s, g) (l', s, g'')"
  using assms by (auto simp: prefers_def)

lemma prefers_re_match: "prefers r ([], s, []) q \<Longrightarrow> re_match r s = Some q"
  by (auto simp: prefers_def re_match_def)

lemma search_from_prefers: "prefers r (l, s, []) q \<Longrightarrow> search_from r l s = Some (l, s, q)"
  by (subst search_from.simps) (auto simp: prefers_def)

lemma sub_from_prefers:
  assumes "prefers r (l, s, []) (l', s', g)" and "length s' < length s"
  shows "sub_from r f l s = f g @ sub_from r f l' s'"
proof -
  obtain c t where s: "s = c # t" using assms(2) by (cases s) auto
  show ?thesis using assms by (auto simp: prefers_def s sub_from.simps [of r f l])
qed

text \<open>A search passes over text where nothing matches.\<close>

lemma search_skip:
  "(\<And>u c v. w = u @ c # v \<Longrightarrow> mt r (rev u @ l, c # v @ s, []) = []) \<Longrightarrow> search_from r l (w @ s) = search_from r (rev w @ l) s"
proof (induction w arbitrary: l)
  case (Cons c w)
  have "mt r (l, c # w @ s, []) = []" using Cons.prems [of "[]" c w] by simp
  then have "search_from r l ((c # w) @ s) = search_from r (c # l) (w @ s)" by (simp add: search_from.simps [of r l])
  also have "\<dots> = search_from r (rev w @ c # l) s"
  proof (rule Cons.IH)
    fix u d v assume "w = u @ d # v"
    then show "mt r (rev u @ c # l, d # v @ s, []) = []" using Cons.prems [of "c # u" d v] by simp
  qed
  finally show ?case by simp
qed simp

lemma sub_skip:
  "(\<And>u c v. w = u @ c # v \<Longrightarrow> mt r (rev u @ l, c # v @ s, []) = []) \<Longrightarrow> sub_from r f l (w @ s) = w @ sub_from r f (rev w @ l) s"
proof (induction w arbitrary: l)
  case (Cons c w)
  have "mt r (l, c # w @ s, []) = []" using Cons.prems [of "[]" c w] by simp
  then have "sub_from r f l ((c # w) @ s) = c # sub_from r f (c # l) (w @ s)" by (simp add: sub_from.simps [of r f l])
  also have "\<dots> = c # w @ sub_from r f (rev w @ c # l) s"
  proof -
    have "mt r (rev u @ c # l, d # v @ s, []) = []" if "w = u @ d # v" for u d v
      using Cons.prems [of "c # u" d v] that by simp
    then show ?thesis by (simp add: Cons.IH)
  qed
  finally show ?case by simp
qed simp

text \<open>An expression whose words all hold a character does not match where the character is missing.\<close>

lemma no_match_without:
  assumes "plain r" and "\<And>u. u \<in> lang r \<Longrightarrow> c \<in> set u" and "c \<notin> set s"
  shows "mt r (l, s, g) = []"
proof (rule ccontr)
  assume "mt r (l, s, g) \<noteq> []"
  then obtain l' s' g' where "(l', s', g') \<in> set (mt r (l, s, g))" by (cases "mt r (l, s, g)") auto
  from mt_sound [OF assms(1) this] obtain u where "u \<in> lang r" "s = u @ s'" by blast
  with assms(2,3) show False by auto
qed

lemma sub_from_without:
  assumes "plain r" and "\<And>u. u \<in> lang r \<Longrightarrow> c \<in> set u" and "c \<notin> set s"
  shows "sub_from r f l s = s"
proof -
  have "mt r (rev u @ l, d # v @ [], []) = []" if "s = u @ d # v" for u d v
    using that assms(3) by (intro no_match_without [OF assms(1,2)]) auto
  from sub_skip [of s r l "[]" f, OF this] show ?thesis by (simp add: sub_from.simps [of r f _ "[]"])
qed

end
