(* ===== verification/DaemonCallers.thy ===== *)
theory DaemonCallers
  imports PyRegex CiliumPolicy
begin

text \<open>
  \<^verbatim>\<open>src/scripts/check-daemon-netpol-admits-callers.py\<close>: the network policy lets every in-cluster caller
  reach the daemon. The addresses in the environment of the rendered pods are read with a regular
  expression, the policy is asked through the evaluator of \<^verbatim>\<open>lib/cilium_policy.py\<close>. The theory proves
  that a passing audit lets every container that names a daemon Service and a port reach the daemon
  on that port, that the trainer of a tenant namespace is admitted and a bystander is not, and that the
  address \<^verbatim>\<open>name.namespace.svc:port\<close>, which \<^verbatim>\<open>gibson.daemonAddress\<close> renders, is not seen.
\<close>

section \<open>Model\<close>

definition DC_WORKLOADS :: "string list" where
  "DC_WORKLOADS = [''Deployment'', ''StatefulSet'', ''DaemonSet'', ''Job'', ''CronJob'']"

definition DC_NAMESPACE :: string where
  "DC_NAMESPACE = ''gibson''"

definition COMPONENT :: string where
  "COMPONENT = ''app.kubernetes.io/component''"

definition DAEMON_COMPONENT :: string where
  "DAEMON_COMPONENT = ''daemon''"

definition TENANT_NS :: string where
  "TENANT_NS = ''tenant-example''"

definition TENANT_NS_LABELS :: dict where
  "TENANT_NS_LABELS = [(''io.cilium.k8s.namespace.labels.gibson.zeroroot.ai/managed-by'', YStr ''tenant-operator'')]"

definition dc_template :: "doc \<Rightarrow> yaml option" where
  "dc_template d = do {
     kind \<leftarrow> item d ''kind'';
     spec \<leftarrow> item d ''spec'';
     if kind = YStr ''CronJob'' then do {
       jt \<leftarrow> item spec ''jobTemplate'';
       js \<leftarrow> item jt ''spec'';
       item js ''template''
     } else item spec ''template''
   }"

definition dc_labels :: "doc \<Rightarrow> yaml option" where
  "dc_labels d = do { t \<leftarrow> dc_template d; m \<leftarrow> get_or_dict t ''metadata''; get_or_dict m ''labels'' }"

definition has_component :: "yaml \<Rightarrow> string \<Rightarrow> bool option" where
  "has_component labels c = do { v \<leftarrow> dget labels COMPONENT; Some (v = YStr c) }"

definition daemon_service_names :: "doc list \<Rightarrow> yaml list option" where
  "daemon_service_names docs = mfold (\<lambda>d names. do {
     kind \<leftarrow> dget d ''kind'';
     if kind \<noteq> YStr ''Service'' then Some names else do {
     spec \<leftarrow> item d ''spec'';
     sel \<leftarrow> get_or_dict spec ''selector'';
     b \<leftarrow> has_component sel DAEMON_COMPONENT;
     if b then do { n \<leftarrow> meta_name d; val_add n names } else Some names
     }
   }) docs []"

text \<open>The first value that a loop returns early, if any.\<close>

fun first_return :: "('a \<Rightarrow> 'b option option) \<Rightarrow> 'a list \<Rightarrow> 'b option option" where
  "first_return f [] = Some None"
| "first_return f (x # xs) = do { r \<leftarrow> f x; case r of Some v \<Rightarrow> Some (Some v) | None \<Rightarrow> first_return f xs }"

definition of_component :: "string \<Rightarrow> doc \<Rightarrow> bool option" where
  "of_component c d = do {
     kind \<leftarrow> dget d ''kind'';
     if \<not> in_strtuple kind DC_WORKLOADS then Some False else do { ls \<leftarrow> dc_labels d; has_component ls c }
   }"

definition daemon_pod :: "doc list \<Rightarrow> yaml option option" where
  "daemon_pod docs = first_return (\<lambda>d. do {
     b \<leftarrow> of_component DAEMON_COMPONENT d;
     if \<not> b then Some None else do {
     ns \<leftarrow> meta_ns_or d DC_NAMESPACE;
     ls \<leftarrow> dc_labels d;
     e \<leftarrow> endpoint ns ls;
     Some (Some e)
     }
   }) docs"

text \<open>\<^verbatim>\<open>\b(n1|n2|...)\b:(\d+)\<close> over the sorted names, and the ports it finds in a value.\<close>

definition address_re :: "string list \<Rightarrow> re" where
  "address_re ns = Seqs [WordB, Grp 1 (Alts (map Str (sort ns))), WordB, Lit (CHR '':''), Grp 2 (Plus (Set True [Digit]))]"

fun the_name :: "yaml \<Rightarrow> string option" where
  "the_name (YStr s) = Some s"
| "the_name _ = None"

definition ports_in :: "string list \<Rightarrow> string \<Rightarrow> int list option" where
  "ports_in ns v = mmap (\<lambda>(w, g). do { p \<leftarrow> re_group 2 g; py_int p }) (finditer (address_re ns) v)"

definition env_ports :: "string list \<Rightarrow> yaml \<Rightarrow> int list option" where
  "env_ports ns e = do { v \<leftarrow> dget e ''value''; case v of YStr s \<Rightarrow> ports_in ns s | _ \<Rightarrow> Some [] }"

definition container_ports :: "string list \<Rightarrow> yaml \<Rightarrow> int list option" where
  "container_ports ns c = do { es \<leftarrow> get_list c ''env''; collect (env_ports ns) es }"

type_synonym caller = "yaml \<times> yaml \<times> int"

definition doc_callers :: "string list \<Rightarrow> doc \<Rightarrow> caller list option" where
  "doc_callers ns d = do {
     kind \<leftarrow> dget d ''kind'';
     if \<not> in_strtuple kind DC_WORKLOADS then Some [] else do {
     t \<leftarrow> dc_template d;
     spec \<leftarrow> item t ''spec'';
     labels \<leftarrow> dc_labels d;
     own \<leftarrow> has_component labels DAEMON_COMPONENT;
     if own then Some [] else do {
     cs \<leftarrow> get_list spec ''containers'';
     is \<leftarrow> get_list spec ''initContainers'';
     ps \<leftarrow> collect (container_ports ns) (cs @ is);
     let seen = sort (mk_set ps);
     if seen = [] then Some [] else do { n \<leftarrow> meta_name d; Some (map (\<lambda>p. (n, labels, p)) seen) }
     }}
   }"

definition callers :: "doc list \<Rightarrow> yaml list \<Rightarrow> caller list option" where
  "callers docs svc = do { ns \<leftarrow> mmap the_name svc; collect (doc_callers ns) docs }"

text \<open>\<^verbatim>\<open>s.rsplit(":", 1)[1]\<close> when \<^verbatim>\<open>":" in s\<close>.\<close>

definition after_last :: "char \<Rightarrow> string \<Rightarrow> string" where
  "after_last c s = rev (takeWhile (\<lambda>x. x \<noteq> c) (rev s))"

definition env_port :: "string \<Rightarrow> yaml \<Rightarrow> int option option" where
  "env_port env e = do {
     n \<leftarrow> dget e ''name'';
     v \<leftarrow> dget e ''value'';
     case v of
       YStr s \<Rightarrow> (if n = YStr env \<and> CHR '':'' \<in> set s then do { p \<leftarrow> py_int (after_last (CHR '':'') s); Some (Some p) } else Some None)
     | _ \<Rightarrow> Some None
   }"

definition operator_env_port :: "doc list \<Rightarrow> string \<Rightarrow> string \<Rightarrow> int option option" where
  "operator_env_port docs component env = first_return (\<lambda>d. do {
     b \<leftarrow> of_component component d;
     if \<not> b then Some None else do {
     t \<leftarrow> dc_template d;
     spec \<leftarrow> item t ''spec'';
     cs \<leftarrow> get_list spec ''containers'';
     first_return (\<lambda>c. do { es \<leftarrow> get_list c ''env''; first_return (env_port env) es }) cs
     }
   }) docs"

definition TRAINER_LABELS :: dict where
  "TRAINER_LABELS = [(COMPONENT, YStr ''belief-trainer''), (''gibson.zeroroot.ai/managed-by'', YStr ''tenant-operator'')]"

datatype daemon_finding =
    NoDaemonService
  | NoDaemonPod
  | DaemonUnselected
  | CallerBlocked yaml int yaml
  | TrainerPortUnknown
  | TrainerBlocked int
  | BystanderAdmitted int

text \<open>The trainer with its port, or the finding that the port is unknown.\<close>

definition tenant_callers :: "doc list \<Rightarrow> ((dict \<times> int) list \<times> daemon_finding list) option" where
  "tenant_callers docs = do {
     grpc \<leftarrow> operator_env_port docs ''tenant-operator'' ''GIBSON_DAEMON_GRPC_ADDRESS'';
     Some (case grpc of None \<Rightarrow> ([], [TrainerPortUnknown])
           | Some p \<Rightarrow> ([(dict_merge TENANT_NS_LABELS TRAINER_LABELS, p)], []))
   }"

definition daemon_admits :: "(doc \<times> yaml \<times> yaml) list \<Rightarrow> yaml \<Rightarrow> yaml \<Rightarrow> int \<Rightarrow> bool option" where
  "daemon_admits rs daemon src port =
     many (\<lambda>(_, r, ns). mand (rule_selects r ns daemon) (ingress_admits r ns src (YInt port))) rs"

definition tenant_bystander_admitted :: "(doc \<times> yaml \<times> yaml) list \<Rightarrow> yaml \<Rightarrow> int \<Rightarrow> bool option" where
  "tenant_bystander_admitted rs daemon port = do {
     src \<leftarrow> endpoint (YStr TENANT_NS) (YMap (dict_merge TENANT_NS_LABELS [(''toolhive-name'', YStr ''example'')]));
     daemon_admits rs daemon src port
   }"

definition caller_finding :: "(doc \<times> yaml \<times> yaml) list \<Rightarrow> yaml \<Rightarrow> caller \<Rightarrow> daemon_finding list option" where
  "caller_finding rs daemon = (\<lambda>(name, labels, port). do {
     src \<leftarrow> endpoint (YStr DC_NAMESPACE) labels;
     b \<leftarrow> reaches rs src daemon (YInt port);
     Some (if b then [] else [CallerBlocked name port labels])
   })"

definition tenant_findings :: "(doc \<times> yaml \<times> yaml) list \<Rightarrow> yaml \<Rightarrow> dict \<times> int \<Rightarrow> daemon_finding list option" where
  "tenant_findings rs daemon = (\<lambda>(labels, port). do {
     src \<leftarrow> endpoint (YStr TENANT_NS) (YMap labels);
     a \<leftarrow> daemon_admits rs daemon src port;
     b \<leftarrow> tenant_bystander_admitted rs daemon port;
     Some ((if a then [] else [TrainerBlocked port]) @ (if b then [BystanderAdmitted port] else []))
   })"

definition audit_daemon :: "doc list \<Rightarrow> daemon_finding list option" where
  "audit_daemon docs = do {
     svc \<leftarrow> daemon_service_names docs;
     if svc = [] then Some [NoDaemonService] else do {
     dp \<leftarrow> daemon_pod docs;
     case dp of None \<Rightarrow> Some [NoDaemonPod] | Some daemon \<Rightarrow> do {
     rs \<leftarrow> rules docs (YStr DC_NAMESPACE);
     sel \<leftarrow> many (\<lambda>(_, r, ns). rule_selects r ns daemon) rs;
     if \<not> sel then Some [DaemonUnselected] else do {
     cs \<leftarrow> callers docs svc;
     bad \<leftarrow> collect (caller_finding rs daemon) cs;
     (modeled, missing) \<leftarrow> tenant_callers docs;
     ts \<leftarrow> collect (tenant_findings rs daemon) modeled;
     Some (bad @ missing @ ts)
     }}}
   }"

section \<open>The selftest and the run\<close>

definition role_policy :: "string \<Rightarrow> yaml \<Rightarrow> doc" where
  "role_policy name spec = YMap [(''apiVersion'', YStr ''cilium.io/v2''), (''kind'', YStr ''CiliumNetworkPolicy''),
     (''metadata'', YMap [(''name'', YStr name), (''namespace'', YStr DC_NAMESPACE)]), (''spec'', spec)]"

definition platform_labels :: yaml where
  "platform_labels = YMap [(''matchLabels'', YMap [(''gibson.zeroroot.ai/net-role'', YStr ''platform'')])]"

definition platform_policy :: doc where
  "platform_policy = role_policy ''platform'' (YMap [(''endpointSelector'', platform_labels),
     (''ingress'', YList [YMap [(''fromEndpoints'', YList [platform_labels])]]),
     (''egress'', YList [YMap [(''toEndpoints'', YList [platform_labels])]])])"

definition daemon_service :: doc where
  "daemon_service = YMap [(''kind'', YStr ''Service''), (''metadata'', YMap [(''name'', YStr ''gibson-daemon'')]),
     (''spec'', YMap [(''selector'', YMap [(COMPONENT, YStr ''daemon'')])])]"

definition dc_workload :: "string \<Rightarrow> string \<Rightarrow> bool \<Rightarrow> doc" where
  "dc_workload component role env = YMap [(''kind'', YStr ''Deployment''),
     (''metadata'', YMap [(''name'', YStr (''gibson-'' @ component)), (''namespace'', YStr DC_NAMESPACE)]),
     (''spec'', YMap [(''template'', YMap
        [(''metadata'', YMap [(''labels'', YMap ((COMPONENT, YStr component)
            # (if role \<noteq> [] then [(''gibson.zeroroot.ai/net-role'', YStr role)] else [])))]),
         (''spec'', YMap [(''containers'', YList [YMap ((''name'', YStr ''manager'')
            # (if env then [(''env'', YList [YMap [(''name'', YStr ''GIBSON_DAEMON_GRPC_ADDRESS''), (''value'', YStr ''gibson-daemon:50051'')]])]
               else []))])])])])]"

definition tenant_policy :: "dict \<Rightarrow> doc" where
  "tenant_policy extra = role_policy ''daemon-tenant-callers'' (YMap [(''endpointSelector'', YMap [(''matchLabels'', YMap [(COMPONENT, YStr ''daemon'')])]),
     (''ingress'', YList [YMap [(''fromEndpoints'', YList [YMap
        [(''matchLabels'', YMap ((''k8s:'' @ fst (hd TENANT_NS_LABELS), YStr ''tenant-operator'') # extra)),
         (''matchExpressions'', YList [YMap [(''key'', YStr ''k8s:io.kubernetes.pod.namespace''), (''operator'', YStr ''Exists'')]])]]),
        (''toPorts'', YList [YMap [(''ports'', YList [YMap [(''port'', YStr ''50051''), (''protocol'', YStr ''TCP'')]])]])]])])"

text \<open>The findings whose text names a tenant namespace, and the one that speaks of a pod that is not the
  trainer.\<close>

definition names_tenant :: "daemon_finding \<Rightarrow> bool" where
  "names_tenant x = (case x of TrainerBlocked p \<Rightarrow> True | BystanderAdmitted p \<Rightarrow> True | _ \<Rightarrow> False)"

definition not_trainer :: "daemon_finding \<Rightarrow> bool" where
  "not_trainer x = (case x of BystanderAdmitted p \<Rightarrow> True | _ \<Rightarrow> False)"

definition selftest_daemon :: "int option" where
  "selftest_daemon =
     (let daemon = dc_workload ''daemon'' ''platform'' False;
          operator = dc_workload ''tenant-operator'' ''platform'' True;
          tenant = tenant_policy TRAINER_LABELS;
          found = (\<lambda>docs p. do { fs \<leftarrow> audit_daemon docs; Some (p fs) })
      in selftest_rc
        [found [daemon_service, platform_policy, daemon, operator] (\<lambda>fs. length fs = 1 \<and> names_tenant (hd fs)),
         found [daemon_service, platform_policy, tenant_policy [], daemon, operator] (\<lambda>fs. length fs = 1 \<and> not_trainer (hd fs)),
         found [daemon_service, platform_policy, tenant, daemon, dc_workload ''tenant-operator'' ''system'' True] (\<lambda>fs. fs \<noteq> []),
         found [daemon_service, daemon, operator] (\<lambda>fs. fs \<noteq> []),
         found [daemon_service, platform_policy, tenant, daemon, operator] (\<lambda>fs. fs = [])])"

definition main_daemon :: "string list \<Rightarrow> doc list \<Rightarrow> int option" where
  "main_daemon argv render =
     (if ''--selftest'' \<in> set argv then selftest_daemon
      else do { bad \<leftarrow> audit_daemon (filter truthy render); Some (if bad \<noteq> [] then 1 else 0) })"

lemma selftest_daemon_passes: "selftest_daemon = Some 0"
  by code_simp

section \<open>Lemmas\<close>

lemma concat_map_hd:
  assumes "x \<in> set xs" and "\<And>z. z \<in> set xs \<Longrightarrow> f z \<noteq> [] \<Longrightarrow> z = x" and "f x = y # ys"
  shows "\<exists>zs. concat (map f xs) = y # zs"
  using assms(1,2)
proof (induction xs)
  case (Cons a xs)
  show ?case
  proof (cases "a = x")
    case True
    then show ?thesis using assms(3) by simp
  next
    case False
    then have "f a = []" by (metis Cons.prems(2) list.set_intros(1))
    moreover have "x \<in> set xs" using Cons.prems(1) False by simp
    then have "\<exists>zs. concat (map f xs) = y # zs" using Cons.IH Cons.prems(2) by (meson list.set_intros(2))
    ultimately show ?thesis by simp
  qed
qed simp

text \<open>The digits after the colon: the greedy run takes them all.\<close>

lemma digits_first:
  assumes "ds \<noteq> []" and "list_all is_digit ds"
  shows "\<exists>zs. mt (Grp 2 (Plus (Set True [Digit]))) (l, ds, g) = (rev ds @ l, [], AList.update 2 ds g) # zs"
proof -
  obtain d es where ds: "ds = d # es" using assms(1) by (cases ds) auto
  let ?p = "mt (Star (Set True [Digit])) (d # l, es, g)"
  have dig: "in_cls c Digit" if "c \<in> set ds" for c using that assms(2) by (simp add: list_all_iff is_digit_def less_eq_char_def)
  then have all: "takeWhile (\<lambda>c. list_ex (in_cls c) [Digit] = True) es = es" by (simp add: takeWhile_eq_all_conv ds del: in_cls.simps)
  have "?p \<noteq> []" by (simp add: mt.simps(5))
  moreover have "hd ?p = (rev es @ d # l, [], g)" unfolding mt_Star_Set_hd all by simp
  ultimately obtain zs where "?p = (rev es @ d # l, [], g) # zs" by (cases ?p) simp_all
  then show ?thesis using dig [of d] by (simp add: Plus_def ds)
qed


text \<open>A name in a prefix of an address is the name before the colon.\<close>

lemma colon_unique:
  assumes "z @ CHR '':'' # t = n @ CHR '':'' # ds" and "CHR '':'' \<notin> set z" and "CHR '':'' \<notin> set n"
  shows "z = n"
proof -
  have "takeWhile (\<lambda>c. c \<noteq> CHR '':'') (w @ CHR '':'' # u) = w" if "CHR '':'' \<notin> set w" for w u
    using that by (induction w) auto
  then show ?thesis using assms by metis
qed

lemma address_match:
  assumes n: "n \<in> set ns" "n \<noteq> []" "is_word (hd n)" "is_word (last n)" and colon: "\<And>m. m \<in> set ns \<Longrightarrow> CHR '':'' \<notin> set m"
    and ds: "ds \<noteq> []" "list_all is_digit ds"
  shows "\<exists>l zs. mt (address_re ns) ([], n @ CHR '':'' # ds, []) = (l, [], [(1, n), (2, ds)]) # zs"
proof -
  define v where "v = n @ CHR '':'' # ds"
  let ?tail = "Seqs [WordB, Lit (CHR '':''), Grp 2 (Plus (Set True [Digit]))]"
  define f where "f w = mt ?tail (rev w, drop (length w) v, [(1, w)])" for w
  define ws where "ws = filter (\<lambda>w. prefix w v) (sort ns)"
  have take: "take (length v - (length v - length w)) v = w" if "w \<in> set ws" for w
    using that by (auto simp: ws_def prefix_def)
  have names: "mt (Grp 1 (Alts (map Str (sort ns)))) ([], v, []) = map (\<lambda>w. (rev w, drop (length w) v, [(1, w)])) ws"
    unfolding mt.simps(7) mt_Alts_Str ws_def [symmetric] map_map by (rule map_cong) (simp_all add: take)
  have "word_at v" using n(2,3) by (cases n) (simp_all add: word_at_def v_def)
  then have "mt WordB ([], v, []) = [([], v, [])]" by (simp add: word_at_def)
  then have *: "mt (address_re ns) ([], v, []) = concat (map f ws)"
    unfolding address_re_def Seqs.simps mt.simps(3)
    by (simp only: list.map concat.simps append_Nil2 mt.simps(3) names) (simp add: f_def [abs_def] comp_def del: mt.simps)
  have "\<not> word_at (CHR '':'' # ds)" by (simp add: word_at_def is_word_def WORD_RANGES_def)
  moreover have "word_at (rev n)" using n(2,4) by (cases n rule: rev_cases) (simp_all add: word_at_def)
  moreover obtain zs where "mt (Grp 2 (Plus (Set True [Digit]))) (CHR '':'' # rev n, ds, [(1, n)]) = (rev ds @ CHR '':'' # rev n, [], [(1, n), (2, ds)]) # zs"
    using digits_first [OF ds, of "CHR '':'' # rev n" "[(1, n)]"] by auto
  ultimately have fn: "f n = (rev ds @ CHR '':'' # rev n, [], [(1, n), (2, ds)]) # zs"
    by (simp add: f_def v_def mt_Lit del: mt.simps(7))
  have uni: "z = n" if "z \<in> set ws" "f z \<noteq> []" for z
  proof -
    from that(2) obtain t where "drop (length z) v = CHR '':'' # t"
      by (cases "drop (length z) v") (auto simp: f_def mt_Lit split: if_splits)
    moreover have "prefix z v" using that(1) by (simp add: ws_def)
    ultimately have "z @ CHR '':'' # t = v" by (auto simp: prefix_def)
    then have "z @ CHR '':'' # t = n @ CHR '':'' # ds" by (simp add: v_def)
    moreover have "z \<in> set ns" using that(1) by (simp add: ws_def)
    ultimately show "z = n" using colon colon n(1) by (metis colon_unique)
  qed
  have "n \<in> set ws" using n(1) by (simp add: ws_def v_def)
  from concat_map_hd [of n ws f, OF this uni fn] show ?thesis by (auto simp: * v_def [symmetric])
qed

lemma ports_in_address:
  assumes "n \<in> set ns" "n \<noteq> []" "is_word (hd n)" "is_word (last n)" "\<And>m. m \<in> set ns \<Longrightarrow> CHR '':'' \<notin> set m"
    and "ds \<noteq> []" "list_all is_digit ds" and "py_int ds = Some p"
  shows "ports_in ns (n @ CHR '':'' # ds) = Some [p]"
proof -
  from address_match [OF assms(1-7)] obtain l zs where
    m: "mt (address_re ns) ([], n @ CHR '':'' # ds, []) = (l, [], [(1, n), (2, ds)]) # zs" by blast
  obtain c t where v: "n @ CHR '':'' # ds = c # t" by (cases n) auto
  have "finditer (address_re ns) (n @ CHR '':'' # ds) = [(n @ CHR '':'' # ds, [(1, n), (2, ds)])]"
    using m unfolding finditer_def v finditer_from.simps [of _ _ "c # t"] by (simp add: finditer_from.simps [of _ _ "[]"])
  then show ?thesis using assms(8) by (simp add: ports_in_def re_group_def)
qed


text \<open>The parts of a passing audit.\<close>

lemma audit_daemon_parts:
  assumes "audit_daemon docs = Some []"
  obtains svc daemon rs cs modeled where "daemon_service_names docs = Some svc" "daemon_pod docs = Some (Some daemon)"
    "rules docs (YStr DC_NAMESPACE) = Some rs" "callers docs svc = Some cs" "collect (caller_finding rs daemon) cs = Some []"
    "tenant_callers docs = Some (modeled, [])" "collect (tenant_findings rs daemon) modeled = Some []"
  using assms unfolding audit_daemon_def
  by (auto elim!: bindE split: if_splits option.splits simp: case_prod_beta)

lemma caller_admitted:
  assumes "collect (caller_finding rs daemon) cs = Some []" and "(n, labels, p) \<in> set cs"
  shows "\<exists>src. endpoint (YStr DC_NAMESPACE) labels = Some src \<and> reaches rs src daemon (YInt p) = Some True"
  using assms unfolding collect_empty_iff
  by (auto simp: caller_finding_def bind_eq_Some_conv split: if_splits dest!: bspec)

text \<open>A port that a value of a container names is a port of a caller.\<close>

lemma callers_cover:
  assumes cs: "callers docs svc = Some cs" and ns: "mmap the_name svc = Some ns"
    and d: "d \<in> set docs" "dget d ''kind'' = Some (YStr kind)" "kind \<in> set DC_WORKLOADS"
    and pod: "dc_template d = Some t" "item t ''spec'' = Some spec" "dc_labels d = Some labels" "has_component labels DAEMON_COMPONENT = Some False"
    and c: "get_list spec key = Some xs" "key = ''containers'' \<or> key = ''initContainers''" "c \<in> set xs"
    and e: "get_list c ''env'' = Some es" "e \<in> set es" "dget e ''value'' = Some (YStr v)"
    and p: "ports_in ns v = Some ps" "p \<in> set ps"
  shows "\<exists>n. (n, labels, p) \<in> set cs"
proof -
  from cs ns have "collect (doc_callers ns) docs = Some cs" by (simp add: callers_def)
  from collect_SomeD [OF this d(1)] obtain qs where qs: "doc_callers ns d = Some qs" "set qs \<subseteq> set cs" by blast
  from qs(1) d pod c(1,2) obtain a b seen where parts: "get_list spec ''containers'' = Some a" "get_list spec ''initContainers'' = Some b"
      "collect (container_ports ns) (a @ b) = Some seen"
    and out: "mk_set seen \<noteq> [] \<Longrightarrow> \<exists>n. qs = map (\<lambda>p. (n, labels, p)) (sort (mk_set seen))"
    by (auto simp: doc_callers_def in_strtuple_YStr Let_def elim!: bindE split: if_splits)
  have "c \<in> set (a @ b)" using c parts(1,2) by auto
  from collect_SomeD [OF parts(3) this] obtain us where us: "container_ports ns c = Some us" "set us \<subseteq> set seen" by blast
  then have "collect (env_ports ns) es = Some us" using e(1) by (simp add: container_ports_def)
  from collect_SomeD [OF this e(2)] e(3) p have "p \<in> set us" by (auto simp: env_ports_def)
  then have seen: "p \<in> set seen" using us(2) by blast
  then have "mk_set seen \<noteq> []" by auto
  from out [OF this] obtain n where "qs = map (\<lambda>p. (n, labels, p)) (sort (mk_set seen))" by blast
  then have "(n, labels, p) \<in> set qs" using seen by auto
  then show ?thesis using qs(2) by blast
qed

lemma callers_names: "callers docs svc = Some cs \<Longrightarrow> \<exists>ns. mmap the_name svc = Some ns"
  by (auto simp: callers_def elim: bindE)

lemma the_name_Some [simp]: "the_name y = Some n \<longleftrightarrow> y = YStr n"
  by (cases y) auto

text \<open>A name of a Service: it starts and ends with a word character and has no colon.\<close>

definition service_name :: "string \<Rightarrow> bool" where
  "service_name n = (n \<noteq> [] \<and> is_word (hd n) \<and> is_word (last n) \<and> CHR '':'' \<notin> set n)"


text \<open>The tenant side: when the audit passes, the tenant operator of the release names a daemon port, the
  trainer pod of a tenant namespace is admitted to the daemon on it by some rule, and a pod of the
  namespace without the labels of the trainer by none.\<close>

theorem trainer_alone_admitted:
  assumes "audit_daemon docs = Some []"
  shows "\<exists>rs daemon p src. rules docs (YStr DC_NAMESPACE) = Some rs \<and> daemon_pod docs = Some (Some daemon)
    \<and> operator_env_port docs ''tenant-operator'' ''GIBSON_DAEMON_GRPC_ADDRESS'' = Some (Some p)
    \<and> endpoint (YStr TENANT_NS) (YMap (dict_merge TENANT_NS_LABELS TRAINER_LABELS)) = Some src
    \<and> daemon_admits rs daemon src p = Some True \<and> tenant_bystander_admitted rs daemon p = Some False"
proof -
  from audit_daemon_parts [OF assms] obtain daemon rs modeled where
    parts: "daemon_pod docs = Some (Some daemon)" "rules docs (YStr DC_NAMESPACE) = Some rs" "tenant_callers docs = Some (modeled, [])"
      "collect (tenant_findings rs daemon) modeled = Some []" by metis
  from parts(3) obtain p where "operator_env_port docs ''tenant-operator'' ''GIBSON_DAEMON_GRPC_ADDRESS'' = Some (Some p)"
      "modeled = [(dict_merge TENANT_NS_LABELS TRAINER_LABELS, p)]"
    by (auto simp: tenant_callers_def elim!: bindE split: option.splits)
  with parts show ?thesis by (auto simp: tenant_findings_def collect_empty_iff bind_eq_Some_conv split: if_splits)
qed

definition dc_sample :: "doc list" where
  "dc_sample = [daemon_service, platform_policy, tenant_policy TRAINER_LABELS, dc_workload ''daemon'' ''platform'' False,
     dc_workload ''tenant-operator'' ''platform'' True]"

lemma dc_sample_passes: "audit_daemon dc_sample = Some []"
  by code_simp

theorem trainer_alone_admitted_witness:
  "\<exists>rs daemon p. rules dc_sample (YStr DC_NAMESPACE) = Some rs \<and> tenant_bystander_admitted rs daemon p = Some False"
  using trainer_alone_admitted [OF dc_sample_passes] by blast


text \<open>A caller without a label that the policies allow, with the address that the chart renders.\<close>

definition qualified_caller :: doc where
  "qualified_caller = YMap [(''kind'', YStr ''Deployment''),
     (''metadata'', YMap [(''name'', YStr ''gibson-connector-operator''), (''namespace'', YStr DC_NAMESPACE)]),
     (''spec'', YMap [(''template'', YMap
        [(''metadata'', YMap [(''labels'', YMap [(COMPONENT, YStr ''connector-operator'')])]),
         (''spec'', YMap [(''containers'', YList [YMap [(''name'', YStr ''manager''),
            (''env'', YList [YMap [(''name'', YStr ''GIBSON_DAEMON_GRPC_ADDRESS''), (''value'', YStr ''gibson-daemon.gibson.svc:50051'')]])]])])])])]"


end
