(* ===== verification/BumpImage.thy ===== *)
theory BumpImage
  imports PyRegex
begin

text \<open>
  \<^verbatim>\<open>src/scripts/bump-image-digest.py\<close>: the tool that re-pins a first-party image across the values files of
  the charts, by rewriting the text of the pin lines. The files are a map from paths to texts, the
  registry answers through a parameter. The theory proves that a rewrite touches the pin lines only, that
  on a pin line of either shape it puts exactly the new reference and digest there and a second rewrite
  changes nothing, and what the exit codes of the commands mean for the files.
\<close>

section \<open>Pins\<close>

definition PIN_FILES :: "string list" where
  "PIN_FILES = [''helm/gibson/values.yaml'', ''helm/gibson-operators/values.yaml'', ''helm/gibson-workloads/values.yaml'']"

definition PIN_REGISTRY :: string where
  "PIN_REGISTRY = ''ghcr.io/zeroroot-ai''"

definition hex64 :: "string \<Rightarrow> bool" where
  "hex64 s = (length s = 64 \<and> list_all (\<lambda>c. in_cls c (Range (CHR ''0'') (CHR ''9'')) \<or> in_cls c (Range (CHR ''a'') (CHR ''f''))) s)"

text \<open>\<^verbatim>\<open>DIGEST_RE.fullmatch\<close>: \<^verbatim>\<open>sha256:\<close> and 64 lower-case hexadecimal digits.\<close>

definition DIGEST_RE :: "string \<Rightarrow> bool" where
  "DIGEST_RE s = (startswith s ''sha256:'' \<and> hex64 (drop 7 s))"

definition IMAGE_SIBLINGS :: "string list" where
  "IMAGE_SIBLINGS = [''tag'', ''digest'', ''pullPolicy'', ''repository'']"

record pin =
  pin_path :: string
  pin_image :: string
  repo_line :: nat
  tag_line :: "nat option"
  digest_line :: "nat option"

text \<open>The text of a group that took part in a match.\<close>

definition grp :: "nat \<Rightarrow> groups \<Rightarrow> string" where
  "grp n g = (case re_group n g of Some s \<Rightarrow> s | None \<Rightarrow> [])"

abbreviation (input) quote :: char where
  "quote \<equiv> CHR 0x22"

abbreviation (input) Spaces :: re where
  "Spaces \<equiv> Star (Set True [Space])"

abbreviation (input) NoQuote :: re where
  "NoQuote \<equiv> Star (Set False [Range quote quote])"

definition repo_re :: re where
  "repo_re = Seqs [Grp 1 Spaces, Str ''repository:'', Spaces, Opt (Lit quote),
     Grp 2 (Seq (Str (PIN_REGISTRY @ ''/'')) (Plus (Set True [Word, Range (CHR ''.'') (CHR ''.''), Range (CHR ''/'') (CHR ''/''), Range (CHR ''-'') (CHR ''-'')]))),
     Opt (Lit quote), Spaces, Eot]"

definition key_re :: re where
  "key_re = Seqs [Grp 1 Spaces, Grp 2 (Plus (Set True [Word, Range (CHR ''.'') (CHR ''.''), Range (CHR ''-'') (CHR ''-'')])), Lit (CHR '':'')]"

text \<open>The walk over the lines below a \<^verbatim>\<open>repository:\<close> line that is indented by \<open>base\<close>.\<close>

fun scan_block :: "nat \<Rightarrow> (nat \<times> string) list \<Rightarrow> nat option \<Rightarrow> nat option \<Rightarrow> nat option \<times> nat option" where
  "scan_block base [] tag dig = (tag, dig)"
| "scan_block base ((j, nxt) # rest) tag dig =
     (if list_all py_space nxt \<or> startswith (dropWhile py_space nxt) ''#'' then scan_block base rest tag dig
      else case re_match key_re nxt of
        None \<Rightarrow> (tag, dig)
      | Some (_, _, g) \<Rightarrow>
          (let ind = length (grp 1 g); key = grp 2 g in
           if ind < base \<or> key \<notin> set IMAGE_SIBLINGS then (tag, dig)
           else if ind > base then scan_block base rest tag dig
           else if key = ''repository'' then (tag, dig)
           else if key = ''tag'' \<and> tag = None then scan_block base rest (Some j) dig
           else if key = ''digest'' \<and> dig = None then scan_block base rest tag (Some j)
           else scan_block base rest tag dig))"

definition pin_at :: "string list \<Rightarrow> string \<Rightarrow> nat \<times> string \<Rightarrow> pin list" where
  "pin_at lines path = (\<lambda>(i, line).
     case re_match repo_re line of
       None \<Rightarrow> []
     | Some (_, _, g) \<Rightarrow>
         (let repo = grp 2 g in
          if startswith repo (PIN_REGISTRY @ ''/mirror/'') then []
          else (let (tag, dig) = scan_block (length (grp 1 g)) (enumerate (i + 1) (drop (i + 1) lines)) None None
                in [\<lparr>pin_path = path, pin_image = drop (length PIN_REGISTRY + 1) repo, repo_line = i, tag_line = tag, digest_line = dig\<rparr>])))"

definition find_pins :: "string list \<Rightarrow> string \<Rightarrow> pin list" where
  "find_pins lines path = concat (map (pin_at lines path) (enumerate 0 lines))"

section \<open>The rewrite\<close>

text \<open>\<^verbatim>\<open>lines[i]\<close> (IndexError out of range), \<^verbatim>\<open>key:\s*"([^"]*)"\<close>, and the value that it finds in a line.\<close>

definition line_at :: "string list \<Rightarrow> nat \<Rightarrow> string option" where
  "line_at lines i = (if i < length lines then Some (lines ! i) else None)"

definition value_re :: "string \<Rightarrow> re" where
  "value_re key = Seqs [Str (key @ '':''), Spaces, Lit quote, Grp 1 NoQuote, Lit quote]"

definition line_value :: "string \<Rightarrow> string \<Rightarrow> string option" where
  "line_value key line = map_option (\<lambda>(_, _, g). grp 1 g) (re_search (value_re key) line)"

text \<open>\<^verbatim>\<open>re.sub(r'(key:\s*")[^"]*(")', lambda m: m.group(1) + x + m.group(2), line)\<close>.\<close>

definition put_re :: "string \<Rightarrow> re" where
  "put_re key = Seqs [Grp 1 (Seqs [Str (key @ '':''), Spaces, Lit quote]), NoQuote, Grp 2 (Lit quote)]"

definition put_value :: "string \<Rightarrow> string \<Rightarrow> string \<Rightarrow> string" where
  "put_value key x line = re_sub (put_re key) (\<lambda>g. grp 1 g @ x @ grp 2 g) line"

text \<open>\<^verbatim>\<open>s.replace(old, new)\<close> for an \<open>old\<close> that is not empty.\<close>

function py_replace :: "string \<Rightarrow> string \<Rightarrow> string \<Rightarrow> string" where
  "py_replace old new s = (case s of [] \<Rightarrow> [] | c # t \<Rightarrow>
     if prefix old s \<and> old \<noteq> [] then new @ py_replace old new (drop (length old) s) else c # py_replace old new t)"
  by pat_completeness auto
termination
  by (relation "measure (\<lambda>(old, new, s). length s)") (auto simp: diff_less)

declare py_replace.simps [simp del]

text \<open>The value of a key on the line of a pin that may be missing.\<close>

definition opt_value :: "string list \<Rightarrow> string \<Rightarrow> nat option \<Rightarrow> string option option" where
  "opt_value lines key at = (case at of None \<Rightarrow> Some None | Some i \<Rightarrow> do { l \<leftarrow> line_at lines i; Some (line_value key l) })"

text \<open>Writes the value of a key into the line with number \<open>i\<close>; tells whether the line changed.\<close>

definition put_line :: "string list \<Rightarrow> string \<Rightarrow> nat \<Rightarrow> string \<Rightarrow> (string list \<times> bool) option" where
  "put_line lines key i x = do { old \<leftarrow> line_at lines i; let new = put_value key x old;
     Some (if new \<noteq> old then (lines[i := new], True) else (lines, False)) }"

definition rewrite_separate :: "string list \<Rightarrow> pin \<Rightarrow> nat \<Rightarrow> string option \<Rightarrow> string \<Rightarrow> (string list \<times> bool) option" where
  "rewrite_separate lines p d ref digest = do {
     (lines1, c1) \<leftarrow> put_line lines ''digest'' d digest;
     case (ref, tag_line p) of
       (Some r, Some t) \<Rightarrow> (if r = [] then Some (lines1, c1)
                           else do { (lines2, c2) \<leftarrow> put_line lines1 ''tag'' t r; Some (lines2, c1 \<or> c2) })
     | _ \<Rightarrow> Some (lines1, c1)
   }"

definition rewrite_tag :: "string list \<Rightarrow> pin \<Rightarrow> string option \<Rightarrow> string \<Rightarrow> (string list \<times> bool) option" where
  "rewrite_tag lines p ref digest = (case tag_line p of None \<Rightarrow> Some (lines, False) | Some t \<Rightarrow> do {
     old \<leftarrow> line_at lines t;
     case line_value ''tag'' old of
       None \<Rightarrow> Some (lines, False)
     | Some current \<Rightarrow>
         (if CHR ''@'' \<notin> set current then Some (lines, False)
          else (let keep = (case ref of Some r \<Rightarrow> if r = [] then fst (split_once (CHR ''@'') current) else r | None \<Rightarrow> fst (split_once (CHR ''@'') current));
                    replacement = keep @ ''@'' @ digest
                in if replacement = current then Some (lines, False)
                   else Some (lines[t := py_replace (quote # current @ [quote]) (quote # replacement @ [quote]) old], True)))
   })"

definition rewrite_pin :: "string list \<Rightarrow> pin \<Rightarrow> string option \<Rightarrow> string \<Rightarrow> (string list \<times> bool) option" where
  "rewrite_pin lines p ref digest = do {
     tv \<leftarrow> opt_value lines ''tag'' (tag_line p);
     dv \<leftarrow> opt_value lines ''digest'' (digest_line p);
     let tag_is_combined = (case tv of None \<Rightarrow> False | Some v \<Rightarrow> CHR ''@'' \<in> set v);
     let digest_in_use = (case dv of None \<Rightarrow> False | Some v \<Rightarrow> strip v \<noteq> []);
     case digest_line p of
       None \<Rightarrow> rewrite_tag lines p ref digest
     | Some d \<Rightarrow> (if digest_in_use \<or> \<not> tag_is_combined then rewrite_separate lines p d ref digest else rewrite_tag lines p ref digest)
   }"

definition current_ref :: "string list \<Rightarrow> pin \<Rightarrow> string option option" where
  "current_ref lines p = do {
     tv \<leftarrow> opt_value lines ''tag'' (tag_line p);
     Some (case tv of None \<Rightarrow> None
           | Some v \<Rightarrow> (if CHR ''@'' \<in> set v then Some (fst (split_once (CHR ''@'') v)) else if v = [] then None else Some v))
   }"

section \<open>The registry\<close>

text \<open>\<^verbatim>\<open>base64.b64encode\<close> on the characters of an ASCII text.\<close>

definition b64_char :: "nat \<Rightarrow> char" where
  "b64_char n = (''ABCDEFGHIJKLMNOPQRSTUVWXYZabcdefghijklmnopqrstuvwxyz0123456789+/'' ! n)"

fun b64encode :: "nat list \<Rightarrow> string" where
  "b64encode (a # b # c # rest) =
     [b64_char (a div 4), b64_char (a mod 4 * 16 + b div 16), b64_char (b mod 16 * 4 + c div 64), b64_char (c mod 64)] @ b64encode rest"
| "b64encode [a, b] = [b64_char (a div 4), b64_char (a mod 4 * 16 + b div 16), b64_char (b mod 16 * 4), CHR ''='']"
| "b64encode [a] = [b64_char (a div 4), b64_char (a mod 4 * 16), CHR ''='', CHR ''='']"
| "b64encode [] = []"

text \<open>A request and what the registry answers: a failed connection, an HTTP error, or a response with its
  headers and its body as JSON (\<open>None\<close> when it is not JSON).\<close>

record web_request =
  rq_url :: string
  rq_headers :: "(string \<times> string) list"
  rq_verb :: string

datatype web_reply = UrlFailed | HttpFailed int | Answered "(string \<times> string) list" "yaml option"

record registry_env =
  ghcr_token :: "string option"
  github_token :: "string option"
  urlopen :: "web_request \<Rightarrow> web_reply"

datatype resolve_error = NoToken | TokenFailed string | NoPullToken string | TagHttp string int | TagFailed string | NoDigest string

text \<open>A header by name, without regard to case, as \<^verbatim>\<open>r.headers.get\<close>.\<close>

definition lower :: "char \<Rightarrow> char" where
  "lower c = (if CHR ''A'' \<le> c \<and> c \<le> CHR ''Z'' then char_of (of_char c + 32 :: nat) else c)"

definition header :: "(string \<times> string) list \<Rightarrow> string \<Rightarrow> string option" where
  "header hs n = map_option snd (find (\<lambda>(k, v). map lower k = map lower n) hs)"

definition str_or :: "string option \<Rightarrow> string option \<Rightarrow> string option" where
  "str_or a b = (case a of Some (c # s) \<Rightarrow> a | _ \<Rightarrow> b)"

definition token_request :: "string \<Rightarrow> string \<Rightarrow> web_request" where
  "token_request token repo = \<lparr>rq_url = ''https://ghcr.io/token?service=ghcr.io&scope=repository:'' @ repo @ '':pull'',
     rq_headers = [(''Authorization'', ''Basic '' @ b64encode (map of_char (''x:'' @ token)))], rq_verb = ''GET''\<rparr>"

definition manifest_request :: "string \<Rightarrow> string \<Rightarrow> string \<Rightarrow> web_request" where
  "manifest_request bearer repo ref = \<lparr>rq_url = ''https://ghcr.io/v2/'' @ repo @ ''/manifests/'' @ ref,
     rq_headers = [(''Authorization'', ''Bearer '' @ bearer),
       (''Accept'', join '', '' [''application/vnd.oci.image.index.v1+json'', ''application/vnd.docker.distribution.manifest.list.v2+json'',
          ''application/vnd.oci.image.manifest.v1+json'', ''application/vnd.docker.distribution.manifest.v2+json''])], rq_verb = ''HEAD''\<rparr>"

definition manifest_digest :: "(web_request \<Rightarrow> web_reply) \<Rightarrow> string \<Rightarrow> string \<Rightarrow> string \<Rightarrow> resolve_error + string" where
  "manifest_digest net bearer repo ref =
     (case net (manifest_request bearer repo ref) of
        UrlFailed \<Rightarrow> Inl (TagFailed (repo @ '':'' @ ref))
      | HttpFailed code \<Rightarrow> Inl (TagHttp (repo @ '':'' @ ref) code)
      | Answered hs _ \<Rightarrow>
          (case str_or (header hs ''Docker-Content-Digest'') (header hs ''docker-content-digest'') of
             Some digest \<Rightarrow> if DIGEST_RE digest then Inr digest else Inl (NoDigest (repo @ '':'' @ ref))
           | None \<Rightarrow> Inl (NoDigest (repo @ '':'' @ ref))))"

definition resolve_digest :: "registry_env \<Rightarrow> string \<Rightarrow> string \<Rightarrow> (resolve_error + string) option" where
  "resolve_digest env img ref =
     (case str_or (ghcr_token env) (str_or (github_token env) None) of
        None \<Rightarrow> Some (Inl NoToken)
      | Some token \<Rightarrow>
          (let repo = ''zeroroot-ai/'' @ img in
           case urlopen env (token_request token repo) of
             UrlFailed \<Rightarrow> Some (Inl (TokenFailed repo))
           | HttpFailed code \<Rightarrow> Some (Inl (TokenFailed repo))
           | Answered _ body \<Rightarrow> do {
               j \<leftarrow> body;
               bearer \<leftarrow> dget j ''token'';
               if \<not> truthy bearer then Some (Inl (NoPullToken repo))
               else Some (manifest_digest (urlopen env) (py_str bearer) repo ref)
             }))"

section \<open>The commands\<close>

type_synonym files = "string \<Rightarrow> string option"

definition load :: "files \<Rightarrow> string \<Rightarrow> string list option" where
  "load fs path = map_option (\<lambda>text. split_keep [] (text_mode text)) (fs path)"

definition save :: "files \<Rightarrow> string \<Rightarrow> string list \<Rightarrow> files" where
  "save fs path lines = fs(path \<mapsto> concat lines)"

text \<open>\<^verbatim>\<open>any(rewrite_pin(lines, p, ref, digest) for p in pins)\<close>: it stops at the first pin that changes.\<close>

fun any_rewrite :: "string option \<Rightarrow> string \<Rightarrow> pin list \<Rightarrow> string list \<Rightarrow> (string list \<times> bool) option" where
  "any_rewrite ref digest [] lines = Some (lines, False)"
| "any_rewrite ref digest (p # ps) lines = do {
     (lines1, c) \<leftarrow> rewrite_pin lines p ref digest;
     if c then Some (lines1, True) else any_rewrite ref digest ps lines1
   }"

text \<open>The state of the loop: the files, the touched paths and whether a pin was found.\<close>

definition bump_file :: "string \<Rightarrow> string option \<Rightarrow> string \<Rightarrow> string \<Rightarrow> files \<times> string list \<times> bool \<Rightarrow> (files \<times> string list \<times> bool) option" where
  "bump_file img ref digest path = (\<lambda>(fs, touched, found).
     case load fs path of
       None \<Rightarrow> Some (fs, touched, found)
     | Some lines \<Rightarrow>
         (let pins = filter (\<lambda>p. pin_image p = img) (find_pins lines path) in
          if pins = [] then Some (fs, touched, found)
          else do {
            (lines1, c) \<leftarrow> any_rewrite ref digest pins lines;
            Some (if c then (save fs path lines1, touched @ [path], True) else (fs, touched, True))
          }))"

definition cmd_bump :: "string \<Rightarrow> string option \<Rightarrow> string \<Rightarrow> files \<Rightarrow> (files \<times> int) option" where
  "cmd_bump img ref digest fs =
     (if \<not> DIGEST_RE digest then Some (fs, 1)
      else do {
        (fs1, touched, found) \<leftarrow> mfold (bump_file img ref digest) PIN_FILES (fs, [], False);
        Some (fs1, if found then 0 else 2)
      })"

text \<open>One pin of \<^verbatim>\<open>cmd_resolve_all\<close>: the lines, whether one changed, the drift and the failures.\<close>

type_synonym resolve_state = "string list \<times> bool \<times> (string \<times> string \<times> string) list \<times> (string \<times> string \<times> resolve_error) list"

definition resolve_pin :: "registry_env \<Rightarrow> pin \<Rightarrow> resolve_state \<Rightarrow> resolve_state option" where
  "resolve_pin env p = (\<lambda>(lines, dirty, drift, failed). do {
     ref \<leftarrow> current_ref lines p;
     case ref of
       None \<Rightarrow> Some (lines, dirty, drift, failed)
     | Some r \<Rightarrow> do {
         res \<leftarrow> resolve_digest env (pin_image p) r;
         case res of
           Inl e \<Rightarrow> Some (lines, dirty, drift, failed @ [(pin_image p, r, e)])
         | Inr digest \<Rightarrow> do {
             (lines1, c) \<leftarrow> rewrite_pin lines p None digest;
             Some (if c then (lines1, True, drift @ [(pin_image p, r, digest)], failed) else (lines1, dirty, drift, failed))
           }
       }
   })"

type_synonym all_state = "files \<times> (string \<times> string \<times> string) list \<times> (string \<times> string \<times> resolve_error) list"

definition resolve_file :: "registry_env \<Rightarrow> string \<Rightarrow> all_state \<Rightarrow> all_state option" where
  "resolve_file env path = (\<lambda>(fs, drift, failed).
     case load fs path of
       None \<Rightarrow> Some (fs, drift, failed)
     | Some lines \<Rightarrow> do {
         (lines1, dirty, drift1, failed1) \<leftarrow> mfold (resolve_pin env) (find_pins lines path) (lines, False, drift, failed);
         Some (if dirty then save fs path lines1 else fs, drift1, failed1)
       })"

definition cmd_resolve_all :: "registry_env \<Rightarrow> bool \<Rightarrow> files \<Rightarrow> (files \<times> int) option" where
  "cmd_resolve_all env require fs = do {
     (fs1, drift, failed) \<leftarrow> mfold (resolve_file env) PIN_FILES (fs, [], []);
     Some (fs1, if failed \<noteq> [] \<and> require then 1 else 0)
   }"

text \<open>The report of \<^verbatim>\<open>--list\<close>: its lines and the exit code; it stops at a file that is missing.\<close>

definition pad :: "nat \<Rightarrow> string \<Rightarrow> string" where
  "pad n s = s @ replicate (n - length s) (CHR '' '')"

definition list_row :: "string list \<Rightarrow> string \<Rightarrow> pin \<Rightarrow> string option" where
  "list_row lines path p = do {
     v \<leftarrow> line_at lines (case tag_line p of Some t \<Rightarrow> t | None \<Rightarrow> repo_line p);
     w \<leftarrow> (case digest_line p of None \<Rightarrow> Some (strip v)
          | Some d \<Rightarrow> do { dl \<leftarrow> line_at lines d; Some (strip v @ ''  +  '' @ strip dl) });
     Some (pad 26 (pin_image p) @ '' '' @ pad 44 path @ '' '' @ take 88 w)
   }"

fun list_files :: "files \<Rightarrow> string list \<Rightarrow> (string list \<times> int) option" where
  "list_files fs [] = Some ([], 0)"
| "list_files fs (path # paths) = (case load fs path of
     None \<Rightarrow> Some ([], 1)
   | Some lines \<Rightarrow> do {
       rows \<leftarrow> mmap (list_row lines path) (find_pins lines path);
       (more, rc) \<leftarrow> list_files fs paths;
       Some (rows @ more, rc)
     })"

definition cmd_list :: "files \<Rightarrow> (string list \<times> int) option" where
  "cmd_list fs = do {
     (rows, rc) \<leftarrow> list_files fs PIN_FILES;
     Some ((pad 26 ''image'' @ '' '' @ pad 44 ''file'' @ '' pin'') # rows, rc)
   }"

section \<open>The selftest and the run\<close>

definition fixture_rows :: "string list" where
  "fixture_rows =
     [''image:'',
      ''  # A long rationale block, the way gibson-workloads/values.yaml carries one,'',
      ''  # so the scanner cannot rely on a line window.'',
      ''  #'',
      ''  # More prose. And more.'',
      ''  repository: ghcr.io/zeroroot-ai/gibson'',
      ''  # provenance note that must survive'',
      ''  tag: '' @ quote # ''sha-old@sha256:'' @ replicate 64 (CHR ''0'') @ quote # ''  # trailing note'',
      ''  pullPolicy: IfNotPresent'',
      ''docs:'',
      ''  image:'',
      ''    repository: ghcr.io/zeroroot-ai/docs-site'',
      ''    tag: '' @ quote # ''oldcommit'' @ [quote],
      ''    digest: '' @ quote # ''sha256:'' @ replicate 64 (CHR ''1'') @ [quote],
      ''mirrored:'',
      ''  image:'',
      ''    repository: ghcr.io/zeroroot-ai/mirror/kubectl'',
      ''    tag: '' @ quote # ''1.31.4'' @ [quote]]"

definition SELFTEST_FIXTURE :: string where
  "SELFTEST_FIXTURE = concat (map (\<lambda>l. l @ [CHR 0x0A]) fixture_rows)"

definition bare_lines :: "string list" where
  "bare_lines = [''  repository: ghcr.io/zeroroot-ai/gibson'' @ [CHR 0x0A], ''  tag: '' @ quote # ''main'' @ [quote, CHR 0x0A]]"

text \<open>\<^verbatim>\<open>next(p for p in pins if p.image == name)\<close>, StopIteration when there is none, and \<^verbatim>\<open>s in t\<close>.\<close>

definition next_pin :: "string \<Rightarrow> pin list \<Rightarrow> pin option" where
  "next_pin name ps = find (\<lambda>p. pin_image p = name) ps"

definition fixture_checks :: "bool list option" where
  "fixture_checks = do {
     let lines = split_keep [] SELFTEST_FIXTURE;
     let pins = find_pins lines ''fixture'';
     let new = ''sha256:'' @ replicate 64 (CHR ''a'');
     gib \<leftarrow> next_pin ''gibson'' pins;
     (lines1, c1) \<leftarrow> rewrite_pin lines gib (Some ''sha-new'') new;
     gt \<leftarrow> tag_line gib;
     tagline \<leftarrow> line_at lines1 gt;
     doc \<leftarrow> next_pin ''docs-site'' pins;
     (lines2, c2) \<leftarrow> rewrite_pin lines1 doc (Some ''newcommit'') new;
     dd \<leftarrow> digest_line doc;
     dl \<leftarrow> line_at lines2 dd;
     dt \<leftarrow> tag_line doc;
     tl \<leftarrow> line_at lines2 dt;
     (lines3, c3) \<leftarrow> rewrite_pin lines2 doc (Some ''newcommit'') new;
     let bares = find_pins bare_lines ''f'';
     bare \<leftarrow> (case bares of [] \<Rightarrow> None | b # _ \<Rightarrow> Some b);
     (lines4, c4) \<leftarrow> rewrite_pin bare_lines bare (Some ''main'') new;
     Some [sort (map pin_image pins) = [''docs-site'', ''gibson''],
       tag_line gib \<noteq> None,
       c1,
       sublist (quote # ''sha-new@'' @ new @ [quote]) tagline,
       sublist ''# trailing note'' tagline,
       c2,
       sublist (''digest: '' @ quote # new @ [quote]) dl,
       sublist (''tag: '' @ quote # ''newcommit'' @ [quote]) tl,
       \<not> c3,
       \<not> c4]
   }"

text \<open>The checks on the files of the repository: each is there, ten pins or more in all, and the images
  that the repository ships among them.\<close>

definition pins_of :: "files \<Rightarrow> string \<Rightarrow> pin list" where
  "pins_of fs path = (case load fs path of None \<Rightarrow> [] | Some lines \<Rightarrow> find_pins lines path)"

definition tree_checks :: "files \<Rightarrow> bool list" where
  "tree_checks fs = map (\<lambda>path. load fs path \<noteq> None) PIN_FILES
     @ [10 \<le> sum_list (map (\<lambda>path. length (pins_of fs path)) PIN_FILES)]
     @ map (\<lambda>n. list_ex (\<lambda>path. n \<in> set (map pin_image (pins_of fs path))) PIN_FILES) [''gibson'', ''ext-authz'', ''dashboard'', ''docs-site'', ''setec'']"

definition selftest_bump :: "files \<Rightarrow> int option" where
  "selftest_bump fs = do { cs \<leftarrow> fixture_checks; Some (if list_all id (cs @ tree_checks fs) then 0 else 1) }"

record bump_args =
  a_image :: "string option"
  a_ref :: "string option"
  a_digest :: "string option"
  a_list :: bool
  a_resolve_all :: bool
  a_require :: bool
  a_selftest :: bool

text \<open>The run on the parsed arguments; \<^verbatim>\<open>ap.error\<close> exits with 2.\<close>

definition main_bump :: "registry_env \<Rightarrow> bump_args \<Rightarrow> files \<Rightarrow> (files \<times> int) option" where
  "main_bump env a fs =
     (if a_selftest a then map_option (\<lambda>rc. (fs, rc)) (selftest_bump fs)
      else if a_list a then map_option (\<lambda>(rows, rc). (fs, rc)) (cmd_list fs)
      else if a_resolve_all a then cmd_resolve_all env (a_require a) fs
      else case (str_or (a_image a) None, str_or (a_digest a) None) of
        (Some img, Some digest) \<Rightarrow> cmd_bump img (a_ref a) digest fs
      | _ \<Rightarrow> Some (fs, 2))"

section \<open>Pin lines\<close>

text \<open>The text of a pin line: the indentation, the key, the quoted value and the rest of the line.\<close>

definition pin_line :: "string \<Rightarrow> string \<Rightarrow> string \<Rightarrow> string \<Rightarrow> string \<Rightarrow> string" where
  "pin_line key ind sp v rest = ind @ key @ CHR '':'' # sp @ quote # v @ quote # rest"

definition plain_parts :: "string \<Rightarrow> string \<Rightarrow> string \<Rightarrow> string \<Rightarrow> bool" where
  "plain_parts ind sp v rest = (list_all py_space ind \<and> list_all py_space sp \<and> quote \<notin> set v \<and> quote \<notin> set rest)"

definition wf_key :: "string \<Rightarrow> bool" where
  "wf_key key = (key \<noteq> [] \<and> \<not> py_space (hd key) \<and> quote \<notin> set key)"

lemma wf_keys [simp]: "wf_key ''tag''" "wf_key ''digest''"
  by code_simp+

lemma quote_not_space [simp]: "\<not> py_space quote"
  by code_simp

lemma space_not_quote: "list_all py_space s \<Longrightarrow> quote \<notin> set s"
  by (auto simp: list_all_iff)

lemma no_key_at_space:
  assumes "wf_key key" and "py_space c"
  shows "\<not> prefix (key @ t) (c # s)"
  using assms by (cases key) (auto simp: wf_key_def)

lemma prefers_spaces:
  assumes "list_all py_space sp" and "l' = rev sp @ l"
  shows "prefers Spaces (l, sp @ quote # s, g) (l', quote # s, g)"
  using assms by (intro prefers_run) (auto simp: list_all_iff)

lemma prefers_noquote:
  assumes "quote \<notin> set v" and "l' = rev v @ l"
  shows "prefers NoQuote (l, v @ quote # s, g) (l', quote # s, g)"
  using assms by (intro prefers_run) auto

lemma prefers_key: "prefers (Str (key @ '':'')) (l, key @ CHR '':'' # s, g) (CHR '':'' # rev key @ l, s, g)"
  using prefers_Str [of "CHR '':'' # rev key @ l" "key @ '':''" l s g] by simp

lemma prefers_head:
  assumes "list_all py_space sp"
  shows "prefers (Seqs [Str (key @ '':''), Spaces, Lit quote]) (l, (key @ CHR '':'' # sp @ [quote]) @ s, g)
    (rev (key @ CHR '':'' # sp @ [quote]) @ l, s, g)"
  using prefers_Seq [OF prefers_key prefers_Seq [OF prefers_spaces [OF assms refl] prefers_Lit], of key l s g] by simp

lemma prefers_value:
  assumes "plain_parts ind sp v rest"
  shows "\<exists>l'. prefers (value_re key) (l, key @ CHR '':'' # sp @ quote # v @ quote # rest, []) (l', rest, [(1, v)])"
proof -
  have sp: "list_all py_space sp" and v: "quote \<notin> set v" using assms by (simp_all add: plain_parts_def)
  have "prefers (Grp 1 NoQuote) (quote # rev sp @ CHR '':'' # rev key @ l, v @ quote # rest, []) (rev v @ quote # rev sp @ CHR '':'' # rev key @ l, quote # rest, [(1, v)])"
    by (rule prefers_Grp [OF prefers_noquote [OF v refl]]) simp
  from prefers_Seq [OF prefers_key prefers_Seq [OF prefers_spaces [OF sp refl] prefers_Seq [OF prefers_Lit prefers_Seq [OF this prefers_Lit]]]]
  show ?thesis unfolding value_re_def Seqs.simps by blast
qed

lemma prefers_put:
  assumes "plain_parts ind sp v rest"
  shows "\<exists>l'. prefers (put_re key) (l, key @ CHR '':'' # sp @ quote # v @ quote # rest, [])
    (l', rest, [(1, key @ CHR '':'' # sp @ [quote]), (2, [quote])])"
proof -
  have sp: "list_all py_space sp" and v: "quote \<notin> set v" using assms by (simp_all add: plain_parts_def)
  let ?h = "key @ CHR '':'' # sp @ [quote]"
  have "prefers (Grp 1 (Seqs [Str (key @ '':''), Spaces, Lit quote])) (l, ?h @ v @ quote # rest, []) (rev ?h @ l, v @ quote # rest, [(1, ?h)])"
    by (rule prefers_Grp [OF prefers_head [OF sp]]) simp
  moreover have "prefers (Grp 2 (Lit quote)) (rev v @ rev ?h @ l, [quote] @ rest, [(1, ?h)]) (quote # rev v @ rev ?h @ l, rest, [(1, ?h), (2, [quote])])"
    by (rule prefers_Grp [of "Lit quote" _ "[quote]" rest _ _ "[(1, ?h)]"]) (simp_all add: prefers_def mt_Lit)
  ultimately have "prefers (put_re key) (l, ?h @ v @ quote # rest, []) (quote # rev v @ rev ?h @ l, rest, [(1, ?h), (2, [quote])])"
    unfolding put_re_def Seqs.simps(3) [of "Grp n r" for n r] Seqs.simps(2,3)
    by (intro prefers_Seq [OF _ prefers_Seq [OF prefers_noquote [OF v refl]]]) simp_all
  then show ?thesis by auto
qed

text \<open>What the patterns find and put on a pin line.\<close>

lemma no_value_at_space: "wf_key key \<Longrightarrow> py_space c \<Longrightarrow> mt (value_re key) (l, c # s, g) = []"
  by (simp add: value_re_def mt_Str no_key_at_space)

lemma no_put_at_space: "wf_key key \<Longrightarrow> py_space c \<Longrightarrow> mt (put_re key) (l, c # s, g) = []"
  by (simp add: put_re_def mt_Str no_key_at_space)

lemma line_value_pin:
  assumes "wf_key key" and "plain_parts ind sp v rest"
  shows "line_value key (pin_line key ind sp v rest) = Some v"
proof -
  let ?t = "key @ CHR '':'' # sp @ quote # v @ quote # rest"
  have "py_space c" if "ind = u @ c # w" for u c w using assms(2) that by (auto simp: plain_parts_def)
  then have "search_from (value_re key) [] (ind @ ?t) = search_from (value_re key) (rev ind) ?t"
    using search_skip [of ind "value_re key" "[]" ?t] no_value_at_space [OF assms(1)] by auto
  moreover obtain l' where "prefers (value_re key) (rev ind, ?t, []) (l', rest, [(1, v)])" using prefers_value [OF assms(2)] by blast
  then have "search_from (value_re key) (rev ind) ?t = Some (rev ind, ?t, (l', rest, [(1, v)]))"
    by (rule search_from_prefers)
  ultimately show ?thesis by (simp add: line_value_def re_search_def pin_line_def grp_def re_group_def)
qed

lemma put_re_quote: "plain (put_re key) \<and> (u \<in> lang (put_re key) \<longrightarrow> quote \<in> set u)"
proof -
  have "plain (Str w)" for w by (induction w rule: Str.induct) (auto simp: Lit_def)
  then show ?thesis by (auto simp: put_re_def Lit_def)
qed

lemma put_value_pin:
  assumes "wf_key key" and "plain_parts ind sp v rest"
  shows "put_value key x (pin_line key ind sp v rest) = pin_line key ind sp x rest"
proof -
  let ?t = "key @ CHR '':'' # sp @ quote # v @ quote # rest"
  let ?f = "\<lambda>g. grp 1 g @ x @ grp 2 g"
  have "py_space c" if "ind = u @ c # w" for u c w using assms(2) that by (auto simp: plain_parts_def)
  then have "sub_from (put_re key) ?f [] (ind @ ?t) = ind @ sub_from (put_re key) ?f (rev ind) ?t"
    using sub_skip [of ind "put_re key" "[]" ?t ?f] no_put_at_space [OF assms(1)] by auto
  moreover obtain l' where p: "prefers (put_re key) (rev ind, ?t, []) (l', rest, [(1, key @ CHR '':'' # sp @ [quote]), (2, [quote])])"
    using prefers_put [OF assms(2)] by blast
  have "sub_from (put_re key) ?f (rev ind) ?t = (key @ CHR '':'' # sp @ [quote]) @ x @ quote # sub_from (put_re key) ?f l' rest"
    by (subst sub_from_prefers [OF p]) (simp_all add: grp_def re_group_def)
  moreover have "sub_from (put_re key) ?f l' rest = rest"
    using put_re_quote assms(2) by (intro sub_from_without [of _ quote]) (auto simp: plain_parts_def)
  ultimately show ?thesis by (simp add: put_value_def re_sub_def pin_line_def)
qed

lemma py_replace_skip:
  "quote \<notin> set u \<Longrightarrow> py_replace (quote # old) new (u @ s) = u @ py_replace (quote # old) new s"
proof (induction u)
  case (Cons c u)
  then show ?case by (subst py_replace.simps) auto
qed simp

lemma py_replace_pin:
  assumes "wf_key key" and "plain_parts ind sp v rest"
  shows "py_replace (quote # v @ [quote]) (quote # x @ [quote]) (pin_line key ind sp v rest) = pin_line key ind sp x rest"
proof -
  let ?r = "py_replace (quote # v @ [quote]) (quote # x @ [quote])"
  have parts: "quote \<notin> set (ind @ key @ CHR '':'' # sp)" "quote \<notin> set rest"
    using assms space_not_quote by (auto simp: plain_parts_def wf_key_def)
  have "pin_line key ind sp v rest = (ind @ key @ CHR '':'' # sp) @ quote # v @ quote # rest" by (simp add: pin_line_def)
  then have "?r (pin_line key ind sp v rest) = (ind @ key @ CHR '':'' # sp) @ ?r (quote # v @ quote # rest)"
    using py_replace_skip [OF parts(1)] by metis
  also have "?r (quote # v @ quote # rest) = quote # x @ quote # ?r rest" by (subst py_replace.simps) simp
  also have "?r rest = rest" using py_replace_skip [OF parts(2), of _ _ "[]"] by (simp add: py_replace.simps [of _ _ "[]"])
  finally show ?thesis by (simp add: pin_line_def)
qed

section \<open>What a rewrite does\<close>

lemma put_line_frame:
  assumes "put_line lines key i x = Some (lines', c)"
  shows "length lines' = length lines \<and> (c \<longleftrightarrow> lines' \<noteq> lines) \<and> (\<forall>j. j \<noteq> i \<longrightarrow> lines' ! j = lines ! j)"
proof -
  from assms have "i < length lines" "lines' = (if put_value key x (lines ! i) \<noteq> lines ! i then lines[i := put_value key x (lines ! i)] else lines)"
      "c = (put_value key x (lines ! i) \<noteq> lines ! i)"
    by (auto simp: put_line_def line_at_def Let_def split: if_splits)
  then show ?thesis by (auto simp: list_update_same_conv)
qed

lemma rewrite_separate_frame:
  assumes "rewrite_separate lines p d ref digest = Some (lines', c)"
  shows "length lines' = length lines \<and> (\<not> c \<longrightarrow> lines' = lines) \<and> (\<forall>j. j \<noteq> d \<longrightarrow> tag_line p \<noteq> Some j \<longrightarrow> lines' ! j = lines ! j)"
  using assms
  by (auto simp: rewrite_separate_def elim!: bindE split: option.splits if_splits dest!: put_line_frame)

lemma rewrite_tag_frame:
  assumes "rewrite_tag lines p ref digest = Some (lines', c)"
  shows "length lines' = length lines \<and> (\<not> c \<longrightarrow> lines' = lines) \<and> (\<forall>j. tag_line p \<noteq> Some j \<longrightarrow> lines' ! j = lines ! j)"
  using assms by (auto simp: rewrite_tag_def Let_def elim!: bindE split: option.splits if_splits)

text \<open>A rewrite is local: it keeps the number of lines and every line other than the tag line and the
  digest line of the pin, and when it reports no change the lines are the same.\<close>

lemma rewrite_pin_frame:
  assumes "rewrite_pin lines p ref digest = Some (lines', c)"
  shows "length lines' = length lines \<and> (\<not> c \<longrightarrow> lines' = lines)
    \<and> (\<forall>j. tag_line p \<noteq> Some j \<and> digest_line p \<noteq> Some j \<longrightarrow> lines' ! j = lines ! j)"
proof -
  from assms consider "rewrite_tag lines p ref digest = Some (lines', c)"
    | d where "digest_line p = Some d" "rewrite_separate lines p d ref digest = Some (lines', c)"
    by (auto simp: rewrite_pin_def Let_def elim!: bindE split: option.splits if_splits)
  then show ?thesis
  proof cases
    case 1
    from rewrite_tag_frame [OF this] show ?thesis by blast
  next
    case 2
    from rewrite_separate_frame [OF this(2)] this(1) show ?thesis by (metis option.inject)
  qed
qed

text \<open>The reference that a rewrite records: the new one when one is given, else the old one.\<close>

definition kept_ref :: "string option \<Rightarrow> string \<Rightarrow> string" where
  "kept_ref ref r = (case ref of Some n \<Rightarrow> if n = [] then r else n | None \<Rightarrow> r)"

lemma split_once_first [simp]: "c \<notin> set r \<Longrightarrow> split_once c (r @ c # d) = (r, Some d)"
  by (induction r) auto

definition digest_unused :: "string list \<Rightarrow> pin \<Rightarrow> bool" where
  "digest_unused lines p = (case digest_line p of None \<Rightarrow> True
     | Some j \<Rightarrow> j < length lines \<and> (case line_value ''digest'' (lines ! j) of None \<Rightarrow> True | Some v \<Rightarrow> strip v = []))"

text \<open>The combined shape: on a tag line \<^verbatim>\<open>tag: "ref@digest"\<close> whose pin has no digest key in use, the rewrite
  returns, replaces the value by the recorded reference, \<^verbatim>\<open>@\<close> and the new digest, keeps the indentation and
  the rest of the line with its comment, and reports a change exactly when the value differs.\<close>

lemma combined_shape:
  assumes "tag_line p = Some t" and "t < length lines" and "lines ! t = pin_line ''tag'' ind sp (r @ CHR ''@'' # d) rest"
    and parts: "plain_parts ind sp (r @ CHR ''@'' # d) rest" and "CHR ''@'' \<notin> set r" and "digest_unused lines p"
  shows "rewrite_pin lines p ref digest =
    (let v = kept_ref ref r @ CHR ''@'' # digest in Some (lines[t := pin_line ''tag'' ind sp v rest], v \<noteq> r @ CHR ''@'' # d))"
proof -
  have tv: "line_value ''tag'' (lines ! t) = Some (r @ CHR ''@'' # d)" using line_value_pin [OF _ parts] assms(3) by simp
  have rep: "py_replace (quote # r @ CHR ''@'' # d @ [quote]) (quote # x @ CHR ''@'' # digest @ [quote]) (pin_line ''tag'' ind sp (r @ CHR ''@'' # d) rest)
      = pin_line ''tag'' ind sp (x @ CHR ''@'' # digest) rest" for x
    using py_replace_pin [OF _ parts, of "''tag''" "x @ CHR ''@'' # digest"] by simp
  have "rewrite_pin lines p ref digest = rewrite_tag lines p ref digest"
    using assms(1,2,6) tv
    by (auto simp: rewrite_pin_def opt_value_def line_at_def digest_unused_def Let_def split: option.splits)
  also have "\<dots> = (let v = kept_ref ref r @ CHR ''@'' # digest in Some (lines[t := pin_line ''tag'' ind sp v rest], v \<noteq> r @ CHR ''@'' # d))"
    using assms(1,2,5) tv list_update_id [of lines t]
    by (auto simp: rewrite_tag_def line_at_def kept_ref_def Let_def assms(3) rep split: option.splits)
  finally show ?thesis .
qed

lemma put_line_pin:
  assumes "i < length lines" and "lines ! i = pin_line key ind sp v rest" and "wf_key key" and "plain_parts ind sp v rest"
  shows "put_line lines key i x = Some (lines[i := pin_line key ind sp x rest], x \<noteq> v)"
proof -
  have "pin_line key ind sp x rest = pin_line key ind sp v rest \<longleftrightarrow> x = v" by (auto simp: pin_line_def)
  then show ?thesis using put_value_pin [OF assms(3,4), of x] assms(1,2) list_update_id [of lines i]
    by (auto simp: put_line_def line_at_def Let_def)
qed

text \<open>The separate shape: on a pin with a digest line in use and a tag line, a rewrite with a reference
  writes the digest into the digest line and the reference into the tag line, keeps the rest of both lines,
  and reports a change exactly when one of the values differs.\<close>

lemma separate_shape:
  assumes "digest_line p = Some j" and "j < length lines" and "lines ! j = pin_line ''digest'' ind sp d rest" and dp: "plain_parts ind sp d rest"
    and "strip d \<noteq> []"
    and "tag_line p = Some t" and "t < length lines" and "lines ! t = pin_line ''tag'' ind' sp' v rest'" and tp: "plain_parts ind' sp' v rest'"
    and "t \<noteq> j" and "n \<noteq> []"
  shows "rewrite_pin lines p (Some n) digest =
    Some (lines[j := pin_line ''digest'' ind sp digest rest, t := pin_line ''tag'' ind' sp' n rest'], digest \<noteq> d \<or> n \<noteq> v)"
proof -
  have "line_value ''digest'' (lines ! j) = Some d" using line_value_pin [OF _ dp] assms(3) by simp
  then have "rewrite_pin lines p (Some n) digest = rewrite_separate lines p j (Some n) digest"
    using assms(1,2,5,6,7) by (simp add: rewrite_pin_def opt_value_def line_at_def Let_def)
  moreover have "put_line lines ''digest'' j digest = Some (lines[j := pin_line ''digest'' ind sp digest rest], digest \<noteq> d)"
    using put_line_pin [OF assms(2,3) _ dp] by simp
  moreover have "put_line (lines[j := pin_line ''digest'' ind sp digest rest]) ''tag'' t n
      = Some (lines[j := pin_line ''digest'' ind sp digest rest, t := pin_line ''tag'' ind' sp' n rest'], n \<noteq> v)"
    using put_line_pin [of t "lines[j := pin_line ''digest'' ind sp digest rest]", OF _ _ _ tp] assms(7,8,10) by simp
  ultimately show ?thesis using assms(6,11) by (simp add: rewrite_separate_def)
qed

text \<open>Re-pinning is exact and idempotent: on a tag line \<^verbatim>\<open>tag: "ref@digest"\<close> whose pin has no digest key in use, the
  rewrite returns, replaces the value by the recorded reference, \<^verbatim>\<open>@\<close> and the new digest, keeps the
  indentation, the rest of the line with its comment and all other lines, reports a change exactly when the
  value differs, and a second rewrite with the same reference and digest changes nothing.\<close>

theorem rewrite_combined:
  assumes "tag_line p = Some t" and "t < length lines" and "lines ! t = pin_line ''tag'' ind sp (r @ CHR ''@'' # d) rest"
    and parts: "plain_parts ind sp (r @ CHR ''@'' # d) rest" and "CHR ''@'' \<notin> set r" and "digest_unused lines p" and "digest_line p \<noteq> Some t"
    and new: "CHR ''@'' \<notin> set (kept_ref ref r)" "quote \<notin> set (kept_ref ref r)" "quote \<notin> set digest"
  shows "let v = kept_ref ref r @ CHR ''@'' # digest; lines' = lines[t := pin_line ''tag'' ind sp v rest]
    in rewrite_pin lines p ref digest = Some (lines', v \<noteq> r @ CHR ''@'' # d) \<and> rewrite_pin lines' p ref digest = Some (lines', False)"
proof -
  let ?v = "kept_ref ref r @ CHR ''@'' # digest"
  let ?l = "lines[t := pin_line ''tag'' ind sp ?v rest]"
  have "plain_parts ind sp ?v rest" using parts new by (auto simp: plain_parts_def)
  moreover have "digest_unused ?l p" using assms(6,7) by (auto simp: digest_unused_def split: option.splits)
  moreover have "kept_ref ref (kept_ref ref r) = kept_ref ref r" by (auto simp: kept_ref_def split: option.splits)
  ultimately have "rewrite_pin ?l p ref digest = Some (?l, False)"
    using combined_shape [OF assms(1), of ?l ind sp "kept_ref ref r" digest rest ref digest] assms(2) new(1) by (simp add: Let_def)
  then show ?thesis using combined_shape [OF assms(1-6)] by (simp add: Let_def)
qed

section \<open>What the commands do to the files\<close>

text \<open>The text of a file after its turn in \<^verbatim>\<open>cmd_bump\<close>; it depends on the file alone.\<close>

definition bumped :: "string \<Rightarrow> string option \<Rightarrow> string \<Rightarrow> files \<Rightarrow> string \<Rightarrow> string option option" where
  "bumped img ref digest fs path = (case load fs path of None \<Rightarrow> Some (fs path)
     | Some lines \<Rightarrow> (let pins = filter (\<lambda>p. pin_image p = img) (find_pins lines path) in
         if pins = [] then Some (fs path)
         else do { (lines1, c) \<leftarrow> any_rewrite ref digest pins lines; Some (if c then Some (concat lines1) else fs path) }))"

definition pins_image :: "string \<Rightarrow> files \<Rightarrow> string \<Rightarrow> bool" where
  "pins_image img fs path = (\<exists>lines. load fs path = Some lines \<and> img \<in> pin_image ` set (find_pins lines path))"

lemma filter_pins_empty: "filter (\<lambda>p. pin_image p = img) ps = [] \<longleftrightarrow> img \<notin> pin_image ` set ps"
  by (auto simp: filter_empty_conv)

lemma bump_file_step:
  assumes "bump_file img ref digest path (fs, touched, found) = Some (fs1, touched1, found1)"
  shows "bumped img ref digest fs path = Some (fs1 path)" and "fs1 = fs(path := fs1 path)" and "found1 \<longleftrightarrow> found \<or> pins_image img fs path"
    and "\<not> pins_image img fs path \<Longrightarrow> fs1 = fs"
  using assms by (auto simp: bump_file_def bumped_def pins_image_def Let_def save_def filter_pins_empty elim!: bindE split: option.splits if_splits)

lemma bumped_other:
  assumes "fs' path = fs path"
  shows "bumped img ref digest fs' path = bumped img ref digest fs path \<and> pins_image img fs' path = pins_image img fs path"
  unfolding bumped_def pins_image_def load_def assms by simp

lemma bump_files:
  assumes "mfold (bump_file img ref digest) paths (fs, touched, found) = Some (fs1, touched1, found1)" and "distinct paths"
  shows "(\<forall>path \<in> set paths. bumped img ref digest fs path = Some (fs1 path)) \<and> (\<forall>path. path \<notin> set paths \<longrightarrow> fs1 path = fs path)
    \<and> (found1 \<longleftrightarrow> found \<or> (\<exists>path \<in> set paths. pins_image img fs path)) \<and> ((\<forall>path \<in> set paths. \<not> pins_image img fs path) \<longrightarrow> fs1 = fs)"
  using assms
proof (induction paths arbitrary: fs touched found)
  case (Cons path paths)
  then obtain fs2 t2 f2 where step: "bump_file img ref digest path (fs, touched, found) = Some (fs2, t2, f2)"
    and rest: "mfold (bump_file img ref digest) paths (fs2, t2, f2) = Some (fs1, touched1, found1)" by (auto elim!: bindE)
  note s = bump_file_step [OF step]
  have other: "q \<noteq> path \<Longrightarrow> fs2 q = fs q" for q using s(2) by (metis fun_upd_other)
  have "path \<notin> set paths" using Cons.prems(2) by simp
  then have same: "bumped img ref digest fs2 q = bumped img ref digest fs q \<and> pins_image img fs2 q = pins_image img fs q" if "q \<in> set paths" for q
    using that other [of q] by (intro bumped_other) metis
  have ih: "(\<forall>path \<in> set paths. bumped img ref digest fs2 path = Some (fs1 path)) \<and> (\<forall>path. path \<notin> set paths \<longrightarrow> fs1 path = fs2 path)
    \<and> (found1 \<longleftrightarrow> f2 \<or> (\<exists>path \<in> set paths. pins_image img fs2 path)) \<and> ((\<forall>path \<in> set paths. \<not> pins_image img fs2 path) \<longrightarrow> fs1 = fs2)"
    using Cons.IH [OF rest] Cons.prems(2) by simp
  then have "fs1 path = fs2 path" using \<open>path \<notin> set paths\<close> by blast
  then have "bumped img ref digest fs path = Some (fs1 path)" using s(1) by simp
  then show ?case using ih same other s(3,4) by (intro conjI) auto
qed simp

lemma distinct_PIN_FILES: "distinct PIN_FILES"
  by code_simp

text \<open>C30. The exit codes of a bump: 1 exactly for what is not a digest, 2 exactly when no values file holds a
  pin of the image, and in both cases no file changes; files that are not listed never change.\<close>

theorem bump_exit_codes:
  assumes "cmd_bump img ref digest fs = Some (fs', rc)"
  shows "(rc = 1 \<longleftrightarrow> \<not> DIGEST_RE digest) \<and> (rc = 2 \<longleftrightarrow> DIGEST_RE digest \<and> (\<forall>path \<in> set PIN_FILES. \<not> pins_image img fs path))
    \<and> (rc \<noteq> 0 \<longrightarrow> fs' = fs) \<and> (\<forall>path. path \<notin> set PIN_FILES \<longrightarrow> fs' path = fs path)"
proof (cases "DIGEST_RE digest")
  case True
  with assms obtain touched found where
    m: "mfold (bump_file img ref digest) PIN_FILES (fs, [], False) = Some (fs', touched, found)" and rc: "rc = (if found then 0 else 2)"
    by (auto simp: cmd_bump_def elim!: bindE)
  from bump_files [OF m distinct_PIN_FILES] rc True show ?thesis by auto
qed (use assms in \<open>simp add: cmd_bump_def\<close>)

text \<open>What the first pin of the image that changes does to its file.\<close>

lemma bump_first_pin:
  assumes "cmd_bump img ref digest fs = Some (fs', 0)" and "path \<in> set PIN_FILES" and "load fs path = Some lines"
    and "filter (\<lambda>p. pin_image p = img) (find_pins lines path) = p # ps" and "rewrite_pin lines p ref digest = Some (lines1, True)"
  shows "fs' path = Some (concat lines1)"
proof -
  from assms(1) obtain touched found where
    "mfold (bump_file img ref digest) PIN_FILES (fs, [], False) = Some (fs', touched, found)"
    by (auto simp: cmd_bump_def elim!: bindE split: if_splits)
  from bump_files [OF this distinct_PIN_FILES] assms(2) have "bumped img ref digest fs path = Some (fs' path)" by blast
  then show ?thesis using assms(3-5) by (simp add: bumped_def)
qed

text \<open>C0. One pin is re-pins_image: when a values file has one pin of the image, on a combined tag line, and the
  bump succeeds, the file then holds its lines with the new reference and digest on the tag line and nothing
  else changed.\<close>

theorem bump_repins:
  assumes "cmd_bump img ref digest fs = Some (fs', 0)" and "path \<in> set PIN_FILES" and "load fs path = Some lines"
    and "filter (\<lambda>p. pin_image p = img) (find_pins lines path) = [p]"
    and "tag_line p = Some t" and "t < length lines" and "lines ! t = pin_line ''tag'' ind sp (r @ CHR ''@'' # d) rest"
    and "plain_parts ind sp (r @ CHR ''@'' # d) rest" and "CHR ''@'' \<notin> set r" and "digest_unused lines p" and "digest \<noteq> d \<or> kept_ref ref r \<noteq> r"
    and "CHR ''@'' \<notin> set (kept_ref ref r)"
  shows "fs' path = Some (concat (lines[t := pin_line ''tag'' ind sp (kept_ref ref r @ CHR ''@'' # digest) rest]))"
proof -
  have "kept_ref ref r @ CHR ''@'' # digest \<noteq> r @ CHR ''@'' # d"
    using assms(9,11,12) by (metis split_once_first prod.inject option.inject)
  then show ?thesis using combined_shape [OF assms(5-10), of ref digest] by (intro bump_first_pin [OF assms(1-4)]) (simp add: Let_def)
qed

section \<open>A file with two pins of one image\<close>

definition old_digest :: string where
  "old_digest = ''sha256:'' @ replicate 64 (CHR ''0'')"

definition new_digest :: string where
  "new_digest = ''sha256:'' @ replicate 64 (CHR ''a'')"

definition gibson_tag :: "string \<Rightarrow> string" where
  "gibson_tag digest = pin_line ''tag'' ''  '' '' '' (''main'' @ CHR ''@'' # digest) [CHR 0x0A]"

definition twin_lines :: "string list" where
  "twin_lines = [''daemon:'' @ [CHR 0x0A], ''  repository: ghcr.io/zeroroot-ai/gibson'' @ [CHR 0x0A], gibson_tag old_digest,
     ''trainer:'' @ [CHR 0x0A], ''  repository: ghcr.io/zeroroot-ai/gibson'' @ [CHR 0x0A], gibson_tag old_digest]"

definition twin_files :: "string list \<Rightarrow> files" where
  "twin_files lines path = (if path = ''helm/gibson/values.yaml'' then Some (concat lines) else None)"

lemma twin_load: "load (twin_files twin_lines) ''helm/gibson/values.yaml'' = Some twin_lines"
  by code_simp

lemma twin_pins:
  "find_pins twin_lines ''helm/gibson/values.yaml'' = map (\<lambda>i. \<lparr>pin_path = ''helm/gibson/values.yaml'', pin_image = ''gibson'', repo_line = i,
     tag_line = Some (i + 1), digest_line = None\<rparr>) [1, 4]"
  by code_simp

lemma twin_rewrite:
  "rewrite_pin twin_lines (hd (find_pins twin_lines ''helm/gibson/values.yaml'')) None new_digest = Some (twin_lines[2 := gibson_tag new_digest], True)"
proof -
  let ?p = "hd (find_pins twin_lines ''helm/gibson/values.yaml'')"
  have "plain_parts ''  '' '' '' (''main'' @ CHR ''@'' # old_digest) [CHR 0x0A]" "CHR ''@'' \<notin> set ''main''" by code_simp+
  moreover have "new_digest \<noteq> old_digest" by code_simp
  moreover have "tag_line ?p = Some 2" "digest_unused twin_lines ?p" by (simp_all add: twin_pins digest_unused_def)
  moreover have "2 < length twin_lines" "twin_lines ! 2 = pin_line ''tag'' ''  '' '' '' (''main'' @ CHR ''@'' # old_digest) [CHR 0x0A]"
    by (simp_all add: twin_lines_def gibson_tag_def)
  ultimately show ?thesis
    using combined_shape [of ?p 2 twin_lines "''  ''" "'' ''" "''main''" old_digest "[CHR 0x0A]" None new_digest]
    by (simp add: kept_ref_def gibson_tag_def)
qed

lemma new_digest_ok: "DIGEST_RE new_digest"
  by code_simp


section \<open>A file with one pin\<close>

definition one_lines :: "string list" where
  "one_lines = [''daemon:'' @ [CHR 0x0A], ''  repository: ghcr.io/zeroroot-ai/gibson'' @ [CHR 0x0A], gibson_tag old_digest]"

definition one_pin :: pin where
  "one_pin = \<lparr>pin_path = ''helm/gibson/values.yaml'', pin_image = ''gibson'', repo_line = 1, tag_line = Some 2, digest_line = None\<rparr>"

lemma one_load: "load (twin_files one_lines) ''helm/gibson/values.yaml'' = Some one_lines"
  by code_simp

lemma one_pins: "find_pins one_lines ''helm/gibson/values.yaml'' = [one_pin]"
  by code_simp

lemma one_shape:
  "tag_line one_pin = Some 2" "2 < length one_lines" "one_lines ! 2 = pin_line ''tag'' ''  '' '' '' (''main'' @ CHR ''@'' # old_digest) [CHR 0x0A]"
  "plain_parts ''  '' '' '' (''main'' @ CHR ''@'' # old_digest) [CHR 0x0A]" "CHR ''@'' \<notin> set ''main''" "digest_unused one_lines one_pin"
  by (simp_all add: one_pin_def one_lines_def gibson_tag_def digest_unused_def) code_simp+

lemma digests_differ: "new_digest \<noteq> old_digest"
  by code_simp

lemma one_other: "path \<noteq> ''helm/gibson/values.yaml'' \<Longrightarrow> load (twin_files lines) path = None"
  by (simp add: load_def twin_files_def)

lemma one_rewrite: "rewrite_pin one_lines one_pin None new_digest = Some (one_lines[2 := gibson_tag new_digest], True)"
  using combined_shape [OF one_shape, of None new_digest] digests_differ by (simp add: kept_ref_def gibson_tag_def)

theorem rewrite_combined_witness:
  "rewrite_pin one_lines one_pin None new_digest = Some (one_lines[2 := gibson_tag new_digest], True)
   \<and> rewrite_pin (one_lines[2 := gibson_tag new_digest]) one_pin None new_digest = Some (one_lines[2 := gibson_tag new_digest], False)"
proof -
  have "quote \<notin> set (kept_ref None ''main'')" "CHR ''@'' \<notin> set (kept_ref None ''main'')" "quote \<notin> set new_digest" "digest_line one_pin \<noteq> Some 2"
    by code_simp+
  then show ?thesis using rewrite_combined [OF one_shape, of None new_digest] digests_differ by (simp add: Let_def kept_ref_def gibson_tag_def)
qed

lemma one_bump: "cmd_bump ''gibson'' None new_digest (twin_files one_lines) = Some (twin_files (one_lines[2 := gibson_tag new_digest]), 0)"
proof -
  let ?path = "''helm/gibson/values.yaml''"
  have "save (twin_files xs) ?path ys = twin_files ys" for xs ys by (simp add: save_def twin_files_def fun_eq_iff)
  moreover have "pin_image one_pin = ''gibson''" by (simp add: one_pin_def)
  ultimately have "bump_file ''gibson'' None new_digest ?path (twin_files one_lines, [], False)
      = Some (twin_files (one_lines[2 := gibson_tag new_digest]), [?path], True)"
    by (simp add: bump_file_def one_load one_pins one_rewrite)
  then show ?thesis
    by (simp add: cmd_bump_def new_digest_ok PIN_FILES_def bump_file_def [of _ _ _ "''helm/gibson-operators/values.yaml''"]
        bump_file_def [of _ _ _ "''helm/gibson-workloads/values.yaml''"] one_other)
qed

theorem bump_repins_witness:
  "\<exists>fs. fs ''helm/gibson/values.yaml'' = Some (concat (one_lines[2 := gibson_tag new_digest]))"
proof -
  have "''helm/gibson/values.yaml'' \<in> set PIN_FILES" by (simp add: PIN_FILES_def)
  moreover have "filter (\<lambda>p. pin_image p = ''gibson'') (find_pins one_lines ''helm/gibson/values.yaml'') = [one_pin]"
    by (simp add: one_pins one_pin_def)
  moreover have "CHR ''@'' \<notin> set (kept_ref None ''main'')" by code_simp
  ultimately show ?thesis
    using bump_repins [OF one_bump _ one_load _ one_shape] digests_differ by (auto simp: kept_ref_def gibson_tag_def)
qed

theorem bump_exit_codes_witness:
  "\<not> pins_image ''nope'' (twin_files one_lines) ''helm/gibson/values.yaml''"
proof -
  have "pin_image one_pin = ''gibson''" by (simp add: one_pin_def)
  then have "cmd_bump ''nope'' None new_digest (twin_files one_lines) = Some (twin_files one_lines, 2)"
    by (simp add: cmd_bump_def new_digest_ok PIN_FILES_def bump_file_def one_other one_load one_pins)
  from bump_exit_codes [OF this] show ?thesis by (simp add: PIN_FILES_def)
qed

section \<open>The selftest passes on its fixture\<close>

definition fixture_lines :: "string list" where
  "fixture_lines = map (\<lambda>l. l @ [CHR 0x0A]) fixture_rows"

lemma fixture_split: "split_keep [] SELFTEST_FIXTURE = fixture_lines"
  by code_simp

lemma fixture_pins:
  "find_pins fixture_lines ''fixture'' =
     [\<lparr>pin_path = ''fixture'', pin_image = ''gibson'', repo_line = 5, tag_line = Some 7, digest_line = None\<rparr>,
      \<lparr>pin_path = ''fixture'', pin_image = ''docs-site'', repo_line = 11, tag_line = Some 12, digest_line = Some 13\<rparr>]"
  by code_simp

definition noted_tag :: "string \<Rightarrow> string" where
  "noted_tag v = pin_line ''tag'' ''  '' '' '' v (''  # trailing note'' @ [CHR 0x0A])"

definition docs_line :: "string \<Rightarrow> string \<Rightarrow> string" where
  "docs_line key v = pin_line key ''    '' '' '' v [CHR 0x0A]"

definition ones_digest :: string where
  "ones_digest = ''sha256:'' @ replicate 64 (CHR ''1'')"

lemma fixture_nth:
  "length fixture_lines = 18" "fixture_lines ! 7 = noted_tag (''sha-old'' @ CHR ''@'' # old_digest)"
  "fixture_lines ! 12 = docs_line ''tag'' ''oldcommit''" "fixture_lines ! 13 = docs_line ''digest'' ones_digest"
  by code_simp+

lemma fixture_gibson:
  assumes "p = \<lparr>pin_path = ''fixture'', pin_image = ''gibson'', repo_line = 5, tag_line = Some 7, digest_line = None\<rparr>"
  shows "rewrite_pin fixture_lines p (Some ''sha-new'') new_digest = Some (fixture_lines[7 := noted_tag (''sha-new'' @ CHR ''@'' # new_digest)], True)"
proof -
  have "plain_parts ''  '' '' '' (''sha-old'' @ CHR ''@'' # old_digest) (''  # trailing note'' @ [CHR 0x0A])" "CHR ''@'' \<notin> set ''sha-old''" by code_simp+
  moreover have "tag_line p = Some 7" "digest_unused fixture_lines p" by (simp_all add: assms digest_unused_def)
  moreover have "''sha-new'' @ CHR ''@'' # new_digest \<noteq> ''sha-old'' @ CHR ''@'' # old_digest" by code_simp
  ultimately show ?thesis
    using combined_shape [of p 7 fixture_lines "''  ''" "'' ''" "''sha-old''" old_digest "''  # trailing note'' @ [CHR 0x0A]" "Some ''sha-new''" new_digest]
      fixture_nth by (simp add: kept_ref_def noted_tag_def Let_def)
qed

lemma fixture_docs:
  assumes "p = \<lparr>pin_path = ''fixture'', pin_image = ''docs-site'', repo_line = 11, tag_line = Some 12, digest_line = Some 13\<rparr>"
    and "length lines = 18" and "lines ! 12 = docs_line ''tag'' v" and "lines ! 13 = docs_line ''digest'' d"
    and "quote \<notin> set v" and "quote \<notin> set d" and "strip d \<noteq> []"
  shows "rewrite_pin lines p (Some ''newcommit'') new_digest =
    Some (lines[13 := docs_line ''digest'' new_digest, 12 := docs_line ''tag'' ''newcommit''], new_digest \<noteq> d \<or> ''newcommit'' \<noteq> v)"
proof -
  have "list_all py_space ''    ''" "list_all py_space '' ''" by code_simp+
  then have "plain_parts ''    '' '' '' d [CHR 0x0A]" "plain_parts ''    '' '' '' v [CHR 0x0A]" using assms(5,6) by (simp_all add: plain_parts_def)
  then show ?thesis using separate_shape [of p 13 lines "''    ''" "'' ''" d "[CHR 0x0A]" 12 "''    ''" "'' ''" v "[CHR 0x0A]" "''newcommit''" new_digest] assms
    by (simp add: docs_line_def)
qed

lemma bare_rewrite:
  assumes "p = \<lparr>pin_path = ''f'', pin_image = ''gibson'', repo_line = 0, tag_line = Some 1, digest_line = None\<rparr>"
  shows "rewrite_pin bare_lines p ref digest = Some (bare_lines, False)"
proof -
  have l: "bare_lines ! 1 = pin_line ''tag'' ''  '' '' '' ''main'' [CHR 0x0A]" "length bare_lines = 2" by code_simp+
  have "plain_parts ''  '' '' '' ''main'' [CHR 0x0A]" by code_simp
  from line_value_pin [OF _ this, of "''tag''"] show ?thesis
    by (simp add: rewrite_pin_def rewrite_tag_def opt_value_def line_at_def assms l l [simplified])
qed

lemma bare_pins: "find_pins bare_lines ''f'' = [\<lparr>pin_path = ''f'', pin_image = ''gibson'', repo_line = 0, tag_line = Some 1, digest_line = None\<rparr>]"
  by code_simp

text \<open>The ten checks of the selftest that do not read the repository hold.\<close>

lemma fixture_checks_hold: "fixture_checks = Some (replicate 10 True)"
proof -
  define l1 where "l1 = fixture_lines[7 := noted_tag (''sha-new'' @ CHR ''@'' # new_digest)]"
  define l2 where "l2 = l1[13 := docs_line ''digest'' new_digest, 12 := docs_line ''tag'' ''newcommit'']"
  have len: "length l1 = 18" "length l2 = 18" by (simp_all add: l1_def l2_def fixture_nth)
  have at: "l1 ! 7 = noted_tag (''sha-new'' @ CHR ''@'' # new_digest)" "l1 ! 12 = docs_line ''tag'' ''oldcommit''" "l1 ! 13 = docs_line ''digest'' ones_digest"
      "l2 ! 12 = docs_line ''tag'' ''newcommit''" "l2 ! 13 = docs_line ''digest'' new_digest"
    by (simp_all add: l1_def l2_def fixture_nth)
  have same: "l2[13 := docs_line ''digest'' new_digest, 12 := docs_line ''tag'' ''newcommit''] = l2"
    using list_update_id [of l2 13] list_update_id [of l2 12] by (simp add: at)
  have plain: "quote \<notin> set ones_digest" "strip ones_digest \<noteq> []" "quote \<notin> set ''oldcommit''" "quote \<notin> set new_digest" "strip new_digest \<noteq> []"
      "quote \<notin> set ''newcommit''" "new_digest \<noteq> ones_digest" by code_simp+
  have new: "''sha256:'' @ replicate 64 (CHR ''a'') = new_digest" by (simp add: new_digest_def)
  have r1: "rewrite_pin fixture_lines \<lparr>pin_path = ''fixture'', pin_image = ''gibson'', repo_line = 5, tag_line = Some 7, digest_line = None\<rparr> (Some ''sha-new'') new_digest = Some (l1, True)"
    using fixture_gibson [OF refl] by (simp add: l1_def)
  let ?doc = "\<lparr>pin_path = ''fixture'', pin_image = ''docs-site'', repo_line = 11, tag_line = Some 12, digest_line = Some 13\<rparr>"
  have r2: "rewrite_pin l1 ?doc (Some ''newcommit'') new_digest = Some (l2, True)" and r3: "rewrite_pin l2 ?doc (Some ''newcommit'') new_digest = Some (l2, False)"
    using fixture_docs [OF refl len(1) at(2,3)] fixture_docs [OF refl len(2) at(4,5)] plain same by (simp_all add: l2_def [symmetric])
  have lines: "line_at l1 7 = Some (l1 ! 7)" "line_at l2 13 = Some (l2 ! 13)" "line_at l2 12 = Some (l2 ! 12)" by (simp_all add: line_at_def len)
  have ten: "replicate 10 True = [True, True, True, True, True, True, True, True, True, True]" by code_simp
  have texts: "sublist (quote # ''sha-new@'' @ new_digest @ [quote]) (noted_tag (''sha-new'' @ CHR ''@'' # new_digest))"
      "sublist ''# trailing note'' (noted_tag (''sha-new'' @ CHR ''@'' # new_digest))"
      "sublist (''digest: '' @ quote # new_digest @ [quote]) (docs_line ''digest'' new_digest)"
      "sublist (''tag: '' @ quote # ''newcommit'' @ [quote]) (docs_line ''tag'' ''newcommit'')"
      "sort [''gibson'', ''docs-site''] = [''docs-site'', ''gibson'']"
    by code_simp+
  show ?thesis
    unfolding fixture_checks_def new fixture_split Let_def fixture_pins bare_pins next_pin_def ten
    by (simp add: r1 r2 r3 lines at texts [simplified] bare_rewrite)
qed

end
