(* ===== verification/BumpResolve.thy ===== *)
theory BumpResolve
  imports BumpImage
begin

text \<open>
  The package-time mode of \<^verbatim>\<open>src/scripts/bump-image-digest.py\<close> (\<^verbatim>\<open>--resolve-all --require\<close>). The theory proves that the
  pins of a file own disjoint lines, so that the rewrites of the loop do not disturb each other, and
  that after a run that exits with 0 every combined pin of every values file holds the digest that the
  registry gives for its reference, and no other line changed.
\<close>

section \<open>A repository line opens a mapping\<close>

text \<open>The numbers of the groups of an expression; matching leaves the other groups alone.\<close>

fun group_nums :: "re \<Rightarrow> nat set" where
  "group_nums (Seq r q) = group_nums r \<union> group_nums q"
| "group_nums (Alt r q) = group_nums r \<union> group_nums q"
| "group_nums (Star r) = group_nums r"
| "group_nums (Lazy r) = group_nums r"
| "group_nums (Grp n r) = insert n (group_nums r)"
| "group_nums (Ahead b r) = group_nums r"
| "group_nums _ = {}"

lemma mt_Star_groups:
  assumes "\<And>l s g l' s' g'. (l', s', g') \<in> set (mt r (l, s, g)) \<Longrightarrow> map_of g' n = map_of g n"
  shows "(l', s', g') \<in> set (mt (Star r) (l, s, g)) \<Longrightarrow> map_of g' n = map_of g n"
proof (induction "length s" arbitrary: l s g rule: less_induct)
  case less
  from less.prems [unfolded mt_Star_iff [of _ r l s g]] show ?case
  proof (elim disjE exE conjE)
    fix l1 s1 g1 assume "(l1, s1, g1) \<in> set (mt r (l, s, g))" "length s1 < length s" "(l', s', g') \<in> set (mt (Star r) (l1, s1, g1))"
    then show ?thesis using less.hyps assms by metis
  qed simp
qed

lemma mt_groups: "n \<notin> group_nums r \<Longrightarrow> (l', s', g') \<in> set (mt r (l, s, g)) \<Longrightarrow> map_of g' n = map_of g n"
proof (induction r arbitrary: l s g l' s' g')
  case (Seq r q)
  then obtain l1 s1 g1 where "(l1, s1, g1) \<in> set (mt r (l, s, g))" "(l', s', g') \<in> set (mt q (l1, s1, g1))" by auto
  then show ?case using Seq.IH [of l1 s1 g1] Seq.IH(2) [of l' s' g' l1 s1 g1] Seq.prems(1) by (metis UnCI group_nums.simps(1))
next
  case (Star r)
  with mt_Star_groups [of r n l' s' g' l s g] show ?case by simp
next
  case (Lazy r)
  with mt_Star_groups [of r n l' s' g' l s g] show ?case by (simp add: set_mt_Lazy)
next
  case (Grp m r)
  then show ?case by (auto simp: update_conv')
next
  case (Set b cs)
  then show ?case by (cases s) (auto split: if_splits)
qed (auto split: if_splits list.splits)

lemma spaces_places:
  assumes "(l', s', g') \<in> set (mt (Grp 1 Spaces) (l, s, g))"
  shows "\<exists>sp. list_all py_space sp \<and> s = sp @ s' \<and> map_of g' 1 = Some sp"
proof -
  from assms obtain g0 where m: "(l', s', g0) \<in> set (mt Spaces (l, s, g))" and g': "g' = AList.update 1 (take (length s - length s') s) g0" by auto
  have "plain Spaces" by simp
  from mt_sound [OF this m] obtain u where u: "u \<in> lang Spaces" "s = u @ s'" by blast
  have "list_all py_space w" if "w \<in> star {[c] | c. py_space c}" for w
    using that by induction auto
  then have "list_all py_space u" using u(1) by simp
  then show ?thesis using u(2) g' by (auto simp: update_conv')
qed

text \<open>A line that the \<^verbatim>\<open>repository:\<close> pattern matches.\<close>

lemma repo_line_shape:
  assumes "re_match repo_re line = Some (l, s, g)"
  shows "\<exists>sp t. list_all py_space sp \<and> line = sp @ ''repository:'' @ t \<and> grp 1 g = sp"
proof -
  let ?q = "Seqs [Spaces, Opt (Lit quote), Grp 2 (Seq (Str (PIN_REGISTRY @ ''/'')) (Plus (Set True [Word, Range (CHR ''.'') (CHR ''.''), Range (CHR ''/'') (CHR ''/''), Range (CHR ''-'') (CHR ''-'')]))),
     Opt (Lit quote), Spaces, Eot]"
  from assms have "(l, s, g) \<in> set (mt repo_re ([], line, []))" by (auto simp: re_match_def split: list.splits)
  then have "(l, s, g) \<in> set (mt (Seq (Grp 1 Spaces) (Seq (Str ''repository:'') ?q)) ([], line, []))" by (simp only: repo_re_def Seqs.simps)
  then obtain l1 s1 g1 l2 s2 g2 where a: "(l1, s1, g1) \<in> set (mt (Grp 1 Spaces) ([], line, []))"
      and b: "(l2, s2, g2) \<in> set (mt (Str ''repository:'') (l1, s1, g1))" and c: "(l, s, g) \<in> set (mt ?q (l2, s2, g2))"
    by (auto simp only: mt.simps(3) set_concat set_map UN_iff image_iff split_paired_Ex bex_simps)
  from spaces_places [OF a] obtain sp where sp: "list_all py_space sp" "line = sp @ s1" "map_of g1 1 = Some sp" by blast
  from b [unfolded mt_Str] have "prefix ''repository:'' s1" "g2 = g1" by (simp_all split: if_splits)
  moreover have "group_nums (Str w) = {}" for w by (induction w rule: Str.induct) (auto simp: Lit_def)
  then have "1 \<notin> group_nums ?q" by (simp add: Opt_def Plus_def Lit_def)
  from mt_groups [OF this c] have "map_of g 1 = map_of g2 1" .
  ultimately show ?thesis using sp by (auto simp: prefix_def grp_def re_group_def)
qed

lemma key_match:
  assumes "list_all py_space sp"
  shows "\<exists>l s. re_match key_re (sp @ ''repository:'' @ t) = Some (l, s, [(1, sp), (2, ''repository'')])"
proof -
  let ?w = "Set True [Word, Range (CHR ''.'') (CHR ''.''), Range (CHR ''-'') (CHR ''-'')]"
  have "\<not> py_space (CHR ''r'')" by code_simp
  then have "prefers (Grp 1 Spaces) ([], sp @ ''repository:'' @ t, []) (rev sp, ''repository:'' @ t, [(1, sp)])"
    using assms by (intro prefers_Grp [where w = sp and g' = "[]"] prefers_run) (auto simp: list_all_iff)
  moreover have word: "list_all is_word ''repository''" "\<not> is_word (CHR '':'')" by code_simp+
  have "prefers (Grp 2 (Plus ?w)) (rev sp, ''repository'' @ CHR '':'' # t, [(1, sp)]) (rev ''repository'' @ rev sp, CHR '':'' # t, [(1, sp), (2, ''repository'')])"
  proof (rule prefers_Grp)
    have "prefers ?w (rev sp, CHR ''r'' # ''epository'' @ CHR '':'' # t, [(1, sp)]) (CHR ''r'' # rev sp, ''epository'' @ CHR '':'' # t, [(1, sp)])"
      using word by (intro prefers_Set) simp
    moreover have "prefers (Star ?w) (CHR ''r'' # rev sp, ''epository'' @ CHR '':'' # t, [(1, sp)]) (rev ''epository'' @ CHR ''r'' # rev sp, CHR '':'' # t, [(1, sp)])"
      using word by (intro prefers_run) (auto simp: list_all_iff)
    ultimately have "prefers (Seq ?w (Star ?w)) (rev sp, CHR ''r'' # ''epository'' @ CHR '':'' # t, [(1, sp)]) (rev ''epository'' @ CHR ''r'' # rev sp, CHR '':'' # t, [(1, sp)])"
      by (rule prefers_Seq)
    then show "prefers (Plus ?w) (rev sp, ''repository'' @ CHR '':'' # t, [(1, sp)]) (rev ''repository'' @ rev sp, CHR '':'' # t, [(1, sp)])"
      by (simp add: Plus_def)
  qed simp
  ultimately have "prefers key_re ([], sp @ ''repository:'' @ t, []) (CHR '':'' # rev ''repository'' @ rev sp, t, [(1, sp), (2, ''repository'')])"
    unfolding key_re_def Seqs.simps by (intro prefers_Seq [OF _ prefers_Seq [OF _ prefers_Lit]]) simp_all
  then show ?thesis by (blast intro: prefers_re_match)
qed

section \<open>The pins of a file own disjoint lines\<close>

definition skipped :: "string \<Rightarrow> bool" where
  "skipped line = (list_all py_space line \<or> startswith (dropWhile py_space line) ''#'')"

definition has_key :: "nat \<Rightarrow> string \<Rightarrow> string \<Rightarrow> bool" where
  "has_key base key line = (\<not> skipped line \<and> (\<exists>l s g. re_match key_re line = Some (l, s, g) \<and> length (grp 1 g) = base \<and> grp 2 g = key))"

lemma has_key_unique: "has_key b k line \<Longrightarrow> has_key b' k' line \<Longrightarrow> b = b' \<and> k = k'"
  by (auto simp: has_key_def)

text \<open>A line that a scan found has its key, and no line before it opens another mapping of the same indentation.\<close>

definition found_at :: "nat \<Rightarrow> string \<Rightarrow> (nat \<times> string) list \<Rightarrow> nat \<Rightarrow> bool" where
  "found_at base key xs j = (\<exists>pre line post. xs = pre @ (j, line) # post \<and> has_key base key line
     \<and> (\<forall>x \<in> set pre. \<not> has_key base ''repository'' (snd x)))"

lemma found_at_Cons: "found_at base key xs j \<Longrightarrow> \<not> has_key base ''repository'' line \<Longrightarrow> found_at base key ((i, line) # xs) j"
  unfolding found_at_def by (elim exE conjE) (rule exI [of _ "(i, line) # pre" for pre], auto)

lemma found_at_hd: "has_key base key line \<Longrightarrow> found_at base key ((j, line) # xs) j"
  unfolding found_at_def by (rule exI [of _ "[]"]) auto

lemma scan_block_found:
  "scan_block base xs tag dig = (tag', dig') \<Longrightarrow>
     (tag' = tag \<or> (\<exists>j. tag' = Some j \<and> found_at base ''tag'' xs j)) \<and> (dig' = dig \<or> (\<exists>j. dig' = Some j \<and> found_at base ''digest'' xs j))"
proof (induction xs arbitrary: tag dig)
  case (Cons x rest)
  obtain j nxt where x: "x = (j, nxt)" by (cases x)
  note eq = Cons.prems [unfolded x scan_block.simps skipped_def [symmetric]]
  have step: ?case if "scan_block base rest t d = (tag', dig')" "\<not> has_key base ''repository'' nxt"
      "t = tag \<or> t = Some j \<and> has_key base ''tag'' nxt" "d = dig \<or> d = Some j \<and> has_key base ''digest'' nxt" for t d
    using Cons.IH [OF that(1)] that(2-) unfolding x by (metis found_at_Cons found_at_hd)
  show ?case
  proof (cases "skipped nxt")
    case True
    then show ?thesis using step [of tag dig] eq by (simp add: has_key_def)
  next
    case False
    show ?thesis
    proof (cases "re_match key_re nxt")
      case None
      then show ?thesis using eq False by simp
    next
      case (Some q)
      obtain l s g where q: "q = (l, s, g)" by (cases q)
      have key: "has_key b k nxt \<longleftrightarrow> b = length (grp 1 g) \<and> k = grp 2 g" for b k using False Some q by (auto simp: has_key_def)
      show ?thesis
        using eq False step [of tag dig] step [of "Some j" dig] step [of tag "Some j"]
        by (simp add: Some q Let_def key split: if_splits)
    qed
  qed
qed simp

definition owned_line :: "string list \<Rightarrow> nat \<Rightarrow> nat \<Rightarrow> string \<Rightarrow> nat \<Rightarrow> bool" where
  "owned_line lines i base key j = (i < j \<and> j < length lines \<and> has_key base key (lines ! j)
     \<and> (\<forall>k. i < k \<and> k < j \<longrightarrow> \<not> has_key base ''repository'' (lines ! k)))"

lemma found_at_owned:
  assumes "found_at base key (enumerate (i + 1) (drop (i + 1) lines)) j"
  shows "owned_line lines i base key j"
proof -
  let ?xs = "enumerate (i + 1) (drop (i + 1) lines)"
  from assms obtain pre line post where x: "?xs = pre @ (j, line) # post" "has_key base key line" "\<forall>x \<in> set pre. \<not> has_key base ''repository'' (snd x)"
    by (auto simp: found_at_def)
  have len: "length pre < length lines - (i + 1)" using arg_cong [OF x(1), of length] by simp
  have at: "?xs ! m = (i + 1 + m, lines ! (i + 1 + m))" if "m < length lines - (i + 1)" for m
    using that by (simp add: nth_enumerate_eq)
  have "?xs ! length pre = (j, line)" unfolding x(1) by simp
  with at [OF len] have j: "j = i + 1 + length pre" "line = lines ! j" by auto
  have "\<not> has_key base ''repository'' (lines ! k)" if "i < k" "k < j" for k
  proof -
    from that j(1) have m: "k - (i + 1) < length pre" by linarith
    then have "?xs ! (k - (i + 1)) \<in> set pre" unfolding x(1) by (simp add: nth_append)
    moreover have "?xs ! (k - (i + 1)) = (k, lines ! k)" using at [of "k - (i + 1)"] m len that(1) by simp
    ultimately show ?thesis using x(3) by force
  qed
  then show ?thesis using x(2) j len by (auto simp: owned_line_def)
qed

lemma repo_line_key:
  assumes "re_match repo_re line = Some (l, s, g)"
  shows "has_key (length (grp 1 g)) ''repository'' line"
proof -
  from repo_line_shape [OF assms] obtain sp t where sp: "list_all py_space sp" "line = sp @ ''repository:'' @ t" "grp 1 g = sp" by blast
  have r: "\<not> py_space (CHR ''r'')" by code_simp
  from key_match [OF sp(1), of t] obtain l' s' where "re_match key_re line = Some (l', s', [(1, sp), (2, ''repository'')])" unfolding sp(2) by blast
  moreover have "dropWhile py_space line = ''repository:'' @ t" using sp(1,2) r by (simp add: list_all_iff)
  then have "\<not> skipped line" using r sp(2) by (auto simp: skipped_def startswith_def)
  ultimately show ?thesis unfolding sp(3) by (simp add: has_key_def grp_def re_group_def)
qed

lemma pin_owns:
  assumes "p \<in> set (find_pins lines path)"
  shows "\<exists>base. repo_line p < length lines \<and> has_key base ''repository'' (lines ! repo_line p)
    \<and> (\<forall>j. tag_line p = Some j \<longrightarrow> owned_line lines (repo_line p) base ''tag'' j)
    \<and> (\<forall>j. digest_line p = Some j \<longrightarrow> owned_line lines (repo_line p) base ''digest'' j)"
proof -
  from assms obtain i where i: "i < length lines" "p \<in> set (pin_at lines path (i, lines ! i))"
    by (auto simp: find_pins_def in_set_enumerate_eq)
  then obtain l s g where m: "re_match repo_re (lines ! i) = Some (l, s, g)"
    by (cases "re_match repo_re (lines ! i)") (auto simp: pin_at_def)
  obtain tag dig where b: "scan_block (length (grp 1 g)) (enumerate (i + 1) (drop (i + 1) lines)) None None = (tag, dig)" by fastforce
  have p: "repo_line p = i" "tag_line p = tag" "digest_line p = dig"
    using i(2) unfolding pin_at_def by (auto simp: m b [simplified] Let_def split: if_splits)
  show ?thesis using scan_block_found [OF b] repo_line_key [OF m] i(1) by (intro exI [of _ "length (grp 1 g)"]) (auto simp: p intro: found_at_owned)
qed

definition own_lines :: "pin \<Rightarrow> nat set" where
  "own_lines p = set_option (tag_line p) \<union> set_option (digest_line p)"

lemma pins_disjoint:
  assumes "p \<in> set (find_pins lines path)" and "q \<in> set (find_pins lines path)" and "repo_line p < repo_line q"
  shows "own_lines p \<inter> own_lines q = {}"
proof (rule ccontr)
  assume "own_lines p \<inter> own_lines q \<noteq> {}"
  then obtain j where j: "j \<in> own_lines p" "j \<in> own_lines q" by blast
  from pin_owns [OF assms(1)] j(1) obtain b k where p: "owned_line lines (repo_line p) b k j" by (auto simp: own_lines_def)
  from pin_owns [OF assms(2)] j(2) obtain c k' where q: "has_key c ''repository'' (lines ! repo_line q)" "owned_line lines (repo_line q) c k' j"
    by (auto simp: own_lines_def)
  from p q(2) have "b = c" "repo_line q < j" by (auto simp: owned_line_def dest: has_key_unique)
  with p q(1) assms(3) show False by (auto simp: owned_line_def)
qed

lemma sorted_concat_enumerate:
  assumes "\<And>x. f x = [] \<or> f x = [fst x]"
  shows "sorted_wrt (<) (concat (map f (enumerate n xs))) \<and> (\<forall>y \<in> set (concat (map f (enumerate n xs))). n \<le> y)"
proof (induction xs arbitrary: n)
  case (Cons x xs)
  have "\<forall>y \<in> set (concat (map f (enumerate (Suc n) xs))). n < y" using Cons [of "Suc n"] by (meson Suc_le_eq)
  moreover have "sorted_wrt (<) (concat (map f (enumerate (Suc n) xs)))" using Cons [of "Suc n"] by blast
  ultimately show ?case using assms [of "(n, x)"] by (auto simp del: set_concat simp: less_imp_le)
qed simp

lemma find_pins_sorted: "sorted_wrt (<) (map repo_line (find_pins lines path))"
proof -
  have "map repo_line (pin_at lines path x) = [] \<or> map repo_line (pin_at lines path x) = [fst x]" for x
    by (cases x) (auto simp: pin_at_def Let_def split: option.splits prod.splits)
  from sorted_concat_enumerate [of "\<lambda>x. map repo_line (pin_at lines path x)", OF this] show ?thesis
    unfolding find_pins_def by (simp add: map_concat comp_def)
qed

lemma pins_disjoint_list: "pairwise (\<lambda>p q. own_lines p \<inter> own_lines q = {}) (set (find_pins lines path)) \<and> distinct (find_pins lines path)"
proof
  have inj: "p = q \<or> repo_line p < repo_line q \<or> repo_line q < repo_line p"
    if "p \<in> set (find_pins lines path)" "q \<in> set (find_pins lines path)" for p q
    using that find_pins_sorted [of lines path] by (auto simp: sorted_wrt_map in_set_conv_nth sorted_wrt_iff_nth_less) (metis linorder_neqE_nat)
  show "pairwise (\<lambda>p q. own_lines p \<inter> own_lines q = {}) (set (find_pins lines path))"
    using inj pins_disjoint by (auto simp: pairwise_def) (metis Int_iff empty_iff)+
  have "distinct (map repo_line (find_pins lines path))" using find_pins_sorted strict_sorted_iff by blast
  then show "distinct (find_pins lines path)" by (simp add: distinct_map)
qed

section \<open>Resolving every pin\<close>

lemma rewrite_keeps:
  assumes "rewrite_pin lines p ref digest = Some (lines1, c)" and "j \<notin> own_lines p"
  shows "lines1 ! j = lines ! j"
  using rewrite_pin_frame [OF assms(1)] assms(2) by (auto simp: own_lines_def)

lemma rewrite_length: "rewrite_pin lines p ref digest = Some (lines1, c) \<Longrightarrow> length lines1 = length lines"
  using rewrite_pin_frame by blast

lemma rewrite_unchanged: "rewrite_pin lines p ref digest = Some (lines1, False) \<Longrightarrow> lines1 = lines"
  using rewrite_pin_frame by blast

lemma resolve_pin_step:
  assumes "resolve_pin env p (lines, dirty, drift, failed) = Some (lines1, dirty1, drift1, failed1)"
  shows "\<exists>more. failed1 = failed @ more" and "length lines1 = length lines" and "\<not> dirty1 \<Longrightarrow> lines1 = lines \<and> \<not> dirty"
    and "j \<notin> own_lines p \<Longrightarrow> lines1 ! j = lines ! j"
  using assms
  by (auto simp: resolve_pin_def rewrite_keeps rewrite_length elim!: bindE split: option.splits sum.splits if_splits) (erule rewrite_unchanged)

lemma resolve_pins_keep:
  assumes "mfold (resolve_pin env) ps (lines, dirty, drift, failed) = Some (lines1, dirty1, drift1, failed1)"
  shows "(\<exists>more. failed1 = failed @ more) \<and> length lines1 = length lines \<and> (\<not> dirty1 \<longrightarrow> lines1 = lines \<and> \<not> dirty)
    \<and> (\<forall>j. (\<forall>q \<in> set ps. j \<notin> own_lines q) \<longrightarrow> lines1 ! j = lines ! j)"
  using assms
proof (induction ps arbitrary: lines dirty drift failed)
  case (Cons p ps)
  then obtain l2 d2 r2 f2 where step: "resolve_pin env p (lines, dirty, drift, failed) = Some (l2, d2, r2, f2)"
    and rest: "mfold (resolve_pin env) ps (l2, d2, r2, f2) = Some (lines1, dirty1, drift1, failed1)" by (auto elim!: bindE)
  note s = resolve_pin_step [OF step]
  have "\<exists>more. failed1 = failed @ more" using s(1) Cons.IH [OF rest] by auto
  then show ?case using s(2-) Cons.IH [OF rest] by (intro conjI) auto
qed simp

lemma resolve_file_step:
  assumes "resolve_file env path (fs, drift, failed) = Some (fs1, drift1, failed1)"
  shows "\<exists>more. failed1 = failed @ more" and "q \<noteq> path \<Longrightarrow> fs1 q = fs q"
  using assms by (auto simp: resolve_file_def save_def elim!: bindE split: option.splits if_splits dest!: resolve_pins_keep)

lemma resolve_files_clean:
  assumes "mfold (resolve_file env) paths (fs, drift, []) = Some (fs', drift', [])" and "distinct paths" and "path \<in> set paths"
  shows "\<exists>fs1 drift1 fs2 drift2. fs1 path = fs path \<and> resolve_file env path (fs1, drift1, []) = Some (fs2, drift2, []) \<and> fs' path = fs2 path"
  using assms
proof (induction paths arbitrary: fs drift)
  case (Cons q qs)
  then obtain fs2 d2 f2 where step: "resolve_file env q (fs, drift, []) = Some (fs2, d2, f2)"
    and rest: "mfold (resolve_file env) qs (fs2, d2, f2) = Some (fs', drift', [])" by (auto elim!: bindE)
  have keep: "mfold (resolve_file env) zs (gs, d, f) = Some (gs', d', f') \<Longrightarrow> (\<exists>more. f' = f @ more) \<and> (\<forall>z. z \<notin> set zs \<longrightarrow> gs' z = gs z)" for zs gs d f gs' d' f'
  proof (induction zs arbitrary: gs d f)
    case (Cons z zs)
    then obtain g2 e2 h2 where "resolve_file env z (gs, d, f) = Some (g2, e2, h2)" "mfold (resolve_file env) zs (g2, e2, h2) = Some (gs', d', f')"
      by (auto elim!: bindE)
    with Cons.IH [of g2 e2 h2] resolve_file_step [of env z gs d f g2 e2 h2] show ?case by auto
  qed simp
  from keep [OF rest] have f2: "f2 = []" and out: "z \<notin> set qs \<Longrightarrow> fs' z = fs2 z" for z by auto
  show ?case
  proof (cases "path = q")
    case True
    then show ?thesis using step f2 out Cons.prems(2) by auto
  next
    case False
    then have "path \<in> set qs" "distinct qs" using Cons.prems by auto
    from Cons.IH [OF rest [unfolded f2] this(2,1)] show ?thesis using resolve_file_step(2) [OF step False] by auto
  qed
qed simp

text \<open>What the turn of a combined pin does, when the registry resolves it.\<close>

lemma resolve_combined:
  assumes "resolve_pin env p (lines, dirty, drift, []) = Some (lines1, dirty1, drift1, [])"
    and "tag_line p = Some t" and "t < length lines" and "lines ! t = pin_line ''tag'' ind sp (r @ CHR ''@'' # d) rest"
    and parts: "plain_parts ind sp (r @ CHR ''@'' # d) rest" and "CHR ''@'' \<notin> set r" and "digest_unused lines p"
  shows "\<exists>digest. resolve_digest env (pin_image p) r = Some (Inr digest) \<and> lines1 ! t = pin_line ''tag'' ind sp (r @ CHR ''@'' # digest) rest"
proof -
  have "current_ref lines p = Some (Some r)"
    using assms(2-4,6) line_value_pin [OF _ parts, of "''tag''"] by (simp add: current_ref_def opt_value_def line_at_def)
  with assms(1) obtain digest c where d: "resolve_digest env (pin_image p) r = Some (Inr digest)" "rewrite_pin lines p None digest = Some (lines1, c)"
    by (auto simp: resolve_pin_def elim!: bindE split: sum.splits if_splits)
  then show ?thesis using combined_shape [OF assms(2-7), of None digest] assms(3) by (auto simp: Let_def kept_ref_def)
qed

lemma digest_unused_cong:
  "length lines1 = length lines \<Longrightarrow> (\<And>j. j \<in> own_lines p \<Longrightarrow> lines1 ! j = lines ! j) \<Longrightarrow> digest_unused lines1 p = digest_unused lines p"
  by (auto simp: digest_unused_def own_lines_def split: option.splits)

text \<open>The loop over the pins of a file: the turn of a pin sees its own lines as they were, and no later turn
  changes them.\<close>

lemma resolve_pins_combined:
  assumes run: "mfold (resolve_pin env) (find_pins lines path) (lines, False, drift, []) = Some (lines', dirty, drift', [])"
    and p: "p \<in> set (find_pins lines path)" "tag_line p = Some t" "lines ! t = pin_line ''tag'' ind sp (r @ CHR ''@'' # d) rest"
    and shape: "plain_parts ind sp (r @ CHR ''@'' # d) rest" "CHR ''@'' \<notin> set r" "digest_unused lines p"
  shows "\<exists>digest. resolve_digest env (pin_image p) r = Some (Inr digest) \<and> lines' ! t = pin_line ''tag'' ind sp (r @ CHR ''@'' # digest) rest"
proof -
  from split_list [OF p(1)] obtain ps qs where f: "find_pins lines path = ps @ p # qs" by blast
  have own: "j \<notin> own_lines q" if "j \<in> own_lines p" "q \<in> set ps \<union> set qs" for j q
    using pins_disjoint_list [of lines path] that unfolding f pairwise_def by auto
  from run obtain l1 d1 r1 f1 l2 d2 r2 f2 where
    a: "mfold (resolve_pin env) ps (lines, False, drift, []) = Some (l1, d1, r1, f1)"
    and b: "resolve_pin env p (l1, d1, r1, f1) = Some (l2, d2, r2, f2)"
    and c: "mfold (resolve_pin env) qs (l2, d2, r2, f2) = Some (lines', dirty, drift', [])"
    unfolding f mfold_append by (auto elim!: bindE)
  note ka = resolve_pins_keep [OF a] and kc = resolve_pins_keep [OF c]
  have f2: "f2 = []" and f1: "f1 = []" using kc resolve_pin_step(1) [OF b] by auto
  have same: "l1 ! j = lines ! j" if "j \<in> own_lines p" for j using own [OF that] ka by auto
  have t: "t \<in> own_lines p" using p(2) by (simp add: own_lines_def)
  have "t < length lines" using pin_owns [OF p(1)] p(2) by (auto simp: owned_line_def)
  then have "\<exists>digest. resolve_digest env (pin_image p) r = Some (Inr digest) \<and> l2 ! t = pin_line ''tag'' ind sp (r @ CHR ''@'' # digest) rest"
    using resolve_combined [OF b [unfolded f1 f2] p(2), of ind sp r d rest] ka same [OF t] p(3) shape digest_unused_cong [of l1 lines p] same by auto
  moreover have "lines' ! t = l2 ! t" using own [OF t] kc by auto
  ultimately show ?thesis by auto
qed

text \<open>C27. An exact deployable: when \<^verbatim>\<open>--resolve-all --require\<close> exits with 0, every combined pin of every values file was
  resolved by the registry for the reference that it names, the text of the file holds that digest on the tag
  line of the pin, with the rest of the line as it was, and every line that no pin owns is unchanged.\<close>

theorem resolve_all_exact:
  assumes "cmd_resolve_all env True fs = Some (fs', 0)" and "path \<in> set PIN_FILES" and "load fs path = Some lines"
  shows "\<exists>lines'. (fs' path = Some (concat lines') \<or> fs' path = fs path \<and> lines' = lines) \<and> length lines' = length lines
    \<and> (\<forall>j. (\<forall>p \<in> set (find_pins lines path). j \<notin> own_lines p) \<longrightarrow> lines' ! j = lines ! j)
    \<and> (\<forall>p t ind sp r d rest. p \<in> set (find_pins lines path) \<longrightarrow> tag_line p = Some t \<longrightarrow> lines ! t = pin_line ''tag'' ind sp (r @ CHR ''@'' # d) rest
        \<longrightarrow> plain_parts ind sp (r @ CHR ''@'' # d) rest \<longrightarrow> CHR ''@'' \<notin> set r \<longrightarrow> digest_unused lines p
        \<longrightarrow> (\<exists>digest. resolve_digest env (pin_image p) r = Some (Inr digest) \<and> lines' ! t = pin_line ''tag'' ind sp (r @ CHR ''@'' # digest) rest))"
proof -
  from assms(1) obtain drift where "mfold (resolve_file env) PIN_FILES (fs, [], []) = Some (fs', drift, [])"
    by (auto simp: cmd_resolve_all_def elim!: bindE split: if_splits)
  from resolve_files_clean [OF this distinct_PIN_FILES assms(2)] obtain fs1 drift1 fs2 drift2 where
    s: "fs1 path = fs path" "resolve_file env path (fs1, drift1, []) = Some (fs2, drift2, [])" "fs' path = fs2 path" by blast
  have "load fs1 path = Some lines" using assms(3) s(1) by (simp add: load_def)
  with s(2) obtain lines' dirty where
    run: "mfold (resolve_pin env) (find_pins lines path) (lines, False, drift1, []) = Some (lines', dirty, drift2, [])"
    and out: "fs2 = (if dirty then save fs1 path lines' else fs1)" by (auto simp: resolve_file_def elim!: bindE)
  have "fs' path = Some (concat lines') \<or> fs' path = fs path \<and> lines' = lines"
    using out s(1,3) resolve_pins_keep [OF run] by (auto simp: save_def)
  then show ?thesis using resolve_pins_keep [OF run] resolve_pins_combined [OF run] by (intro exI [of _ lines'] conjI) auto
qed

section \<open>A sample run\<close>

definition sample_env :: registry_env where
  "sample_env = \<lparr>ghcr_token = Some ''t'', github_token = None,
     urlopen = (\<lambda>rq. if rq_verb rq = ''GET'' then Answered [] (Some (YMap [(''token'', YStr ''b'')])) else Answered [(''docker-content-digest'', new_digest)] None)\<rparr>"

lemma sample_resolves: "resolve_digest sample_env ''gibson'' ''main'' = Some (Inr new_digest)"
  by code_simp

lemma one_resolve_all: "cmd_resolve_all sample_env True (twin_files one_lines) = Some (twin_files (one_lines[2 := gibson_tag new_digest]), 0)"
proof -
  let ?path = "''helm/gibson/values.yaml''"
  have "current_ref one_lines one_pin = Some (Some ''main'')"
    using one_shape line_value_pin [OF _ one_shape(4), of "''tag''"] by (simp add: current_ref_def opt_value_def line_at_def)
  then have "resolve_pin sample_env one_pin (one_lines, False, [], [])
      = Some (one_lines[2 := gibson_tag new_digest], True, [(''gibson'', ''main'', new_digest)], [])"
    using sample_resolves one_rewrite by (simp add: resolve_pin_def one_pin_def)
  moreover have "save (twin_files xs) ?path ys = twin_files ys" for xs ys by (simp add: save_def twin_files_def fun_eq_iff)
  ultimately have "resolve_file sample_env ?path (twin_files one_lines, [], [])
      = Some (twin_files (one_lines[2 := gibson_tag new_digest]), [(''gibson'', ''main'', new_digest)], [])"
    by (simp add: resolve_file_def one_load one_pins)
  then show ?thesis
    by (simp add: cmd_resolve_all_def PIN_FILES_def resolve_file_def [of _ "''helm/gibson-operators/values.yaml''"]
        resolve_file_def [of _ "''helm/gibson-workloads/values.yaml''"] one_other)
qed

theorem resolve_all_exact_witness:
  "\<exists>lines'. length lines' = 3 \<and> lines' ! 2 = gibson_tag new_digest \<and> lines' ! 1 = one_lines ! 1"
proof -
  have "''helm/gibson/values.yaml'' \<in> set PIN_FILES" by (simp add: PIN_FILES_def)
  from resolve_all_exact [OF one_resolve_all this one_load] obtain lines' where
    l: "length lines' = length one_lines" "\<forall>j. (\<forall>p \<in> set [one_pin]. j \<notin> own_lines p) \<longrightarrow> lines' ! j = one_lines ! j"
    and v: "\<And>p t ind sp r d rest. p \<in> set [one_pin] \<Longrightarrow> tag_line p = Some t \<Longrightarrow> one_lines ! t = pin_line ''tag'' ind sp (r @ CHR ''@'' # d) rest
        \<Longrightarrow> plain_parts ind sp (r @ CHR ''@'' # d) rest \<Longrightarrow> CHR ''@'' \<notin> set r \<Longrightarrow> digest_unused one_lines p
        \<Longrightarrow> (\<exists>digest. resolve_digest sample_env (pin_image p) r = Some (Inr digest) \<and> lines' ! t = pin_line ''tag'' ind sp (r @ CHR ''@'' # digest) rest)"
    unfolding one_pins by blast
  have "lines' ! 2 = gibson_tag new_digest"
    using v [OF _ one_shape(1,3-)] sample_resolves by (simp add: one_pin_def gibson_tag_def)
  moreover have "lines' ! 1 = one_lines ! 1" using l(2) by (simp add: own_lines_def one_pin_def)
  moreover have "length lines' = 3" using l(1) by (simp add: one_lines_def)
  ultimately show ?thesis by blast
qed

end
