(* ===== verification/IpAddress.thy ===== *)
theory IpAddress
  imports Prelude
begin

unbundle bit_operations_syntax

text \<open>
  What \<^verbatim>\<open>src/scripts/check-hubble-drops.py\<close> uses of Python's \<^verbatim>\<open>ipaddress\<close> module: \<^verbatim>\<open>ip_address\<close>, \<^verbatim>\<open>ip_network(c, strict=False)\<close>
  and the membership of an address in a network, for both versions, as CPython 3.9.5 and later compute
  them on unbounded integers with bitwise operations. The theory proves that the parsed numbers have the
  width of their version, and that membership means that the addresses agree above the prefix.
\<close>

section \<open>Addresses\<close>

datatype ip = V4 int | V6 int

definition octet :: "string \<Rightarrow> int option" where
  "octet s = (if s = [] \<or> \<not> list_all is_digit s \<or> length s > 3 \<or> s \<noteq> ''0'' \<and> hd s = CHR ''0'' then None
     else do { n \<leftarrow> int_digits s 0; if n > 255 then None else Some n })"

definition ipv4_int :: "string \<Rightarrow> int option" where
  "ipv4_int s = (let os = split_all (CHR ''.'') s in
     if length os \<noteq> 4 then None else do { ns \<leftarrow> mmap octet os; Some (foldl (\<lambda>a n. 256 * a + n) 0 ns) })"

definition hex_digit_val :: "char \<Rightarrow> int option" where
  "hex_digit_val c = (if is_digit c then Some (digit_val c)
     else map_of (zip ''abcdefABCDEF'' [10, 11, 12, 13, 14, 15, 10, 11, 12, 13, 14, 15]) c)"

definition hextet :: "string \<Rightarrow> int option" where
  "hextet s = (if s = [] \<or> length s > 4 then None
     else do { ns \<leftarrow> mmap hex_digit_val s; Some (foldl (\<lambda>a n. 16 * a + n) 0 ns) })"

text \<open>The groups of an IPv6 text; an IPv4 suffix counts as two of them. Each part is a text or the value that
  the suffix gave.\<close>

type_synonym hexpart = "string + int"

definition v6_parts :: "string \<Rightarrow> hexpart list option" where
  "v6_parts s = (let ps = split_all (CHR '':'') s in
     if length ps < 3 then None
     else if CHR ''.'' \<in> set (last ps) then do { v \<leftarrow> ipv4_int (last ps); Some (map Inl (butlast ps) @ [Inr (v div 65536), Inr (v mod 65536)]) }
     else Some (map Inl ps))"

definition part_val :: "hexpart \<Rightarrow> int option" where
  "part_val p = (case p of Inl s \<Rightarrow> hextet s | Inr v \<Rightarrow> Some v)"

definition is_gap :: "hexpart \<Rightarrow> bool" where
  "is_gap p = (p = Inl [])"

text \<open>The parts before and after the \<^verbatim>\<open>::\<close> and the number of groups that it stands for.\<close>

definition v6_split :: "hexpart list \<Rightarrow> (hexpart list \<times> nat \<times> hexpart list) option" where
  "v6_split ps = (let gaps = filter (\<lambda>i. is_gap (ps ! i)) [1..<length ps - 1] in
     case gaps of
       [] \<Rightarrow> (if length ps \<noteq> 8 \<or> is_gap (hd ps) \<or> is_gap (last ps) then None else Some (ps, 0, []))
     | [i] \<Rightarrow>
         (let hi = (if is_gap (hd ps) then i - 1 else i);
              lo = (if is_gap (last ps) then length ps - i - 2 else length ps - i - 1)
          in if is_gap (hd ps) \<and> hi \<noteq> 0 \<or> is_gap (last ps) \<and> lo \<noteq> 0 \<or> hi + lo > 7 then None
             else Some (take hi ps, 8 - (hi + lo), drop (length ps - lo) ps))
     | _ \<Rightarrow> None)"

definition hex_groups :: "int \<Rightarrow> int list \<Rightarrow> int" where
  "hex_groups = foldl (\<lambda>a n. 65536 * a + n)"

definition ipv6_int :: "string \<Rightarrow> int option" where
  "ipv6_int s = do {
     ps \<leftarrow> v6_parts s;
     if length ps > 9 then None else do {
     (hi, skip, lo) \<leftarrow> v6_split ps;
     hs \<leftarrow> mmap part_val hi;
     ls \<leftarrow> mmap part_val lo;
     Some (hex_groups (hex_groups 0 hs * 65536 ^ skip) ls)
     }
   }"

text \<open>The text of an IPv6 address may carry a scope after \<^verbatim>\<open>%\<close>; it takes no part in membership.\<close>

definition ipv6_address :: "string \<Rightarrow> int option" where
  "ipv6_address s = (case split_once (CHR ''%'') s of
     (a, None) \<Rightarrow> ipv6_int a
   | (a, Some scope) \<Rightarrow> (if scope = [] \<or> CHR ''%'' \<in> set scope then None else ipv6_int a))"

definition ip_text :: "string \<Rightarrow> ip option" where
  "ip_text s = (if CHR ''/'' \<in> set s then None
     else case ipv4_int s of Some n \<Rightarrow> Some (V4 n) | None \<Rightarrow> map_option V6 (ipv6_address s))"

definition ip_number :: "int \<Rightarrow> ip option" where
  "ip_number i = (if i < 0 then None else if i < 2 ^ 32 then Some (V4 i) else if i < 2 ^ 128 then Some (V6 i) else None)"

text \<open>\<^verbatim>\<open>ip_address(v)\<close>; None stands for the ValueError.\<close>

definition ip_address :: "yaml \<Rightarrow> ip option" where
  "ip_address v = (case v of YInt i \<Rightarrow> ip_number i | YBool b \<Rightarrow> ip_number (if b then 1 else 0) | _ \<Rightarrow> ip_text (py_str v))"

section \<open>Networks\<close>

datatype network = Net4 int int | Net6 int int

text \<open>\<^verbatim>\<open>_ip_int_from_prefix\<close>: the mask of a prefix length.\<close>

definition netmask :: "nat \<Rightarrow> nat \<Rightarrow> int" where
  "netmask w p = (2 ^ w - 1) XOR drop_bit p (2 ^ w - 1)"

definition prefix_length :: "nat \<Rightarrow> string \<Rightarrow> nat option" where
  "prefix_length w s = (if s = [] \<or> \<not> list_all is_digit s then None
     else do { n \<leftarrow> int_digits s 0; if n \<le> int w then Some (nat n) else None })"

text \<open>\<^verbatim>\<open>_prefix_from_ip_int\<close>: the prefix length of a mask of ones followed by zeros.\<close>

fun trailing_zeros :: "nat \<Rightarrow> int \<Rightarrow> nat" where
  "trailing_zeros 0 n = 0"
| "trailing_zeros (Suc w) n = (if n mod 2 = 0 then Suc (trailing_zeros w (n div 2)) else 0)"

definition prefix_of_mask :: "int \<Rightarrow> nat option" where
  "prefix_of_mask n = (let z = trailing_zeros 32 n; p = 32 - z in if drop_bit z n = 2 ^ p - 1 then Some p else None)"

text \<open>A mask as a prefix length, a netmask or a hostmask.\<close>

definition v4_prefix :: "string \<Rightarrow> nat option" where
  "v4_prefix s = (case prefix_length 32 s of Some p \<Rightarrow> Some p
     | None \<Rightarrow> do { n \<leftarrow> ipv4_int s;
         case prefix_of_mask n of Some p \<Rightarrow> Some p | None \<Rightarrow> prefix_of_mask (n XOR (2 ^ 32 - 1)) })"

definition split_mask :: "string \<Rightarrow> (string \<times> string option) option" where
  "split_mask s = (case split_all (CHR ''/'') s of [a] \<Rightarrow> Some (a, None) | [a, m] \<Rightarrow> Some (a, Some m) | _ \<Rightarrow> None)"

definition net4 :: "int \<Rightarrow> nat \<Rightarrow> network" where
  "net4 n p = Net4 (n AND netmask 32 p) (netmask 32 p)"

definition net6 :: "int \<Rightarrow> nat \<Rightarrow> network" where
  "net6 n p = Net6 (n AND netmask 128 p) (netmask 128 p)"

definition v4_network :: "string \<Rightarrow> network option" where
  "v4_network s = do { (a, m) \<leftarrow> split_mask s; n \<leftarrow> ipv4_int a; p \<leftarrow> (case m of None \<Rightarrow> Some 32 | Some t \<Rightarrow> v4_prefix t); Some (net4 n p) }"

definition v6_network :: "string \<Rightarrow> network option" where
  "v6_network s = do { (a, m) \<leftarrow> split_mask s; n \<leftarrow> ipv6_address a; p \<leftarrow> (case m of None \<Rightarrow> Some 128 | Some t \<Rightarrow> prefix_length 128 t); Some (net6 n p) }"

definition number_network :: "int \<Rightarrow> network option" where
  "number_network i = map_option (\<lambda>a. case a of V4 n \<Rightarrow> net4 n 32 | V6 n \<Rightarrow> net6 n 128) (ip_number i)"

text \<open>\<^verbatim>\<open>ip_network(v, strict=False)\<close>; None stands for the ValueError.\<close>

definition ip_network :: "yaml \<Rightarrow> network option" where
  "ip_network v = (case v of YInt i \<Rightarrow> number_network i | YBool b \<Rightarrow> number_network (if b then 1 else 0)
     | _ \<Rightarrow> (case v4_network (py_str v) of Some n \<Rightarrow> Some n | None \<Rightarrow> v6_network (py_str v)))"

fun in_network :: "ip \<Rightarrow> network \<Rightarrow> bool" where
  "in_network (V4 a) (Net4 n m) = (a AND m = n)"
| "in_network (V6 a) (Net6 n m) = (a AND m = n)"
| "in_network _ _ = False"

section \<open>Membership\<close>

lemma netmask_bits: "bit (netmask w p) i \<longleftrightarrow> w - p \<le> i \<and> i < w"
proof -
  have "(2 ^ w - 1 :: int) = mask w" by (simp add: mask_eq_exp_minus_1)
  then show ?thesis by (auto simp: netmask_def bit_xor_iff bit_drop_bit_eq bit_mask_iff)
qed

lemma bit_above: "0 \<le> a \<Longrightarrow> a < 2 ^ w \<Longrightarrow> w \<le> i \<Longrightarrow> \<not> bit (a :: int) i"
  by (metis bit_take_bit_iff linorder_not_le take_bit_int_eq_self_iff)

lemma masked_eq_iff:
  assumes "0 \<le> a" "a < 2 ^ w" "0 \<le> b" "b < (2 :: int) ^ w" and "p \<le> w"
  shows "a AND netmask w p = b AND netmask w p \<longleftrightarrow> a div 2 ^ (w - p) = b div 2 ^ (w - p)"
proof -
  have "a AND netmask w p = b AND netmask w p \<longleftrightarrow> (\<forall>i. w - p \<le> i \<and> i < w \<longrightarrow> bit a i = bit b i)"
    by (auto simp: bit_eq_iff bit_and_iff netmask_bits)
  also have "\<dots> \<longleftrightarrow> (\<forall>i. w - p \<le> i \<longrightarrow> bit a i = bit b i)"
    using bit_above [OF assms(1,2)] bit_above [OF assms(3,4)] by (meson linorder_not_le)
  also have "\<dots> \<longleftrightarrow> drop_bit (w - p) a = drop_bit (w - p) b"
    by (auto simp: bit_eq_iff bit_drop_bit_eq) (metis le_add_diff_inverse)+
  finally show ?thesis by (simp add: drop_bit_eq_div)
qed

section \<open>Widths\<close>

definition wf_ip :: "ip \<Rightarrow> bool" where
  "wf_ip a = (case a of V4 n \<Rightarrow> 0 \<le> n \<and> n < 2 ^ 32 | V6 n \<Rightarrow> 0 \<le> n \<and> n < 2 ^ 128)"

lemma digits_bound: "list_all (\<lambda>n. 0 \<le> n \<and> n < B) ns \<Longrightarrow> 0 \<le> a \<Longrightarrow> a < C \<Longrightarrow>
  0 \<le> foldl (\<lambda>a n. B * a + n) a ns \<and> foldl (\<lambda>a n. B * a + n) a ns < (C :: int) * B ^ length ns"
proof (induction ns arbitrary: a C)
  case (Cons n ns)
  then have b: "0 \<le> n" "n < B" "0 \<le> a" "a + 1 \<le> C" "0 \<le> B" by auto
  from b(4,5) have "B * (a + 1) \<le> B * C" by (rule mult_left_mono)
  then have "B * a + n < C * B" using b by (simp add: algebra_simps)
  moreover have "0 \<le> B * a + n" using b by simp
  ultimately show ?case using Cons.IH [of "B * a + n" "C * B"] Cons.prems(1) by (simp add: mult.assoc)
qed simp

lemma mmap_bounds: "mmap f xs = Some ys \<Longrightarrow> (\<And>x y. f x = Some y \<Longrightarrow> P y) \<Longrightarrow> list_all P ys \<and> length ys = length xs"
  by (auto simp: mmap_Some_iff list_all2_conv_all_nth list_all_length)

lemma digit_val_range: "is_digit c \<Longrightarrow> 0 \<le> digit_val c \<and> digit_val c \<le> 9"
proof -
  assume "is_digit c"
  then have "int 48 \<le> int (of_char c)" "int (of_char c) \<le> int 57" unfolding is_digit_def of_nat_le_iff by blast+
  then have "48 \<le> (of_char c :: int)" "(of_char c :: int) \<le> 57" by (simp_all only: of_nat_of_char of_nat_numeral)
  then show ?thesis by (simp add: digit_val_def)
qed

lemma octet_range: "octet s = Some n \<Longrightarrow> 0 \<le> n \<and> n < 256"
proof -
  have "list_all is_digit s \<Longrightarrow> 0 \<le> acc \<Longrightarrow> int_digits s acc = Some n \<Longrightarrow> 0 \<le> n" for acc
  proof (induction s arbitrary: acc)
    case (Cons c s)
    then have "0 \<le> 10 * acc + digit_val c" using digit_val_range [of c] by auto
    then show ?case using Cons.IH [of "10 * acc + digit_val c"] Cons.prems by (simp del: of_char_eq_iff)
  qed simp
  moreover assume "octet s = Some n"
  ultimately show ?thesis by (fastforce simp: octet_def bind_eq_Some_conv split: if_splits)
qed

lemma ipv4_int_range: "ipv4_int s = Some n \<Longrightarrow> 0 \<le> n \<and> n < 2 ^ 32"
proof -
  assume "ipv4_int s = Some n"
  then obtain ns where ns: "mmap octet (split_all (CHR ''.'') s) = Some ns" "length (split_all (CHR ''.'') s) = 4" "n = foldl (\<lambda>a n. 256 * a + n) 0 ns"
    by (auto simp: ipv4_int_def Let_def bind_eq_Some_conv split: if_splits)
  from mmap_bounds [OF ns(1), of "\<lambda>n. 0 \<le> n \<and> n < 256"] octet_range ns(2) have "list_all (\<lambda>n. 0 \<le> n \<and> n < 256) ns" "length ns = 4" by auto
  from digits_bound [OF this(1), of 0 1] this(2) ns(3) show ?thesis by simp
qed

lemma hextet_range: "hextet s = Some n \<Longrightarrow> 0 \<le> n \<and> n < 65536"
proof -
  assume "hextet s = Some n"
  then obtain ns where ns: "mmap hex_digit_val s = Some ns" "length s \<le> 4" "n = foldl (\<lambda>a n. 16 * a + n) 0 ns"
    by (auto simp: hextet_def bind_eq_Some_conv split: if_splits)
  have "0 \<le> v \<and> v < 16" if "hex_digit_val c = Some v" for c v
    using that digit_val_range [of c] by (auto simp: hex_digit_val_def split: if_splits)
  from mmap_bounds [OF ns(1), of "\<lambda>n. 0 \<le> n \<and> n < 16"] this ns(2) have b: "list_all (\<lambda>n. 0 \<le> n \<and> n < 16) ns" "length ns \<le> 4" by auto
  have "(16 :: int) ^ length ns \<le> 16 ^ 4" using b(2) by (rule power_increasing) simp
  then show ?thesis using digits_bound [OF b(1), of 0 1] ns(3) by simp
qed

lemma part_val_range:
  assumes "v6_parts s = Some ps" and "p \<in> set ps" and "part_val p = Some n"
  shows "0 \<le> n \<and> n < 65536"
proof (cases p)
  case (Inl t)
  then show ?thesis using assms(3) hextet_range by (simp add: part_val_def)
next
  case (Inr v)
  with assms(1,2) obtain m where "ipv4_int (last (split_all (CHR '':'') s)) = Some m" "v = m div 65536 \<or> v = m mod 65536"
    by (auto simp: v6_parts_def Let_def bind_eq_Some_conv split: if_splits)
  moreover from this(1) have "0 \<le> m \<and> m < 2 ^ 32" by (rule ipv4_int_range)
  then have "0 \<le> m div 65536 \<and> m div 65536 < 65536" by auto
  ultimately show ?thesis using assms(3) Inr by (auto simp: part_val_def)
qed

lemma v6_split_lengths:
  assumes "v6_split ps = Some (hi, skip, lo)"
  shows "set hi \<subseteq> set ps \<and> set lo \<subseteq> set ps \<and> length hi + skip + length lo = 8"
proof -
  have gap: "i < length ps - Suc 0" if "filter (\<lambda>i. is_gap (ps ! i)) [Suc 0..<length ps - Suc 0] = [i]" for i
    using arg_cong [OF that, of set] by auto
  from assms show ?thesis
    by (auto simp: v6_split_def Let_def dest!: gap split: list.splits if_splits dest: in_set_takeD in_set_dropD)
qed

lemma ipv6_int_range:
  assumes "ipv6_int s = Some n"
  shows "0 \<le> n \<and> n < 2 ^ 128"
proof -
  from assms obtain ps hi skip lo hs ls where ps: "v6_parts s = Some ps" "v6_split ps = Some (hi, skip, lo)"
    and v: "mmap part_val hi = Some hs" "mmap part_val lo = Some ls" "n = hex_groups (hex_groups 0 hs * 65536 ^ skip) ls"
    by (auto simp: ipv6_int_def bind_eq_Some_conv split: if_splits)
  note l = v6_split_lengths [OF ps(2)]
  let ?ok = "list_all (\<lambda>n. 0 \<le> n \<and> n < (65536 :: int))"
  have ok: "?ok ns \<and> length ns = length xs" if "mmap part_val xs = Some ns" "set xs \<subseteq> set ps" for xs ns
    using that part_val_range [OF ps(1)] mmap_Some_set [OF that(1)] list_all2_lengthD [OF that(1) [unfolded mmap_Some_iff]] by (fastforce simp: list_all_iff)
  have hs: "0 \<le> hex_groups 0 hs \<and> hex_groups 0 hs < 65536 ^ length hi"
    using digits_bound [of 65536 hs 0 1] ok [OF v(1)] l by (auto simp: hex_groups_def)
  then have "0 \<le> hex_groups 0 hs * 65536 ^ skip \<and> hex_groups 0 hs * 65536 ^ skip < 65536 ^ (length hi + skip)"
    by (simp add: power_add)
  then have "0 \<le> n \<and> n < 65536 ^ (length hi + skip) * 65536 ^ length lo"
    using digits_bound [of 65536 ls "hex_groups 0 hs * 65536 ^ skip" "65536 ^ (length hi + skip)"] ok [OF v(2)] l v(3) by (auto simp: hex_groups_def)
  moreover have "(65536 :: int) ^ (length hi + skip) * 65536 ^ length lo = 65536 ^ 8" using l by (metis power_add)
  ultimately show ?thesis by simp
qed

lemma ip_address_wf: "ip_address v = Some a \<Longrightarrow> wf_ip a"
proof -
  assume a: "ip_address v = Some a"
  have n: "ip_number i = Some a \<Longrightarrow> wf_ip a" for i by (auto simp: ip_number_def wf_ip_def split: if_splits)
  have t: "ip_text s = Some a \<Longrightarrow> wf_ip a" for s
    by (auto simp: ip_text_def ipv6_address_def wf_ip_def split: if_splits option.splits prod.splits dest!: ipv4_int_range ipv6_int_range)
  show ?thesis using a n t by (auto simp: ip_address_def split: yaml.splits if_splits)
qed

text \<open>The network that a prefix length cuts out, and what is a network: the addresses of its version that agree
  with its base above the prefix.\<close>

definition net_of :: "ip \<Rightarrow> nat \<Rightarrow> network" where
  "net_of a p = (case a of V4 n \<Rightarrow> net4 n p | V6 n \<Rightarrow> net6 n p)"

definition ip_width :: "ip \<Rightarrow> nat" where
  "ip_width a = (case a of V4 _ \<Rightarrow> 32 | V6 _ \<Rightarrow> 128)"

definition ip_value :: "ip \<Rightarrow> int" where
  "ip_value a = (case a of V4 n \<Rightarrow> n | V6 n \<Rightarrow> n)"

lemma in_net_of:
  assumes "wf_ip a" and "wf_ip b" and "p \<le> ip_width b"
  shows "in_network a (net_of b p) \<longleftrightarrow> ip_width a = ip_width b
    \<and> ip_value a div 2 ^ (ip_width b - p) = ip_value b div 2 ^ (ip_width b - p)"
proof (cases a; cases b)
  fix m n assume "a = V4 m" "b = V4 n"
  then show ?thesis using assms masked_eq_iff [of m 32 n p] by (simp add: wf_ip_def net_of_def net4_def ip_width_def ip_value_def)
next
  fix m n assume "a = V6 m" "b = V6 n"
  then show ?thesis using assms masked_eq_iff [of m 128 n p] by (simp add: wf_ip_def net_of_def net6_def ip_width_def ip_value_def)
qed (auto simp: net_of_def net4_def net6_def ip_width_def)

lemma prefix_bounds: "prefix_length w s = Some p \<Longrightarrow> p \<le> w" "v4_prefix s = Some q \<Longrightarrow> q \<le> 32"
proof -
  show len: "prefix_length w s = Some p \<Longrightarrow> p \<le> w" for w s p by (auto simp: prefix_length_def bind_eq_Some_conv split: if_splits)
  have "prefix_of_mask n = Some q \<Longrightarrow> q \<le> 32" for n by (auto simp: prefix_of_mask_def Let_def split: if_splits)
  then show "v4_prefix s = Some q \<Longrightarrow> q \<le> 32" using len by (auto simp: v4_prefix_def bind_eq_Some_conv split: option.splits)
qed

lemma ipv6_address_range: "ipv6_address s = Some n \<Longrightarrow> 0 \<le> n \<and> n < 2 ^ 128"
  by (auto simp: ipv6_address_def split: prod.splits option.splits if_splits dest!: ipv6_int_range)

lemma network_shape:
  assumes "ip_network v = Some n"
  shows "\<exists>b p. wf_ip b \<and> p \<le> ip_width b \<and> n = net_of b p"
proof -
  have four: "\<exists>b p. wf_ip b \<and> p \<le> ip_width b \<and> n = net_of b p" if "v4_network s = Some n" for s
  proof -
    from that obtain t m a p where "ipv4_int t = Some a" "(case m of None \<Rightarrow> Some 32 | Some u \<Rightarrow> v4_prefix u) = Some p" "n = net4 a p"
      by (auto simp: v4_network_def elim!: bindE)
    then have "0 \<le> a \<and> a < 2 ^ 32" "p \<le> 32" "n = net4 a p" using ipv4_int_range prefix_bounds(2) by (auto split: option.splits)
    then show ?thesis by (intro exI [of _ "V4 a"] exI [of _ p]) (simp add: wf_ip_def ip_width_def net_of_def)
  qed
  have six: "\<exists>b p. wf_ip b \<and> p \<le> ip_width b \<and> n = net_of b p" if "v6_network s = Some n" for s
  proof -
    from that obtain t m a p where "ipv6_address t = Some a" "(case m of None \<Rightarrow> Some 128 | Some u \<Rightarrow> prefix_length 128 u) = Some p" "n = net6 a p"
      by (auto simp: v6_network_def elim!: bindE)
    then have "0 \<le> a \<and> a < 2 ^ 128" "p \<le> 128" "n = net6 a p" using ipv6_address_range prefix_bounds(1) by (auto split: option.splits)
    then show ?thesis by (intro exI [of _ "V6 a"] exI [of _ p]) (simp add: wf_ip_def ip_width_def net_of_def)
  qed
  have number: "\<exists>b p. wf_ip b \<and> p \<le> ip_width b \<and> n = net_of b p" if "number_network i = Some n" for i
  proof -
    from that obtain b where b: "ip_number i = Some b" "n = (case b of V4 n \<Rightarrow> net4 n 32 | V6 n \<Rightarrow> net6 n 128)" by (auto simp: number_network_def)
    have "wf_ip b" using b(1) by (auto simp: ip_number_def wf_ip_def split: if_splits)
    moreover have "n = net_of b (ip_width b)" using b(2) by (cases b) (simp_all add: net_of_def ip_width_def)
    ultimately have "wf_ip b" "n = net_of b (ip_width b)" .
    then show ?thesis by blast
  qed
  show ?thesis using assms four six number by (auto simp: ip_network_def split: yaml.splits option.splits if_splits)
qed



end
