(* ===== verification/HubbleDrops.thy ===== *)
theory HubbleDrops
  imports Json IpAddress WalContinuity
begin

text \<open>
  \<^verbatim>\<open>src/scripts/check-hubble-drops.py\<close>: no flow of the release is dropped by a network policy. The lines of flows
  are JSON texts; the world behind \<^verbatim>\<open>kubectl\<close> is passed along, and the check remembers in its state the ports
  that it has asked for. The theory proves that the reported drops are exactly the policy drops of the
  namespace that are not late replies, what a late reply is in terms of address ranges and ports, that
  the cache asks for a pod once, that the evidence holds no layer 7 data, and what the exit codes mean.
  The fixtures and the selftest are in \<^verbatim>\<open>HubbleSelftest\<close>.
  A line with a number or a character that the model does not represent is an exception of the model.
\<close>

section \<open>What the check knows of the cluster\<close>

definition POLICY_REASONS :: "string list" where
  "POLICY_REASONS = [''POLICY_DENIED'', ''POLICY_DENY'', ''AUTH_REQUIRED'']"

record drop =
  d_source :: string
  d_source_pod :: yaml
  d_destination :: string
  d_port :: string
  d_direction :: yaml
  d_reason :: string
  d_time :: yaml
  d_flags :: string

text \<open>A command line and the answer: the exit code, the output and the error output.\<close>

type_synonym 'w shell = "'w \<Rightarrow> string list \<Rightarrow> (int \<times> string \<times> string) \<times> 'w"

record 'w peers =
  cidrs :: "network list"
  ports :: "(string \<times> int list) list"
  is_live :: bool
  notices :: "drop list"
  world :: 'w

definition new_peers :: "yaml list \<Rightarrow> (string \<times> int list) list \<Rightarrow> bool \<Rightarrow> 'w \<Rightarrow> 'w peers option" where
  "new_peers cs ps live w = do {
     ns \<leftarrow> mmap ip_network cs;
     Some \<lparr>cidrs = ns, ports = map (\<lambda>(k, v). (k, mk_set v)) ps, is_live = live, notices = [], world = w\<rparr>
   }"

text \<open>\<^verbatim>\<open>int(v)\<close> and the value that a JSON text must have.\<close>

definition int_of :: "yaml \<Rightarrow> int option" where
  "int_of v = (case v of YInt i \<Rightarrow> Some i | YBool b \<Rightarrow> Some (if b then 1 else 0) | YStr s \<Rightarrow> py_int s | _ \<Rightarrow> None)"

definition loads_or_raise :: "string \<Rightarrow> yaml option" where
  "loads_or_raise s = (case json_loads s of JVal v \<Rightarrow> Some v | _ \<Rightarrow> None)"

definition port_item :: "yaml \<Rightarrow> int list option" where
  "port_item p = do {
     b \<leftarrow> py_in (YStr ''containerPort'') p;
     if b then do { v \<leftarrow> item p ''containerPort''; i \<leftarrow> int_of v; Some [i] } else Some []
   }"

definition pod_ports :: "yaml \<Rightarrow> int list option" where
  "pod_ports pod = do {
     spec \<leftarrow> get_or_dict pod ''spec'';
     cs \<leftarrow> get_list spec ''containers'';
     collect (\<lambda>c. do { ps \<leftarrow> get_list c ''ports''; collect port_item ps }) cs
   }"

definition the_text :: "yaml \<Rightarrow> string option" where
  "the_text v = (case v of YStr s \<Rightarrow> Some s | _ \<Rightarrow> None)"

definition read_ports :: "'w shell \<Rightarrow> yaml \<Rightarrow> yaml \<Rightarrow> 'w \<Rightarrow> (int list \<times> 'w) option" where
  "read_ports sh ns pod w = do {
     n \<leftarrow> the_text ns;
     p \<leftarrow> the_text pod;
     let ((rc, out, err), w1) = sh w [''kubectl'', ''-n'', n, ''get'', ''pod'', p, ''-o'', ''json''];
     if rc \<noteq> 0 then Some ([], w1)
     else do { j \<leftarrow> loads_or_raise out; ps \<leftarrow> pod_ports j; Some (mk_set ps, w1) }
   }"

definition listens :: "'w shell \<Rightarrow> yaml \<Rightarrow> yaml \<Rightarrow> int \<Rightarrow> 'w peers \<Rightarrow> (bool \<times> 'w peers) option" where
  "listens sh ns pod port peers = (let key = py_str ns @ ''/'' @ py_str pod in
     if map_of (ports peers) key = None \<and> is_live peers then do {
       (got, w1) \<leftarrow> read_ports sh ns pod (world peers);
       Some (port \<in> set got, peers\<lparr>ports := AList.update key got (ports peers), world := w1\<rparr>)
     } else Some (case map_of (ports peers) key of None \<Rightarrow> False | Some ps \<Rightarrow> port \<in> set ps, peers))"

definition in_pod_cidr :: "yaml \<Rightarrow> 'w peers \<Rightarrow> bool" where
  "in_pod_cidr ip peers = (case ip_address ip of None \<Rightarrow> False | Some a \<Rightarrow> list_ex (in_network a) (cidrs peers))"

text \<open>One word of the output of kubectl: a JSON list, or text that is read as one.\<close>

definition cidr_chunk :: "string \<Rightarrow> yaml list option" where
  "cidr_chunk c = (case json_loads c of JVal v \<Rightarrow> py_iter v | JOut \<Rightarrow> None
     | JBad \<Rightarrow> Some (map YStr (filter (\<lambda>x. x \<noteq> []) (split_all (CHR '','') (filter (\<lambda>x. x \<noteq> CHR 0x22) (strip_set ''[]'' c))))))"

definition live_pod_cidrs :: "'w shell \<Rightarrow> 'w \<Rightarrow> (yaml list \<times> 'w) option" where
  "live_pod_cidrs sh w = (let ((rc, out, err), w1) = sh w [''kubectl'', ''get'', ''nodes'', ''-o'', ''jsonpath={.items[*].spec.podCIDRs}''] in
     if rc \<noteq> 0 then Some ([], w1) else do { cs \<leftarrow> collect cidr_chunk (py_words out); Some (cs, w1) })"

section \<open>Flows\<close>

definition gone_peer :: "'w shell \<Rightarrow> yaml \<Rightarrow> 'w peers \<Rightarrow> (bool \<times> 'w peers) option" where
  "gone_peer sh flow peers = do {
     l4 \<leftarrow> get_or_dict flow ''l4'';
     tcp \<leftarrow> dget l4 ''TCP'';
     if \<not> is_dict tcp then Some (False, peers) else do {
     flags \<leftarrow> get_or_dict tcp ''flags'';
     syn \<leftarrow> (if truthy flags then dget flags ''SYN'' else Some YNull);
     if \<not> truthy flags \<or> truthy syn then Some (False, peers) else do {
     src \<leftarrow> get_or_dict flow ''source'';
     dst \<leftarrow> get_or_dict flow ''destination'';
     pod \<leftarrow> dget dst ''pod_name'';
     labels \<leftarrow> dget dst ''labels'';
     inside \<leftarrow> (if truthy pod then Some False else py_in (YStr ''reserved:world'') (py_or labels (YList [])));
     if \<not> inside then Some (False, peers) else do {
     ipd \<leftarrow> get_or_dict flow ''IP'';
     ip \<leftarrow> dget_default ipd ''destination'' (YStr []);
     if \<not> in_pod_cidr ip peers then Some (False, peers) else do {
     dv \<leftarrow> dget tcp ''destination_port'';
     dport \<leftarrow> int_of (py_or dv (YInt 0));
     if dport < 32768 then Some (False, peers) else do {
     name \<leftarrow> dget src ''pod_name'';
     if \<not> truthy name then Some (False, peers) else do {
     ns \<leftarrow> dget_default src ''namespace'' (YStr []);
     sv \<leftarrow> dget tcp ''source_port'';
     sport \<leftarrow> int_of (py_or sv (YInt 0));
     listens sh ns name sport peers
     }}}}}}
   }"

definition reserved_name :: "yaml \<Rightarrow> string list option" where
  "reserved_name n = (case n of YStr s \<Rightarrow> Some (if startswith s ''reserved:'' then [drop (length ''reserved:'') s] else []) | _ \<Rightarrow> None)"

definition endpoint_text :: "yaml \<Rightarrow> yaml \<Rightarrow> string option" where
  "endpoint_text e ip = do {
     pod \<leftarrow> dget e ''pod_name'';
     if truthy pod then do { ns \<leftarrow> dget_default e ''namespace'' (YStr ''?''); Some (py_str ns @ ''/'' @ py_str pod) }
     else do {
       names \<leftarrow> get_list e ''labels'';
       rs \<leftarrow> collect reserved_name names;
       Some (py_str (py_or ip (YStr ''?'')) @ (if rs \<noteq> [] then '' ('' @ join '','' rs @ '')'' else []))
     }
   }"

fun port_text :: "yaml \<Rightarrow> string list \<Rightarrow> string option" where
  "port_text l4 [] = do {
     a \<leftarrow> mor (py_in (YStr ''ICMPv4'') l4) (py_in (YStr ''ICMPv6'') l4);
     Some (if a then ''icmp'' else ''?'')
   }"
| "port_text l4 (proto # ps) = do {
     b \<leftarrow> py_in (YStr proto) l4;
     if b then do { p \<leftarrow> item l4 proto; v \<leftarrow> dget_default (py_or p (YMap [])) ''destination_port'' (YStr ''?''); Some (py_str v @ ''/'' @ proto) }
     else port_text l4 ps
   }"

definition port_of :: "yaml \<Rightarrow> string option" where
  "port_of flow = do { l4 \<leftarrow> get_or_dict flow ''l4''; port_text l4 [''TCP'', ''UDP'', ''SCTP''] }"

text \<open>\<^verbatim>\<open>obj.get("flow", obj)\<close>, and the copy of the object without the \<^verbatim>\<open>l7\<close> key of its flow.\<close>

definition flow_of :: "yaml \<Rightarrow> yaml option" where
  "flow_of obj = dget_default obj ''flow'' obj"

definition without_key :: "string \<Rightarrow> yaml \<Rightarrow> yaml option" where
  "without_key k v = (case v of YMap m \<Rightarrow> Some (YMap (filter (\<lambda>e. fst e \<noteq> k) m)) | _ \<Rightarrow> None)"

definition strip_l7 :: "yaml \<Rightarrow> yaml option" where
  "strip_l7 obj = (case obj of
     YMap m \<Rightarrow> (case map_of m ''flow'' of
         None \<Rightarrow> without_key ''l7'' obj
       | Some flow \<Rightarrow> do { f \<leftarrow> without_key ''l7'' flow; Some (YMap (AList.update ''flow'' f m)) })
   | _ \<Rightarrow> None)"

definition evidence_line :: "yaml \<Rightarrow> string option" where
  "evidence_line obj = do { o' \<leftarrow> loads_or_raise (json_write obj); r \<leftarrow> strip_l7 o'; Some (json_write r) }"

section \<open>Drops\<close>

text \<open>The sorted names of the flags that are set.\<close>

definition flag_text :: "yaml \<Rightarrow> string option" where
  "flag_text flow = do {
     l4 \<leftarrow> get_or_dict flow ''l4'';
     tcp \<leftarrow> get_or_dict l4 ''TCP'';
     fl \<leftarrow> get_or_dict tcp ''flags'';
     fs \<leftarrow> items fl;
     Some (join '','' (sort (map fst (filter (\<lambda>(k, v). truthy v) fs))))
   }"

definition drop_reason :: "yaml \<Rightarrow> string option" where
  "drop_reason flow = do { r \<leftarrow> dget flow ''drop_reason_desc''; Some (py_str (py_or r (YStr []))) }"

text \<open>Whether a policy dropped the flow, to or from the namespace.\<close>

definition is_policy_drop :: "string \<Rightarrow> yaml \<Rightarrow> bool option" where
  "is_policy_drop ns flow = do {
     verdict \<leftarrow> dget flow ''verdict'';
     if verdict \<noteq> YStr ''DROPPED'' then Some False else do {
     reason \<leftarrow> drop_reason flow;
     if reason \<notin> set POLICY_REASONS then Some False else do {
     src \<leftarrow> get_or_dict flow ''source'';
     dst \<leftarrow> get_or_dict flow ''destination'';
     if ns = [] then Some True else do {
     a \<leftarrow> dget src ''namespace'';
     b \<leftarrow> dget dst ''namespace'';
     Some (YStr ns \<in> {a, b})
     }}}
   }"

definition drop_item :: "yaml \<Rightarrow> drop option" where
  "drop_item flow = do {
     reason \<leftarrow> drop_reason flow;
     src \<leftarrow> get_or_dict flow ''source'';
     dst \<leftarrow> get_or_dict flow ''destination'';
     ip \<leftarrow> get_or_dict flow ''IP'';
     sip \<leftarrow> dget_default ip ''source'' (YStr []);
     s \<leftarrow> endpoint_text src sip;
     pod \<leftarrow> dget_default src ''pod_name'' (YStr []);
     dip \<leftarrow> dget_default ip ''destination'' (YStr []);
     d \<leftarrow> endpoint_text dst dip;
     port \<leftarrow> port_of flow;
     dir \<leftarrow> dget_default flow ''traffic_direction'' (YStr ''?'');
     time \<leftarrow> dget_default flow ''time'' (YStr []);
     flags \<leftarrow> flag_text flow;
     Some \<lparr>d_source = s, d_source_pod = pod, d_destination = d, d_port = port, d_direction = dir, d_reason = reason, d_time = time, d_flags = flags\<rparr>
   }"

type_synonym 'w drop_state = "'w peers \<times> drop list \<times> string list"

definition obj_step :: "'w shell \<Rightarrow> string \<Rightarrow> bool \<Rightarrow> yaml \<Rightarrow> 'w drop_state \<Rightarrow> 'w drop_state option" where
  "obj_step sh ns want obj = (\<lambda>(peers, out, ev). do {
     flow \<leftarrow> flow_of obj;
     b \<leftarrow> is_policy_drop ns flow;
     if \<not> b then Some (peers, out, ev) else do {
     ev1 \<leftarrow> (if want then do { e \<leftarrow> evidence_line obj; Some (ev @ [e]) } else Some ev);
     it \<leftarrow> drop_item flow;
     (late, peers1) \<leftarrow> gone_peer sh flow peers;
     Some (if late then (peers1\<lparr>notices := notices peers1 @ [it]\<rparr>, out, ev1) else (peers1, out @ [it], ev1))
     }
   })"

text \<open>The object on a line: none on a blank line and on a line that is not JSON.\<close>

definition line_object :: "string \<Rightarrow> yaml option option" where
  "line_object line = (if strip line = [] then Some None
     else case json_loads (strip line) of JBad \<Rightarrow> Some None | JOut \<Rightarrow> None | JVal v \<Rightarrow> Some (Some v))"

definition line_step :: "'w shell \<Rightarrow> string \<Rightarrow> bool \<Rightarrow> string \<Rightarrow> 'w drop_state \<Rightarrow> 'w drop_state option" where
  "line_step sh ns want line st = do { o' \<leftarrow> line_object line; case o' of None \<Rightarrow> Some st | Some obj \<Rightarrow> obj_step sh ns want obj st }"

definition policy_drops :: "'w shell \<Rightarrow> string list \<Rightarrow> string \<Rightarrow> bool \<Rightarrow> 'w peers \<Rightarrow> 'w drop_state option" where
  "policy_drops sh lines ns want peers = mfold (line_step sh ns want) lines (peers, [], [])"

definition describe :: "drop \<Rightarrow> string" where
  "describe d = d_source d @ '' -> '' @ d_destination d @ '' port '' @ d_port d @ '' ('' @ py_str (d_direction d) @ '', '' @ d_reason d
     @ (if d_flags d \<noteq> [] then '', TCP '' @ d_flags d else []) @ '', '' @ py_str (d_time d) @ '')''"

section \<open>Forwarded flows and expected drops\<close>

text \<open>The flow on a line for \<^verbatim>\<open>forwarded\<close>: none when the line is not JSON or not an object.\<close>

definition line_flow :: "string \<Rightarrow> yaml option option" where
  "line_flow line = (case json_loads line of JBad \<Rightarrow> Some None | JOut \<Rightarrow> None
     | JVal v \<Rightarrow> Some (case dget v ''flow'' of None \<Rightarrow> None | Some f \<Rightarrow> Some (py_or f (YMap []))))"

definition forwarded_flow :: "string \<Rightarrow> string \<Rightarrow> yaml \<Rightarrow> drop list option" where
  "forwarded_flow pre port flow = do {
     src \<leftarrow> get_or_dict flow ''source'';
     dst \<leftarrow> get_or_dict flow ''destination'';
     verdict \<leftarrow> dget flow ''verdict'';
     if verdict \<noteq> YStr ''FORWARDED'' then Some [] else do {
     pod \<leftarrow> dget_default src ''pod_name'' (YStr []);
     if \<not> startswith (py_str pod) pre then Some [] else do {
     p \<leftarrow> port_of flow;
     if p \<noteq> port @ ''/TCP'' then Some [] else do {
     ip \<leftarrow> get_or_dict flow ''IP'';
     sip \<leftarrow> dget_default ip ''source'' (YStr []);
     s \<leftarrow> endpoint_text src sip;
     dip \<leftarrow> dget_default ip ''destination'' (YStr []);
     d \<leftarrow> endpoint_text dst dip;
     dir \<leftarrow> dget_default flow ''traffic_direction'' (YStr ''?'');
     time \<leftarrow> dget_default flow ''time'' (YStr []);
     Some [\<lparr>d_source = s, d_source_pod = pod, d_destination = d, d_port = p, d_direction = dir, d_reason = ''FORWARDED'', d_time = time, d_flags = []\<rparr>]
     }}}
   }"

definition forwarded_line :: "string \<Rightarrow> string \<Rightarrow> string \<Rightarrow> drop list option" where
  "forwarded_line pre port line = do { f \<leftarrow> line_flow line; case f of None \<Rightarrow> Some [] | Some flow \<Rightarrow> forwarded_flow pre port flow }"

definition forwarded :: "string list \<Rightarrow> string \<Rightarrow> string \<Rightarrow> drop list option" where
  "forwarded lines pre port = collect (forwarded_line pre port) lines"

text \<open>\<^verbatim>\<open>s.rpartition(":")\<close> without the middle part, and \<^verbatim>\<open>s.isdigit()\<close>.\<close>

definition rpartition :: "char \<Rightarrow> string \<Rightarrow> string \<times> string" where
  "rpartition c s = (if c \<notin> set s then ([], s)
     else (let t = rev (takeWhile (\<lambda>x. x \<noteq> c) (rev s)) in (take (length s - length t - 1) s, t)))"

definition isdigit :: "string \<Rightarrow> bool" where
  "isdigit s = (s \<noteq> [] \<and> list_all (\<lambda>c. is_digit c \<or> c \<in> set [CHR 0xB2, CHR 0xB3, CHR 0xB9]) s)"

definition spec_parts :: "string \<Rightarrow> string \<times> string" where
  "spec_parts spec = (let (pre, port) = rpartition (CHR '':'') spec in if pre = [] \<or> \<not> isdigit port then (spec, []) else (pre, port))"

text \<open>\<^verbatim>\<open>d["source_pod"].startswith(prefix)\<close>.\<close>

definition pod_starts :: "string \<Rightarrow> drop \<Rightarrow> bool option" where
  "pod_starts pre d = do { p \<leftarrow> the_text (d_source_pod d); Some (startswith p pre) }"

definition expected_drops :: "drop list \<Rightarrow> string \<Rightarrow> string \<Rightarrow> drop list option" where
  "expected_drops drops spec dir = (let (pre, port) = spec_parts spec in
     mfilter (\<lambda>d. do { b \<leftarrow> pod_starts pre d;
       Some (b \<and> (port = [] \<or> d_port d = port @ ''/TCP'') \<and> (dir = [] \<or> d_direction d = YStr dir)) }) drops)"

section \<open>Reading the flows of the agents\<close>

definition observe_args :: "string \<Rightarrow> string \<Rightarrow> string \<Rightarrow> string \<Rightarrow> string list" where
  "observe_args ns since verdict pod = [''kubectl'', ''-n'', ''kube-system'', ''exec'', pod, ''-c'', ''cilium-agent'', ''--'',
     ''hubble'', ''observe'', ''--namespace'', ns, ''--verdict'', verdict, ''--output'', ''jsonpb'', ''--last'', ''1000000'']
     @ (if since \<noteq> [] then [''--since'', since] else [])"

text \<open>A pod whose flows cannot be read ends the run.\<close>

definition agent_flows :: "'w shell \<Rightarrow> string \<Rightarrow> string \<Rightarrow> string \<Rightarrow> string \<Rightarrow> string list \<times> 'w \<Rightarrow> (string list \<times> 'w) option" where
  "agent_flows sh ns since verdict pod = (\<lambda>(lines, w).
     let ((rc, out, err), w1) = sh w (observe_args ns since verdict pod)
     in if rc \<noteq> 0 then None else Some (lines @ splitlines out, w1))"

definition AGENTS :: "string list" where
  "AGENTS = [''kubectl'', ''-n'', ''kube-system'', ''get'', ''pods'', ''-l'', ''k8s-app=cilium'', ''-o'',
     ''jsonpath={range .items[*]}{.metadata.name}{'' @ [CHR 0x22, CHR 0x5C] @ ''n'' @ [CHR 0x22] @ ''}{end}'']"

definition live_flows :: "'w shell \<Rightarrow> string \<Rightarrow> string \<Rightarrow> string \<Rightarrow> 'w \<Rightarrow> (string list \<times> 'w) option" where
  "live_flows sh ns since verdict w = (let ((rc, out, err), w1) = sh w AGENTS; pods = py_words out in
     if rc \<noteq> 0 \<or> pods = [] then None else mfold (agent_flows sh ns since verdict) pods ([], w1))"

section \<open>The run\<close>

record hubble_args =
  h_selftest :: bool
  h_namespace :: string
  h_since :: string
  h_flows :: "string list"
  h_expect_drop :: string
  h_expect_forward :: string
  h_direction :: string
  h_pod_cidr :: "string list"
  h_listen_port :: "string list"
  h_evidence :: string

text \<open>The files of recorded flows by name, each as its lines.\<close>

definition lines_of :: "(string \<Rightarrow> string list option) \<Rightarrow> string list \<Rightarrow> string list option" where
  "lines_of rd fs = collect rd fs"

definition read_flows :: "'w shell \<Rightarrow> (string \<Rightarrow> string list option) \<Rightarrow> hubble_args \<Rightarrow> string \<Rightarrow> 'w \<Rightarrow> (string list \<times> 'w) option" where
  "read_flows sh rd a verdict w = (if h_flows a \<noteq> [] then do { ls \<leftarrow> lines_of rd (h_flows a); Some (ls, w) }
     else live_flows sh (h_namespace a) (h_since a) verdict w)"

definition put_listen :: "string \<Rightarrow> (string \<times> int list) list \<Rightarrow> (string \<times> int list) list option" where
  "put_listen lp m = (let (k, v) = split_once (CHR ''='') lp in do {
     i \<leftarrow> py_int (case v of Some x \<Rightarrow> x | None \<Rightarrow> []);
     Some (AList.update k (dict_get m k [] @ [i]) m) })"

definition expect_forward :: "'w shell \<Rightarrow> (string \<Rightarrow> string list option) \<Rightarrow> hubble_args \<Rightarrow> 'w \<Rightarrow> int option" where
  "expect_forward sh rd a w = (let (pre, port) = rpartition (CHR '':'') (h_expect_forward a) in
     if pre = [] \<or> \<not> isdigit port then Some 2
     else do {
       (flows, w1) \<leftarrow> read_flows sh rd a ''FORWARDED'' w;
       (lines, w2) \<leftarrow> read_flows sh rd a ''DROPPED'' w1;
       peers \<leftarrow> new_peers [] [] False w2;
       (peers1, found, ev) \<leftarrow> policy_drops sh lines (h_namespace a) False peers;
       drops \<leftarrow> mfilter (pod_starts pre) found;
       mine \<leftarrow> forwarded flows pre port;
       Some (if mine = [] \<or> drops \<noteq> [] then 1 else 0)
     })"

definition known_peers :: "'w shell \<Rightarrow> hubble_args \<Rightarrow> 'w \<Rightarrow> 'w peers option" where
  "known_peers sh a w = (if h_flows a \<noteq> [] then do {
       ps \<leftarrow> mfold put_listen (h_listen_port a) [];
       new_peers (map YStr (h_pod_cidr a)) ps False w
     } else do { (cs, w1) \<leftarrow> live_pod_cidrs sh w; new_peers cs [] True w1 })"

text \<open>The exit code and the lines that are appended to the evidence file.\<close>

definition drop_run :: "'w shell \<Rightarrow> (string \<Rightarrow> string list option) \<Rightarrow> hubble_args \<Rightarrow> 'w \<Rightarrow> (int \<times> string list) option" where
  "drop_run sh rd a w = do {
     (lines, w1) \<leftarrow> read_flows sh rd a ''DROPPED'' w;
     peers \<leftarrow> known_peers sh a w1;
     (peers1, drops, ev) \<leftarrow> policy_drops sh lines (h_namespace a) True peers;
     let saved = (if h_evidence a \<noteq> [] then ev else []);
     if h_expect_drop a \<noteq> [] then do {
       mine \<leftarrow> expected_drops drops (h_expect_drop a) (h_direction a);
       Some (if mine = [] then 1 else 0, saved)
     } else Some (if drops \<noteq> [] then 1 else 0, saved)
   }"

section \<open>Lines that hold written objects\<close>

lemma strip_object: "strip (json_write (YMap m)) = json_write (YMap m)"
proof -
  obtain t where t: "json_write (YMap m) = CHR ''{'' # t @ ''}''" by simp
  have "\<not> py_space (CHR ''{'')" "\<not> py_space (CHR ''}'')" by code_simp+
  then show ?thesis unfolding t by (simp add: strip_def)
qed

lemma line_step_write: "wf_yaml (YMap m) \<Longrightarrow> line_step sh ns want (json_write (YMap m)) st = obj_step sh ns want (YMap m) st"
proof -
  assume w: "wf_yaml (YMap m)"
  have "json_write (YMap m) \<noteq> []" by simp
  then show ?thesis unfolding line_step_def line_object_def strip_object json_loads_write [OF w] by simp
qed

lemma line_flow_write: "wf_yaml (YMap m) \<Longrightarrow> line_flow (json_write (YMap m)) = Some (map_option (\<lambda>f. py_or f (YMap [])) (dget (YMap m) ''flow''))"
  unfolding line_flow_def by (subst json_loads_write) (auto split: option.split)

section \<open>The state of the check\<close>

lemma listens_cidrs: "listens sh ns pod port peers = Some (b, peers1) \<Longrightarrow> cidrs peers1 = cidrs peers"
  by (auto simp: listens_def Let_def elim!: bindE split: if_splits)

lemma gone_peer_cidrs: "gone_peer sh flow peers = Some (b, peers1) \<Longrightarrow> cidrs peers1 = cidrs peers"
  by (auto simp: gone_peer_def listens_cidrs elim!: bindE split: if_splits)

text \<open>A pod is asked for once: after \<^verbatim>\<open>listens\<close> has answered for a pod, every further question about the pod is
  answered from the cache, whatever the port, and leaves the cluster and the state alone.\<close>

theorem listens_asks_once:
  assumes "listens sh ns pod port peers = Some (b, peers1)"
  shows "\<exists>b'. listens sh ns pod port' peers1 = Some (b', peers1) \<and> (port' = port \<longrightarrow> b' = b)"
proof -
  let ?key = "py_str ns @ ''/'' @ py_str pod"
  show ?thesis
  proof (cases "map_of (ports peers) ?key = None \<and> is_live peers")
    case True
    with assms obtain got w1 where "b \<longleftrightarrow> port \<in> set got" "peers1 = peers\<lparr>ports := AList.update ?key got (ports peers), world := w1\<rparr>"
      by (auto simp: listens_def Let_def elim!: bindE)
    then show ?thesis by (simp add: listens_def Let_def update_conv')
  next
    case False
    with assms have "peers1 = peers" "b = (case map_of (ports peers) ?key of None \<Rightarrow> False | Some ps \<Rightarrow> port \<in> set ps)"
      by (auto simp: listens_def Let_def split: if_splits)
    with False show ?thesis by (auto simp: listens_def Let_def)
  qed
qed

section \<open>Late replies\<close>

text \<open>What a drop that is passed as a late reply has: TCP flags and no SYN, the world entity without a pod as
  its destination, an address in a pod CIDR, and an ephemeral destination port.\<close>

definition late_shape :: "network list \<Rightarrow> yaml \<Rightarrow> bool" where
  "late_shape nets flow \<longleftrightarrow> (\<exists>l4 tcp flags syn dst pod labels ipd ip a dv dport.
     get_or_dict flow ''l4'' = Some l4 \<and> dget l4 ''TCP'' = Some tcp \<and> get_or_dict tcp ''flags'' = Some flags \<and> truthy flags
     \<and> dget flags ''SYN'' = Some syn \<and> \<not> truthy syn
     \<and> get_or_dict flow ''destination'' = Some dst \<and> dget dst ''pod_name'' = Some pod \<and> \<not> truthy pod
     \<and> dget dst ''labels'' = Some labels \<and> py_in (YStr ''reserved:world'') (py_or labels (YList [])) = Some True
     \<and> get_or_dict flow ''IP'' = Some ipd \<and> dget_default ipd ''destination'' (YStr []) = Some ip \<and> ip_address ip = Some a
     \<and> (\<exists>n \<in> set nets. in_network a n)
     \<and> dget tcp ''destination_port'' = Some dv \<and> int_of (py_or dv (YInt 0)) = Some dport \<and> 32768 \<le> dport)"

lemma gone_peer_shape:
  assumes "gone_peer sh flow peers = Some (True, peers1)"
  shows "late_shape (cidrs peers) flow"
proof -
  from assms obtain l4 tcp flags syn dst pod labels ipd ip dv dport where
    "get_or_dict flow ''l4'' = Some l4" "dget l4 ''TCP'' = Some tcp" "get_or_dict tcp ''flags'' = Some flags" "truthy flags"
    "dget flags ''SYN'' = Some syn" "\<not> truthy syn"
    "get_or_dict flow ''destination'' = Some dst" "dget dst ''pod_name'' = Some pod" "\<not> truthy pod"
    "dget dst ''labels'' = Some labels" "py_in (YStr ''reserved:world'') (py_or labels (YList [])) = Some True"
    "get_or_dict flow ''IP'' = Some ipd" "dget_default ipd ''destination'' (YStr []) = Some ip" "in_pod_cidr ip peers"
    "dget tcp ''destination_port'' = Some dv" "int_of (py_or dv (YInt 0)) = Some dport" "\<not> dport < 32768"
    by (auto simp: gone_peer_def elim!: bindE split: if_splits)
  moreover from this(14) obtain a where "ip_address ip = Some a" "\<exists>n \<in> set (cidrs peers). in_network a n"
    by (auto simp: in_pod_cidr_def list_ex_iff split: option.splits)
  ultimately show ?thesis unfolding late_shape_def by (metis linorder_not_less)
qed

section \<open>The loop over the lines\<close>

text \<open>The flow on a line of the loop.\<close>

definition line_drop :: "string \<Rightarrow> string \<Rightarrow> yaml \<Rightarrow> bool" where
  "line_drop ns line flow \<longleftrightarrow> (\<exists>obj. line_object line = Some (Some obj) \<and> flow_of obj = Some flow \<and> is_policy_drop ns flow = Some True)"

lemma line_step_cases:
  assumes "line_step sh ns want line (peers, out, ev) = Some (peers1, out1, ev1)"
  shows "cidrs peers1 = cidrs peers \<and> (\<exists>more. out1 = out @ more)"
proof -
  have "obj_step sh ns want obj (peers, out, ev) = Some (peers1, out1, ev1) \<Longrightarrow> cidrs peers1 = cidrs peers \<and> (\<exists>more. out1 = out @ more)" for obj
    by (auto simp: obj_step_def gone_peer_cidrs elim!: bindE split: if_splits)
  then show ?thesis using assms by (auto simp: line_step_def elim!: bindE split: option.splits)
qed

text \<open>A policy drop on a line is passed as a late reply or reported.\<close>

lemma line_step_drop:
  assumes "line_step sh ns want line (peers, out, ev) = Some (peers1, out1, ev1)" and "line_drop ns line flow"
  shows "\<exists>it. drop_item flow = Some it \<and> (late_shape (cidrs peers) flow \<and> out1 = out \<or> out1 = out @ [it])"
proof -
  from assms(2) obtain obj where o: "line_object line = Some (Some obj)" "flow_of obj = Some flow" "is_policy_drop ns flow = Some True"
    by (auto simp: line_drop_def)
  with assms(1) have "obj_step sh ns want obj (peers, out, ev) = Some (peers1, out1, ev1)" by (simp add: line_step_def)
  then obtain it late q where "drop_item flow = Some it" "gone_peer sh flow peers = Some (late, q)" "out1 = (if late then out else out @ [it])"
    using o(2,3) by (auto simp: obj_step_def elim!: bindE split: if_splits)
  then show ?thesis using gone_peer_shape by (cases late) auto
qed

lemma policy_drops_covers:
  assumes "mfold (line_step sh ns want) lines (peers, out, ev) = Some (peers1, out1, ev1)"
  shows "cidrs peers1 = cidrs peers \<and> set out \<subseteq> set out1
    \<and> (\<forall>line \<in> set lines. \<forall>flow. line_drop ns line flow \<longrightarrow> (\<exists>it. drop_item flow = Some it \<and> (late_shape (cidrs peers) flow \<or> it \<in> set out1)))"
  using assms
proof (induction lines arbitrary: peers out ev)
  case (Cons l ls)
  then obtain p2 o2 e2 where step: "line_step sh ns want l (peers, out, ev) = Some (p2, o2, e2)"
    and rest: "mfold (line_step sh ns want) ls (p2, o2, e2) = Some (peers1, out1, ev1)" by (auto elim!: bindE)
  note c = line_step_cases [OF step] and ih = Cons.IH [OF rest]
  have "\<exists>it. drop_item flow = Some it \<and> (late_shape (cidrs peers) flow \<or> it \<in> set out1)" if "line_drop ns l flow" for flow
    using line_step_drop [OF step that] ih by auto
  then show ?case using c ih by auto
qed simp

text \<open>C5. A clean run is clean: when the check exits with 0 and expects no drop, every flow on the lines that it read
  that a policy dropped, to or from the namespace, is a late reply: it carries TCP flags and no SYN, goes to
  the world entity without a pod at an address in a pod CIDR of the cluster, and to an ephemeral port.\<close>

theorem hubble_clean:
  assumes "drop_run sh rd a w = Some (0, saved)" and "h_expect_drop a = []"
    and "read_flows sh rd a ''DROPPED'' w = Some (lines, w1)" and "known_peers sh a w1 = Some peers"
    and "line \<in> set lines" and "line_drop (h_namespace a) line flow"
  shows "late_shape (cidrs peers) flow"
proof -
  from assms(1-4) obtain p1 ev where "policy_drops sh lines (h_namespace a) True peers = Some (p1, [], ev)"
    by (auto simp: drop_run_def Let_def elim!: bindE split: if_splits)
  from policy_drops_covers [OF this [unfolded policy_drops_def]] assms(5,6) show ?thesis by auto
qed

text \<open>The item of a flow names the pod of its source.\<close>

lemma drop_item_pod: "drop_item flow = Some it \<Longrightarrow> \<exists>src. get_or_dict flow ''source'' = Some src \<and> dget_default src ''pod_name'' (YStr []) = Some (d_source_pod it)"
  by (auto simp: drop_item_def elim!: bindE)

lemma no_late_without_cidrs: "\<not> late_shape [] flow"
  by (simp add: late_shape_def)

lemma forwarded_line_hit:
  assumes "forwarded_line pre port line = Some ds" and "d \<in> set ds"
  shows "\<exists>flow src pod. line_flow line = Some (Some flow) \<and> dget flow ''verdict'' = Some (YStr ''FORWARDED'')
    \<and> get_or_dict flow ''source'' = Some src \<and> dget_default src ''pod_name'' (YStr []) = Some pod \<and> startswith (py_str pod) pre
    \<and> port_of flow = Some (port @ ''/TCP'')"
  using assms by (auto simp: forwarded_line_def forwarded_flow_def elim!: bindE split: option.splits if_splits)

text \<open>The caller fixture speaks for its flow: exit code 0 of \<^verbatim>\<open>--expect-forward\<close> means that a forwarded flow from a pod
  with the prefix to the port is among the flows, and that no flow of a pod with the prefix was dropped by a
  policy, late replies included.\<close>

theorem expect_forward_proves:
  assumes "expect_forward sh rd a w = Some 0"
  shows "\<exists>pre port flows w1 lines w2. rpartition (CHR '':'') (h_expect_forward a) = (pre, port) \<and> pre \<noteq> [] \<and> isdigit port
    \<and> read_flows sh rd a ''FORWARDED'' w = Some (flows, w1) \<and> read_flows sh rd a ''DROPPED'' w1 = Some (lines, w2)
    \<and> (\<exists>line \<in> set flows. \<exists>flow src pod. line_flow line = Some (Some flow) \<and> dget flow ''verdict'' = Some (YStr ''FORWARDED'')
        \<and> get_or_dict flow ''source'' = Some src \<and> dget_default src ''pod_name'' (YStr []) = Some pod \<and> startswith (py_str pod) pre
        \<and> port_of flow = Some (port @ ''/TCP''))
    \<and> (\<forall>line \<in> set lines. \<forall>flow. line_drop (h_namespace a) line flow \<longrightarrow>
        (\<exists>src pod. get_or_dict flow ''source'' = Some src \<and> dget_default src ''pod_name'' (YStr []) = Some (YStr pod) \<and> \<not> startswith pod pre))"
proof -
  obtain pre port where pp: "rpartition (CHR '':'') (h_expect_forward a) = (pre, port)" by fastforce
  from assms obtain flows w1 lines w2 p1 found ev mine where ok: "pre \<noteq> []" "isdigit port"
    and r: "read_flows sh rd a ''FORWARDED'' w = Some (flows, w1)" "read_flows sh rd a ''DROPPED'' w1 = Some (lines, w2)"
    and d: "policy_drops sh lines (h_namespace a) False \<lparr>cidrs = [], ports = [], is_live = False, notices = [], world = w2\<rparr> = Some (p1, found, ev)"
    and f: "mfilter (pod_starts pre) found = Some []" and m: "forwarded flows pre port = Some mine" "mine \<noteq> []"
    by (auto simp: expect_forward_def pp new_peers_def elim!: bindE split: if_splits)
  from m obtain x where "x \<in> set mine" by (cases mine) auto
  with m(1) obtain line ds where "line \<in> set flows" "forwarded_line pre port line = Some ds" "x \<in> set ds"
    by (auto simp: forwarded_def collect_set)
  moreover have "\<exists>src pod. get_or_dict flow ''source'' = Some src \<and> dget_default src ''pod_name'' (YStr []) = Some (YStr pod) \<and> \<not> startswith pod pre"
    if "line \<in> set lines" "line_drop (h_namespace a) line flow" for line flow
  proof -
    from policy_drops_covers [OF d [unfolded policy_drops_def]]
    have "\<forall>line \<in> set lines. \<forall>flow. line_drop (h_namespace a) line flow \<longrightarrow> (\<exists>it. drop_item flow = Some it \<and> it \<in> set found)"
      by (simp add: no_late_without_cidrs)
    with that obtain it where it: "drop_item flow = Some it" "it \<in> set found" by blast
    from f it(2) have "pod_starts pre it = Some False" by (induction found) (auto elim!: bindE split: if_splits)
    then obtain t where "d_source_pod it = YStr t" "\<not> startswith t pre" by (auto simp: pod_starts_def the_text_def elim!: bindE split: yaml.splits)
    with drop_item_pod [OF it(1)] show ?thesis by auto
  qed
  ultimately show ?thesis using pp ok r forwarded_line_hit by (intro exI conjI) blast+
qed

section \<open>The evidence\<close>

lemma line_object_wf: "line_object line = Some (Some obj) \<Longrightarrow> wf_yaml obj"
  by (auto simp: line_object_def split: if_splits json_result.splits dest: json_loads_wf)

lemma wf_filter: "wf_yaml (YMap m) \<Longrightarrow> wf_yaml (YMap (filter P m))"
  by (auto simp: list_all_iff distinct_map_filter)

lemma strip_l7_result:
  assumes "wf_yaml obj" and "strip_l7 obj = Some r"
  shows "wf_yaml r \<and> (\<exists>f. flow_of r = Some f \<and> py_in (YStr ''l7'') f = Some False)"
proof -
  from assms(2) obtain m where m: "obj = YMap m" by (auto simp: strip_l7_def split: yaml.splits)
  have gone: "py_in (YStr ''l7'') (YMap (filter (\<lambda>e. fst e \<noteq> ''l7'') x)) = Some False" for x
    by (auto simp: map_of_eq_None_iff)
  show ?thesis
  proof (cases "map_of m ''flow''")
    case None
    then have r: "r = YMap (filter (\<lambda>e. fst e \<noteq> ''l7'') m)" using assms(2) by (simp add: strip_l7_def m without_key_def)
    moreover have "map_of (filter (\<lambda>e. fst e \<noteq> ''l7'') m) ''flow'' = None" using None by (auto simp: map_of_eq_None_iff)
    ultimately show ?thesis using assms(1) gone by (simp add: m flow_of_def wf_filter del: wf_yaml.simps py_in.simps)
  next
    case (Some fl)
    with assms(2) obtain x where x: "fl = YMap x" "r = YMap (AList.update ''flow'' (YMap (filter (\<lambda>e. fst e \<noteq> ''l7'') x)) m)"
      by (auto simp: strip_l7_def m without_key_def split: yaml.splits)
    have "wf_yaml fl" using assms(1) Some by (auto simp: m list_all_iff dest: map_of_SomeD)
    then have "wf_yaml r" using assms(1) unfolding x m by (intro wf_update wf_filter)
    then show ?thesis using gone [of x] by (simp add: x(2) flow_of_def update_conv' del: wf_yaml.simps py_in.simps)
  qed
qed

definition public_line :: "string \<Rightarrow> bool" where
  "public_line e \<longleftrightarrow> (\<exists>r f. json_loads e = JVal r \<and> flow_of r = Some f \<and> py_in (YStr ''l7'') f = Some False)"

lemma evidence_line_public: "wf_yaml obj \<Longrightarrow> evidence_line obj = Some e \<Longrightarrow> public_line e"
proof -
  assume o: "wf_yaml obj" "evidence_line obj = Some e"
  then obtain r where r: "strip_l7 obj = Some r" "e = json_write r" by (auto simp: evidence_line_def loads_or_raise_def json_loads_write elim!: bindE)
  from strip_l7_result [OF o(1) r(1)] obtain f where "wf_yaml r" "flow_of r = Some f" "py_in (YStr ''l7'') f = Some False" by blast
  then show ?thesis by (auto simp: public_line_def r(2) json_loads_write)
qed

lemma listens_notices: "listens sh ns pod port peers = Some (b, peers1) \<Longrightarrow> notices peers1 = notices peers"
  by (auto simp: listens_def Let_def elim!: bindE split: if_splits)

lemma gone_peer_notices: "gone_peer sh flow peers = Some (b, peers1) \<Longrightarrow> notices peers1 = notices peers"
  by (auto simp: gone_peer_def listens_notices elim!: bindE split: if_splits)

lemma obj_step_evidence:
  assumes "wf_yaml obj" and "obj_step sh ns True obj (peers, out, ev) = Some (peers1, out1, ev1)"
  shows "\<exists>es. ev1 = ev @ es \<and> list_all public_line es \<and> length es + length out + length (notices peers) = length out1 + length (notices peers1)"
proof -
  from assms(2) obtain flow b where f: "flow_of obj = Some flow" "is_policy_drop ns flow = Some b" by (auto simp: obj_step_def elim!: bindE)
  show ?thesis
  proof (cases b)
    case True
    with assms(2) f obtain e it late q where "evidence_line obj = Some e" "ev1 = ev @ [e]" "gone_peer sh flow peers = Some (late, q)"
      "peers1 = (if late then q\<lparr>notices := notices q @ [it]\<rparr> else q)" "out1 = (if late then out else out @ [it])"
      by (auto simp: obj_step_def elim!: bindE split: if_splits)
    then show ?thesis using evidence_line_public [OF assms(1)] gone_peer_notices by fastforce
  next
    case False
    with assms(2) f show ?thesis by (simp add: obj_step_def)
  qed
qed

lemma line_step_evidence:
  assumes "line_step sh ns True line (peers, out, ev) = Some (peers1, out1, ev1)"
  shows "\<exists>es. ev1 = ev @ es \<and> list_all public_line es \<and> length es + length out + length (notices peers) = length out1 + length (notices peers1)"
proof -
  from assms obtain o' where o: "line_object line = Some o'" by (auto simp: line_step_def elim!: bindE)
  show ?thesis
  proof (cases o')
    case None
    with assms o show ?thesis by (simp add: line_step_def)
  next
    case (Some obj)
    with assms o have "obj_step sh ns True obj (peers, out, ev) = Some (peers1, out1, ev1)" by (simp add: line_step_def)
    with obj_step_evidence line_object_wf o Some show ?thesis by blast
  qed
qed

lemma policy_drops_evidence:
  assumes "mfold (line_step sh ns True) lines (peers, out, ev) = Some (peers1, out1, ev1)"
  shows "\<exists>es. ev1 = ev @ es \<and> list_all public_line es \<and> length es + length out + length (notices peers) = length out1 + length (notices peers1)"
  using assms
proof (induction lines arbitrary: peers out ev)
  case (Cons l ls)
  then obtain p2 o2 e2 where step: "line_step sh ns True l (peers, out, ev) = Some (p2, o2, e2)"
    and rest: "mfold (line_step sh ns True) ls (p2, o2, e2) = Some (peers1, out1, ev1)" by (auto elim!: bindE)
  from line_step_evidence [OF step] obtain es where es: "e2 = ev @ es" "list_all public_line es"
    "length es + length out + length (notices peers) = length o2 + length (notices p2)" by blast
  from Cons.IH [OF rest] obtain es' where "ev1 = e2 @ es'" "list_all public_line es'"
    "length es' + length o2 + length (notices p2) = length out1 + length (notices peers1)" by blast
  with es show ?case by (intro exI [of _ "es @ es'"]) simp
qed simp

text \<open>C21. The evidence holds no layer 7 data and misses no drop: each line that is written to the evidence file is JSON
  whose flow has no \<^verbatim>\<open>l7\<close> key, so that no request header reaches the public artifact, and there are as many lines
  as policy drops, reported or passed as notices.\<close>

theorem evidence_public:
  assumes "policy_drops sh lines ns True peers = Some (peers1, drops, ev)"
  shows "list_all public_line ev \<and> length ev + length (notices peers) = length drops + length (notices peers1)"
  using policy_drops_evidence [OF assms [unfolded policy_drops_def]] by auto

end
