(* ===== verification/HubbleSelftest.thy ===== *)
theory HubbleSelftest
  imports HubbleDrops
begin

text \<open>
  The fixtures, the selftest and \<^verbatim>\<open>main\<close> of \<^verbatim>\<open>src/scripts/check-hubble-drops.py\<close>, the evaluation of the selftest, and the
  concrete inputs of the properties of \<^verbatim>\<open>HubbleDrops\<close>.
\<close>

section \<open>The selftest\<close>

definition wrap :: "dict \<Rightarrow> yaml" where
  "wrap f = YMap [(''flow'', YMap f)]"

definition end_pod :: "string \<Rightarrow> string \<Rightarrow> yaml" where
  "end_pod ns pod = YMap [(''namespace'', YStr ns), (''pod_name'', YStr pod)]"

definition world_labels :: yaml where
  "world_labels = YMap [(''labels'', YList [YStr ''reserved:world''])]"

definition ip_pair :: "string \<Rightarrow> string \<Rightarrow> yaml" where
  "ip_pair a b = YMap [(''source'', YStr a), (''destination'', YStr b)]"

definition UNLABELED_TO_POSTGRES :: dict where
  "UNLABELED_TO_POSTGRES =
     [(''time'', YStr ''2026-10-07T00:00:00Z''), (''verdict'', YStr ''DROPPED''),
      (''drop_reason_desc'', YStr ''POLICY_DENIED''), (''traffic_direction'', YStr ''EGRESS''),
      (''IP'', ip_pair ''10.244.0.50'' ''10.244.0.20''),
      (''l4'', YMap [(''TCP'', YMap [(''source_port'', YInt 40000), (''destination_port'', YInt 5432)])]),
      (''source'', YMap [(''namespace'', YStr ''gibson''), (''pod_name'', YStr ''hubble-proof-unlabeled''), (''labels'', YList [YStr ''k8s:run=hubble-proof-unlabeled''])]),
      (''destination'', YMap [(''namespace'', YStr ''gibson''), (''pod_name'', YStr ''platform-postgres-1''),
         (''labels'', YList [YStr ''k8s:gibson.zeroroot.ai/datastore=postgres''])])]"

definition FORWARDED_FLOW :: dict where
  "FORWARDED_FLOW = dict_merge UNLABELED_TO_POSTGRES [(''verdict'', YStr ''FORWARDED''), (''drop_reason_desc'', YStr [])]"

definition OTHER_DROP :: dict where
  "OTHER_DROP = dict_merge UNLABELED_TO_POSTGRES [(''drop_reason_desc'', YStr ''CT_MAP_INSERTION_FAILED'')]"

definition OTHER_NAMESPACE :: dict where
  "OTHER_NAMESPACE = dict_merge UNLABELED_TO_POSTGRES [(''source'', end_pod ''tenant-a'' ''x''), (''destination'', end_pod ''tenant-b'' ''y'')]"

definition ingress_flow :: dict where
  "ingress_flow = dict_merge UNLABELED_TO_POSTGRES [(''traffic_direction'', YStr ''INGRESS''), (''source'', world_labels)]"

definition late_tcp :: dict where
  "late_tcp = [(''source_port'', YInt 8080), (''destination_port'', YInt 60814), (''flags'', YMap [(''ACK'', YBool True), (''FIN'', YBool True)])]"

definition with_tcp :: "dict \<Rightarrow> yaml" where
  "with_tcp upd = YMap [(''TCP'', YMap (dict_merge late_tcp upd))]"

definition late_flow :: dict where
  "late_flow = dict_merge UNLABELED_TO_POSTGRES [(''IP'', ip_pair ''10.244.0.30'' ''10.244.0.187''), (''l4'', with_tcp []),
     (''source'', end_pod ''gibson'' ''gibson-openfga-x''), (''destination'', world_labels)]"

definition outside_flow :: dict where
  "outside_flow = dict_merge late_flow [(''IP'', ip_pair ''10.244.0.30'' ''203.0.113.5''),
     (''l4'', with_tcp [(''destination_port'', YInt 443), (''flags'', YMap [(''ACK'', YBool True), (''PSH'', YBool True)])])]"

definition finding_flows :: "dict list" where
  "finding_flows = [outside_flow,
     dict_merge late_flow [(''l4'', with_tcp [(''flags'', YMap [(''SYN'', YBool True)])])],
     dict_merge late_flow [(''destination'', YMap [(''namespace'', YStr ''gibson''), (''pod_name'', YStr ''gibson-x''), (''labels'', YList [YStr ''k8s:app=x''])])],
     dict_merge late_flow [(''l4'', with_tcp [(''flags'', YMap [])])],
     dict_merge late_flow [(''l4'', with_tcp [(''source_port'', YInt 9999)])],
     dict_merge late_flow [(''l4'', with_tcp [(''destination_port'', YInt 5432)])]]"

definition l7_flow :: dict where
  "l7_flow = dict_merge outside_flow [(''l7'', YMap [(''http'', YMap [(''headers'',
     YList [YMap [(''key'', YStr ''Authorization''), (''value'', YStr ''Bearer sekret-l7'')]])])])]"

definition to_port :: "int \<Rightarrow> yaml" where
  "to_port p = YMap [(''TCP'', YMap [(''destination_port'', YInt p)])]"

definition trainer_flow :: dict where
  "trainer_flow = dict_merge FORWARDED_FLOW [(''l4'', to_port 50051), (''source'', end_pod ''tenant-primary'' ''belief-trainer-proof-x1''),
     (''destination'', end_pod ''gibson'' ''gibson-gibson-workloads-0'')]"

definition runner_flow :: dict where
  "runner_flow = dict_merge UNLABELED_TO_POSTGRES [(''l4'', to_port 50001), (''source'', end_pod ''tenant-primary'' ''hubble-proof-connector-runner''),
     (''destination'', end_pod ''gibson'' ''gibson-gibson-workloads-0'')]"

definition dumps :: "dict \<Rightarrow> string" where
  "dumps f = json_write (wrap f)"

definition st_peers :: "'w \<Rightarrow> string list \<Rightarrow> (string \<times> int list) list \<Rightarrow> 'w peers option" where
  "st_peers w cs ps = new_peers (map YStr cs) ps False w"

definition st_drops :: "'w shell \<Rightarrow> string list \<Rightarrow> string \<Rightarrow> 'w peers option \<Rightarrow> drop list option" where
  "st_drops sh lines ns po = do { peers \<leftarrow> po; (p1, out, ev) \<leftarrow> policy_drops sh lines ns False peers; Some out }"

definition st_openfga :: "(string \<times> int list) list" where
  "st_openfga = [(''gibson/gibson-openfga-x'', [8080])]"

definition st_late :: "'w shell \<Rightarrow> 'w \<Rightarrow> bool option" where
  "st_late sh w = do { peers \<leftarrow> st_peers w [''10.244.0.0/24''] st_openfga;
     (p1, out, ev) \<leftarrow> policy_drops sh [dumps late_flow] ''gibson'' False peers; Some (out = [] \<and> length (notices p1) = 1) }"

definition st_evidence :: "'w shell \<Rightarrow> 'w \<Rightarrow> string list \<Rightarrow> (string \<times> int list) list \<Rightarrow> string list option" where
  "st_evidence sh w lines ps = do { peers \<leftarrow> st_peers w [''10.244.0.0/24''] ps; (p1, out, ev) \<leftarrow> policy_drops sh lines ''gibson'' True peers; Some ev }"

definition st_l7 :: "'w shell \<Rightarrow> 'w \<Rightarrow> bool option" where
  "st_l7 sh w = do { ev \<leftarrow> st_evidence sh w [dumps l7_flow] [];
     if length ev \<noteq> 1 then Some False else do {
     o' \<leftarrow> loads_or_raise (hd ev); f \<leftarrow> item o' ''flow''; b \<leftarrow> py_in (YStr ''l7'') f;
     Some (\<not> b \<and> \<not> sublist ''sekret-l7'' (hd ev)) } }"

definition st_expected :: "'w shell \<Rightarrow> 'w \<Rightarrow> string \<Rightarrow> string \<Rightarrow> nat option" where
  "st_expected sh w spec dir = do { ds \<leftarrow> st_drops sh [dumps runner_flow] ''tenant-primary'' (st_peers w [] []); mine \<leftarrow> expected_drops ds spec dir; Some (length mine) }"

definition st_turned :: "'w shell \<Rightarrow> 'w \<Rightarrow> bool option" where
  "st_turned sh w = do { ds \<leftarrow> st_drops sh [dumps runner_flow] ''tenant-primary'' (st_peers w [] []);
     mine \<leftarrow> expected_drops [(hd ds)\<lparr>d_direction := YStr ''INGRESS''\<rparr>] ''hubble-proof-connector-runner:50001'' ''EGRESS''; Some (mine = []) }"

definition selftest_hubble :: "'w shell \<Rightarrow> 'w \<Rightarrow> int option" where
  "selftest_hubble sh w =
     (let quiet = map dumps [FORWARDED_FLOW, OTHER_DROP, OTHER_NAMESPACE];
          none = st_peers w [] [];
          pod = st_peers w [''10.244.0.0/24''] st_openfga
      in selftest_rc (
        [map_option (\<lambda>ds. ds = []) (st_drops sh quiet ''gibson'' none),
         map_option (\<lambda>ds. length ds = 1 \<and> list_all (\<lambda>x. sublist x (describe (hd ds)))
             [''gibson/hubble-proof-unlabeled'', ''gibson/platform-postgres-1'', ''5432/TCP'', ''POLICY_DENIED''])
           (st_drops sh (quiet @ [dumps UNLABELED_TO_POSTGRES, ''not json'']) ''gibson'' none),
         map_option (\<lambda>ds. length ds = 1 \<and> sublist ''world'' (d_source (hd ds))) (st_drops sh [dumps ingress_flow] ''gibson'' none),
         st_late sh w]
        @ map (\<lambda>f. map_option (\<lambda>ds. length ds = 1) (st_drops sh [dumps f] ''gibson'' pod)) finding_flows
        @ [map_option (\<lambda>ds. length ds = 1) (st_drops sh [dumps late_flow] ''gibson'' (st_peers w [] st_openfga)),
         map_option (\<lambda>ev. length ev = 2) (st_evidence sh w [dumps late_flow, dumps outside_flow] st_openfga),
         st_l7 sh w,
         map_option (\<lambda>ds. length ds = 1) (forwarded [dumps trainer_flow] ''belief-trainer-proof'' ''50051'')]
        @ map (\<lambda>u. map_option (\<lambda>ds. ds = []) (forwarded [dumps (dict_merge trainer_flow u)] ''belief-trainer-proof'' ''50051''))
            [[(''l4'', to_port 50001)], [(''verdict'', YStr ''DROPPED'')], [(''source'', end_pod ''x'' ''other'')]]
        @ map (\<lambda>(spec, dir, n). map_option (\<lambda>k. k = n) (st_expected sh w spec dir))
            [(''hubble-proof-connector-runner:50001'', [], 1), (''hubble-proof-connector-runner:50051'', [], 0), (''other:50001'', [], 0),
             (''hubble-proof-connector-runner:50001'', ''EGRESS'', 1)]
        @ [st_turned sh w]))"

definition main_hubble :: "'w shell \<Rightarrow> (string \<Rightarrow> string list option) \<Rightarrow> hubble_args \<Rightarrow> 'w \<Rightarrow> (int \<times> string list) option" where
  "main_hubble sh rd a w =
     (if h_selftest a then map_option (\<lambda>rc. (rc, [])) (selftest_hubble sh w)
      else if h_expect_forward a \<noteq> [] then map_option (\<lambda>rc. (rc, [])) (expect_forward sh rd a w)
      else drop_run sh rd a w)"

section \<open>Fixtures through the check\<close>

text \<open>The loop on lines that hold written flows, without the parser.\<close>

definition flow_step :: "'w shell \<Rightarrow> string \<Rightarrow> bool \<Rightarrow> dict \<Rightarrow> 'w drop_state \<Rightarrow> 'w drop_state option" where
  "flow_step sh ns want f = (\<lambda>(peers, out, ev). do {
     b \<leftarrow> is_policy_drop ns (YMap f);
     if \<not> b then Some (peers, out, ev) else do {
     it \<leftarrow> drop_item (YMap f);
     (late, peers1) \<leftarrow> gone_peer sh (YMap f) peers;
     let ev1 = (if want then ev @ [dumps (filter (\<lambda>e. fst e \<noteq> ''l7'') f)] else ev);
     Some (if late then (peers1\<lparr>notices := notices peers1 @ [it]\<rparr>, out, ev1) else (peers1, out @ [it], ev1))
     }
   })"

lemma line_step_dumps: "wf_yaml (YMap f) \<Longrightarrow> line_step sh ns want (dumps f) st = flow_step sh ns want f st"
proof -
  assume f: "wf_yaml (YMap f)"
  then have w: "wf_yaml (wrap f)" by (simp add: wrap_def)
  have e: "evidence_line (wrap f) = Some (dumps (filter (\<lambda>e. fst e \<noteq> ''l7'') f))"
    unfolding evidence_line_def loads_or_raise_def json_loads_write [OF w] by (simp add: wrap_def strip_l7_def without_key_def dumps_def)
  have "line_step sh ns want (dumps f) st = obj_step sh ns want (wrap f) st"
    using w by (simp add: dumps_def wrap_def line_step_write del: json_write.simps)
  also have "\<dots> = flow_step sh ns want f st"
    by (cases st) (auto simp: obj_step_def flow_step_def e [unfolded wrap_def] wrap_def flow_of_def Let_def split: option.split bind_splits)
  finally show ?thesis .
qed

lemma mfold_dumps: "list_all (\<lambda>f. wf_yaml (YMap f)) fs \<Longrightarrow> mfold (line_step sh ns want) (map dumps fs) st = mfold (flow_step sh ns want) fs st"
  by (induction fs arbitrary: st) (auto simp: line_step_dumps cong: bind_option_cong)

lemma policy_drops_dumps: "list_all (\<lambda>f. wf_yaml (YMap f)) fs \<Longrightarrow> policy_drops sh (map dumps fs) ns want peers = mfold (flow_step sh ns want) fs (peers, [], [])"
  by (simp add: policy_drops_def mfold_dumps)

lemma st_drops_dumps: "list_all (\<lambda>f. wf_yaml (YMap f)) fs \<Longrightarrow>
    st_drops sh (map dumps fs) ns po = do { peers \<leftarrow> po; (p1, out, ev) \<leftarrow> mfold (flow_step sh ns False) fs (peers, [], []); Some out }"
  by (simp add: st_drops_def policy_drops_dumps cong: bind_option_cong)

lemma st_drops_one: "wf_yaml (YMap f) \<Longrightarrow>
    st_drops sh [dumps f] ns po = do { peers \<leftarrow> po; (p1, out, ev) \<leftarrow> flow_step sh ns False f (peers, [], []); Some out }"
  using st_drops_dumps [of "[f]" sh ns po] by simp

lemma st_quiet: "st_drops sh (map dumps [FORWARDED_FLOW, OTHER_DROP, OTHER_NAMESPACE]) ''gibson'' (st_peers w [] []) = Some []"
  by (subst st_drops_dumps) code_simp+

lemma not_json: "line_step sh ns want ''not json'' st = Some st"
proof -
  have "line_object ''not json'' = Some None" by code_simp
  then show ?thesis by (simp add: line_step_def)
qed

lemma mfold_snoc_same: "(\<And>s. f x s = Some s) \<Longrightarrow> mfold f (xs @ [x]) st = mfold f xs st"
  by (induction xs arbitrary: st) (auto split: Option.bind_splits)

lemma st_reported: "map_option (\<lambda>ds. length ds = 1 \<and> list_all (\<lambda>x. sublist x (describe (hd ds)))
    [''gibson/hubble-proof-unlabeled'', ''gibson/platform-postgres-1'', ''5432/TCP'', ''POLICY_DENIED''])
  (st_drops sh (map dumps [FORWARDED_FLOW, OTHER_DROP, OTHER_NAMESPACE] @ [dumps UNLABELED_TO_POSTGRES, ''not json'']) ''gibson'' (st_peers w [] [])) = Some True"
proof -
  have "mfold (line_step sh ''gibson'' False) (map dumps [FORWARDED_FLOW, OTHER_DROP, OTHER_NAMESPACE] @ [dumps UNLABELED_TO_POSTGRES, ''not json'']) st
      = mfold (line_step sh ''gibson'' False) (map dumps [FORWARDED_FLOW, OTHER_DROP, OTHER_NAMESPACE, UNLABELED_TO_POSTGRES]) st" for st
    using mfold_snoc_same [of "line_step sh ''gibson'' False" "''not json''", OF not_json, of "map dumps [FORWARDED_FLOW, OTHER_DROP, OTHER_NAMESPACE, UNLABELED_TO_POSTGRES]"]
    by (simp only: list.map append.simps)
  then have r: "st_drops sh (map dumps [FORWARDED_FLOW, OTHER_DROP, OTHER_NAMESPACE] @ [dumps UNLABELED_TO_POSTGRES, ''not json'']) ''gibson'' (st_peers w [] [])
      = st_drops sh (map dumps [FORWARDED_FLOW, OTHER_DROP, OTHER_NAMESPACE, UNLABELED_TO_POSTGRES]) ''gibson'' (st_peers w [] [])"
    by (simp only: st_drops_def policy_drops_def)
  show ?thesis unfolding r by (subst st_drops_dumps) code_simp+
qed

lemma st_ingress: "map_option (\<lambda>ds. length ds = 1 \<and> sublist ''world'' (d_source (hd ds))) (st_drops sh [dumps ingress_flow] ''gibson'' (st_peers w [] [])) = Some True"
  by (subst st_drops_one) code_simp+

lemma st_late_ok: "st_late sh w = Some True"
proof -
  have "list_all (\<lambda>f. wf_yaml (YMap f)) [late_flow]" by code_simp
  note r = policy_drops_dumps [OF this, of sh "''gibson''" False, unfolded list.map]
  show ?thesis unfolding st_late_def r by code_simp
qed

lemma finding_flows_wf: "list_all (\<lambda>f. wf_yaml (YMap f)) finding_flows" "list_all (\<lambda>f. wf_yaml (YMap f)) [late_flow, outside_flow, l7_flow, runner_flow, trainer_flow]"
  by code_simp+

lemma st_findings: "list_all (\<lambda>f. map_option (\<lambda>ds. length ds = 1) (st_drops sh [dumps f] ''gibson'' (st_peers w [''10.244.0.0/24''] st_openfga)) = Some True) finding_flows"
proof -
  have "list_all (\<lambda>f. map_option (\<lambda>ds. length ds = 1) (do { peers \<leftarrow> st_peers w [''10.244.0.0/24''] st_openfga;
      (p1, out, ev) \<leftarrow> flow_step sh ''gibson'' False f (peers, [], []); Some out }) = Some True) finding_flows" by code_simp
  with finding_flows_wf(1) show ?thesis by (simp add: list_all_iff st_drops_one)
qed

lemma st_no_cidr: "map_option (\<lambda>ds. length ds = 1) (st_drops sh [dumps late_flow] ''gibson'' (st_peers w [] st_openfga)) = Some True"
  by (subst st_drops_one) code_simp+

lemma st_evidence_dumps: "list_all (\<lambda>f. wf_yaml (YMap f)) fs \<Longrightarrow> st_evidence sh w (map dumps fs) ps =
    do { peers \<leftarrow> st_peers w [''10.244.0.0/24''] ps; (p1, out, ev) \<leftarrow> mfold (flow_step sh ''gibson'' True) fs (peers, [], []); Some ev }"
  by (simp add: st_evidence_def policy_drops_dumps cong: bind_option_cong)

lemma st_evidence_two: "st_evidence sh w [dumps late_flow, dumps outside_flow] st_openfga = Some [dumps late_flow, dumps outside_flow]"
proof -
  have "list_all (\<lambda>f. wf_yaml (YMap f)) [late_flow, outside_flow]" by code_simp
  note r = st_evidence_dumps [OF this, of sh w st_openfga, unfolded list.map]
  show ?thesis unfolding r by code_simp
qed

lemma st_evidence_l7: "st_evidence sh w [dumps l7_flow] [] = Some [dumps outside_flow]"
proof -
  have "list_all (\<lambda>f. wf_yaml (YMap f)) [l7_flow]" by code_simp
  note r = st_evidence_dumps [OF this, of sh w "[]", unfolded list.map]
  show ?thesis unfolding r by code_simp
qed

lemma st_l7_ok: "st_l7 sh w = Some True"
proof -
  have w: "wf_yaml (wrap outside_flow)" by code_simp
  have s: "\<not> sublist ''sekret-l7'' (dumps outside_flow)" by code_simp
  have p: "py_in (YStr ''l7'') (YMap outside_flow) = Some False" by code_simp
  have l: "loads_or_raise (dumps outside_flow) = Some (wrap outside_flow)" unfolding loads_or_raise_def dumps_def json_loads_write [OF w] by simp
  show ?thesis unfolding st_l7_def st_evidence_l7 using l s p by (simp add: wrap_def del: py_in.simps)
qed

lemma forwarded_dumps: "wf_yaml (YMap f) \<Longrightarrow> forwarded_line pre port (dumps f) = forwarded_flow pre port (YMap f)"
proof -
  assume "wf_yaml (YMap f)"
  then have "line_flow (dumps f) = Some (Some (YMap f))" unfolding dumps_def wrap_def by (subst line_flow_write) (auto simp: py_or_def)
  then show ?thesis by (simp add: forwarded_line_def)
qed

lemma forwarded_one: "wf_yaml (YMap f) \<Longrightarrow> forwarded [dumps f] pre port = forwarded_flow pre port (YMap f)"
  by (simp add: forwarded_def collect_Cons forwarded_dumps)

lemma st_trainer: "map_option (\<lambda>ds. length ds = 1) (forwarded [dumps trainer_flow] ''belief-trainer-proof'' ''50051'') = Some True"
  by (subst forwarded_one) code_simp+

lemma st_other_flows: "list_all (\<lambda>u. map_option (\<lambda>ds. ds = []) (forwarded [dumps (dict_merge trainer_flow u)] ''belief-trainer-proof'' ''50051'') = Some True)
    [[(''l4'', to_port 50001)], [(''verdict'', YStr ''DROPPED'')], [(''source'', end_pod ''x'' ''other'')]]"
proof -
  let ?us = "[[(''l4'', to_port 50001)], [(''verdict'', YStr ''DROPPED'')], [(''source'', end_pod ''x'' ''other'')]]"
  have "list_all (\<lambda>u. wf_yaml (YMap (dict_merge trainer_flow u)) \<and>
      map_option (\<lambda>ds. ds = []) (forwarded_flow ''belief-trainer-proof'' ''50051'' (YMap (dict_merge trainer_flow u))) = Some True) ?us" by code_simp
  then show ?thesis unfolding list_all_iff using forwarded_one by force
qed

lemma st_runner: "st_drops sh [dumps runner_flow] ''tenant-primary'' (st_peers w [] []) = map_option (\<lambda>it. [it]) (drop_item (YMap runner_flow))"
  by (subst st_drops_one) code_simp+

lemma st_specs: "list_all (\<lambda>(spec, dir, n). map_option (\<lambda>k. k = n) (st_expected sh w spec dir) = Some True)
    [(''hubble-proof-connector-runner:50001'', [], 1), (''hubble-proof-connector-runner:50051'', [], 0), (''other:50001'', [], 0),
     (''hubble-proof-connector-runner:50001'', ''EGRESS'', 1)]"
  unfolding st_expected_def st_runner by code_simp

lemma st_turned_ok: "st_turned sh w = Some True"
  unfolding st_turned_def st_runner by code_simp

text \<open>The selftest passes on every cluster, since it asks the cluster nothing: each of its cases comes out as it says.\<close>

theorem selftest_hubble_passes: "selftest_hubble sh w = Some 0"
proof -
  note f = st_quiet [of sh w] st_reported [of sh w] st_ingress [of sh w] st_late_ok [of sh w] st_no_cidr [of sh w] st_evidence_two [of sh w] st_l7_ok [of sh w]
    st_trainer st_turned_ok [of sh w]
  have "mall id (map (\<lambda>f. map_option (\<lambda>ds. length ds = 1) (st_drops sh [dumps f] ''gibson'' (st_peers w [''10.244.0.0/24''] st_openfga))) finding_flows) = Some True"
    using st_findings [of sh w] by (simp add: mall_True_iff list_all_iff)
  moreover have "mall id (map (\<lambda>u. map_option (\<lambda>ds. ds = []) (forwarded [dumps (dict_merge trainer_flow u)] ''belief-trainer-proof'' ''50051''))
      [[(''l4'', to_port 50001)], [(''verdict'', YStr ''DROPPED'')], [(''source'', end_pod ''x'' ''other'')]]) = Some True"
    using st_other_flows by (simp only: mall_True_iff list_all_iff set_map) auto
  moreover have "mall id (map (\<lambda>(spec, dir, n). map_option (\<lambda>k. k = n) (st_expected sh w spec dir))
      [(''hubble-proof-connector-runner:50001'', [], 1), (''hubble-proof-connector-runner:50051'', [], 0), (''other:50001'', [], 0),
       (''hubble-proof-connector-runner:50001'', ''EGRESS'', 1)]) = Some True"
    using st_specs [of sh w] by (simp only: mall_True_iff list_all_iff set_map) auto
  ultimately show ?thesis unfolding selftest_hubble_def Let_def selftest_rc_def mall_append
    by (simp only: mall.simps f) simp
qed

section \<open>Witnesses\<close>

text \<open>A cluster whose one pod listens on port 80, and runs over recorded flows.\<close>

definition one_pod :: "unit shell" where
  "one_pod w args = ((0, json_write (YMap [(''spec'', YMap [(''containers'', YList [YMap [(''ports'', YList [YMap [(''containerPort'', YInt 80)]])]])])]), []), w)"

definition no_args :: hubble_args where
  "no_args = \<lparr>h_selftest = False, h_namespace = ''gibson'', h_since = [], h_flows = [''flows.json''], h_expect_drop = [], h_expect_forward = [],
     h_direction = [], h_pod_cidr = [''10.244.0.0/24''], h_listen_port = [''gibson/gibson-openfga-x=8080''], h_evidence = ''evidence.json''\<rparr>"

definition live_peers :: "(string \<times> int list) list \<Rightarrow> unit peers" where
  "live_peers ps = \<lparr>cidrs = [], ports = ps, is_live = True, notices = [], world = ()\<rparr>"

lemma one_pod_listens: "listens one_pod (YStr ''gibson'') (YStr ''p'') 80 (live_peers []) = Some (True, live_peers [(''gibson/p'', [80])])"
proof -
  have w: "wf_yaml (YMap [(''spec'', YMap [(''containers'', YList [YMap [(''ports'', YList [YMap [(''containerPort'', YInt 80)]])]])])])" by code_simp
  have "read_ports one_pod (YStr ''gibson'') (YStr ''p'') () = Some ([80], ())"
    unfolding read_ports_def one_pod_def loads_or_raise_def Let_def prod.case json_loads_write [OF w] by code_simp
  then show ?thesis by (simp add: listens_def live_peers_def Let_def py_str_def)
qed

theorem listens_asks_once_witness:
  "listens one_pod (YStr ''gibson'') (YStr ''p'') 80 (live_peers []) = Some (True, live_peers [(''gibson/p'', [80])])
   \<and> listens one_pod (YStr ''gibson'') (YStr ''p'') 80 (live_peers [(''gibson/p'', [80])]) = Some (True, live_peers [(''gibson/p'', [80])])"
  using listens_asks_once [OF one_pod_listens, of 80] one_pod_listens by auto

definition known_openfga :: "unit peers" where
  "known_openfga = the (new_peers [YStr ''10.244.0.0/24''] st_openfga False ())"

lemma late_line:
  "read_flows one_pod (\<lambda>_. Some [dumps late_flow]) no_args ''DROPPED'' () = Some ([dumps late_flow], ())"
  "known_peers one_pod no_args () = Some known_openfga"
  "drop_run one_pod (\<lambda>_. Some [dumps late_flow]) no_args () = Some (0, [dumps late_flow])"
  "line_drop (h_namespace no_args) (dumps late_flow) (YMap late_flow)"
proof -
  show r: "read_flows one_pod (\<lambda>_. Some [dumps late_flow]) no_args ''DROPPED'' () = Some ([dumps late_flow], ())"
    by (simp add: read_flows_def lines_of_def no_args_def collect_Cons)
  show k: "known_peers one_pod no_args () = Some known_openfga" by code_simp
  have wf: "list_all (\<lambda>f. wf_yaml (YMap f)) [late_flow]" by code_simp
  have run: "map_option (\<lambda>(p, out, ev). (out, ev)) (mfold (flow_step one_pod (h_namespace no_args) True) [late_flow] (known_openfga, [], [])) = Some ([], [dumps late_flow])"
    by code_simp
  then obtain p where "policy_drops one_pod [dumps late_flow] (h_namespace no_args) True known_openfga = Some (p, [], [dumps late_flow])"
    using policy_drops_dumps [OF wf, of one_pod "h_namespace no_args" True known_openfga] by auto
  then show "drop_run one_pod (\<lambda>_. Some [dumps late_flow]) no_args () = Some (0, [dumps late_flow])"
    by (simp add: drop_run_def r k) (simp add: no_args_def)
  have "wf_yaml (wrap late_flow)" by code_simp
  then have "line_object (dumps late_flow) = Some (Some (wrap late_flow))"
    unfolding line_object_def dumps_def wrap_def strip_object by (subst json_loads_write) auto
  moreover have "is_policy_drop (h_namespace no_args) (YMap late_flow) = Some True" by code_simp
  ultimately show "line_drop (h_namespace no_args) (dumps late_flow) (YMap late_flow)" by (auto simp: line_drop_def wrap_def flow_of_def)
qed

theorem hubble_clean_witness:
  "drop_run one_pod (\<lambda>_. Some [dumps late_flow]) no_args () = Some (0, [dumps late_flow]) \<and> late_shape (cidrs known_openfga) (YMap late_flow)"
  using hubble_clean [OF late_line(3) _ late_line(1,2) _ late_line(4)] late_line(3) by (simp add: no_args_def)

theorem evidence_public_witness:
  "\<exists>p drops. policy_drops one_pod [dumps l7_flow] ''gibson'' True known_openfga = Some (p, drops, [dumps outside_flow])
     \<and> public_line (dumps outside_flow) \<and> 1 + length (notices known_openfga) = length drops + length (notices p)"
proof -
  have wf: "list_all (\<lambda>f. wf_yaml (YMap f)) [l7_flow]" by code_simp
  have "map_option (\<lambda>(p, out, ev). ev) (mfold (flow_step one_pod ''gibson'' True) [l7_flow] (known_openfga, [], [])) = Some [dumps outside_flow]" by code_simp
  then obtain p drops where d: "policy_drops one_pod [dumps l7_flow] ''gibson'' True known_openfga = Some (p, drops, [dumps outside_flow])"
    using policy_drops_dumps [OF wf, of one_pod "''gibson''" True known_openfga] by auto
  with evidence_public [OF this] show ?thesis by auto
qed

definition trainer_args :: hubble_args where
  "trainer_args = no_args\<lparr>h_expect_forward := ''belief-trainer-proof:50051''\<rparr>"

lemma trainer_forwarded: "expect_forward one_pod (\<lambda>_. Some [dumps trainer_flow]) trainer_args () = Some 0"
proof -
  have wf: "list_all (\<lambda>f. wf_yaml (YMap f)) [trainer_flow]" "wf_yaml (YMap trainer_flow)" by code_simp+
  have rp: "rpartition (CHR '':'') (h_expect_forward trainer_args) = (''belief-trainer-proof'', ''50051'')" "isdigit ''50051''" by code_simp+
  have r: "read_flows one_pod (\<lambda>_. Some [dumps trainer_flow]) trainer_args v () = Some ([dumps trainer_flow], ())" for v
    by (simp add: read_flows_def lines_of_def no_args_def trainer_args_def collect_Cons)
  have n: "new_peers [] [] False () = Some \<lparr>cidrs = [], ports = [], is_live = False, notices = [], world = ()\<rparr>" by (simp add: new_peers_def)
  have p: "mfold (flow_step one_pod (h_namespace trainer_args) False) [trainer_flow] (q, [], []) = Some (q, [], [])" for q
    by code_simp
  have f: "map_option (\<lambda>ds. length ds = 1) (forwarded_flow ''belief-trainer-proof'' ''50051'' (YMap trainer_flow)) = Some True" by code_simp
  show ?thesis unfolding expect_forward_def rp Let_def prod.case r
    using rp(2) policy_drops_dumps [OF wf(1), of one_pod "h_namespace trainer_args" False] p f forwarded_one [OF wf(2)]
    by (auto simp: n r)
qed

theorem expect_forward_proves_witness:
  "expect_forward one_pod (\<lambda>_. Some [dumps trainer_flow]) trainer_args () = Some 0
   \<and> (\<exists>flow. line_flow (dumps trainer_flow) = Some (Some flow) \<and> dget flow ''verdict'' = Some (YStr ''FORWARDED'') \<and> port_of flow = Some ''50051/TCP'')"
proof -
  have rp: "rpartition (CHR '':'') (h_expect_forward trainer_args) = (''belief-trainer-proof'', ''50051'')" by code_simp
  have r: "read_flows one_pod (\<lambda>_. Some [dumps trainer_flow]) trainer_args v () = Some ([dumps trainer_flow], ())" for v
    by (simp add: read_flows_def lines_of_def no_args_def trainer_args_def collect_Cons)
  show ?thesis using expect_forward_proves [OF trainer_forwarded] trainer_forwarded by (auto simp: rp r)
qed

end
