(* ===== verification/KubectlRbac.thy ===== *)
theory KubectlRbac
  imports Json OperatorRbac
begin

text \<open>
  \<^verbatim>\<open>src/scripts/check-kubectl-rbac.py\<close>: each kubectl call of a chart script is allowed by the RBAC that the render grants to
  its ServiceAccount. The render and the lines of the call log are parameters. A \<^verbatim>\<open>CallError\<close> is a left value of a
  sum, any other exception is \<open>None\<close>. A call is an array of strings; the model raises an exception on a
  line that holds anything else. The theory holds the script whole and evaluates its selftest.
\<close>

section \<open>Calls\<close>

definition KINDS_KUBECTL :: "(string \<times> string \<times> string) list" where
  "KINDS_KUBECTL =
     [(''pod'', [], ''pods''), (''pods'', [], ''pods''), (''po'', [], ''pods''),
      (''secret'', [], ''secrets''), (''secrets'', [], ''secrets''),
      (''configmap'', [], ''configmaps''), (''configmaps'', [], ''configmaps''), (''cm'', [], ''configmaps''),
      (''serviceaccount'', [], ''serviceaccounts''), (''serviceaccounts'', [], ''serviceaccounts''), (''sa'', [], ''serviceaccounts''),
      (''service'', [], ''services''), (''services'', [], ''services''), (''svc'', [], ''services''),
      (''statefulset'', ''apps'', ''statefulsets''), (''statefulsets'', ''apps'', ''statefulsets''), (''sts'', ''apps'', ''statefulsets''),
      (''deployment'', ''apps'', ''deployments''), (''deployments'', ''apps'', ''deployments''), (''deploy'', ''apps'', ''deployments''),
      (''daemonset'', ''apps'', ''daemonsets''), (''daemonsets'', ''apps'', ''daemonsets''), (''ds'', ''apps'', ''daemonsets''),
      (''job'', ''batch'', ''jobs''), (''jobs'', ''batch'', ''jobs''),
      (''externalsecret'', ''external-secrets.io'', ''externalsecrets''),
      (''externalsecrets'', ''external-secrets.io'', ''externalsecrets''),
      (''es'', ''external-secrets.io'', ''externalsecrets'')]"

definition VALUE_FLAGS :: "string list" where
  "VALUE_FLAGS = [''-n'', ''--namespace'', ''-c'', ''--container'', ''-l'', ''--selector'', ''-o'', ''--output'',
     ''-f'', ''--filename'', ''--field-selector'', ''--from-literal'', ''--from-file'', ''--type'',
     ''--timeout'', ''--request-timeout'', ''--grace-period'', ''--context'', ''--kubeconfig'',
     ''--cluster'', ''--user'', ''--server'', ''-s'', ''--token'', ''-p'', ''--patch'',
     ''--chunk-size'', ''--sort-by'', ''--template'', ''--pod-running-timeout'']"

definition BOOL_FLAGS :: "string list" where
  "BOOL_FLAGS = [''-i'', ''--stdin'', ''-t'', ''--tty'', ''-it'', ''-ti'', ''-q'', ''--quiet'',
     ''--ignore-not-found'', ''--wait'', ''--dry-run'', ''--save-config'', ''--overwrite'',
     ''--all'', ''-A'', ''--all-namespaces'', ''-w'', ''--watch'', ''--watch-only'',
     ''--show-managed-fields'', ''--no-headers'', ''--show-labels'', ''--force'', ''--now'',
     ''--local'', ''--cascade'']"

definition CREATE_SHORTCUTS :: "string list" where
  "CREATE_SHORTCUTS = [''secret'', ''configmap'', ''serviceaccount'']"

text \<open>The message of a \<^verbatim>\<open>CallError\<close>, or a value.\<close>

type_synonym 'a call_result = "string + 'a"

definition ebind :: "'a call_result \<Rightarrow> ('a \<Rightarrow> 'b call_result) \<Rightarrow> 'b call_result" where
  "ebind x f = (case x of Inl e \<Rightarrow> Inl e | Inr a \<Rightarrow> f a)"

fun emap :: "('a \<Rightarrow> 'b call_result) \<Rightarrow> 'a list \<Rightarrow> 'b list call_result" where
  "emap f [] = Inr []"
| "emap f (x # xs) = ebind (f x) (\<lambda>y. ebind (emap f xs) (\<lambda>ys. Inr (y # ys)))"

type_synonym argv = "string list"
type_synonym flags = "(string \<times> string list) list"

text \<open>A positional argument, or the tuple of everything after \<^verbatim>\<open>--\<close>.\<close>

datatype posarg = PWord string | PRest "string list"

definition unknown_flag :: "string \<Rightarrow> string" where
  "unknown_flag k = ''kubectl flag '' @ str_repr k @ '' is not modelled: add it to scripts/check-kubectl-rbac.py''"

definition add_flag :: "string \<Rightarrow> string \<Rightarrow> flags \<Rightarrow> flags" where
  "add_flag k v fl = AList.update k (dict_get fl k [] @ [v]) fl"

fun parse_from :: "argv \<Rightarrow> posarg list \<Rightarrow> flags \<Rightarrow> (posarg list \<times> flags) call_result" where
  "parse_from [] pos fl = Inr (pos, fl)"
| "parse_from (a # rest) pos fl =
     (if a = ''--'' then Inr (pos @ [PRest rest], fl)
      else if startswith a ''-'' then
        (if CHR ''='' \<in> set a \<and> startswith a ''--'' then
           (let (k, v) = split_once (CHR ''='') a in
            if k \<notin> set VALUE_FLAGS \<and> k \<notin> set BOOL_FLAGS then Inl (unknown_flag k)
            else parse_from rest pos (add_flag k (case v of Some x \<Rightarrow> x | None \<Rightarrow> []) fl))
         else if a \<in> set VALUE_FLAGS \<and> rest \<noteq> [] then parse_from (tl rest) pos (add_flag a (hd rest) fl)
         else if a \<in> set BOOL_FLAGS then parse_from rest pos (add_flag a [] fl)
         else Inl (unknown_flag a))
      else parse_from rest (pos @ [PWord a]) fl)"

definition parse_kubectl :: "argv \<Rightarrow> (posarg list \<times> flags) call_result" where
  "parse_kubectl argv = parse_from argv [] []"

fun flag :: "flags \<Rightarrow> string list \<Rightarrow> string option" where
  "flag fl [] = None"
| "flag fl (n # ns) = (case map_of fl n of Some vs \<Rightarrow> Some (last vs) | None \<Rightarrow> flag fl ns)"

definition kind_of :: "string \<Rightarrow> (string \<times> string) call_result" where
  "kind_of word = (case map_of KINDS_KUBECTL (py_lower word) of
       None \<Rightarrow> Inl (''unknown resource '' @ str_repr word @ '': add it to KINDS in scripts/check-kubectl-rbac.py'')
     | Some k \<Rightarrow> Inr k)"

type_synonym target_k = "string \<times> string \<times> string option"

definition slash_target :: "string \<Rightarrow> target_k call_result" where
  "slash_target a = (let (k, n) = split_once (CHR ''/'') a in
     ebind (kind_of k) (\<lambda>(g, r). Inr (g, r, Some (case n of Some x \<Rightarrow> x | None \<Rightarrow> []))))"

definition targets :: "string list \<Rightarrow> target_k list call_result" where
  "targets args = (case args of
       [] \<Rightarrow> Inl ''no resource named''
     | a # names \<Rightarrow>
         if CHR ''/'' \<in> set a then emap slash_target args
         else ebind (kind_of a) (\<lambda>(g, r). Inr (if names = [] then [(g, r, None)] else map (\<lambda>n. (g, r, Some n)) names)))"

definition is_dry_create :: "argv \<Rightarrow> bool call_result" where
  "is_dry_create argv = ebind (parse_kubectl argv) (\<lambda>(pos, fl).
     Inr (pos \<noteq> [] \<and> hd pos = PWord ''create'' \<and> flag fl [''--dry-run''] = Some ''client''))"

definition is_apply_stdin :: "argv \<Rightarrow> bool call_result" where
  "is_apply_stdin argv = ebind (parse_kubectl argv) (\<lambda>(pos, fl).
     Inr (pos \<noteq> [] \<and> hd pos = PWord ''apply'' \<and> flag fl [''-f'', ''--filename''] = Some ''-''))"

text \<open>The loop over the neighbours, with each swap made in place: the apply moves on.\<close>

fun pipe_order :: "argv list \<Rightarrow> argv list call_result" where
  "pipe_order (a # b # rest) =
     ebind (is_apply_stdin a) (\<lambda>x.
     ebind (if x then is_dry_create b else Inr False) (\<lambda>y.
       if y then ebind (pipe_order (a # rest)) (\<lambda>cs. Inr (b # cs))
       else ebind (pipe_order (b # rest)) (\<lambda>cs. Inr (a # cs))))"
| "pipe_order cs = Inr cs"

section \<open>The requests of a call\<close>

record request_k =
  rq_verb :: string
  rq_group :: string
  rq_resource :: string
  rq_sub :: string
  rq_ns :: "string option"
  rq_name :: "string option"

type_synonym pending = "(string \<times> string \<times> string option \<times> string option) option"

definition req :: "string option \<Rightarrow> string \<Rightarrow> string \<Rightarrow> string \<Rightarrow> string option \<Rightarrow> string \<Rightarrow> request_k" where
  "req ns verb g r name subres = \<lparr>rq_verb = verb, rq_group = g, rq_resource = r, rq_sub = subres, rq_ns = ns, rq_name = name\<rparr>"

definition get_requests :: "string option \<Rightarrow> flags \<Rightarrow> string list \<Rightarrow> request_k list call_result" where
  "get_requests ns fl rest = ebind (targets rest) (\<lambda>ts.
     Inr (map (\<lambda>(g, r, n). if n = None \<or> flag fl [''-l'', ''--selector''] \<noteq> None then req ns ''list'' g r None [] else req ns ''get'' g r n []) ts
          @ (if list_ex (\<lambda>w. map_of fl w \<noteq> None) [''--watch'', ''-w'', ''--watch-only'']
             then map (\<lambda>(g, r, n). req ns ''watch'' g r None []) ts else [])))"

definition delete_requests :: "string option \<Rightarrow> flags \<Rightarrow> string list \<Rightarrow> request_k list call_result" where
  "delete_requests ns fl rest = ebind (targets rest) (\<lambda>ts.
     Inr (map (\<lambda>(g, r, n). if n = None then req ns ''deletecollection'' g r None [] else req ns ''delete'' g r n []) ts
          @ (if flag fl [''--wait''] \<noteq> Some ''false'' then map (\<lambda>(g, r, n). req ns ''watch'' g r None []) ts else [])))"

text \<open>\<^verbatim>\<open>rest[0].split("/", 1)[-1]\<close>.\<close>

definition after_slash :: "string \<Rightarrow> string" where
  "after_slash s = (case split_once (CHR ''/'') s of (a, None) \<Rightarrow> a | (a, Some b) \<Rightarrow> b)"

definition exec_requests :: "string option \<Rightarrow> string list \<Rightarrow> request_k list call_result" where
  "exec_requests ns rest = (case rest of [] \<Rightarrow> Inl ''exec names no pod''
     | p # _ \<Rightarrow> let pod = after_slash p in Inr [req ns ''get'' [] ''pods'' (Some pod) [], req ns ''create'' [] ''pods'' (Some pod) ''exec''])"

definition create_name :: "string list \<Rightarrow> string option" where
  "create_name rest = (if hd rest = ''secret'' \<and> 2 < length rest then Some (rest ! 2) else if 1 < length rest then Some (rest ! 1) else None)"

definition create_requests :: "string option \<Rightarrow> flags \<Rightarrow> string list \<Rightarrow> pending \<Rightarrow> (request_k list \<times> pending) call_result" where
  "create_requests ns fl rest p =
     (if rest \<noteq> [] \<and> hd rest \<in> set CREATE_SHORTCUTS then ebind (kind_of (hd rest)) (\<lambda>(g, r).
        if flag fl [''--dry-run''] = Some ''client'' then Inr ([], Some (g, r, create_name rest, ns))
        else Inr ([req ns ''create'' g r None []], p))
      else Inl ''create of a manifest: the check cannot tell its object'')"

definition apply_error :: string where
  "apply_error = ''apply of an object the check cannot tell (only '' @ [CHR 0x60] @ ''create ... --dry-run=client -o yaml | apply -f -'' @ [CHR 0x60] @ '')''"

definition apply_requests :: "string option \<Rightarrow> flags \<Rightarrow> pending \<Rightarrow> (request_k list \<times> pending) call_result" where
  "apply_requests ns fl p = (case p of
       None \<Rightarrow> Inl apply_error
     | Some (g, r, n, obj_ns) \<Rightarrow>
         if flag fl [''-f'', ''--filename''] \<noteq> Some ''-'' then Inl apply_error
         else let at = (if ns \<noteq> None then ns else obj_ns)
              in Inr ([req at ''get'' g r n [], req at ''create'' g r None [], req at ''patch'' g r n []], None))"

definition edit_requests :: "string option \<Rightarrow> string list \<Rightarrow> request_k list call_result" where
  "edit_requests ns rest = ebind (targets rest) (\<lambda>ts.
     Inr (concat (map (\<lambda>(g, r, n). [req ns ''get'' g r n [], req ns ''patch'' g r n []]) ts)))"

definition rollout_requests :: "string option \<Rightarrow> string list \<Rightarrow> request_k list call_result" where
  "rollout_requests ns rest = (let action = (case rest of [] \<Rightarrow> [] | a # _ \<Rightarrow> a) in
     ebind (targets (tl rest)) (\<lambda>ts.
       if action = ''restart'' then Inr (concat (map (\<lambda>(g, r, n). [req ns ''get'' g r n [], req ns ''patch'' g r n []]) ts))
       else if action = ''status'' then Inr (concat (map (\<lambda>(g, r, n). [req ns ''get'' g r n [], req ns ''watch'' g r None []]) ts))
       else Inl (''rollout '' @ str_repr action @ '' is not modelled'')))"

definition sub_text :: "posarg list \<Rightarrow> string" where
  "sub_text pos = (case pos of [] \<Rightarrow> str_repr [] | PWord w # _ \<Rightarrow> str_repr w
     | PRest r # _ \<Rightarrow> ''('' @ str_repr ''--'' @ '', '' @ py_repr (YList (map YStr r)) @ '')'')"

definition pos_words :: "posarg list \<Rightarrow> string list" where
  "pos_words pos = concat (map (\<lambda>p. case p of PWord w \<Rightarrow> [w] | PRest _ \<Rightarrow> []) pos)"

definition keep_pending :: "pending \<Rightarrow> request_k list call_result \<Rightarrow> (request_k list \<times> pending) call_result" where
  "keep_pending p x = ebind x (\<lambda>rs. Inr (rs, p))"

definition call_requests :: "argv \<Rightarrow> pending \<Rightarrow> (request_k list \<times> pending) call_result" where
  "call_requests argv p = ebind (parse_kubectl argv) (\<lambda>(pos, fl).
     let ns = flag fl [''-n'', ''--namespace'']; rest = pos_words (tl pos); is_sub = (\<lambda>s. pos \<noteq> [] \<and> hd pos = PWord s)
     in if is_sub ''get'' then keep_pending p (get_requests ns fl rest)
        else if is_sub ''delete'' then keep_pending p (delete_requests ns fl rest)
        else if is_sub ''exec'' then keep_pending p (exec_requests ns rest)
        else if is_sub ''create'' then create_requests ns fl rest p
        else if is_sub ''apply'' then apply_requests ns fl p
        else if list_ex is_sub [''annotate'', ''label'', ''patch''] then keep_pending p (edit_requests ns rest)
        else if is_sub ''rollout'' then keep_pending p (rollout_requests ns rest)
        else if list_ex is_sub [''version'', ''config'', ''auth''] then Inr ([], p)
        else Inl (''kubectl '' @ sub_text pos @ '' is not modelled: add it to scripts/check-kubectl-rbac.py''))"

text \<open>The generator: what it yields, and the message of the \<^verbatim>\<open>CallError\<close> that ends it.\<close>

fun request_loop :: "argv list \<Rightarrow> pending \<Rightarrow> (argv \<times> request_k list) list \<times> string option" where
  "request_loop [] p = ([], None)"
| "request_loop (a # cs) p = (case call_requests a p of
      Inl e \<Rightarrow> ([], Some e)
    | Inr (rs, p1) \<Rightarrow> (let (ys, e) = request_loop cs p1 in ((a, rs) # ys, e)))"

definition requests :: "argv list \<Rightarrow> (argv \<times> request_k list) list \<times> string option" where
  "requests calls = (case pipe_order calls of Inl e \<Rightarrow> ([], Some e) | Inr cs \<Rightarrow> request_loop cs None)"

section \<open>The rules of the ServiceAccount\<close>

type_synonym role_key_k = "yaml \<times> yaml \<times> yaml"

definition put_role_k :: "doc \<Rightarrow> (role_key_k \<times> yaml) list \<Rightarrow> (role_key_k \<times> yaml) list option" where
  "put_role_k d roles = do {
     kind \<leftarrow> dget d ''kind'';
     if \<not> in_strtuple kind [''Role'', ''ClusterRole''] then Some roles else do {
     m \<leftarrow> item d ''metadata'';
     ns \<leftarrow> (if kind = YStr ''Role'' then dget m ''namespace'' else Some YNull);
     n \<leftarrow> item m ''name'';
     rs \<leftarrow> dget d ''rules'';
     if hashable ns \<and> hashable n then Some (AList.update (kind, ns, n) (py_or rs (YList [])) roles) else None
     }
   }"

definition is_subject :: "doc \<Rightarrow> string \<Rightarrow> string \<Rightarrow> yaml \<Rightarrow> bool option" where
  "is_subject d sa_ns sa_name s = do {
     k \<leftarrow> dget s ''kind'';
     if k \<noteq> YStr ''ServiceAccount'' then Some False else do {
     n \<leftarrow> dget s ''name'';
     if n \<noteq> YStr sa_name then Some False else do {
     m \<leftarrow> item d ''metadata'';
     dns \<leftarrow> dget m ''namespace'';
     ns \<leftarrow> dget_default s ''namespace'' dns;
     Some (ns = YStr sa_ns)
     }}
   }"

text \<open>A rule with the namespace it is granted in, \<open>YNull\<close> for everywhere.\<close>

definition binding_rules :: "(role_key_k \<times> yaml) list \<Rightarrow> string \<Rightarrow> string \<Rightarrow> doc \<Rightarrow> (yaml \<times> yaml) list option" where
  "binding_rules roles sa_ns sa_name d = do {
     kind \<leftarrow> dget d ''kind'';
     if \<not> in_strtuple kind [''RoleBinding'', ''ClusterRoleBinding''] then Some [] else do {
     ss \<leftarrow> get_list d ''subjects'';
     subj \<leftarrow> mfilter (is_subject d sa_ns sa_name) ss;
     if subj = [] then Some [] else do {
     ref \<leftarrow> item d ''roleRef'';
     m \<leftarrow> item d ''metadata'';
     bns \<leftarrow> (if kind = YStr ''RoleBinding'' then dget m ''namespace'' else Some YNull);
     rk \<leftarrow> item ref ''kind'';
     rn \<leftarrow> item ref ''name'';
     let key = (rk, if rk = YStr ''Role'' then bns else YNull, rn);
     if hashable rk \<and> hashable (fst (snd key)) \<and> hashable rn then do {
       rules \<leftarrow> py_iter (dict_get roles key (YList []));
       Some (map (\<lambda>r. (bns, r)) rules)
     } else None
     }}
   }"

definition bound_rules_k :: "doc list \<Rightarrow> string \<Rightarrow> string \<Rightarrow> (yaml \<times> yaml) list option" where
  "bound_rules_k docs sa_ns sa_name = do {
     roles \<leftarrow> mfold put_role_k docs [];
     collect (binding_rules roles sa_ns sa_name) docs
   }"

section \<open>The judgement\<close>

text \<open>\<^verbatim>\<open>{x, "*"} & set(rule.get(key) or [])\<close>.\<close>

definition meets :: "yaml \<Rightarrow> string \<Rightarrow> string \<Rightarrow> bool option" where
  "meets rule key x = do { v \<leftarrow> dget rule key; ks \<leftarrow> keyset (py_or v (YList [])); Some (YStr x \<in> set ks \<or> YStr ''*'' \<in> set ks) }"

definition full_resource :: "request_k \<Rightarrow> string" where
  "full_resource rq = rq_resource rq @ (if rq_sub rq \<noteq> [] then ''/'' @ rq_sub rq else [])"

definition none_or :: "string option \<Rightarrow> yaml" where
  "none_or x = (case x of None \<Rightarrow> YNull | Some s \<Rightarrow> YStr s)"

definition names_nothing :: "request_k \<Rightarrow> bool" where
  "names_nothing rq = (rq_name rq = None \<or> rq_verb rq \<in> set [''list'', ''watch'', ''deletecollection'']
     \<or> rq_verb rq = ''create'' \<and> rq_sub rq = [])"

definition rule_allows_k :: "request_k \<Rightarrow> yaml \<times> yaml \<Rightarrow> bool option" where
  "rule_allows_k rq = (\<lambda>(ns, rule).
     if ns \<noteq> YNull \<and> none_or (rq_ns rq) \<noteq> ns then Some False
     else mand (meets rule ''apiGroups'' (rq_group rq)) (mand (meets rule ''resources'' (full_resource rq))
       (mand (meets rule ''verbs'' (rq_verb rq)) (do {
         v \<leftarrow> dget rule ''resourceNames'';
         if \<not> truthy v then Some True
         else if names_nothing rq then Some False
         else py_in (none_or (rq_name rq)) v
       }))))"

definition allowed :: "request_k \<Rightarrow> (yaml \<times> yaml) list \<Rightarrow> bool option" where
  "allowed rq rules = many (rule_allows_k rq) rules"

definition k_finding :: "string \<Rightarrow> argv \<Rightarrow> request_k \<Rightarrow> string" where
  "k_finding sa argv rq =
     [CHR 0x60] @ ''kubectl '' @ join '' '' argv @ [CHR 0x60] @ '' needs '' @ rq_verb rq @ '' '' @ full_resource rq
     @ (case rq_name rq of None \<Rightarrow> [] | Some n \<Rightarrow> if n = [] then [] else '' '' @ n)
     @ '' ('' @ (if rq_group rq = [] then ''core'' else rq_group rq) @ '', namespace '' @ py_str (none_or (rq_ns rq))
     @ ''), and no rule bound to '' @ sa @ '' allows it''"

definition judge_request :: "string \<Rightarrow> (yaml \<times> yaml) list \<Rightarrow> argv \<Rightarrow> request_k \<Rightarrow> string list option" where
  "judge_request sa rules argv rq = do { b \<leftarrow> allowed rq rules; Some (if b then [] else [k_finding sa argv rq]) }"

text \<open>The rules bound to the account \<^verbatim>\<open>namespace/name\<close>.\<close>

definition sa_rules :: "doc list \<Rightarrow> string \<Rightarrow> (yaml \<times> yaml) list option" where
  "sa_rules docs sa = (let (sa_ns, n) = split_once (CHR ''/'') sa in bound_rules_k docs sa_ns (case n of Some x \<Rightarrow> x | None \<Rightarrow> []))"

definition count_requests :: "(argv \<times> request_k list) list \<Rightarrow> nat" where
  "count_requests ys = sum_list (map (\<lambda>(argv, rs). length rs) ys)"

definition check_kubectl :: "doc list \<Rightarrow> string \<Rightarrow> argv list \<Rightarrow> (string list \<times> nat) option" where
  "check_kubectl docs sa calls = do {
     rules \<leftarrow> sa_rules docs sa;
     if rules = [] then Some ([''no Role or ClusterRole in the render is bound to ServiceAccount '' @ sa], 0)
     else if calls = [] then Some ([''the call log is empty: the test recorded no kubectl call, so the check looked at nothing''], 0)
     else do {
       let (yielded, err) = requests calls;
       bad \<leftarrow> collect (\<lambda>(argv, rs). collect (judge_request sa rules argv) rs) yielded;
       let findings = bad @ (case err of None \<Rightarrow> [] | Some e \<Rightarrow> [e]);
       Some (sort (mk_set (if count_requests yielded = 0 \<and> findings = []
               then [''the calls make no API request, so the check looked at nothing''] else findings)), count_requests yielded)
     }
   }"

section \<open>The selftest\<close>

definition st_rule :: "string \<Rightarrow> string \<Rightarrow> string list \<Rightarrow> string list \<Rightarrow> yaml" where
  "st_rule g r names verbs = YMap ([(''apiGroups'', YList [YStr g]), (''resources'', YList [YStr r])]
     @ (if names = [] then [] else [(''resourceNames'', YList (map YStr names))]) @ [(''verbs'', YList (map YStr verbs))])"

definition st_rules :: "yaml list" where
  "st_rules =
     [st_rule [] ''secrets'' [''gibson-redis-stack''] [''get''],
      st_rule [] ''secrets'' [] [''create''],
      st_rule [] ''secrets'' [''gibson-redis-rotation-state''] [''get'', ''update'', ''patch'', ''delete''],
      st_rule ''apps'' ''statefulsets'' [''gibson-gibson-workloads''] [''get''],
      st_rule [] ''pods'' [] [''get'', ''list'', ''delete''],
      st_rule [] ''pods/exec'' [''gibson-redis-stack-0''] [''create'']]"

definition st_meta :: yaml where
  "st_meta = YMap [(''name'', YStr ''gibson-redis-rotation''), (''namespace'', YStr ''gibson'')]"

definition st_role :: "yaml list \<Rightarrow> doc" where
  "st_role rules = YMap [(''apiVersion'', YStr ''rbac.authorization.k8s.io/v1''), (''kind'', YStr ''Role''), (''metadata'', st_meta), (''rules'', YList rules)]"

definition st_binding :: doc where
  "st_binding = YMap [(''apiVersion'', YStr ''rbac.authorization.k8s.io/v1''), (''kind'', YStr ''RoleBinding''), (''metadata'', st_meta),
     (''roleRef'', YMap [(''apiGroup'', YStr ''rbac.authorization.k8s.io''), (''kind'', YStr ''Role''), (''name'', YStr ''gibson-redis-rotation'')]),
     (''subjects'', YList [YMap [(''kind'', YStr ''ServiceAccount''), (''name'', YStr ''gibson-redis-rotation''), (''namespace'', YStr ''gibson'')]])]"

definition SELFTEST_RENDER :: "doc list" where
  "SELFTEST_RENDER = [st_role st_rules, st_binding]"

definition SELFTEST_CALLS :: "argv list" where
  "SELFTEST_CALLS =
     [[''get'', ''secret'', ''-n'', ''gibson'', ''gibson-redis-stack'', ''-o'', ''jsonpath={.metadata.resourceVersion}''],
      [''get'', ''secret'', ''-n'', ''gibson'', ''gibson-redis-rotation-state'', ''-o'', ''name''],
      [''exec'', ''-i'', ''-n'', ''gibson'', ''gibson-redis-stack-0'', ''-c'', ''redis-stack'', ''--'', ''sh'', ''-c'', ''x''],
      [''-n'', ''gibson'', ''get'', ''statefulset/gibson-gibson-workloads'', ''-o'', ''json''],
      [''-n'', ''gibson'', ''get'', ''pods'', ''-l'', ''app=x'', ''-o'', ''json''],
      [''-n'', ''gibson'', ''delete'', ''pod'', ''x-0'', ''--ignore-not-found'', ''--wait=false''],
      [''create'', ''secret'', ''generic'', ''gibson-redis-rotation-state'', ''-n'', ''gibson'',
       ''--from-literal=lastProcessedVersion=2'', ''--save-config'', ''--dry-run=client'', ''-o'', ''yaml''],
      [''apply'', ''-f'', ''-'']]"

definition st_key_is :: "string \<Rightarrow> string \<Rightarrow> yaml \<Rightarrow> bool option" where
  "st_key_is key x r = do { v \<leftarrow> dget r key; Some (v = YList [YStr x]) }"

text \<open>The rules that remain when the rules with one value under a key are left out, and the rules with
  the rotation state's name changed under a key.\<close>

definition without_rule :: "string \<Rightarrow> string \<Rightarrow> yaml list \<Rightarrow> yaml list option" where
  "without_rule key x rules = mfilter (\<lambda>r. mnot (st_key_is key x r)) rules"

definition change_state :: "string \<Rightarrow> yaml \<Rightarrow> yaml list \<Rightarrow> yaml list option" where
  "change_state key v rules = mmap (\<lambda>r. do { b \<leftarrow> st_key_is ''resourceNames'' ''gibson-redis-rotation-state'' r; Some (if b then with_key key v r else r) }) rules"

definition expect_k :: "doc list \<Rightarrow> argv list \<Rightarrow> string option \<Rightarrow> bool option" where
  "expect_k docs calls wanted = do {
     (got, n) \<leftarrow> check_kubectl docs ''gibson/gibson-redis-rotation'' calls;
     Some (case wanted of None \<Rightarrow> got = [] | Some x \<Rightarrow> list_ex (sublist x) got)
   }"

definition expect_rules :: "yaml list option \<Rightarrow> string \<Rightarrow> bool option" where
  "expect_rules ro wanted = do { rules \<leftarrow> ro; expect_k [st_role rules, st_binding] SELFTEST_CALLS (Some wanted) }"

definition swapped_calls :: "argv list" where
  "swapped_calls = take 6 SELFTEST_CALLS @ [SELFTEST_CALLS ! 7, SELFTEST_CALLS ! 6]"

definition flag_message :: string where
  "flag_message = ''flag '' @ [CHR 0x27] @ ''--frobnicate'' @ [CHR 0x27] @ '' is not modelled''"

definition kubectl_cases :: "bool option list" where
  "kubectl_cases = (let good = SELFTEST_RENDER in
     [expect_k good SELFTEST_CALLS None,
      expect_rules (without_rule ''resources'' ''pods'' st_rules) ''needs get pods gibson-redis-stack-0'',
      expect_k good [[''exec'', ''-i'', ''-n'', ''gibson'', ''gibson-openbao-0'', ''--'', ''sh'']] (Some ''needs create pods/exec gibson-openbao-0''),
      expect_k good [[''-n'', ''gibson'', ''delete'', ''pod'', ''x-0'']] (Some ''needs watch pods''),
      expect_rules (change_state ''resourceNames'' (YList [YStr ''some-other-secret'']) st_rules) ''needs patch secrets gibson-redis-rotation-state'',
      expect_rules (do { rs \<leftarrow> without_rule ''verbs'' ''create'' st_rules; change_state ''verbs'' (YList [YStr ''get'', YStr ''create'', YStr ''patch'']) rs }) ''needs create secrets'',
      expect_k good [[''get'', ''secret'', ''-n'', ''kube-system'', ''gibson-redis-stack'']] (Some ''namespace kube-system''),
      expect_k good swapped_calls None,
      expect_k good [[''apply'', ''-f'', ''-'']] (Some ''apply of an object the check cannot tell''),
      expect_k good [[''version''], [''config'', ''view'']] (Some ''make no API request''),
      expect_k good [[''-n'', ''gibson'', ''get'', ''pods'', ''--watch-only'']] (Some ''needs watch pods''),
      expect_k good [[''-n'', ''gibson'', ''get'', ''pods'', ''--frobnicate'', ''x'']] (Some flag_message),
      expect_k good [[''-n'', ''gibson'', ''get'', ''pods'', ''--frobnicate=x'']] (Some flag_message),
      expect_k good [] (Some ''the call log is empty''),
      expect_k [st_role st_rules] SELFTEST_CALLS (Some ''no Role or ClusterRole''),
      expect_k good [[''cp'', ''a'', ''b'']] (Some ''is not modelled'')])"

text \<open>Every case runs; the failed ones are counted.\<close>

definition selftest_kubectl :: "int option" where
  "selftest_kubectl = do { oks \<leftarrow> mmap id kubectl_cases; Some (if list_all id oks then 0 else 1) }"

section \<open>The run\<close>

record kubectl_args =
  k_selftest :: bool
  k_render :: string
  k_sa :: string
  k_calls :: string

definition argv_of :: "yaml \<Rightarrow> argv option" where
  "argv_of v = (case v of YList xs \<Rightarrow> if list_all is_str xs then Some (map str_of xs) else None | _ \<Rightarrow> None)"

definition line_call :: "string \<Rightarrow> argv list option" where
  "line_call line = (if strip line = [] then Some [] else case json_loads line of JVal v \<Rightarrow> map_option (\<lambda>a. [a]) (argv_of v) | _ \<Rightarrow> None)"

definition main_kubectl :: "(string \<Rightarrow> doc list option) \<Rightarrow> (string \<Rightarrow> string list option) \<Rightarrow> kubectl_args \<Rightarrow> int option" where
  "main_kubectl load rd a =
     (if k_selftest a then selftest_kubectl
      else if k_render a = [] \<or> k_sa a = [] \<or> k_calls a = [] then None
      else do {
        docs \<leftarrow> load (k_render a);
        lines \<leftarrow> rd (k_calls a);
        calls \<leftarrow> collect line_call lines;
        (findings, checked) \<leftarrow> check_kubectl (filter truthy docs) (k_sa a) calls;
        Some (if findings \<noteq> [] then 1 else 0)
      })"

section \<open>The selftest passes\<close>

lemma selftest_kubectl_passes: "selftest_kubectl = Some 0"
  by code_simp

end
