(* ===== verification/KubectlGrants.thy ===== *)
theory KubectlGrants
  imports KubectlRbac "HOL-Library.Multiset"
begin

text \<open>
  What \<^verbatim>\<open>src/scripts/check-kubectl-rbac.py\<close> guarantees: a passing check has judged the requests of every call of the log
  against the rules bound to the account, and the judgement of a request is that of the API server on typed
  rules. Two ways in which the check passes too much are shown on concrete inputs.
\<close>

section \<open>What a passing check has looked at\<close>

lemma ebind_Inr: "ebind x f = Inr y \<longleftrightarrow> (\<exists>a. x = Inr a \<and> f a = Inr y)"
  by (cases x) (auto simp: ebind_def)

lemma pipe_order_mset: "pipe_order cs = Inr ds \<Longrightarrow> mset ds = mset cs"
  by (induction cs arbitrary: ds rule: pipe_order.induct) (auto simp: ebind_Inr split: if_splits)

text \<open>A log in which no apply stands directly before a dry-run create is kept as it is.\<close>

definition in_order :: "argv list \<Rightarrow> bool" where
  "in_order cs \<longleftrightarrow> list_all (\<lambda>(a, b). is_apply_stdin a = Inr False \<or> is_apply_stdin a = Inr True \<and> is_dry_create b = Inr False) (zip cs (tl cs))"

lemma pipe_order_keeps: "in_order cs \<Longrightarrow> pipe_order cs = Inr cs"
  by (induction cs rule: pipe_order.induct) (force simp: in_order_def ebind_def)+

lemma request_loop_all:
  assumes "request_loop cs p = (ys, None)"
  shows "map fst ys = cs \<and> (\<forall>e \<in> set ys. \<exists>q q'. call_requests (fst e) q = Inr (snd e, q'))"
  using assms by (induction cs arbitrary: p ys) (fastforce split: sum.splits prod.splits)+

lemma requests_all:
  assumes "requests calls = (ys, None)"
  shows "mset (map fst ys) = mset calls" "\<forall>e \<in> set ys. \<exists>q q'. call_requests (fst e) q = Inr (snd e, q')"
proof -
  from assms obtain cs where "pipe_order calls = Inr cs" "request_loop cs None = (ys, None)"
    by (auto simp: requests_def split: sum.splits)
  with request_loop_all pipe_order_mset show "mset (map fst ys) = mset calls" "\<forall>e \<in> set ys. \<exists>q q'. call_requests (fst e) q = Inr (snd e, q')"
    by blast+
qed

lemma judge_request_Nil: "judge_request sa rules argv rq = Some [] \<longleftrightarrow> allowed rq rules = Some True"
  by (auto simp: judge_request_def bind_eq_Some_conv split: if_splits)

lemma sort_mk_set_Nil: "sort (mk_set (xs :: string list)) = [] \<longleftrightarrow> xs = []"
  by (metis set_empty set_mk_set set_sort)

lemma passing_check:
  assumes "check_kubectl docs sa calls = Some ([], n)"
  obtains rules ys where "sa_rules docs sa = Some rules" "rules \<noteq> []" "requests calls = (ys, None)" "n = count_requests ys" "0 < n"
    "\<And>argv rs rq. (argv, rs) \<in> set ys \<Longrightarrow> rq \<in> set rs \<Longrightarrow> allowed rq rules = Some True"
proof -
  obtain ys err where r: "requests calls = (ys, err)" by fastforce
  from assms obtain rules bad where b: "sa_rules docs sa = Some rules" "rules \<noteq> []"
    "collect (\<lambda>(argv, rs). collect (judge_request sa rules argv) rs) ys = Some bad" "n = count_requests ys"
    "(if count_requests ys = 0 \<and> bad @ (case err of None \<Rightarrow> [] | Some e \<Rightarrow> [e]) = []
      then [''the calls make no API request, so the check looked at nothing''] else bad @ (case err of None \<Rightarrow> [] | Some e \<Rightarrow> [e])) = []"
    by (auto simp: check_kubectl_def r Let_def sort_mk_set_Nil elim!: bindE split: if_splits)
  then have "bad = []" "err = None" "0 < n" by (auto split: option.splits if_splits)
  with b(3) have "\<And>argv rs rq. (argv, rs) \<in> set ys \<Longrightarrow> rq \<in> set rs \<Longrightarrow> allowed rq rules = Some True"
    by (fastforce simp: collect_empty_iff judge_request_Nil)
  with that b r \<open>err = None\<close> \<open>0 < n\<close> show ?thesis by blast
qed

text \<open>C6. A passing check covers the log: when it reports nothing, rules are bound to the account, the requests of every call
  of the log were derived, at least one request was judged, and the rules allow every request of every call.\<close>

theorem kubectl_calls_allowed:
  assumes "check_kubectl docs sa calls = Some ([], n)"
  shows "\<exists>rules ys. sa_rules docs sa = Some rules \<and> rules \<noteq> [] \<and> requests calls = (ys, None) \<and> mset (map fst ys) = mset calls
    \<and> n = count_requests ys \<and> 0 < n \<and> list_all (\<lambda>(argv, rs). list_all (\<lambda>rq. allowed rq rules = Some True) rs) ys"
proof -
  from assms obtain rules ys where "sa_rules docs sa = Some rules" "rules \<noteq> []" "requests calls = (ys, None)" "n = count_requests ys" "0 < n"
    "\<And>argv rs rq. (argv, rs) \<in> set ys \<Longrightarrow> rq \<in> set rs \<Longrightarrow> allowed rq rules = Some True" by (rule passing_check) blast
  with requests_all(1) [of calls ys] show ?thesis by (intro exI [of _ rules] exI [of _ ys]) (auto simp: list_all_iff)
qed

lemma exec_call:
  assumes "parse_kubectl argv = Inr (PWord ''exec'' # pos, fl)" and "pos_words pos = p # ws"
  shows "call_requests argv q = Inr ([req (flag fl [''-n'', ''--namespace'']) ''get'' [] ''pods'' (Some (after_slash p)) [],
    req (flag fl [''-n'', ''--namespace'']) ''create'' [] ''pods'' (Some (after_slash p)) ''exec''], q)"
  using assms by (simp add: call_requests_def ebind_def Let_def exec_requests_def keep_pending_def)

text \<open>C0. A passing check grants exec whole: for each \<^verbatim>\<open>kubectl exec\<close> of the log the rules allow to get the pod and to create
  its exec stream, in the namespace of the call. The missing get was the failure that the script was written for.\<close>

theorem exec_granted_whole:
  assumes "check_kubectl docs sa calls = Some ([], n)" and "argv \<in> set calls"
    and "parse_kubectl argv = Inr (PWord ''exec'' # pos, fl)" and "pos_words pos = p # ws"
  shows "\<exists>rules. sa_rules docs sa = Some rules
    \<and> allowed (req (flag fl [''-n'', ''--namespace'']) ''get'' [] ''pods'' (Some (after_slash p)) []) rules = Some True
    \<and> allowed (req (flag fl [''-n'', ''--namespace'']) ''create'' [] ''pods'' (Some (after_slash p)) ''exec'') rules = Some True"
proof -
  from assms(1) obtain rules ys where r: "sa_rules docs sa = Some rules" "requests calls = (ys, None)"
    "\<And>argv rs rq. (argv, rs) \<in> set ys \<Longrightarrow> rq \<in> set rs \<Longrightarrow> allowed rq rules = Some True" by (rule passing_check) blast
  from requests_all(1) [OF r(2)] assms(2) have "argv \<in> fst ` set ys" by (metis image_set set_mset_mset)
  then obtain rs where y: "(argv, rs) \<in> set ys" by force
  with requests_all(2) [OF r(2)] obtain q q' where "call_requests argv q = Inr (rs, q')" by fastforce
  with exec_call [OF assms(3,4)] have "rs = [req (flag fl [''-n'', ''--namespace'']) ''get'' [] ''pods'' (Some (after_slash p)) [],
    req (flag fl [''-n'', ''--namespace'']) ''create'' [] ''pods'' (Some (after_slash p)) ''exec'']" by simp
  with r(1) r(3) [OF y] show ?thesis by simp
qed

section \<open>The judgement and the API server\<close>

text \<open>What the API server decides for a request: a resource may also be named by its subresource alone, and
  the name of a request is empty when it is on a collection.\<close>

definition server_name :: "request_k \<Rightarrow> string" where
  "server_name rq = (if rq_verb rq \<in> set [''list'', ''watch'', ''deletecollection''] \<or> rq_verb rq = ''create'' \<and> rq_sub rq = [] then []
     else case rq_name rq of None \<Rightarrow> [] | Some n \<Rightarrow> n)"

definition server_permits :: "request_k \<Rightarrow> policy_rule \<Rightarrow> bool" where
  "server_permits rq r \<longleftrightarrow> pr_lists (pr_groups r) (rq_group rq)
     \<and> (pr_lists (pr_resources r) (full_resource rq) \<or> rq_sub rq \<noteq> [] \<and> ''*/'' @ rq_sub rq \<in> set (pr_resources r))
     \<and> pr_lists (pr_verbs r) (rq_verb rq) \<and> (pr_names r = [] \<or> server_name rq \<in> set (pr_names r))"

definition enc_bound :: "string option \<times> policy_rule \<Rightarrow> yaml \<times> yaml" where
  "enc_bound = (\<lambda>(ns, r). (none_or ns, enc_policy_rule r))"

definition server_allows :: "request_k \<Rightarrow> (string option \<times> policy_rule) list \<Rightarrow> bool" where
  "server_allows rq rs \<longleftrightarrow> list_ex (\<lambda>(ns, r). (ns = None \<or> rq_ns rq = ns) \<and> server_permits rq r) rs"

lemma keyset_strs: "keyset (YList (map YStr xs)) = Some (mk_set (map YStr xs))"
  by (auto simp: keyset_def list_all_iff)

lemma meets_enc [simp]:
  "meets (enc_policy_rule r) ''apiGroups'' x = Some (pr_lists (pr_groups r) x)"
  "meets (enc_policy_rule r) ''resources'' x = Some (pr_lists (pr_resources r) x)"
  "meets (enc_policy_rule r) ''verbs'' x = Some (pr_lists (pr_verbs r) x)"
  by (auto simp: meets_def enc_policy_rule_def keyset_strs pr_lists_def)

lemma names_enc: "dget (enc_policy_rule r) ''resourceNames'' = Some (if pr_names r = [] then YNull else YList (map YStr (pr_names r)))"
  by (simp add: enc_policy_rule_def)

lemma none_or_simps [simp]: "none_or a = YNull \<longleftrightarrow> a = None" "none_or a = none_or b \<longleftrightarrow> a = b" "none_or (Some n) = YStr n"
  by (auto simp: none_or_def split: option.splits)

lemma rule_allows_k_enc: "rule_allows_k rq (enc_bound (ns, r)) = Some ((ns = None \<or> rq_ns rq = ns)
    \<and> pr_lists (pr_groups r) (rq_group rq) \<and> pr_lists (pr_resources r) (full_resource rq) \<and> pr_lists (pr_verbs r) (rq_verb rq)
    \<and> (pr_names r = [] \<or> \<not> names_nothing rq \<and> the (rq_name rq) \<in> set (pr_names r)))"
  by (cases "rq_name rq") (auto simp: rule_allows_k_def enc_bound_def names_enc names_nothing_def mand_def list_ex_iff)

lemma named_by_server: "\<not> names_nothing rq \<Longrightarrow> server_name rq = the (rq_name rq)"
  by (auto simp: names_nothing_def server_name_def)

lemma unnamed_by_server: "names_nothing rq \<Longrightarrow> server_name rq = []"
  by (auto simp: names_nothing_def server_name_def)

text \<open>What the check allows the API server permits, for all rules.\<close>

lemma allowed_sound: "\<exists>b. allowed rq (map enc_bound rs) = Some b \<and> (b \<longrightarrow> server_allows rq rs)"
proof (induction rs)
  case (Cons x rs)
  obtain ns r where x: "x = (ns, r)" by (cases x)
  from named_by_server [of rq] obtain b where b: "rule_allows_k rq (enc_bound x) = Some b" "b \<longrightarrow> (ns = None \<or> rq_ns rq = ns) \<and> server_permits rq r"
    unfolding x rule_allows_k_enc server_permits_def by (cases "names_nothing rq") auto
  with Cons show ?case by (cases b) (auto simp: allowed_def x server_allows_def)
qed (auto simp: allowed_def server_allows_def)

text \<open>C11. The judgement of a request is that of the API server: on typed rules \<^verbatim>\<open>allowed\<close> raises no exception and answers as
  the RBAC authorizer does, in the namespace of the binding or everywhere, when no rule names a subresource of
  every resource and no rule lists an empty object name.\<close>

theorem allowed_exact:
  assumes "list_all (\<lambda>(ns, r). ''*/'' @ rq_sub rq \<notin> set (pr_resources r) \<and> [] \<notin> set (pr_names r)) rs"
  shows "allowed rq (map enc_bound rs) = Some (server_allows rq rs)"
  using assms
proof (induction rs)
  case (Cons x rs)
  obtain ns r where x: "x = (ns, r)" by (cases x)
  have "rule_allows_k rq (enc_bound x) = Some ((ns = None \<or> rq_ns rq = ns) \<and> server_permits rq r)"
    using Cons.prems named_by_server [of rq] unnamed_by_server [of rq] unfolding x rule_allows_k_enc server_permits_def
    by (cases "names_nothing rq") auto
  with Cons show ?case by (auto simp: allowed_def x server_allows_def)
qed (simp add: allowed_def server_allows_def)

section \<open>Witnesses\<close>

lemma selftest_check: "check_kubectl SELFTEST_RENDER ''gibson/gibson-redis-rotation'' SELFTEST_CALLS = Some ([], 10)"
  by code_simp

theorem kubectl_calls_allowed_witness:
  "check_kubectl SELFTEST_RENDER ''gibson/gibson-redis-rotation'' SELFTEST_CALLS = Some ([], 10)
   \<and> (\<exists>ys. requests SELFTEST_CALLS = (ys, None) \<and> mset (map fst ys) = mset SELFTEST_CALLS \<and> count_requests ys = 10)"
  using kubectl_calls_allowed [OF selftest_check] selftest_check by auto

theorem exec_granted_whole_witness:
  "\<exists>rules. sa_rules SELFTEST_RENDER ''gibson/gibson-redis-rotation'' = Some rules
    \<and> allowed (req (Some ''gibson'') ''get'' [] ''pods'' (Some ''gibson-redis-stack-0'') []) rules = Some True
    \<and> allowed (req (Some ''gibson'') ''create'' [] ''pods'' (Some ''gibson-redis-stack-0'') ''exec'') rules = Some True"
proof -
  let ?fl = "[(''-i'', [[]]), (''-n'', [''gibson'']), (''-c'', [''redis-stack''])]"
  have p: "parse_kubectl (SELFTEST_CALLS ! 2) = Inr (PWord ''exec'' # [PWord ''gibson-redis-stack-0'', PRest [''sh'', ''-c'', ''x'']], ?fl)" by code_simp
  have w: "pos_words [PWord ''gibson-redis-stack-0'', PRest [''sh'', ''-c'', ''x'']] = ''gibson-redis-stack-0'' # []" by code_simp
  have "SELFTEST_CALLS ! 2 \<in> set SELFTEST_CALLS" "flag ?fl [''-n'', ''--namespace''] = Some ''gibson''" "after_slash ''gibson-redis-stack-0'' = ''gibson-redis-stack-0''"
    by code_simp+
  with exec_granted_whole [OF selftest_check _ p w] show ?thesis by simp
qed

definition exec_rule_k :: policy_rule where
  "exec_rule_k = \<lparr>pr_groups = [[]], pr_resources = [''pods/exec''], pr_verbs = [''create''], pr_names = [''db-0'']\<rparr>"

theorem allowed_exact_witness:
  "allowed (req (Some ''gibson'') ''create'' [] ''pods'' (Some ''db-0'') ''exec'') (map enc_bound [(Some ''gibson'', exec_rule_k)])
     = Some (server_allows (req (Some ''gibson'') ''create'' [] ''pods'' (Some ''db-0'') ''exec'') [(Some ''gibson'', exec_rule_k)])"
  by (rule allowed_exact) code_simp

section \<open>What the check passes too much\<close>

definition dry_create :: "string \<Rightarrow> argv" where
  "dry_create n = [''create'', ''secret'', ''generic'', n, ''-n'', ''gibson'', ''--dry-run=client'', ''-o'', ''yaml'']"

definition apply_stdin :: argv where
  "apply_stdin = [''apply'', ''-f'', ''-'']"

definition b_only :: "doc list" where
  "b_only = [st_role [st_rule [] ''secrets'' [] [''create''], st_rule [] ''secrets'' [''b''] [''get'', ''patch'']], st_binding]"


definition unplaced_binding :: doc where
  "unplaced_binding = YMap [(''kind'', YStr ''RoleBinding''), (''metadata'', YMap [(''name'', YStr ''b'')]),
     (''roleRef'', YMap [(''kind'', YStr ''ClusterRole''), (''name'', YStr ''reader'')]),
     (''subjects'', YList [YMap [(''kind'', YStr ''ServiceAccount''), (''name'', YStr ''sa''), (''namespace'', YStr ''gibson'')]])]"

definition reader_role :: doc where
  "reader_role = YMap [(''kind'', YStr ''ClusterRole''), (''metadata'', YMap [(''name'', YStr ''reader'')]),
     (''rules'', YList [st_rule [] ''secrets'' [] [''get'']])]"


end
