(* ===== verification/Webhooks.thy ===== *)
theory Webhooks
  imports CiliumPolicy HubbleDrops "HOL-Library.Product_Lexorder"
begin

text \<open>
  \<^verbatim>\<open>src/scripts/check-webhooks.py\<close>: every admission webhook is probed before it is live, can be swept at teardown, and fails
  closed. The renders are a parameter. The findings are the lines that the script prints. The theory proves
  what a clean judgement says of every webhook and every probe, what a probe of another namespace has in terms
  of the shared Cilium evaluator, and that the reading of the policies leaves two of their parts aside.
\<close>

section \<open>Probes of the gate\<close>

definition ACCEPTED_IGNORE :: "string list" where
  "ACCEPTED_IGNORE = [''vclusterfederatedtrustdomain.kb.io'', ''vclusterspiffeid.kb.io'']"

definition WEBHOOK_PROFILES :: "string list list" where
  "WEBHOOK_PROFILES = [[''values-baseline.yaml''], [''values-baseline.yaml'', ''values-eks.yaml''], [''values-baseline.yaml'', ''values-guest.yaml'']]"

text \<open>A probe; a key that is not in the dictionary is the empty text, which the code treats alike.\<close>

record probe =
  p_config :: string
  p_webhook :: string
  p_namespace :: string
  p_service :: string
  p_port :: int
  p_path :: string

text \<open>\<^verbatim>\<open>s.split(sep, 1)\<close> for a text as separator.\<close>

fun split_text :: "string \<Rightarrow> string \<Rightarrow> string \<times> string option" where
  "split_text sep [] = ([], None)"
| "split_text sep (c # s) = (if startswith (c # s) sep then ([], Some (drop (length sep) (c # s)))
     else (let (a, b) = split_text sep s in (c # a, b)))"

definition PROBES_OPEN :: string where
  "PROBES_OPEN = ''<<'' @ [CHR 0x27] @ ''PROBES'' @ [CHR 0x27, CHR 0x0A]"

definition PROBES_CLOSE :: string where
  "PROBES_CLOSE = CHR 0x0A # ''PROBES''"

definition probe_line :: "string \<Rightarrow> probe option" where
  "probe_line line = (case split_all (CHR ''|'') (strip line) of
       [config, webhook, namespace, service, port, path] \<Rightarrow> do {
         i \<leftarrow> py_int port;
         Some \<lparr>p_config = config, p_webhook = webhook, p_namespace = namespace, p_service = service, p_port = i, p_path = path\<rparr>
       }
     | _ \<Rightarrow> None)"

definition is_webhook_gate :: "doc \<Rightarrow> bool option" where
  "is_webhook_gate d = do {
     k \<leftarrow> dget d ''kind'';
     if k \<noteq> YStr ''Job'' then Some False else do { n \<leftarrow> meta_name d; Some (n = YStr ''gibson-webhook-gate'') }
   }"

text \<open>\<^verbatim>\<open>v[0]\<close>.\<close>

definition first_item :: "yaml \<Rightarrow> yaml option" where
  "first_item v = (case v of YList (x # _) \<Rightarrow> Some x | YStr (c # _) \<Rightarrow> Some (YStr [c]) | _ \<Rightarrow> None)"

definition gate_script :: "doc \<Rightarrow> string option" where
  "gate_script d = do {
     s \<leftarrow> item d ''spec''; t \<leftarrow> item s ''template''; ps \<leftarrow> item t ''spec''; cs \<leftarrow> item ps ''containers'';
     c \<leftarrow> first_item cs; args \<leftarrow> item c ''args''; a \<leftarrow> first_item args; the_text a
   }"

definition script_probes :: "string \<Rightarrow> probe list option" where
  "script_probes script = do {
     rest \<leftarrow> snd (split_text PROBES_OPEN script);
     mmap probe_line (splitlines (fst (split_text PROBES_CLOSE rest)))
   }"

fun gate_probes :: "doc list \<Rightarrow> probe list option" where
  "gate_probes [] = None"
| "gate_probes (d # ds) = do { g \<leftarrow> is_webhook_gate d; if g then do { s \<leftarrow> gate_script d; script_probes s } else gate_probes ds }"

section \<open>Webhooks\<close>

definition is_webhook_config :: "doc \<Rightarrow> bool option" where
  "is_webhook_config d = do { k \<leftarrow> dget d ''kind''; Some (in_strtuple k [''ValidatingWebhookConfiguration'', ''MutatingWebhookConfiguration'']) }"

definition ignored_names :: "doc \<Rightarrow> yaml list option" where
  "ignored_names d = do {
     b \<leftarrow> is_webhook_config d;
     if \<not> b then Some [] else do {
     ws \<leftarrow> get_list d ''webhooks'';
     collect (\<lambda>w. do { fp \<leftarrow> dget w ''failurePolicy'';
       if fp \<noteq> YStr ''Ignore'' then Some [] else do { n \<leftarrow> dget w ''name''; if hashable n then Some [n] else None } }) ws
     }
   }"

definition ignored :: "doc list \<Rightarrow> yaml list option" where
  "ignored docs = do { ns \<leftarrow> collect ignored_names docs; Some (mk_set ns) }"

definition stale_hooks :: "yaml list \<Rightarrow> string list \<Rightarrow> string list" where
  "stale_hooks seen accepted = map (\<lambda>n. ''ACCEPTED_IGNORE names '' @ n @ '', and no render installs that webhook at Ignore: delete the entry'')
     (filter (\<lambda>n. YStr n \<notin> set seen) (sort accepted))"

text \<open>The service that is dialled: name, namespace, port and path.\<close>

type_synonym dial = "yaml \<times> yaml \<times> int \<times> yaml"

record hook =
  hk_config :: yaml
  hk_name :: yaml
  hk_dial :: "dial option"
  hk_policy :: yaml

definition hook_dial :: "string \<Rightarrow> yaml \<Rightarrow> dial option" where
  "hook_dial ns svc = do {
     n \<leftarrow> dget svc ''name''; sns \<leftarrow> dget svc ''namespace''; p \<leftarrow> dget svc ''port''; i \<leftarrow> int_of (py_or p (YInt 443)); path \<leftarrow> dget svc ''path'';
     Some (n, py_or sns (YStr ns), i, py_or path (YStr ''/''))
   }"

definition hook_of :: "string \<Rightarrow> yaml \<Rightarrow> yaml \<Rightarrow> hook option" where
  "hook_of ns cfg w = do {
     name \<leftarrow> dget w ''name'';
     cc \<leftarrow> get_or_dict w ''clientConfig'';
     svc \<leftarrow> dget cc ''service'';
     dial \<leftarrow> (if truthy svc then map_option Some (hook_dial ns svc) else Some None);
     fp \<leftarrow> dget w ''failurePolicy'';
     Some \<lparr>hk_config = cfg, hk_name = name, hk_dial = dial, hk_policy = fp\<rparr>
   }"

definition hook_path :: "hook \<Rightarrow> string" where
  "hook_path h = py_str (hk_config h) @ ''/'' @ py_str (hk_name h)"

definition hook_findings :: "string list \<Rightarrow> hook \<Rightarrow> string list option" where
  "hook_findings accepted h = do {
     known \<leftarrow> (if hk_policy h \<noteq> YStr ''Fail'' then in_strset (hk_name h) accepted else Some True);
     Some ((if hk_dial h = None then [hook_path h @ '': url-backed (no clientConfig.service); the teardown sweep cannot clear it''] else [])
           @ (if known then [] else [hook_path h @ '': failurePolicy '' @ py_repr (hk_policy h) @ '', a fail-open admission webhook'']))
   }"

definition doc_hooks :: "string \<Rightarrow> doc \<Rightarrow> hook list option" where
  "doc_hooks ns d = do {
     b \<leftarrow> is_webhook_config d;
     if \<not> b then Some [] else do { cfg \<leftarrow> meta_name d; ws \<leftarrow> get_list d ''webhooks''; mmap (hook_of ns cfg) ws }
   }"

section \<open>Probes against webhooks\<close>

definition probe_dial :: "string \<Rightarrow> probe \<Rightarrow> dial" where
  "probe_dial ns p = (YStr (p_service p), YStr (if p_namespace p = [] then ns else p_namespace p), if p_port p = 0 then 443 else p_port p,
     YStr (if p_path p = [] then ''/'' else p_path p))"

definition hashable_dial :: "dial option \<Rightarrow> bool" where
  "hashable_dial d = (case d of None \<Rightarrow> True | Some (n, ns, i, path) \<Rightarrow> hashable n \<and> hashable ns \<and> hashable path)"

definition dial_repr :: "dial \<Rightarrow> string" where
  "dial_repr = (\<lambda>(n, ns, i, path). ''('' @ join '', '' [py_repr n, py_repr ns, int_dec i, py_repr path] @ '')'')"

text \<open>\<^verbatim>\<open>sorted\<close> of the dials of candidates: text columns; a column that mixes texts and other values raises TypeError.\<close>

definition sort_dials :: "dial list \<Rightarrow> dial list option" where
  "sort_dials ds = (if length ds \<le> 1 then Some ds
     else if list_all (\<lambda>(n, ns, i, path). is_str n \<and> is_str ns \<and> is_str path) ds
     then Some (sort_key (\<lambda>(n, ns, i, path). (str_of n, str_of ns, i, str_of path)) ds) else None)"

definition candidates :: "hook list \<Rightarrow> probe \<Rightarrow> hook list" where
  "candidates hooks p = filter (\<lambda>h. hk_config h = YStr (p_config p) \<and> hk_name h = YStr (p_webhook p)) hooks"

definition probe_key :: "probe \<Rightarrow> string" where
  "probe_key p = ''probe '' @ p_config p @ ''/'' @ p_webhook p"

definition probe_finding :: "string \<Rightarrow> hook list \<Rightarrow> probe \<Rightarrow> string list option" where
  "probe_finding ns hooks p = (let cs = candidates hooks p; dial = probe_dial ns p in
     if cs = [] then Some [probe_key p @ '' names a webhook the render does not install'']
     else if \<not> list_all (\<lambda>h. hashable_dial (hk_dial h)) cs then None
     else if Some dial \<notin> hk_dial ` set cs then do {
       ds \<leftarrow> sort_dials (concat (map (\<lambda>h. case hk_dial h of None \<Rightarrow> [] | Some d \<Rightarrow> [d]) cs));
       Some [probe_key p @ '' dials '' @ dial_repr dial @ '', the API server dials ['' @ join '', '' (map dial_repr ds) @ '']'']
     } else Some [])"

text \<open>The probes that agree with a webhook, by configuration, webhook and dial.\<close>

definition probe_dials :: "string \<Rightarrow> hook list \<Rightarrow> probe list \<Rightarrow> (yaml \<times> yaml \<times> dial) list" where
  "probe_dials ns hooks probes = map (\<lambda>p. (YStr (p_config p), YStr (p_webhook p), probe_dial ns p))
     (filter (\<lambda>p. Some (probe_dial ns p) \<in> hk_dial ` set (candidates hooks p)) probes)"

definition unprobed :: "(yaml \<times> yaml \<times> dial) list \<Rightarrow> hook \<Rightarrow> string list option" where
  "unprobed probed h = (case hk_dial h of
       None \<Rightarrow> Some []
     | Some dial \<Rightarrow>
         if hk_policy h \<noteq> YStr ''Fail'' then Some []
         else if \<not> (hashable (hk_config h) \<and> hashable (hk_name h) \<and> hashable_dial (Some dial)) then None
         else if (hk_config h, hk_name h, dial) \<in> set probed then Some []
         else Some [hook_path h @ '' ('' @ py_str (snd (snd (snd dial))) @ ''): failurePolicy Fail with no probe in webhookGate.probes; it would be activated unproved''])"

definition judge_hooks :: "doc list \<Rightarrow> probe list \<Rightarrow> string \<Rightarrow> string list \<Rightarrow> string list option" where
  "judge_hooks docs probes ns accepted = do {
     hooks \<leftarrow> collect (doc_hooks ns) docs;
     a \<leftarrow> collect (hook_findings accepted) hooks;
     b \<leftarrow> collect (probe_finding ns hooks) probes;
     c \<leftarrow> collect (unprobed (probe_dials ns hooks probes)) hooks;
     Some (a @ b @ c)
   }"

section \<open>Reach\<close>

fun gate_pod_labels :: "doc list \<Rightarrow> yaml option" where
  "gate_pod_labels [] = Some (YMap [])"
| "gate_pod_labels (d # ds) = do {
     g \<leftarrow> is_webhook_gate d;
     if g then do { s \<leftarrow> item d ''spec''; t \<leftarrow> item s ''template''; m \<leftarrow> item t ''metadata''; get_or_dict m ''labels'' }
     else gate_pod_labels ds
   }"

fun port_target :: "int \<Rightarrow> yaml list \<Rightarrow> string option option" where
  "port_target port [] = Some None"
| "port_target port (sp # sps) = do {
     v \<leftarrow> dget sp ''port''; i \<leftarrow> int_of v;
     if i = port then do { t \<leftarrow> dget_default sp ''targetPort'' (YInt port); Some (Some (py_str t)) } else port_target port sps
   }"

definition is_service :: "string \<Rightarrow> string \<Rightarrow> doc \<Rightarrow> bool option" where
  "is_service name namespace d = do {
     k \<leftarrow> dget d ''kind'';
     if k \<noteq> YStr ''Service'' then Some False else do {
     n \<leftarrow> meta_name d;
     if n \<noteq> YStr name then Some False else do { m \<leftarrow> item d ''metadata''; ns \<leftarrow> dget m ''namespace''; Some (ns = YStr namespace) }
     }
   }"

fun target_port :: "doc list \<Rightarrow> string \<Rightarrow> string \<Rightarrow> int \<Rightarrow> string option option" where
  "target_port [] name namespace port = Some None"
| "target_port (d # ds) name namespace port = do {
     b \<leftarrow> is_service name namespace d;
     t \<leftarrow> (if b then do { s \<leftarrow> item d ''spec''; ps \<leftarrow> get_list s ''ports''; port_target port ps } else Some None);
     case t of Some x \<Rightarrow> Some (Some x) | None \<Rightarrow> target_port ds name namespace port
   }"

definition POD_NS :: string where
  "POD_NS = ''k8s:io.kubernetes.pod.namespace''"

definition peer_admits_gate :: "string \<Rightarrow> yaml \<Rightarrow> yaml \<Rightarrow> bool option" where
  "peer_admits_gate ns labels peer = do {
     ml0 \<leftarrow> get_or_dict peer ''matchLabels'';
     ml \<leftarrow> items ml0;
     if (case map_of ml POD_NS of None \<Rightarrow> True | Some v \<Rightarrow> v \<noteq> YStr ns) then Some False
     else mall (\<lambda>(k, v). do { x \<leftarrow> dget labels k; Some (py_eq x v) }) (filter (\<lambda>e. fst e \<noteq> POD_NS) ml)
   }"

definition listed_ports :: "yaml \<Rightarrow> string list option" where
  "listed_ports rule = do {
     tps \<leftarrow> get_list rule ''toPorts'';
     collect (\<lambda>tp. do { pps \<leftarrow> get_list tp ''ports''; mmap (\<lambda>pp. do { q \<leftarrow> dget pp ''port''; Some (py_str q) }) pps }) tps
   }"

definition item_admits_gate :: "string \<Rightarrow> yaml \<Rightarrow> string \<Rightarrow> yaml \<Rightarrow> bool option" where
  "item_admits_gate ns labels port rule = do {
     ports \<leftarrow> listed_ports rule;
     if port \<notin> set ports then Some False else do { peers \<leftarrow> get_list rule ''fromEndpoints''; many (peer_admits_gate ns labels) peers }
   }"

text \<open>\<^verbatim>\<open>[d.get("spec")] + (d.get("specs") or [])\<close>: the second operand must be a list.\<close>

definition policy_specs_wh :: "doc \<Rightarrow> yaml list option" where
  "policy_specs_wh d = do {
     s \<leftarrow> dget d ''spec''; ss \<leftarrow> dget d ''specs'';
     case py_or ss (YList []) of YList xs \<Rightarrow> Some (s # xs) | _ \<Rightarrow> None
   }"

definition policy_admits_gate :: "string \<Rightarrow> string \<Rightarrow> yaml \<Rightarrow> string \<Rightarrow> doc \<Rightarrow> bool option" where
  "policy_admits_gate namespace ns labels port d = do {
     k \<leftarrow> dget d ''kind'';
     if k \<noteq> YStr ''CiliumNetworkPolicy'' then Some False else do {
     m \<leftarrow> item d ''metadata''; pns \<leftarrow> dget m ''namespace'';
     if pns \<noteq> YStr namespace then Some False else do {
     specs \<leftarrow> policy_specs_wh d;
     many (\<lambda>spec. do { rs \<leftarrow> get_list (py_or spec (YMap [])) ''ingress''; many (item_admits_gate ns labels port) rs }) specs
     }}
   }"

definition admits :: "doc list \<Rightarrow> string \<Rightarrow> string \<Rightarrow> yaml \<Rightarrow> string \<Rightarrow> bool option" where
  "admits docs namespace ns labels port = many (policy_admits_gate namespace ns labels port) docs"

definition probe_reach :: "doc list \<Rightarrow> string \<Rightarrow> yaml \<Rightarrow> probe \<Rightarrow> string list option" where
  "probe_reach docs rel labels p = (let ns = (if p_namespace p = [] then rel else p_namespace p) in
     if ns = rel then Some [] else do {
     e \<leftarrow> dget labels ''gibson.zeroroot.ai/egress-namespaces'';
     tp \<leftarrow> target_port docs (p_service p) ns (if p_port p = 0 then 443 else p_port p);
     more' \<leftarrow> (case tp of
         None \<Rightarrow> Some [probe_key p @ '': the render has no Service '' @ ns @ ''/'' @ p_service p @ '' with port '' @ int_dec (p_port p)]
       | Some t \<Rightarrow> do { b \<leftarrow> admits docs ns rel labels t;
           Some (if b then [] else [probe_key p @ '': no CiliumNetworkPolicy in '' @ ns @ '' admits the gate ('' @ rel @ '', its labels) on port '' @ t]) });
     Some ((if e \<noteq> YStr ''true'' then [probe_key p @ '' dials namespace '' @ ns @ '', and the gate pod has no egress-namespaces label''] else []) @ more')
     })"

definition reach :: "doc list \<Rightarrow> probe list \<Rightarrow> string \<Rightarrow> string list option" where
  "reach docs probes rel = do { labels \<leftarrow> gate_pod_labels docs; collect (probe_reach docs rel labels) probes }"

section \<open>The run\<close>

definition profile_findings_wh :: "(string list \<Rightarrow> doc list option) \<Rightarrow> string list \<Rightarrow> string list \<Rightarrow> (yaml list \<times> string list) option" where
  "profile_findings_wh render accepted profile = do {
     ds \<leftarrow> render profile;
     let docs = filter truthy ds;
     probes \<leftarrow> gate_probes docs;
     seen \<leftarrow> ignored docs;
     a \<leftarrow> judge_hooks docs probes ''gibson'' accepted;
     b \<leftarrow> reach docs probes ''gibson'';
     Some (seen, map (\<lambda>l. ''['' @ join ''+'' profile @ ''] '' @ l) (a @ b))
   }"

definition judge_all :: "(string list \<Rightarrow> doc list option) \<Rightarrow> string list \<Rightarrow> string list option" where
  "judge_all render accepted = do {
     rs \<leftarrow> mmap (profile_findings_wh render accepted) WEBHOOK_PROFILES;
     Some (concat (map snd rs) @ stale_hooks (concat (map fst rs)) accepted)
   }"

section \<open>The selftest\<close>

definition wh_service :: "string \<Rightarrow> (string \<times> yaml) list \<Rightarrow> yaml" where
  "wh_service n more' = YMap [(''service'', YMap ([(''name'', YStr n), (''namespace'', YStr ''gibson'')] @ more' @ [(''path'', YStr ''/validate'')]))]"

definition wh_config :: "string \<Rightarrow> string \<Rightarrow> string \<Rightarrow> string \<Rightarrow> yaml \<Rightarrow> doc" where
  "wh_config kind cfg name policy client = YMap [(''apiVersion'', YStr ''admissionregistration.k8s.io/v1''), (''kind'', YStr kind),
     (''metadata'', YMap [(''name'', YStr cfg)]),
     (''webhooks'', YList [YMap [(''name'', YStr name), (''failurePolicy'', YStr policy), (''clientConfig'', client)]])]"

definition WH_FIXTURE :: "doc list" where
  "WH_FIXTURE =
     [wh_config ''ValidatingWebhookConfiguration'' ''probed'' ''a.example.io'' ''Fail'' (wh_service ''a-svc'' [(''port'', YInt 443)]),
      wh_config ''ValidatingWebhookConfiguration'' ''unprobed'' ''b.example.io'' ''Fail'' (wh_service ''b-svc'' []),
      wh_config ''MutatingWebhookConfiguration'' ''urlbacked'' ''c.example.io'' ''Fail'' (YMap [(''url'', YStr ''https://elsewhere.example/mutate'')]),
      wh_config ''ValidatingWebhookConfiguration'' ''open'' ''d.example.io'' ''Ignore'' (wh_service ''d-svc'' [])]"

definition spire_webhook :: "string \<Rightarrow> doc list" where
  "spire_webhook policy = [wh_config ''ValidatingWebhookConfiguration'' ''spire-controller-manager-webhook'' ''vclusterspiffeid.kb.io'' policy (wh_service ''spire-webhook'' [])]"

definition reach_fixture :: "(string \<times> yaml) list \<Rightarrow> int \<Rightarrow> doc list" where
  "reach_fixture labels tp =
     [YMap [(''apiVersion'', YStr ''batch/v1''), (''kind'', YStr ''Job''), (''metadata'', YMap [(''name'', YStr ''gibson-webhook-gate'')]),
        (''spec'', YMap [(''template'', YMap [(''metadata'', YMap [(''labels'', YMap ((''app.kubernetes.io/component'', YStr ''webhook-gate'') # labels))])])])],
      YMap [(''apiVersion'', YStr ''v1''), (''kind'', YStr ''Service''), (''metadata'', YMap [(''name'', YStr ''s-webhook''), (''namespace'', YStr ''other'')]),
        (''spec'', YMap [(''ports'', YList [YMap [(''port'', YInt 443), (''targetPort'', YInt tp)]])])],
      YMap [(''apiVersion'', YStr ''cilium.io/v2''), (''kind'', YStr ''CiliumNetworkPolicy''), (''metadata'', YMap [(''name'', YStr ''s-operator''), (''namespace'', YStr ''other'')]),
        (''spec'', YMap [(''ingress'', YList [YMap [
           (''fromEndpoints'', YList [YMap [(''matchLabels'', YMap [(POD_NS, YStr ''gibson''), (''app.kubernetes.io/component'', YStr ''webhook-gate'')])]]),
           (''toPorts'', YList [YMap [(''ports'', YList [YMap [(''port'', YStr ''9443''), (''protocol'', YStr ''TCP'')]])]])]])])]]"

definition egress_label :: "(string \<times> yaml) list" where
  "egress_label = [(''gibson.zeroroot.ai/egress-namespaces'', YStr ''true'')]"

definition REACH_PROBES :: "probe list" where
  "REACH_PROBES = [\<lparr>p_config = ''s'', p_webhook = ''s.example.io'', p_namespace = ''other'', p_service = ''s-webhook'', p_port = 443, p_path = ''/validate''\<rparr>]"

definition FIXTURE_PROBES :: "probe list" where
  "FIXTURE_PROBES =
     [\<lparr>p_config = ''probed'', p_webhook = ''a.example.io'', p_namespace = [], p_service = ''a-svc'', p_port = 443, p_path = ''/validate''\<rparr>,
      \<lparr>p_config = ''gone'', p_webhook = ''z.example.io'', p_namespace = [], p_service = ''z'', p_port = 443, p_path = ''/''\<rparr>]"

definition wh_wanted :: "string list" where
  "wh_wanted = [''unprobed/b.example.io (/validate): failurePolicy Fail with no probe'', ''urlbacked/c.example.io: url-backed'',
     ''open/d.example.io: failurePolicy '' @ [CHR 0x27] @ ''Ignore'' @ [CHR 0x27], ''probe gone/z.example.io names a webhook'']"

definition webhook_cases :: "bool option list" where
  "webhook_cases = (let judge = (\<lambda>docs probes accepted. judge_hooks docs probes ''gibson'' accepted);
        listed = [''vclusterspiffeid.kb.io'']; spire = spire_webhook ''Ignore''; rule = (\<lambda>docs. reach docs REACH_PROBES ''gibson'');
        left = (\<lambda>docs names. map_option (\<lambda>seen. length (stale_hooks seen names)) (ignored docs)) in
     [map_option (\<lambda>got. length got = 4 \<and> list_all (\<lambda>w. list_ex (\<lambda>g. startswith g w) got) wh_wanted) (judge WH_FIXTURE FIXTURE_PROBES ACCEPTED_IGNORE),
      map_option (\<lambda>got. length got = 2 \<and> list_ex (sublist ''dials'') got \<and> list_ex (sublist ''no probe'') got)
        (judge (take 1 WH_FIXTURE) [(hd FIXTURE_PROBES)\<lparr>p_path := ''/wrong''\<rparr>] ACCEPTED_IGNORE),
      mand (map_option (\<lambda>got. got = []) (judge spire [] listed)) (map_option (\<lambda>n. n = 0) (left spire listed)),
      map_option (\<lambda>got. length got = 1) (judge spire [] []),
      map_option (\<lambda>n. n = 1) (left spire (listed @ [''vgone.kb.io''])),
      map_option (\<lambda>n. n = 1) (left (spire_webhook ''Fail'') listed),
      map_option (\<lambda>got. got = []) (rule (reach_fixture egress_label 9443)),
      map_option (\<lambda>got. length got = 1) (rule (reach_fixture [] 9443)),
      map_option (\<lambda>got. length got = 1) (rule (take 2 (reach_fixture egress_label 9443))),
      map_option (\<lambda>got. length got = 1) (rule (reach_fixture egress_label 8443))])"

definition selftest_webhooks :: "(string list \<Rightarrow> doc list option) \<Rightarrow> int option" where
  "selftest_webhooks render = do {
     ok \<leftarrow> mall id webhook_cases;
     if \<not> ok then Some 1 else do { live \<leftarrow> judge_all render ACCEPTED_IGNORE; Some (if live \<noteq> [] then 1 else 0) }
   }"

definition main_webhooks :: "(string list \<Rightarrow> doc list option) \<Rightarrow> string list \<Rightarrow> int option" where
  "main_webhooks render argv = (if ''--selftest'' \<in> set argv then selftest_webhooks render
     else do { got \<leftarrow> judge_all render ACCEPTED_IGNORE; Some (if got \<noteq> [] then 1 else 0) })"

lemma webhook_cases_pass: "mall id webhook_cases = Some True"
  by code_simp

text \<open>The selftest passes exactly when the renders are clean.\<close>

lemma selftest_webhooks_main: "selftest_webhooks render = main_webhooks render []"
  by (simp add: selftest_webhooks_def main_webhooks_def webhook_cases_pass)

section \<open>What a clean judgement says\<close>

text \<open>A webhook that is service-backed and closed, and that a probe dials when it is live at once.\<close>

definition hook_safe :: "string \<Rightarrow> string list \<Rightarrow> probe list \<Rightarrow> hook \<Rightarrow> bool" where
  "hook_safe ns accepted probes h \<longleftrightarrow> (\<exists>dial. hk_dial h = Some dial
     \<and> (hk_policy h = YStr ''Fail'' \<and> (\<exists>p \<in> set probes. hk_config h = YStr (p_config p) \<and> hk_name h = YStr (p_webhook p) \<and> dial = probe_dial ns p)
        \<or> hk_policy h \<noteq> YStr ''Fail'' \<and> hk_name h \<in> YStr ` set accepted))"

definition probe_installed :: "string \<Rightarrow> hook list \<Rightarrow> probe \<Rightarrow> bool" where
  "probe_installed ns hooks p \<longleftrightarrow> (\<exists>h \<in> set hooks. hk_config h = YStr (p_config p) \<and> hk_name h = YStr (p_webhook p) \<and> hk_dial h = Some (probe_dial ns p))"

lemma hook_findings_Nil:
  "hook_findings accepted h = Some [] \<Longrightarrow> hk_dial h \<noteq> None \<and> (hk_policy h = YStr ''Fail'' \<or> hk_name h \<in> YStr ` set accepted)"
  by (auto simp: hook_findings_def in_strset_def bind_eq_Some_conv split: if_splits yaml.splits)

lemma probe_finding_Nil: "probe_finding ns hooks p = Some [] \<Longrightarrow> probe_installed ns hooks p"
  by (force simp: probe_finding_def probe_installed_def candidates_def Let_def bind_eq_Some_conv split: if_splits)

lemma unprobed_Nil:
  assumes "unprobed (probe_dials ns hooks probes) h = Some []" and "hk_dial h = Some dial" and "hk_policy h = YStr ''Fail''"
  shows "\<exists>p \<in> set probes. hk_config h = YStr (p_config p) \<and> hk_name h = YStr (p_webhook p) \<and> dial = probe_dial ns p"
  using assms by (auto simp: unprobed_def probe_dials_def split: if_splits)

lemma judge_hooks_Nil:
  assumes "judge_hooks docs probes ns accepted = Some []"
  obtains hooks where "collect (doc_hooks ns) docs = Some hooks" "\<forall>h \<in> set hooks. hook_safe ns accepted probes h" "\<forall>p \<in> set probes. probe_installed ns hooks p"
proof -
  from assms obtain hooks where h: "collect (doc_hooks ns) docs = Some hooks" "collect (hook_findings accepted) hooks = Some []"
    "collect (probe_finding ns hooks) probes = Some []" "collect (unprobed (probe_dials ns hooks probes)) hooks = Some []"
    by (auto simp: judge_hooks_def elim!: bindE)
  have "hook_safe ns accepted probes x" if "x \<in> set hooks" for x
  proof -
    from h(2,4) that have x: "hook_findings accepted x = Some []" "unprobed (probe_dials ns hooks probes) x = Some []" by (auto simp: collect_empty_iff)
    from hook_findings_Nil [OF x(1)] obtain dial where "hk_dial x = Some dial" "hk_policy x = YStr ''Fail'' \<or> hk_name x \<in> YStr ` set accepted" by auto
    with unprobed_Nil [OF x(2)] show ?thesis by (auto simp: hook_safe_def)
  qed
  moreover from h(3) have "\<forall>p \<in> set probes. probe_installed ns hooks p" by (auto simp: collect_empty_iff dest: probe_finding_Nil)
  ultimately show ?thesis using that h(1) by blast
qed

lemma stale_hooks_Nil: "stale_hooks seen accepted = [] \<longleftrightarrow> YStr ` set accepted \<subseteq> set seen"
  by (auto simp: stale_hooks_def filter_empty_conv)

lemma main_webhooks_profiles:
  assumes "main_webhooks render [] = Some 0"
  obtains rs where "list_all2 (\<lambda>profile r. profile_findings_wh render ACCEPTED_IGNORE profile = Some (r, [])) WEBHOOK_PROFILES rs"
    "YStr ` set ACCEPTED_IGNORE \<subseteq> set (concat rs)"
proof -
  from assms obtain xs where x: "mmap (profile_findings_wh render ACCEPTED_IGNORE) WEBHOOK_PROFILES = Some xs" "concat (map snd xs) = []"
    "stale_hooks (concat (map fst xs)) ACCEPTED_IGNORE = []"
    by (auto simp: main_webhooks_def judge_all_def elim!: bindE split: if_splits)
  have e: "snd y = []" if "y \<in> set xs" for y using x(2) that by auto
  have "list_all2 (\<lambda>profile y. profile_findings_wh render ACCEPTED_IGNORE profile = Some y) WEBHOOK_PROFILES xs" using x(1) by (simp add: mmap_Some_iff)
  with e have "list_all2 (\<lambda>profile r. profile_findings_wh render ACCEPTED_IGNORE profile = Some (r, [])) WEBHOOK_PROFILES (map fst xs)"
    unfolding list_all2_map2 by (elim list.rel_mono_strong) (metis prod.collapse)
  with that x(3) stale_hooks_Nil show ?thesis by blast
qed

lemma profile_findings_wh_Nil:
  assumes "profile_findings_wh render accepted profile = Some (seen, [])"
  shows "\<exists>ds probes hooks. render profile = Some ds \<and> gate_probes (filter truthy ds) = Some probes \<and> ignored (filter truthy ds) = Some seen
    \<and> collect (doc_hooks ''gibson'') (filter truthy ds) = Some hooks \<and> list_all (hook_safe ''gibson'' accepted probes) hooks
    \<and> list_all (probe_installed ''gibson'' hooks) probes \<and> reach (filter truthy ds) probes ''gibson'' = Some []"
proof -
  from assms obtain ds probes where "render profile = Some ds" "gate_probes (filter truthy ds) = Some probes" "ignored (filter truthy ds) = Some seen"
    "judge_hooks (filter truthy ds) probes ''gibson'' accepted = Some []" "reach (filter truthy ds) probes ''gibson'' = Some []"
    by (auto simp: profile_findings_wh_def Let_def elim!: bindE)
  then show ?thesis by (elim judge_hooks_Nil) (auto simp: list_all_iff)
qed

text \<open>C12. When the webhook guard exits 0, in the render of every profile each webhook is backed by a Service; each one fails
  closed and is dialled by a probe of the gate under its configuration, name, service, namespace, port and path,
  or is one of the accepted exceptions; each probe dials a webhook that the render installs; and each exception is a
  webhook that some profile installs at Ignore.\<close>

theorem webhooks_run_clean:
  assumes "main_webhooks render [] = Some 0"
  shows "list_all (\<lambda>profile. \<exists>ds probes hooks. render profile = Some ds \<and> gate_probes (filter truthy ds) = Some probes
      \<and> collect (doc_hooks ''gibson'') (filter truthy ds) = Some hooks \<and> list_all (hook_safe ''gibson'' ACCEPTED_IGNORE probes) hooks
      \<and> list_all (probe_installed ''gibson'' hooks) probes \<and> reach (filter truthy ds) probes ''gibson'' = Some []) WEBHOOK_PROFILES
    \<and> list_all (\<lambda>n. list_ex (\<lambda>profile. \<exists>ds seen. render profile = Some ds \<and> ignored (filter truthy ds) = Some seen \<and> YStr n \<in> set seen) WEBHOOK_PROFILES) ACCEPTED_IGNORE"
proof -
  from assms obtain rs where r: "list_all2 (\<lambda>profile r. profile_findings_wh render ACCEPTED_IGNORE profile = Some (r, [])) WEBHOOK_PROFILES rs"
    "YStr ` set ACCEPTED_IGNORE \<subseteq> set (concat rs)" by (rule main_webhooks_profiles)
  have seen: "\<exists>profile \<in> set WEBHOOK_PROFILES. profile_findings_wh render ACCEPTED_IGNORE profile = Some (x, [])" if "x \<in> set rs" for x
    using r(1) that by (auto simp: list_all2_conv_all_nth in_set_conv_nth) (metis nth_mem)
  have profiles: "\<exists>x. profile_findings_wh render ACCEPTED_IGNORE profile = Some (x, [])" if "profile \<in> set WEBHOOK_PROFILES" for profile
    using r(1) that by (auto simp: list_all2_conv_all_nth in_set_conv_nth)
  have "list_all (\<lambda>n. list_ex (\<lambda>profile. \<exists>ds seen. render profile = Some ds \<and> ignored (filter truthy ds) = Some seen \<and> YStr n \<in> set seen) WEBHOOK_PROFILES) ACCEPTED_IGNORE"
  proof (intro list_all_iff [THEN iffD2] ballI)
    fix n assume "n \<in> set ACCEPTED_IGNORE"
    with r(2) obtain x where "x \<in> set rs" "YStr n \<in> set x" by auto
    with seen obtain profile where p: "profile \<in> set WEBHOOK_PROFILES" "profile_findings_wh render ACCEPTED_IGNORE profile = Some (x, [])" by blast
    from profile_findings_wh_Nil [OF p(2)] p(1) \<open>YStr n \<in> set x\<close>
    show "list_ex (\<lambda>profile. \<exists>ds seen. render profile = Some ds \<and> ignored (filter truthy ds) = Some seen \<and> YStr n \<in> set seen) WEBHOOK_PROFILES"
      unfolding list_ex_iff by blast
  qed
  moreover have "list_all (\<lambda>profile. \<exists>ds probes hooks. render profile = Some ds \<and> gate_probes (filter truthy ds) = Some probes
      \<and> collect (doc_hooks ''gibson'') (filter truthy ds) = Some hooks \<and> list_all (hook_safe ''gibson'' ACCEPTED_IGNORE probes) hooks
      \<and> list_all (probe_installed ''gibson'' hooks) probes \<and> reach (filter truthy ds) probes ''gibson'' = Some []) WEBHOOK_PROFILES"
    by (intro list_all_iff [THEN iffD2] ballI) (use profiles profile_findings_wh_Nil in fast)
  ultimately show ?thesis by (rule conjI [rotated])
qed

definition clean_render :: "doc list" where
  "clean_render =
     [YMap [(''kind'', YStr ''Job''), (''metadata'', YMap [(''name'', YStr ''gibson-webhook-gate'')]),
        (''spec'', YMap [(''template'', YMap [(''metadata'', YMap []), (''spec'', YMap [(''containers'', YList [YMap [(''args'',
          YList [YStr (''cat '' @ PROBES_OPEN @ ''probed|a.example.io|gibson|a-svc|443|/validate'' @ PROBES_CLOSE)])]])])])])],
      hd WH_FIXTURE,
      wh_config ''ValidatingWebhookConfiguration'' ''spire'' ''vclusterspiffeid.kb.io'' ''Ignore'' (wh_service ''spire-webhook'' []),
      wh_config ''ValidatingWebhookConfiguration'' ''spire'' ''vclusterfederatedtrustdomain.kb.io'' ''Ignore'' (wh_service ''spire-webhook'' [])]"

theorem webhooks_run_clean_witness:
  "main_webhooks (\<lambda>_. Some clean_render) [] = Some 0
   \<and> (\<exists>probes hooks. gate_probes (filter truthy clean_render) = Some probes \<and> collect (doc_hooks ''gibson'') (filter truthy clean_render) = Some hooks
        \<and> list_all (hook_safe ''gibson'' ACCEPTED_IGNORE probes) hooks \<and> list_all (probe_installed ''gibson'' hooks) probes)"
proof -
  have m: "main_webhooks (\<lambda>_. Some clean_render) [] = Some 0" by code_simp
  show ?thesis using webhooks_run_clean [OF m] m by (auto simp: WEBHOOK_PROFILES_def)
qed

section \<open>Reach and the shared evaluator\<close>

lemma many_returns: "(\<And>y. y \<in> set xs \<Longrightarrow> f y \<noteq> None) \<Longrightarrow> many f xs \<noteq> None"
  by (induction xs) (auto split: Option.bind_splits)

lemma many_defined: "(\<And>y. y \<in> set xs \<Longrightarrow> f y \<noteq> None) \<Longrightarrow> x \<in> set xs \<Longrightarrow> f x = Some True \<Longrightarrow> many f xs = Some True"
  by (induction xs) (auto split: Option.bind_splits)

lemma listed_port_ok:
  assumes "listed_ports rule = Some qs" and "port \<in> set qs"
  shows "port_ok rule (YStr port) = Some True"
proof -
  let ?pp = "\<lambda>pp. do { q \<leftarrow> dget pp ''port''; Some (py_str q) }"
  let ?tp = "\<lambda>tp. do { pps \<leftarrow> get_list tp ''ports''; mmap ?pp pps }"
  let ?ok = "\<lambda>tp. do { ps \<leftarrow> get_list tp ''ports''; many (\<lambda>pp. do { q \<leftarrow> dget pp ''port''; Some (py_str q = py_str (YStr port)) }) ps }"
  from assms(1) obtain tps where t: "get_list rule ''toPorts'' = Some tps" and c: "collect ?tp tps = Some qs" unfolding listed_ports_def by (rule bindE)
  from t obtain v where v: "dget rule ''toPorts'' = Some v" "py_iter (py_or v (YList [])) = Some tps" unfolding get_list_def by (rule bindE)
  from iffD1 [OF collect_set [OF c] assms(2)] obtain tp xs where tp: "tp \<in> set tps" "?tp tp = Some xs" "port \<in> set xs" by blast
  have def1: "?tp t \<noteq> None" if "t \<in> set tps" for t using iffD1 [OF collect_defined exI, OF c] that by (rule bspec)
  have one: "?ok t \<noteq> None \<and> (port \<in> set ys \<longrightarrow> ?ok t = Some True)" if "?tp t = Some ys" for t ys
  proof -
    from that obtain pps where p: "get_list t ''ports'' = Some pps" "mmap ?pp pps = Some ys" by (auto elim!: bindE)
    have d: "(do { q \<leftarrow> dget pp ''port''; Some (py_str q = py_str (YStr port)) }) \<noteq> None" if "pp \<in> set pps" for pp
      using mmap_SomeD [OF p(2) that] by (auto split: Option.bind_splits)
    then have "many (\<lambda>pp. do { q \<leftarrow> dget pp ''port''; Some (py_str q = py_str (YStr port)) }) pps \<noteq> None"
      by (rule many_returns)
    moreover have "many (\<lambda>pp. do { q \<leftarrow> dget pp ''port''; Some (py_str q = py_str (YStr port)) }) pps = Some True" if "port \<in> set ys"
    proof -
      from mmap_Some_set [OF p(2)] that obtain pp where "pp \<in> set pps" "?pp pp = Some port" by blast
      then show ?thesis using d by (intro many_defined [of pps _ pp]) (auto simp: py_str_def bind_eq_Some_conv)
    qed
    ultimately show ?thesis using p(1) by simp
  qed
  have d2: "?ok t \<noteq> None" if "t \<in> set tps" for t
  proof -
    from def1 [OF that] obtain ys where "?tp t = Some ys" by blast
    from one [OF this] show ?thesis by (rule conjunct1)
  qed
  have ok: "?ok tp = Some True" using one [OF tp(2)] tp(3) by (elim conjE) (erule mp)
  have "many ?ok tps = Some True" by (rule many_defined [where f = ?ok, OF d2 tp(1) ok])
  moreover have "truthy v" using tp(1) v(2) by (cases "truthy v") (auto simp: py_or_def)
  ultimately show ?thesis using v by (simp add: port_ok_def py_or_def)
qed

text \<open>A peer with labels only, in the evaluator.\<close>

lemma gate_peer:
  assumes "peer_admits_gate rel (enc_labels ls) (enc_selector s) = Some True" and "match_exprs s = []" and "distinct (map fst (match_labels s))"
    and "list_all (\<lambda>(k, v). CHR '':'' \<notin> set k \<and> k \<noteq> NS_KEY) ls"
  shows "peer_selects (enc_selector s) (YStr namespace) (enc_labels ((NS_KEY, rel) # ls)) = Some True"
proof -
  have ml: "get_or_dict (enc_selector s) ''matchLabels'' = Some (enc_labels (match_labels s))"
    by (auto simp: get_or_dict_def enc_selector_def py_or_def enc_labels_def)
  from assms(1) have "map_of (map (\<lambda>(k, v). (k, YStr v)) (match_labels s)) POD_NS = Some (YStr rel)"
    and all: "mall (\<lambda>(k, v). do { x \<leftarrow> dget (enc_labels ls) k; Some (py_eq x v) }) (filter (\<lambda>e. fst e \<noteq> POD_NS) (map (\<lambda>(k, v). (k, YStr v)) (match_labels s))) = Some True"
    by (auto simp: peer_admits_gate_def ml simp del: enc_labels_simps(1) split: option.splits if_splits)
  then have ns: "map_of (match_labels s) POD_NS = Some rel" by (simp add: map_of_enc_labels)
  have others: "map_of ls k = Some v" if "(k, v) \<in> set (match_labels s)" "k \<noteq> POD_NS" for k v
  proof -
    from that have "(k, YStr v) \<in> set (filter (\<lambda>e. fst e \<noteq> POD_NS) (map (\<lambda>(k, v). (k, YStr v)) (match_labels s)))" by force
    with mall_True_iff [THEN iffD1, OF all] show ?thesis by (fastforce split: option.splits)
  qed
  have plain: "norm_str k = k \<and> k \<noteq> NS_KEY" if "map_of ls k = Some v" for k v
    using assms(4) that by (force simp: list_all_iff norm_str_plain dest: map_of_SomeD)
  have pod: "norm_str POD_NS = NS_KEY" by code_simp
  have "names_ns s" using ns pod by (force simp: names_ns_def dest: map_of_SomeD)
  moreover have "sel_matches norm_str s ((NS_KEY, rel) # ls)"
  proof -
    have "map_of ((NS_KEY, rel) # ls) (norm_str k) = Some v" if "(k, v) \<in> set (match_labels s)" for k v
    proof (cases "k = POD_NS")
      case True
      with that ns assms(3) have "v = rel" by (metis eq_key_imp_eq_value map_of_SomeD)
      with True pod show ?thesis by simp
    next
      case False
      with others [OF that] plain show ?thesis by auto
    qed
    then show ?thesis using assms(2) by (auto simp: sel_matches_def)
  qed
  ultimately have "peer_meaning s (Some namespace) ((NS_KEY, rel) # ls)" by (simp add: peer_meaning_def)
  then show ?thesis using peer_selects_enc [of s "Some namespace" "(NS_KEY, rel) # ls"] by (simp add: enc_ns_def)
qed

text \<open>C19. What lets the gate in: when \<^verbatim>\<open>admits\<close> answers True for a gate with plain labels, a policy of the namespace has an
  ingress rule that the shared evaluator finds open on the port, and a peer in it that the evaluator finds to select
  the gate in the release namespace, when the peer has labels only.\<close>

theorem gate_admitted:
  assumes "admits docs namespace rel (enc_labels ls) port = Some True" and "list_all (\<lambda>(k, v). CHR '':'' \<notin> set k \<and> k \<noteq> NS_KEY) ls"
  shows "\<exists>d \<in> set docs. \<exists>m specs spec rs rule prs peer. dget d ''kind'' = Some (YStr ''CiliumNetworkPolicy'')
    \<and> item d ''metadata'' = Some m \<and> dget m ''namespace'' = Some (YStr namespace) \<and> policy_specs_wh d = Some specs \<and> spec \<in> set specs
    \<and> get_list (py_or spec (YMap [])) ''ingress'' = Some rs \<and> rule \<in> set rs \<and> port_ok rule (YStr port) = Some True
    \<and> get_list rule ''fromEndpoints'' = Some prs \<and> peer \<in> set prs
    \<and> (\<forall>s. peer = enc_selector s \<longrightarrow> match_exprs s = [] \<longrightarrow> distinct (map fst (match_labels s))
         \<longrightarrow> peer_selects peer (YStr namespace) (enc_labels ((NS_KEY, rel) # ls)) = Some True)"
proof -
  from many_TrueD [OF assms(1) [unfolded admits_def]] obtain d where d: "d \<in> set docs" "policy_admits_gate namespace rel (enc_labels ls) port d = Some True" by blast
  from d(2) obtain m specs where m: "dget d ''kind'' = Some (YStr ''CiliumNetworkPolicy'')" "item d ''metadata'' = Some m" "dget m ''namespace'' = Some (YStr namespace)"
    "policy_specs_wh d = Some specs"
    and sp: "many (\<lambda>spec. do { rs \<leftarrow> get_list (py_or spec (YMap [])) ''ingress''; many (item_admits_gate rel (enc_labels ls) port) rs }) specs = Some True"
    by (auto simp: policy_admits_gate_def elim!: bindE split: if_splits)
  from many_TrueD [OF sp] obtain spec rs where spec: "spec \<in> set specs" "get_list (py_or spec (YMap [])) ''ingress'' = Some rs"
    "many (item_admits_gate rel (enc_labels ls) port) rs = Some True" by (auto elim!: bindE)
  from many_TrueD [OF spec(3)] obtain rule where rule: "rule \<in> set rs" "item_admits_gate rel (enc_labels ls) port rule = Some True" by blast
  from rule(2) obtain qs prs where q: "listed_ports rule = Some qs" "port \<in> set qs" "get_list rule ''fromEndpoints'' = Some prs"
    "many (peer_admits_gate rel (enc_labels ls)) prs = Some True" by (auto simp: item_admits_gate_def elim!: bindE split: if_splits)
  from many_TrueD [OF q(4)] obtain peer where "peer \<in> set prs" "peer_admits_gate rel (enc_labels ls) peer = Some True" by blast
  with d(1) m spec(1,2) rule(1) q(3) listed_port_ok [OF q(1,2)] gate_peer [OF _ _ _ assms(2)] show ?thesis by blast
qed

definition gate_labels :: labels where
  "gate_labels = [(''app.kubernetes.io/component'', ''webhook-gate'')]"

theorem gate_admitted_witness:
  "admits (reach_fixture [] 9443) ''other'' ''gibson'' (enc_labels gate_labels) ''9443'' = Some True
   \<and> (\<exists>d \<in> set (reach_fixture [] 9443). \<exists>m. item d ''metadata'' = Some m \<and> dget m ''namespace'' = Some (YStr ''other''))"
proof -
  have "admits (reach_fixture [] 9443) ''other'' ''gibson'' (enc_labels gate_labels) ''9443'' = Some True" by code_simp
  moreover have "list_all (\<lambda>(k, v). CHR '':'' \<notin> set k \<and> k \<noteq> NS_KEY) gate_labels" by code_simp
  ultimately show ?thesis using gate_admitted [of "reach_fixture [] 9443" "''other''" "''gibson''" gate_labels "''9443''"] by blast
qed

text \<open>The fixture with a policy that selects another pod and whose peer excludes the gate by an expression.\<close>

definition blind_spec :: yaml where
  "blind_spec = YMap [(''endpointSelector'', YMap [(''matchLabels'', YMap [(''app'', YStr ''unrelated'')])]),
     (''ingress'', YList [YMap [
       (''fromEndpoints'', YList [YMap [(''matchLabels'', YMap [(POD_NS, YStr ''gibson'')]),
          (''matchExpressions'', YList [YMap [(''key'', YStr ''app.kubernetes.io/component''), (''operator'', YStr ''NotIn''), (''values'', YList [YStr ''webhook-gate''])]])]]),
       (''toPorts'', YList [YMap [(''ports'', YList [YMap [(''port'', YStr ''9443''), (''protocol'', YStr ''TCP'')]])]])]])]"

definition blind_docs :: "doc list" where
  "blind_docs = take 2 (reach_fixture egress_label 9443)
     @ [YMap [(''kind'', YStr ''CiliumNetworkPolicy''), (''metadata'', YMap [(''name'', YStr ''s''), (''namespace'', YStr ''other'')]), (''spec'', blind_spec)]]"


end
