(* ===== verification/Spec2Isabelle.thy ===== *)
theory Spec2Isabelle
  imports CiliumPolicyShape NamespacePolicy NetworkPeers EgressPolicyType NetpolBeforeHooks DnsNames
    MetricsPolicy OwnerSelftest OwnerLive SecurePodSelftest WalContinuity UpgradePair PostgresLogins VeleroSelftest
    WorkloadRbac OperatorRbac EnvoyJwtMeaning EdgeRoutesSelftest DaemonCallers BumpResolve HubbleSelftest KubectlGrants Webhooks
begin

text \<open>
  Verification of the guard scripts of the Gibson charts repository.

  \<^bold>\<open>The program.\<close> The repository holds Helm charts and, in \<^verbatim>\<open>src/scripts\<close>, the Python programs that
  guard them. A guard renders the charts (or reads a committed render, a file or a listing),
  walks the Kubernetes manifests as plain dictionaries and lists, and prints findings; its exit
  code decides whether a change ships. The guards on network policy share the Cilium evaluator
  \<^verbatim>\<open>lib/cilium_policy.py\<close>. A wrong guard is silent, so the question here is what an accepted
  render is guaranteed to have, and that the evaluators compute what Kubernetes and Cilium mean.

  \<^bold>\<open>How the code is modelled.\<close> \<^verbatim>\<open>Prelude\<close> holds the Python values that a YAML parser returns, the
  Python operations on them, and the loops. A computation that can raise is an \<open>option\<close>: \<open>None\<close> is
  the uncaught exception (or SystemExit), so \<open>f x = Some r\<close> says that the code returned \<open>r\<close>.
  Findings are datatypes with one constructor per message, or the message itself where the code
  hashes or searches it. A Python set is a duplicate-free list; values in sets and dictionary
  keys compare structurally, which differs from Python only where a manifest mixes a bool with
  the number it equals in the same set. Floats, dates and keys that are not strings are not
  represented. The loops of the code are structural recursions on the lists they walk; the one
  loop with a counter (fifty registry pages) recurses on the pages that are left; the two
  searches through a text and the scanner of JSON recurse on its length. There is no fuel.

  \<^bold>\<open>What is a parameter.\<close> What helm renders, what the files hold, what kubectl, the registry and
  SHA-256 answer. No property assumes anything of them beyond what its statement says.

  \<^bold>\<open>The theories.\<close>

  \<^item> \<^verbatim>\<open>Prelude\<close>: values, operations, loops, edits of fixtures, and the lemmas on them.
  \<^item> \<^verbatim>\<open>Selectors\<close>: label selectors (typed, their meaning, their manifests) and the locale
    \<^verbatim>\<open>label_selector\<close>, the contract of a selector evaluator. The evaluators of four scripts are
    interpretations of it.
  \<^item> \<^verbatim>\<open>CiliumPolicy\<close> (\<^verbatim>\<open>lib/cilium_policy.py\<close>): the evaluator, and a typed semantics of Cilium rules
    that \<^verbatim>\<open>reaches\<close> implements.
  \<^item> \<^verbatim>\<open>CiliumPolicyShape\<close>, \<^verbatim>\<open>NamespacePolicy\<close>, \<^verbatim>\<open>NetworkPeers\<close>, \<^verbatim>\<open>EgressPolicyType\<close>,
    \<^verbatim>\<open>NetpolBeforeHooks\<close>, \<^verbatim>\<open>DnsNames\<close>, \<^verbatim>\<open>MetricsPolicy\<close> (the \<^verbatim>\<open>check-*.py\<close> scripts of the same names):
    each guard whole, with what an accepted render has in terms of the evaluator: a default deny
    closes its namespace, egress rules name fixed ports and hosts, policies are applied before
    the hook Jobs they select, metrics are open on the declared port only.
  \<^item> \<^verbatim>\<open>OwnerReads\<close>, \<^verbatim>\<open>OwnerTakeover\<close>, \<^verbatim>\<open>OwnerJudge\<close>, \<^verbatim>\<open>OwnerLive\<close>, \<^verbatim>\<open>OwnerSelftest\<close>
    (\<^verbatim>\<open>check-owner-credential-readers.py\<close>): who can read an owner Secret by mount or RBAC, who can
    take a reader over, the allowlist and the verdict, the same asked of a live cluster, and the
    fixtures. The lemmas show that no reader and no takeover power is missed, that \<^verbatim>\<open>grant\<close> is what
    RBAC grants, that powers only grow with rules, and what a passing run guarantees.
  \<^item> \<^verbatim>\<open>SecurePod\<close>, \<^verbatim>\<open>SecurePodAudit\<close>, \<^verbatim>\<open>SecurePodSelftest\<close> (\<^verbatim>\<open>check-secure-pod.py\<close>): the rules on a
    pod template, the audit over all renders with its exceptions file, the fixture and its
    edits. The lemmas show that a pod without a finding reaches no data store and no internet
    without its label, that the gathered findings are exact, and that a passing audit covers
    every finding by an entry with the right digest, has no stale entry, and enforces the
    namespaces that no entry can cover.
  \<^item> \<^verbatim>\<open>WalContinuity\<close> (\<^verbatim>\<open>lib/wal-continuity.py\<close>): names and indices of WAL segments round-trip, and
    the verdict is exact.
  \<^item> \<^verbatim>\<open>UpgradePair\<close> (\<^verbatim>\<open>resolve-upgrade-pair.py\<close>): every page of tags is read, and the version to
    upgrade from is the greatest one below the target.
  \<^item> \<^verbatim>\<open>PostgresLogins\<close> (\<^verbatim>\<open>check-postgres-logins-wave.py\<close>): the order of the sync waves of an accepted
    render.
  \<^item> \<^verbatim>\<open>VeleroDatapath\<close>, \<^verbatim>\<open>VeleroSelftest\<close> (\<^verbatim>\<open>check-velero-datapath-selected.py\<close>): each data path pod is
    selected and can work, the bucket rule names one bucket, and the script's copy of the selector
    evaluator agrees with the shared one.
  \<^item> \<^verbatim>\<open>WorkloadRbac\<close> (\<^verbatim>\<open>check-workload-rbac.py\<close>): the digest of a role does not depend on the order of
    its rules, the verdict is exact, and a passing run has an allowlist of exactly the rendered grants.
  \<^item> \<^verbatim>\<open>OperatorRbac\<close> (\<^verbatim>\<open>check-operator-rbac-covers.py\<close>): a passing check means that the API server grants
    what the operator's role permits, when no granted rule is narrowed to object names.
  \<^item> \<^verbatim>\<open>EnvoyJwt\<close>, \<^verbatim>\<open>EnvoyJwtMeaning\<close> (\<^verbatim>\<open>check-edge-jwt-payload-unforgeable.py\<close>): the guard, what Envoy's
    verifiers strip, and that an accepted edge carries no forged identity header to ext_authz.
  \<^item> \<^verbatim>\<open>EdgeRoutes\<close>, \<^verbatim>\<open>EdgeRoutesLive\<close>, \<^verbatim>\<open>EdgeRoutesSelftest\<close> (\<^verbatim>\<open>check-edge-zitadel-routes.py\<close>): the route
    matcher with its caught exception as a sum, the audit, the live mode with the world passed
    along, the edits of the selftest. A passing audit exposes Zitadel on listed routes only, for
    every request, and gives each listed request its outcome.
  \<^item> \<^verbatim>\<open>PyRegex\<close>: the regular expressions of Python's \<^verbatim>\<open>re\<close> as a datatype with a backtracking matcher, and
    that on plain expressions the matcher decides the regular language.
  \<^item> \<^verbatim>\<open>DaemonCallers\<close> (\<^verbatim>\<open>check-daemon-netpol-admits-callers.py\<close>): a passing audit lets every caller with the
    address of a daemon Service reach the daemon, by the same evaluator, and admits of a tenant
    namespace the trainer alone.
  \<^item> \<^verbatim>\<open>BumpImage\<close>, \<^verbatim>\<open>BumpResolve\<close> (\<^verbatim>\<open>bump-image-digest.py\<close>): the tool that re-pins images in the values files,
    with the files as a map and the registry as a parameter. A rewrite is exact on both shapes of a pin
    and idempotent, the pins of a file own disjoint lines, and a successful run of the package-time mode
    leaves every combined pin at the digest that the registry gives.
  \<^item> \<^verbatim>\<open>Json\<close>: what the scripts use of Python's \<^verbatim>\<open>json\<close>, as a scanner of tokens and a pushdown automaton.
    What \<^verbatim>\<open>dumps\<close> writes \<^verbatim>\<open>loads\<close> reads back, and what it reads has distinct keys. Floats and characters
    above 255 are recognised and given a result of their own, since the values do not hold them.
  \<^item> \<^verbatim>\<open>IpAddress\<close>: addresses and networks of Python's \<^verbatim>\<open>ipaddress\<close> in both versions; a network is a block of
    addresses, and membership by masks is membership in the block.
  \<^item> \<^verbatim>\<open>HubbleDrops\<close>, \<^verbatim>\<open>HubbleSelftest\<close> (\<^verbatim>\<open>check-hubble-drops.py\<close>): the judgement of dropped flows with the state of
    what it knows of the cluster. A clean run has no policy drop other than a late reply, each pod is
    asked for once, the evidence holds each drop without layer 7 data, and the caller fixture proves
    its flow.
  \<^item> \<^verbatim>\<open>KubectlRbac\<close>, \<^verbatim>\<open>KubectlGrants\<close> (\<^verbatim>\<open>check-kubectl-rbac.py\<close>): the parser of kubectl calls with its error as a sum,
    the API requests of each call, the rules bound to the account and their judgement. A passing check
    has judged every request of the log, and the judgement is that of the API server on typed rules.
  \<^item> \<^verbatim>\<open>Webhooks\<close> (\<^verbatim>\<open>check-webhooks.py\<close>): the probes of the gate Job, the webhooks of a render, and whether a probe can
    connect. A passing run has every webhook service-backed, closed or excepted, and dialled by a probe; what
    lets the gate in is related to the shared Cilium evaluator.

  The selftests of the scripts are modelled with their fixtures and evaluated in the kernel:
  whole for the network guards, the owner guard, the upgrade pair, the Hubble check, the kubectl guard, the webhook guard
  up to its renders, the login waves and the
  Velero guard (the last two on a render of the shape of the golden file); for the secure pod guard the
  fixture, the reading of install scripts and one edit for a pod rule and one for a network rule
  are evaluated, the other edits are definitions only.

  \<^bold>\<open>Not modelled.\<close> The templates and values of the charts (the Helm template language; the guards see
  their renders, which are parameters), the shell installers (they call helm, kubectl and the
  guards), the selftest of \<^verbatim>\<open>check-dns-names.py\<close>, and the other guards, in the order planned: the
  guard \<^verbatim>\<open>check-secret-reads-granted.py\<close>, the admission guards, the remaining backup and
  Velero guards, the remaining edge and Zitadel guards, the monitoring guards, and the guards that
  read the text of templates, shell scripts and documents (regular expressions over source
  text), which come last because their inputs have no structure to state a meaning for.
\<close>

section \<open>Properties that span components\<close>

text \<open>The evaluators of label selectors of the repository were written independently. On the
  manifests of typed selectors they return the same answer.\<close>

lemma selector_evaluators_agree:
  "selects_ept (enc_selector s) (enc_labels ls) = selects (enc_selector s) (enc_labels ls)
   \<and> selects_labels (enc_selector s) (enc_labels ls) = selects (enc_selector s) (enc_labels ls)"
  by (simp add: cp.sel_enc ept.sel_enc velero.sel_enc)

end
